(* ===== verification/Prelude.thy ===== *)
theory Prelude
  imports Main "HOL-Library.Word" "HOL-Library.AList" "HOL-Library.List_Lexorder"
    "HOL-Library.Char_ord" "HOL-Library.Sublist"
begin

text \<open>
  Shared vocabulary of the development: machine integers at their Rust widths, the
  parts of \<open>str\<close>, \<open>Vec\<close>, \<open>HashMap\<close> and \<open>chrono\<close> that the modelled code calls, the
  error-and-state computations in which the asynchronous methods are written, and the
  weakest-precondition rules (collection \<open>wp\<close>) that carry the proofs about them.

  Strings are lists of 8-bit characters (the UTF-8 bytes of a Rust \<open>String\<close>).
  A \<open>HashMap\<close> is an association list with distinct keys: its list order stands for the
  unspecified iteration order, and every statement holds for each such list.
\<close>

named_theorems wp \<open>weakest-precondition rewrite rules\<close>

section \<open>Machine integers and time\<close>

type_synonym u16 = "16 word"
type_synonym u32 = "32 word"
type_synonym u64 = "64 word"
type_synonym i32 = "32 word"
type_synonym i64 = "64 word"
type_synonym f64 = "64 word"
type_synonym uuid = "128 word"

text \<open>
  An instant (\<open>DateTime<Utc>\<close>) and a duration (\<open>TimeDelta\<close>) are integers counting
  nanoseconds. The whole-second and whole-minute readings of a duration truncate towards
  zero, as \<open>num_seconds\<close> and \<open>num_minutes\<close> of \<open>chrono\<close> do.
\<close>

type_synonym time = int

definition trunc_div :: "int \<Rightarrow> int \<Rightarrow> int" where
  "trunc_div a b = sgn a * sgn b * (\<bar>a\<bar> div \<bar>b\<bar>)"

definition nanos_per_sec :: int where
  "nanos_per_sec = 1000000000"

definition num_seconds :: "int \<Rightarrow> int" where
  "num_seconds d = trunc_div d nanos_per_sec"

definition num_minutes :: "int \<Rightarrow> int" where
  "num_minutes d = trunc_div (num_seconds d) 60"

definition as_u64 :: "int \<Rightarrow> u64" where
  "as_u64 n = word_of_int n"

lemma trunc_div_nonneg: "0 \<le> a \<Longrightarrow> 0 < b \<Longrightarrow> trunc_div a b = a div b"
  by (cases "a = 0") (simp_all add: trunc_div_def)

lemma trunc_div_neg: "a < 0 \<Longrightarrow> 0 < b \<Longrightarrow> trunc_div a b = - ((- a) div b)"
  by (simp add: trunc_div_def)

lemma num_minutes_nonneg:
  assumes "0 \<le> d"
  shows "num_minutes d = d div (60 * nanos_per_sec)"
proof -
  have "num_seconds d = d div nanos_per_sec"
    using assms by (simp add: num_seconds_def nanos_per_sec_def trunc_div_nonneg)
  moreover have "0 \<le> d div nanos_per_sec"
    using assms by (simp add: nanos_per_sec_def)
  ultimately have "num_minutes d = d div nanos_per_sec div 60"
    by (simp add: num_minutes_def trunc_div_nonneg)
  also have "\<dots> = d div (nanos_per_sec * 60)"
    by (simp add: zdiv_zmult2_eq)
  finally show ?thesis by (simp add: mult.commute)
qed

lemma num_minutes_neg:
  assumes "d \<le> - (60 * nanos_per_sec)"
  shows "num_minutes d = - ((- d) div nanos_per_sec div 60)" and "num_minutes d \<le> - 1"
proof -
  have s: "num_seconds d = - ((- d) div nanos_per_sec)"
    using assms by (simp add: num_seconds_def nanos_per_sec_def trunc_div_neg)
  have "60 * nanos_per_sec div nanos_per_sec \<le> (- d) div nanos_per_sec"
    using assms by (intro zdiv_mono1) (simp_all add: nanos_per_sec_def)
  then have ge: "60 \<le> (- d) div nanos_per_sec"
    by (simp add: nanos_per_sec_def)
  then show eq: "num_minutes d = - ((- d) div nanos_per_sec div 60)"
    by (simp add: num_minutes_def s trunc_div_neg)
  from ge have "1 \<le> (- d) div nanos_per_sec div 60"
    using zdiv_mono1 [OF ge, of 60] by simp
  with eq show "num_minutes d \<le> - 1" by simp
qed

lemma sint_u64:
  fixes x :: u64
  shows "sint x = (if x < 2 ^ 63 then int (unat x) else int (unat x) - 2 ^ 64)"
proof -
  have r: "0 \<le> uint x" "uint x < 2 ^ 64" using uint_lt2p [of x] by simp_all
  have "x < 2 ^ 63 \<longleftrightarrow> uint x < 2 ^ 63" by (simp add: word_less_def)
  moreover have "signed_take_bit 63 (uint x) = (if uint x < 2 ^ 63 then uint x else uint x - 2 ^ 64)"
  proof (cases "uint x < 2 ^ 63")
    case True
    then have "signed_take_bit 63 (uint x) = uint x"
      using order_trans [OF _ r(1), of "- (2 ^ 63)"] by (intro signed_take_bit_int_eq_self) simp_all
    with True show ?thesis by simp
  next
    case False
    have "signed_take_bit 63 (uint x) = signed_take_bit 63 (uint x - 2 ^ 64)"
      by (simp add: signed_take_bit_eq_iff_take_bit_eq take_bit_eq_mod)
    also have "\<dots> = uint x - 2 ^ 64"
      using False r by (intro signed_take_bit_int_eq_self) simp_all
    finally show ?thesis using False by simp
  qed
  ultimately show ?thesis by (simp add: sint_uint flip: uint_nat)
qed

section \<open>Strings\<close>

definition starts_with :: "string \<Rightarrow> string \<Rightarrow> bool" where
  "starts_with s p = (take (length p) s = p)"

fun str_contains :: "string \<Rightarrow> string \<Rightarrow> bool" where
  "str_contains [] p = (p = [])"
| "str_contains (c # s) p = (starts_with (c # s) p \<or> str_contains s p)"

definition is_ascii_ws :: "char \<Rightarrow> bool" where
  "is_ascii_ws c = (c \<in> {CHR '' '', CHR 0x09, CHR 0x0A, CHR 0x0B, CHR 0x0C, CHR 0x0D})"

definition trim_start :: "string \<Rightarrow> string" where
  "trim_start s = dropWhile is_ascii_ws s"

definition trim_end :: "string \<Rightarrow> string" where
  "trim_end s = rev (dropWhile is_ascii_ws (rev s))"

definition trim :: "string \<Rightarrow> string" where
  "trim s = trim_end (trim_start s)"

definition trim_start_matches :: "char \<Rightarrow> string \<Rightarrow> string" where
  "trim_start_matches c s = dropWhile (\<lambda>d. d = c) s"

definition trim_end_matches :: "char \<Rightarrow> string \<Rightarrow> string" where
  "trim_end_matches c s = rev (dropWhile (\<lambda>d. d = c) (rev s))"

fun split_on :: "char \<Rightarrow> string \<Rightarrow> string list" where
  "split_on d [] = [[]]"
| "split_on d (c # s) =
     (if c = d then [] # split_on d s
      else (case split_on d s of [] \<Rightarrow> [[c]] | p # ps \<Rightarrow> (c # p) # ps))"

fun join :: "string \<Rightarrow> string list \<Rightarrow> string" where
  "join sep [] = []"
| "join sep [p] = p"
| "join sep (p # q # ps) = p @ sep @ join sep (q # ps)"

definition replace_char :: "char \<Rightarrow> string \<Rightarrow> string \<Rightarrow> string" where
  "replace_char c r s = concat (map (\<lambda>d. if d = c then r else [d]) s)"

definition lower_char :: "char \<Rightarrow> char" where
  "lower_char c =
     (if 65 \<le> (of_char c :: nat) \<and> (of_char c :: nat) \<le> 90
      then char_of ((of_char c :: nat) + 32) else c)"

definition to_lowercase :: "string \<Rightarrow> string" where
  "to_lowercase s = map lower_char s"

function str_replace :: "string \<Rightarrow> string \<Rightarrow> string \<Rightarrow> string" where
  "str_replace p r [] = []"
| "str_replace p r (c # s) =
     (if p \<noteq> [] \<and> starts_with (c # s) p
      then r @ str_replace p r (drop (length p) (c # s))
      else c # str_replace p r s)"
  by pat_completeness auto
termination
  by (relation "measure (\<lambda>(p, r, s). length s)") (auto simp: neq_Nil_conv)

text \<open>Texts are UTF-8 bytes; a slice may not begin or end inside a character.\<close>

definition is_char_boundary :: "string \<Rightarrow> nat \<Rightarrow> bool" where
  "is_char_boundary s i \<longleftrightarrow>
     i = 0 \<or> i = length s \<or> (i < length s \<and> \<not> (128 \<le> (of_char (s ! i) :: nat) \<and> (of_char (s ! i) :: nat) < 192))"

text \<open>\<open>trim_start_matches\<close> with a text: its copies at the start are dropped, however many.\<close>

function strip_all :: "string \<Rightarrow> string \<Rightarrow> string" where
  "strip_all p s = (if p \<noteq> [] \<and> starts_with s p then strip_all p (drop (length p) s) else s)"
  by pat_completeness auto
termination
proof (relation "measure (\<lambda>(p, s). length s)")
  fix p s :: string
  assume a: "p \<noteq> [] \<and> starts_with s p"
  then have "s \<noteq> []" by (auto simp: starts_with_def)
  with a show "((p, drop (length p) s), (p, s)) \<in> measure (\<lambda>(p, s). length s)" by auto
qed simp

declare strip_all.simps [simp del]

lemma starts_with_prefix: "starts_with s p \<longleftrightarrow> prefix p s"
  unfolding starts_with_def prefix_def by (metis append_eq_conv_conj append_take_drop_id)

lemma str_contains_sublist: "str_contains s p \<longleftrightarrow> sublist p s"
  by (induction s) (auto simp: starts_with_prefix sublist_Cons_right)

lemma split_on_nonempty [simp]: "split_on d s \<noteq> []"
  by (induction s) (auto split: list.splits)

lemma join_Cons: "ps \<noteq> [] \<Longrightarrow> join sep (p # ps) = p @ sep @ join sep ps"
  by (cases ps) simp_all

lemma join_split_on: "join [d] (split_on d s) = s"
proof (induction s)
  case Nil
  show ?case by simp
next
  case (Cons c s)
  obtain p ps where ps: "split_on d s = p # ps"
    by (cases "split_on d s") simp_all
  with Cons show ?case by (cases ps) simp_all
qed

lemma split_on_plain: "d \<notin> set p \<Longrightarrow> split_on d p = [p]"
  by (induction p) auto

lemma split_on_append: "d \<notin> set p \<Longrightarrow> split_on d (p @ d # s) = p # split_on d s"
  by (induction p) auto

lemma split_on_pieces: "p \<in> set (split_on d s) \<Longrightarrow> d \<notin> set p"
proof (induction s arbitrary: p)
  case Nil
  then show ?case by simp
next
  case (Cons c s)
  obtain q qs where q: "split_on d s = q # qs"
    by (cases "split_on d s") simp_all
  with Cons show ?case by (auto split: if_splits)
qed

section \<open>Hash maps and vectors\<close>

text \<open>\<open>extend\<close> inserts every pair of another map; \<open>or_insert\<close> keeps an existing value.\<close>

definition hm_insert :: "('k \<times> 'v) list \<Rightarrow> 'k \<Rightarrow> 'v \<Rightarrow> ('k \<times> 'v) list" where
  "hm_insert m k v = AList.update k v m"

definition hm_extend :: "('k \<times> 'v) list \<Rightarrow> ('k \<times> 'v) list \<Rightarrow> ('k \<times> 'v) list" where
  "hm_extend m kvs = foldl (\<lambda>acc (k, v). hm_insert acc k v) m kvs"

definition hm_or_insert :: "('k \<times> 'v) list \<Rightarrow> 'k \<Rightarrow> 'v \<Rightarrow> ('k \<times> 'v) list" where
  "hm_or_insert m k v = (case map_of m k of None \<Rightarrow> hm_insert m k v | Some _ \<Rightarrow> m)"

definition push_new :: "'a list \<Rightarrow> 'a \<Rightarrow> 'a list" where
  "push_new xs x = (if x \<in> set xs then xs else xs @ [x])"

lemma map_of_hm_insert [simp]: "map_of (hm_insert m k v) = (map_of m)(k \<mapsto> v)"
  by (simp add: hm_insert_def update_conv')

lemma hm_insert_same: "map_of m k = Some v \<Longrightarrow> hm_insert m k v = m"
  by (simp add: hm_insert_def update_triv)

lemma distinct_hm_insert [simp]: "distinct (map fst m) \<Longrightarrow> distinct (map fst (hm_insert m k v))"
  by (simp add: hm_insert_def distinct_update)

lemma map_of_hm_or_insert:
  "map_of (hm_or_insert m k v) = (case map_of m k of None \<Rightarrow> (map_of m)(k \<mapsto> v) | Some _ \<Rightarrow> map_of m)"
  by (simp add: hm_or_insert_def split: option.splits)

lemma set_foldl_push_new: "set (foldl push_new xs ys) = set xs \<union> set ys"
  by (induction ys arbitrary: xs) (auto simp: push_new_def)

lemma distinct_foldl_push_new: "distinct xs \<Longrightarrow> distinct (foldl push_new xs ys)"
  by (induction ys arbitrary: xs) (auto simp: push_new_def)

lemma prefix_foldl_push_new: "prefix xs (foldl push_new xs ys)"
proof (induction ys arbitrary: xs)
  case (Cons y ys)
  have "prefix xs (push_new xs y)" by (simp add: push_new_def)
  also have "prefix (push_new xs y) (foldl push_new (push_new xs y) ys)" by (rule Cons)
  finally show ?case by simp
qed simp

lemma foldl_push_new_present: "set ys \<subseteq> set xs \<Longrightarrow> foldl push_new xs ys = xs"
  by (induction ys) (auto simp: push_new_def)

lemma distinct_remdups_adj_sorted: "sorted xs \<Longrightarrow> distinct (remdups_adj xs)"
  by (induction xs rule: remdups_adj.induct) (auto simp: less_le)

lemma remdups_adj_sort: "remdups_adj (sort xs) = sorted_list_of_set (set xs)"
  by (rule sorted_distinct_set_unique) (simp_all add: distinct_remdups_adj_sorted)

fun find_map :: "('a \<Rightarrow> 'b option) \<Rightarrow> 'a list \<Rightarrow> 'b option" where
  "find_map f [] = None"
| "find_map f (x # xs) = (case f x of None \<Rightarrow> find_map f xs | Some y \<Rightarrow> Some y)"

section \<open>Decimal numbers\<close>

definition digit_char :: "nat \<Rightarrow> char" where
  "digit_char n = char_of (48 + n)"

definition digit_val :: "char \<Rightarrow> nat option" where
  "digit_val c = (let n = (of_char c :: nat) in if 48 \<le> n \<and> n \<le> 57 then Some (n - 48) else None)"

fun show_nat :: "nat \<Rightarrow> string" where
  "show_nat n = (if n < 10 then [digit_char n] else show_nat (n div 10) @ [digit_char (n mod 10)])"

declare show_nat.simps [simp del]

fun parse_digits :: "nat \<Rightarrow> string \<Rightarrow> nat option" where
  "parse_digits acc [] = Some acc"
| "parse_digits acc (c # s) =
     (case digit_val c of None \<Rightarrow> None | Some v \<Rightarrow> parse_digits (10 * acc + v) s)"

text \<open>
  \<open>str::parse\<close> at an unsigned integer type of \<open>w\<close> bits: an optional plus sign, at least
  one digit, no other character, and a value below \<open>2 ^ w\<close>.
\<close>

definition parse_uint :: "nat \<Rightarrow> string \<Rightarrow> nat option" where
  "parse_uint w s =
     (let t = (case s of [] \<Rightarrow> [] | c # r \<Rightarrow> if c = CHR ''+'' then r else s)
      in if t = [] then None
         else (case parse_digits 0 t of
                 None \<Rightarrow> None
               | Some n \<Rightarrow> if n < 2 ^ w then Some n else None))"

lemma of_char_digit: "d < 10 \<Longrightarrow> (of_char (digit_char d) :: nat) = 48 + d"
  by (simp add: digit_char_def)

lemma digit_val_digit_char [simp]: "d < 10 \<Longrightarrow> digit_val (digit_char d) = Some d"
  by (simp add: digit_val_def of_char_digit Let_def)

lemma show_nat_nonempty [simp]: "show_nat n \<noteq> []"
  by (subst show_nat.simps) simp

lemma set_show_nat: "digit_val c = None \<Longrightarrow> c \<notin> set (show_nat n)"
proof (induction n rule: show_nat.induct)
  case (1 n)
  have "\<And>d. d < 10 \<Longrightarrow> c \<noteq> digit_char d"
    using 1(2) by auto
  with 1 show ?case
    by (subst show_nat.simps) simp
qed

lemma parse_digits_append:
  "parse_digits a (s @ t) = (case parse_digits a s of None \<Rightarrow> None | Some b \<Rightarrow> parse_digits b t)"
  by (induction s arbitrary: a) (auto split: option.splits)

lemma parse_digits_show: "parse_digits 0 (show_nat n) = Some n"
proof (induction n rule: show_nat.induct)
  case (1 n)
  show ?case
  proof (cases "n < 10")
    case True
    then show ?thesis by (simp add: show_nat.simps [of n])
  next
    case False
    with 1 show ?thesis by (simp add: show_nat.simps [of n] parse_digits_append)
  qed
qed

lemma digit_val_plus [simp]: "digit_val (CHR ''+'') = None"
  by (simp add: digit_val_def Let_def)

lemma hd_show_nat: "hd (show_nat n) \<noteq> CHR ''+''"
proof
  assume "hd (show_nat n) = CHR ''+''"
  then have "CHR ''+'' \<in> set (show_nat n)"
    using hd_in_set [of "show_nat n"] by simp
  then show False
    by (simp add: set_show_nat)
qed

lemma parse_uint_show: "n < 2 ^ w \<Longrightarrow> parse_uint w (show_nat n) = Some n"
proof -
  assume n: "n < 2 ^ w"
  obtain c r where cr: "show_nat n = c # r"
    by (cases "show_nat n") auto
  with hd_show_nat [of n] have "c \<noteq> CHR ''+''" by simp
  with n cr show ?thesis
    using parse_digits_show [of n] by (simp add: parse_uint_def)
qed

lemma parse_uint_bound: "parse_uint w s = Some n \<Longrightarrow> n < 2 ^ w"
  by (auto simp: parse_uint_def Let_def split: if_splits option.splits)

section \<open>Computations with errors and state\<close>

text \<open>
  An \<open>async fn\<close> that returns \<open>Result<T, E>\<close> is a function from the state of the world to
  its result and the next state. The \<open>?\<close> operator is \<open>bindE\<close>; matching on a result, or
  discarding it with \<open>let _ = ..\<close>, is \<open>attempt\<close>.
\<close>

type_synonym ('w, 'e, 'a) prog = "'w \<Rightarrow> ('e + 'a) \<times> 'w"

definition ret :: "'a \<Rightarrow> ('w, 'e, 'a) prog" where
  "ret x w = (Inr x, w)"

definition throw :: "'e \<Rightarrow> ('w, 'e, 'a) prog" where
  "throw e w = (Inl e, w)"

definition bindE :: "('w, 'e, 'a) prog \<Rightarrow> ('a \<Rightarrow> ('w, 'e, 'b) prog) \<Rightarrow> ('w, 'e, 'b) prog" where
  "bindE m f w = (case m w of (Inl e, v) \<Rightarrow> (Inl e, v) | (Inr a, v) \<Rightarrow> f a v)"

definition attempt :: "('w, 'e, 'a) prog \<Rightarrow> ('w, 'f, 'e + 'a) prog" where
  "attempt m w = (case m w of (r, v) \<Rightarrow> (Inr r, v))"

definition map_err :: "('e \<Rightarrow> 'f) \<Rightarrow> ('w, 'e, 'a) prog \<Rightarrow> ('w, 'f, 'a) prog" where
  "map_err g m w = (case m w of (Inl e, v) \<Rightarrow> (Inl (g e), v) | (Inr a, v) \<Rightarrow> (Inr a, v))"

definition modify :: "('w \<Rightarrow> 'w) \<Rightarrow> ('w, 'e, unit) prog" where
  "modify f w = (Inr (), f w)"

definition gets :: "('w \<Rightarrow> 'a) \<Rightarrow> ('w, 'e, 'a) prog" where
  "gets f w = (Inr (f w), w)"

definition ok_or :: "'e \<Rightarrow> 'a option \<Rightarrow> ('w, 'e, 'a) prog" where
  "ok_or e x = (case x of None \<Rightarrow> throw e | Some a \<Rightarrow> ret a)"

text \<open>A \<open>for\<close> loop whose body threads an accumulator (the mutable locals it updates).\<close>

definition lift_res :: "'e + 'a \<Rightarrow> ('w, 'e, 'a) prog" where
  "lift_res r = (case r of Inl e \<Rightarrow> throw e | Inr a \<Rightarrow> ret a)"

primrec foldE :: "('a \<Rightarrow> 'acc \<Rightarrow> ('w, 'e, 'acc) prog) \<Rightarrow> 'a list \<Rightarrow> 'acc \<Rightarrow> ('w, 'e, 'acc) prog" where
  "foldE f [] acc = ret acc"
| "foldE f (x # xs) acc = bindE (f x acc) (foldE f xs)"

definition wpE :: "('w, 'e, 'a) prog \<Rightarrow> ('a \<Rightarrow> 'w \<Rightarrow> bool) \<Rightarrow> ('e \<Rightarrow> 'w \<Rightarrow> bool) \<Rightarrow> 'w \<Rightarrow> bool" where
  "wpE m Q E w = (case m w of (Inl e, v) \<Rightarrow> E e v | (Inr a, v) \<Rightarrow> Q a v)"

lemma wpE_ret [wp]: "wpE (ret x) Q E w = Q x w"
  by (simp add: wpE_def ret_def)

lemma wpE_throw [wp]: "wpE (throw e) Q E w = E e w"
  by (simp add: wpE_def throw_def)

lemma wpE_bindE [wp]: "wpE (bindE m f) Q E w = wpE m (\<lambda>a. wpE (f a) Q E) E w"
  by (simp add: wpE_def bindE_def split: prod.splits sum.splits)

lemma wpE_attempt [wp]: "wpE (attempt m) Q E w = wpE m (\<lambda>a. Q (Inr a)) (\<lambda>e. Q (Inl e)) w"
  by (simp add: wpE_def attempt_def split: prod.splits sum.splits)

lemma wpE_map_err [wp]: "wpE (map_err g m) Q E w = wpE m Q (\<lambda>e. E (g e)) w"
  by (simp add: wpE_def map_err_def split: prod.splits sum.splits)

lemma wpE_modify [wp]: "wpE (modify f) Q E w = Q () (f w)"
  by (simp add: wpE_def modify_def)

lemma wpE_gets [wp]: "wpE (gets f) Q E w = Q (f w) w"
  by (simp add: wpE_def gets_def)

lemma wpE_ok_or [wp]:
  "wpE (ok_or e x) Q E w = (case x of None \<Rightarrow> E e w | Some a \<Rightarrow> Q a w)"
  by (simp add: ok_or_def wpE_ret wpE_throw split: option.splits)

lemma wpE_if [wp]: "wpE (if b then m else n) Q E w = (if b then wpE m Q E w else wpE n Q E w)"
  by simp

lemma wpE_option [wp]:
  "wpE (case x of None \<Rightarrow> m | Some a \<Rightarrow> f a) Q E w =
     (case x of None \<Rightarrow> wpE m Q E w | Some a \<Rightarrow> wpE (f a) Q E w)"
  by (cases x) simp_all

lemma wpE_sum [wp]:
  "wpE (case x of Inl e \<Rightarrow> f e | Inr a \<Rightarrow> g a) Q E w =
     (case x of Inl e \<Rightarrow> wpE (f e) Q E w | Inr a \<Rightarrow> wpE (g a) Q E w)"
  by (cases x) simp_all

lemma wpE_mono:
  "wpE m Q E w \<Longrightarrow> (\<And>a v. Q a v \<Longrightarrow> Q' a v) \<Longrightarrow> (\<And>e v. E e v \<Longrightarrow> E' e v) \<Longrightarrow> wpE m Q' E' w"
  by (auto simp: wpE_def split: prod.splits sum.splits)

lemma wpE_conj:
  "wpE m Q E w \<Longrightarrow> wpE m Q' E' w \<Longrightarrow> wpE m (\<lambda>a v. Q a v \<and> Q' a v) (\<lambda>e v. E e v \<and> E' e v) w"
  by (auto simp: wpE_def split: prod.splits sum.splits)

lemma wpE_foldE:
  assumes "I acc w"
    and "\<And>x a v. x \<in> set xs \<Longrightarrow> I a v \<Longrightarrow> wpE (f x a) I E v"
  shows "wpE (foldE f xs acc) I E w"
  using assms
proof (induction xs arbitrary: acc w)
  case Nil
  then show ?case by (simp add: wpE_ret)
next
  case (Cons x xs)
  have "wpE (f x acc) I E w"
    using Cons.prems by simp
  then show ?case
    unfolding foldE.simps wpE_bindE
    by (rule wpE_mono) (use Cons in auto)
qed

lemma wpE_ret_fun: "wpE (ret x) Q E = Q x"
  by (rule ext) (simp add: wp)

lemma bindE_assoc: "bindE (bindE m f) g = bindE m (\<lambda>x. bindE (f x) g)"
  by (rule ext) (simp add: bindE_def split: prod.split sum.split)

lemma bindE_ret: "bindE (ret x) f = f x"
  by (rule ext) (simp add: bindE_def ret_def)

lemma wpE_I: "(\<And>a v. m w = (Inr a, v) \<Longrightarrow> Q a v) \<Longrightarrow> (\<And>e v. m w = (Inl e, v) \<Longrightarrow> E e v) \<Longrightarrow> wpE m Q E w"
  by (auto simp: wpE_def split: prod.splits sum.splits)

lemma wpE_okD: "wpE m Q E w \<Longrightarrow> m w = (Inr a, v) \<Longrightarrow> Q a v"
  by (simp add: wpE_def)

lemma wpE_errD: "wpE m Q E w \<Longrightarrow> m w = (Inl e, v) \<Longrightarrow> E e v"
  by (simp add: wpE_def)

lemma wpE_snd: "wpE m (\<lambda>_. P) (\<lambda>_. P) w \<longleftrightarrow> P (snd (m w))"
  by (auto simp: wpE_def split: prod.splits sum.splits)

end
