(* ===== verification/Errors.thy ===== *)
theory Errors
  imports Prelude
begin

text \<open>
  The error vocabulary of the server (\<open>src/src/core/mod.rs\<close>, module \<open>errors\<close>): error codes
  with their wire names, HTTP status and retry advice, and the API error that every handler
  returns. HTTP status codes are numbers.
\<close>

section \<open>Error codes\<close>

datatype ErrorCode =
    EC_SandboxNotFound
  | EC_SandboxInvalidState
  | EC_SandboxAlreadyExists
  | EC_SandboxCreationFailed
  | EC_SandboxExecutionFailed
  | EC_ToolNotFound
  | EC_ToolExecutionFailed
  | EC_ToolValidationError
  | EC_ToolTimeout
  | EC_BackendImagePullFailed
  | EC_BackendContainerCreateFailed
  | EC_BackendContainerStartFailed
  | EC_BackendVolumeError
  | EC_BackendContainerNotFound
  | EC_BackendExecFailed
  | EC_SshSessionNotFound
  | EC_SshAuthenticationFailed
  | EC_SshConnectionFailed
  | EC_TerminalOperationFailed
  | EC_ValidationError
  | EC_ValidationInvalidPort
  | EC_ValidationMissingField
  | EC_ValidationInvalidImageName
  | EC_ValidationInvalidRequest
  | EC_AuthenticationMissing
  | EC_AuthenticationInvalidApiKey
  | EC_AuthorizationInsufficientPermissions
  | EC_DatabaseConnectionFailed
  | EC_DatabaseQueryFailed
  | EC_ServiceUnavailable
  | EC_RateLimitExceeded
  | EC_UpstreamError
  | EC_RequestTimeout
  | EC_InternalError
  | EC_ConfigurationError

fun error_code_as_str :: "ErrorCode \<Rightarrow> string" where
  "error_code_as_str EC_SandboxNotFound = ''SANDBOX_NOT_FOUND''"
| "error_code_as_str EC_SandboxInvalidState = ''SANDBOX_INVALID_STATE''"
| "error_code_as_str EC_SandboxAlreadyExists = ''SANDBOX_ALREADY_EXISTS''"
| "error_code_as_str EC_SandboxCreationFailed = ''SANDBOX_CREATION_FAILED''"
| "error_code_as_str EC_SandboxExecutionFailed = ''SANDBOX_EXECUTION_FAILED''"
| "error_code_as_str EC_ToolNotFound = ''TOOL_NOT_FOUND''"
| "error_code_as_str EC_ToolExecutionFailed = ''TOOL_EXECUTION_FAILED''"
| "error_code_as_str EC_ToolValidationError = ''TOOL_VALIDATION_ERROR''"
| "error_code_as_str EC_ToolTimeout = ''TOOL_TIMEOUT''"
| "error_code_as_str EC_BackendImagePullFailed = ''BACKEND_IMAGE_PULL_FAILED''"
| "error_code_as_str EC_BackendContainerCreateFailed = ''BACKEND_CONTAINER_CREATE_FAILED''"
| "error_code_as_str EC_BackendContainerStartFailed = ''BACKEND_CONTAINER_START_FAILED''"
| "error_code_as_str EC_BackendVolumeError = ''BACKEND_VOLUME_ERROR''"
| "error_code_as_str EC_BackendContainerNotFound = ''BACKEND_CONTAINER_NOT_FOUND''"
| "error_code_as_str EC_BackendExecFailed = ''BACKEND_EXEC_FAILED''"
| "error_code_as_str EC_SshSessionNotFound = ''SSH_SESSION_NOT_FOUND''"
| "error_code_as_str EC_SshAuthenticationFailed = ''SSH_AUTHENTICATION_FAILED''"
| "error_code_as_str EC_SshConnectionFailed = ''SSH_CONNECTION_FAILED''"
| "error_code_as_str EC_TerminalOperationFailed = ''TERMINAL_OPERATION_FAILED''"
| "error_code_as_str EC_ValidationError = ''VALIDATION_ERROR''"
| "error_code_as_str EC_ValidationInvalidPort = ''VALIDATION_INVALID_PORT''"
| "error_code_as_str EC_ValidationMissingField = ''VALIDATION_MISSING_FIELD''"
| "error_code_as_str EC_ValidationInvalidImageName = ''VALIDATION_INVALID_IMAGE_NAME''"
| "error_code_as_str EC_ValidationInvalidRequest = ''VALIDATION_INVALID_REQUEST''"
| "error_code_as_str EC_AuthenticationMissing = ''AUTHENTICATION_MISSING''"
| "error_code_as_str EC_AuthenticationInvalidApiKey = ''AUTHENTICATION_INVALID_API_KEY''"
| "error_code_as_str EC_AuthorizationInsufficientPermissions = ''AUTHORIZATION_INSUFFICIENT_PERMISSIONS''"
| "error_code_as_str EC_DatabaseConnectionFailed = ''DATABASE_CONNECTION_FAILED''"
| "error_code_as_str EC_DatabaseQueryFailed = ''DATABASE_QUERY_FAILED''"
| "error_code_as_str EC_ServiceUnavailable = ''SERVICE_UNAVAILABLE''"
| "error_code_as_str EC_RateLimitExceeded = ''RATE_LIMIT_EXCEEDED''"
| "error_code_as_str EC_UpstreamError = ''UPSTREAM_ERROR''"
| "error_code_as_str EC_RequestTimeout = ''REQUEST_TIMEOUT''"
| "error_code_as_str EC_InternalError = ''INTERNAL_ERROR''"
| "error_code_as_str EC_ConfigurationError = ''CONFIGURATION_ERROR''"

text \<open>The arms of the \<open>match\<close> in \<open>ErrorCode::parse\<close>, in their order; the last arm is \<open>None\<close>.\<close>

definition error_code_arms :: "(string \<times> ErrorCode) list" where
  "error_code_arms =
    [(''SANDBOX_NOT_FOUND'', EC_SandboxNotFound),
     (''SANDBOX_INVALID_STATE'', EC_SandboxInvalidState),
     (''SANDBOX_ALREADY_EXISTS'', EC_SandboxAlreadyExists),
     (''SANDBOX_CREATION_FAILED'', EC_SandboxCreationFailed),
     (''SANDBOX_EXECUTION_FAILED'', EC_SandboxExecutionFailed),
     (''TOOL_NOT_FOUND'', EC_ToolNotFound),
     (''TOOL_EXECUTION_FAILED'', EC_ToolExecutionFailed),
     (''TOOL_VALIDATION_ERROR'', EC_ToolValidationError),
     (''TOOL_TIMEOUT'', EC_ToolTimeout),
     (''BACKEND_IMAGE_PULL_FAILED'', EC_BackendImagePullFailed),
     (''BACKEND_CONTAINER_CREATE_FAILED'', EC_BackendContainerCreateFailed),
     (''BACKEND_CONTAINER_START_FAILED'', EC_BackendContainerStartFailed),
     (''BACKEND_VOLUME_ERROR'', EC_BackendVolumeError),
     (''BACKEND_CONTAINER_NOT_FOUND'', EC_BackendContainerNotFound),
     (''BACKEND_EXEC_FAILED'', EC_BackendExecFailed),
     (''DOCKER_IMAGE_PULL_FAILED'', EC_BackendImagePullFailed),
     (''DOCKER_CONTAINER_CREATE_FAILED'', EC_BackendContainerCreateFailed),
     (''DOCKER_CONTAINER_START_FAILED'', EC_BackendContainerStartFailed),
     (''DOCKER_VOLUME_ERROR'', EC_BackendVolumeError),
     (''DOCKER_CONTAINER_NOT_FOUND'', EC_BackendContainerNotFound),
     (''DOCKER_EXEC_FAILED'', EC_BackendExecFailed),
     (''SSH_SESSION_NOT_FOUND'', EC_SshSessionNotFound),
     (''SSH_AUTHENTICATION_FAILED'', EC_SshAuthenticationFailed),
     (''SSH_CONNECTION_FAILED'', EC_SshConnectionFailed),
     (''TERMINAL_OPERATION_FAILED'', EC_TerminalOperationFailed),
     (''VALIDATION_ERROR'', EC_ValidationError),
     (''VALIDATION_INVALID_PORT'', EC_ValidationInvalidPort),
     (''VALIDATION_MISSING_FIELD'', EC_ValidationMissingField),
     (''VALIDATION_INVALID_IMAGE_NAME'', EC_ValidationInvalidImageName),
     (''VALIDATION_INVALID_REQUEST'', EC_ValidationInvalidRequest),
     (''AUTHENTICATION_MISSING'', EC_AuthenticationMissing),
     (''AUTHENTICATION_INVALID_API_KEY'', EC_AuthenticationInvalidApiKey),
     (''AUTHORIZATION_INSUFFICIENT_PERMISSIONS'', EC_AuthorizationInsufficientPermissions),
     (''DATABASE_CONNECTION_FAILED'', EC_DatabaseConnectionFailed),
     (''DATABASE_QUERY_FAILED'', EC_DatabaseQueryFailed),
     (''SERVICE_UNAVAILABLE'', EC_ServiceUnavailable),
     (''RATE_LIMIT_EXCEEDED'', EC_RateLimitExceeded),
     (''UPSTREAM_ERROR'', EC_UpstreamError),
     (''REQUEST_TIMEOUT'', EC_RequestTimeout),
     (''INTERNAL_ERROR'', EC_InternalError),
     (''CONFIGURATION_ERROR'', EC_ConfigurationError)]"

definition error_code_parse :: "string \<Rightarrow> ErrorCode option" where
  "error_code_parse s = map_of error_code_arms s"

fun http_status :: "ErrorCode \<Rightarrow> nat" where
  "http_status EC_SandboxNotFound = 404"
| "http_status EC_SandboxInvalidState = 409"
| "http_status EC_SandboxAlreadyExists = 409"
| "http_status EC_SandboxCreationFailed = 500"
| "http_status EC_SandboxExecutionFailed = 500"
| "http_status EC_ToolNotFound = 404"
| "http_status EC_ToolExecutionFailed = 500"
| "http_status EC_ToolValidationError = 400"
| "http_status EC_ToolTimeout = 408"
| "http_status EC_BackendImagePullFailed = 502"
| "http_status EC_BackendContainerCreateFailed = 502"
| "http_status EC_BackendContainerStartFailed = 502"
| "http_status EC_BackendVolumeError = 502"
| "http_status EC_BackendContainerNotFound = 404"
| "http_status EC_BackendExecFailed = 502"
| "http_status EC_SshSessionNotFound = 404"
| "http_status EC_SshAuthenticationFailed = 500"
| "http_status EC_SshConnectionFailed = 502"
| "http_status EC_TerminalOperationFailed = 500"
| "http_status EC_ValidationError = 400"
| "http_status EC_ValidationInvalidPort = 400"
| "http_status EC_ValidationMissingField = 400"
| "http_status EC_ValidationInvalidImageName = 400"
| "http_status EC_ValidationInvalidRequest = 400"
| "http_status EC_AuthenticationMissing = 401"
| "http_status EC_AuthenticationInvalidApiKey = 401"
| "http_status EC_AuthorizationInsufficientPermissions = 403"
| "http_status EC_DatabaseConnectionFailed = 503"
| "http_status EC_DatabaseQueryFailed = 503"
| "http_status EC_ServiceUnavailable = 503"
| "http_status EC_RateLimitExceeded = 429"
| "http_status EC_UpstreamError = 502"
| "http_status EC_RequestTimeout = 408"
| "http_status EC_InternalError = 500"
| "http_status EC_ConfigurationError = 500"

definition is_retryable :: "ErrorCode \<Rightarrow> bool" where
  "is_retryable c = (c \<in>
    {EC_ServiceUnavailable,
     EC_RateLimitExceeded,
     EC_DatabaseConnectionFailed,
     EC_BackendImagePullFailed,
     EC_BackendContainerCreateFailed,
     EC_BackendContainerStartFailed,
     EC_BackendExecFailed,
     EC_UpstreamError,
     EC_RequestTimeout,
     EC_ToolTimeout})"

section \<open>API errors\<close>

text \<open>
  The boxed \<open>source\<close> of a backend or database error is only printed by the logger; it is
  kept as its display text.
\<close>

datatype ApiError =
    ApiSandboxNotFound string
  | ApiValidation (api_message: string) (api_field: "string option") (api_code: ErrorCode)
  | ApiBackend string string ErrorCode "string option"
  | ApiDatabase string ErrorCode "string option"
  | ApiAuthentication string
  | ApiInternal string

fun error_code :: "ApiError \<Rightarrow> ErrorCode" where
  "error_code (ApiSandboxNotFound _) = EC_SandboxNotFound"
| "error_code (ApiValidation _ _ c) = c"
| "error_code (ApiBackend _ _ c _) = c"
| "error_code (ApiDatabase _ c _) = c"
| "error_code (ApiAuthentication _) = EC_AuthenticationInvalidApiKey"
| "error_code (ApiInternal _) = EC_InternalError"

fun suggestions :: "ApiError \<Rightarrow> string list" where
  "suggestions (ApiSandboxNotFound _) =
     [''Verify the sandbox ID is correct'',
      ''List all sandboxes with GET /sandboxes'',
      ''Check if the sandbox has been deleted'']"
| "suggestions (ApiBackend _ operation _ _) =
     [''Backend operation '' @ [CHR 0x27] @ operation @ [CHR 0x27] @
        '' failed. Check backend service status.'',
      ''Verify image name is correct'',
      ''Check system resources (disk, memory)'']"
| "suggestions (ApiValidation _ field _) =
     ''Check the request body format'' #
     (case field of None \<Rightarrow> []
      | Some f \<Rightarrow> [''Verify the '' @ [CHR 0x27] @ f @ [CHR 0x27] @ '' field value''])"
| "suggestions (ApiAuthentication _) =
     [''Provide a valid API key via X-API-Key header'',
      ''Generate a new API key from the admin dashboard'']"
| "suggestions (ApiDatabase _ _ _) =
     [''The database is temporarily unavailable'',
      ''Try again in a few moments'',
      ''Contact support if the problem persists'']"
| "suggestions (ApiInternal _) =
     [''An unexpected error occurred'',
      ''Check the server logs for details'',
      ''Contact support if the problem persists'']"

fun extract_metadata :: "ApiError \<Rightarrow> (string \<times> string) list" where
  "extract_metadata (ApiSandboxNotFound i) = [(''sandbox_id'', i)]"
| "extract_metadata (ApiValidation _ (Some f) _) = [(''field'', f)]"
| "extract_metadata (ApiBackend _ operation _ _) = [(''operation'', operation)]"
| "extract_metadata _ = []"

section \<open>Properties\<close>

definition legacy_aliases :: "(string \<times> ErrorCode) list" where
  "legacy_aliases = filter (\<lambda>(s, c). error_code_as_str c \<noteq> s) error_code_arms"

lemma error_code_arms_distinct: "distinct (map fst error_code_arms)"
  by code_simp

lemma error_code_parse_iff: "error_code_parse s = Some c \<longleftrightarrow> (s, c) \<in> set error_code_arms"
  by (simp add: error_code_parse_def error_code_arms_distinct)

lemma error_code_parse_inverse:
  "error_code_parse s = Some c \<longleftrightarrow> s = error_code_as_str c \<or> (s, c) \<in> set legacy_aliases"
proof -
  have own: "error_code_parse (error_code_as_str c) = Some c"
    unfolding error_code_parse_iff by (cases c) (simp_all add: error_code_arms_def)
  show ?thesis
    using own by (auto simp: error_code_parse_iff legacy_aliases_def)
qed

text \<open>
  Wire names of error codes round-trip: parsing the wire name of any code gives that
  code back, and the only other names that parse are the six \<open>DOCKER_*\<close> spellings, which
  give the renamed \<open>BACKEND_*\<close> codes.
\<close>

theorem error_code_roundtrip:
  "error_code_parse s = Some c \<longleftrightarrow>
     s = error_code_as_str c \<or>
     (s, c) \<in> {(''DOCKER_IMAGE_PULL_FAILED'', EC_BackendImagePullFailed),
               (''DOCKER_CONTAINER_CREATE_FAILED'', EC_BackendContainerCreateFailed),
               (''DOCKER_CONTAINER_START_FAILED'', EC_BackendContainerStartFailed),
               (''DOCKER_VOLUME_ERROR'', EC_BackendVolumeError),
               (''DOCKER_CONTAINER_NOT_FOUND'', EC_BackendContainerNotFound),
               (''DOCKER_EXEC_FAILED'', EC_BackendExecFailed)}"
proof -
  have aliases: "legacy_aliases =
     [(''DOCKER_IMAGE_PULL_FAILED'', EC_BackendImagePullFailed),
      (''DOCKER_CONTAINER_CREATE_FAILED'', EC_BackendContainerCreateFailed),
      (''DOCKER_CONTAINER_START_FAILED'', EC_BackendContainerStartFailed),
      (''DOCKER_VOLUME_ERROR'', EC_BackendVolumeError),
      (''DOCKER_CONTAINER_NOT_FOUND'', EC_BackendContainerNotFound),
      (''DOCKER_EXEC_FAILED'', EC_BackendExecFailed)]"
    by code_simp
  show ?thesis
    unfolding error_code_parse_inverse aliases by simp
qed

lemma error_code_as_str_inj: "error_code_as_str c = error_code_as_str d \<Longrightarrow> c = d"
  by (metis error_code_parse_inverse option.inject)

text \<open>
  Retry advice is consistent with the HTTP status: a code is advertised as retryable
  only with a transient status (408, 429, 502 or 503), so no client error other than a
  timeout or a rate limit, and no plain internal error, is ever retried.
\<close>

theorem retryable_status:
  "is_retryable c \<Longrightarrow> http_status c \<in> {408, 429, 502, 503}"
  by (cases c) (simp_all add: is_retryable_def)

theorem retryable_status_witness:
  "is_retryable EC_ToolTimeout \<and> http_status EC_ToolTimeout \<in> {408, 429, 502, 503}"
  using retryable_status [of EC_ToolTimeout] by (simp add: is_retryable_def)

end
