(* ===== verification/Types.thy ===== *)
theory Types
  imports Errors
begin

text \<open>
  The core data model (\<open>src/src/core/types.rs\<close>): sandbox states and configuration, the
  sandbox record itself, API requests and responses, activities, and the caller's identity.
  Rust structs are records whose fields carry a short prefix of the struct's name; enums
  are datatypes. JSON values are the six shapes of \<open>serde_json::Value\<close>.
\<close>

datatype json =
    JNull
  | JBool bool
  | JNumber int
  | JString string
  | JArray "json list"
  | JObject "(string \<times> json) list"

fun json_get :: "json \<Rightarrow> string \<Rightarrow> json option" where
  "json_get (JObject kvs) k = map_of kvs k"
| "json_get _ k = None"

fun json_as_str :: "json \<Rightarrow> string option" where
  "json_as_str (JString s) = Some s"
| "json_as_str _ = None"

fun json_as_bool :: "json \<Rightarrow> bool option" where
  "json_as_bool (JBool b) = Some b"
| "json_as_bool _ = None"

section \<open>Identity of the caller\<close>

datatype ApiKeyType = Privileged | Database

record ApiKeyIdentity =
  ident_id :: "uuid option"
  ident_key_type :: ApiKeyType

section \<open>Sandbox states\<close>

datatype SandboxState =
  Creating | Created | Starting | Running | Stopped | Error | Destroying | Destroyed

fun sandbox_state_as_str :: "SandboxState \<Rightarrow> string" where
  "sandbox_state_as_str Creating = ''creating''"
| "sandbox_state_as_str Created = ''created''"
| "sandbox_state_as_str Starting = ''starting''"
| "sandbox_state_as_str Running = ''running''"
| "sandbox_state_as_str Stopped = ''stopped''"
| "sandbox_state_as_str Error = ''error''"
| "sandbox_state_as_str Destroying = ''destroying''"
| "sandbox_state_as_str Destroyed = ''destroyed''"

definition sandbox_state_from_str :: "string \<Rightarrow> string + SandboxState" where
  "sandbox_state_from_str s =
     (if s = ''creating'' then Inr Creating
      else if s = ''created'' then Inr Created
      else if s = ''starting'' then Inr Starting
      else if s = ''running'' then Inr Running
      else if s = ''stopped'' then Inr Stopped
      else if s = ''error'' then Inr Error
      else if s = ''destroying'' then Inr Destroying
      else if s = ''destroyed'' then Inr Destroyed
      else Inl (''Invalid sandbox state: '' @ s))"

datatype PullPolicy = Always | Missing | Never

fun pull_policy_as_str :: "PullPolicy \<Rightarrow> string" where
  "pull_policy_as_str Always = ''always''"
| "pull_policy_as_str Missing = ''missing''"
| "pull_policy_as_str Never = ''never''"

section \<open>Configuration of a sandbox\<close>

datatype PortProtocol = Tcp | Udp

record PortMapping =
  pm_host_port :: u16
  pm_container_port :: u16
  pm_protocol :: PortProtocol

datatype VolumeMount =
    Bind (bind_host_path: string) (vm_container_path: string) (vm_read_only: bool)
  | Named (named_name: string) (vm_container_path: string) (vm_read_only: bool)

record Ulimit =
  ul_name :: string
  ul_soft :: i64
  ul_hard :: i64

record ResourceLimits =
  rl_memory_mb :: "u64 option"
  rl_cpu_quota :: "i64 option"
  rl_cpu_period :: "i64 option"
  rl_cpu_shares :: "u64 option"
  rl_pids_limit :: "i64 option"
  rl_ulimits :: "Ulimit list option"

definition resource_limits_default :: ResourceLimits where
  "resource_limits_default =
     \<lparr>rl_memory_mb = None, rl_cpu_quota = None, rl_cpu_period = None, rl_cpu_shares = None,
      rl_pids_limit = None, rl_ulimits = None\<rparr>"

record SandboxConfig =
  cfg_image :: string
  cfg_name :: "string option"
  cfg_environment :: "(string \<times> string) list"
  cfg_port_mappings :: "PortMapping list"
  cfg_exposed_ports :: "u16 list"
  cfg_resource_limits :: ResourceLimits
  cfg_volumes :: "VolumeMount list"
  cfg_command :: "string list option"
  cfg_inactivity_timeout_minutes :: "u64 option"
  cfg_pull_policy :: PullPolicy
  cfg_features :: "string list"
  cfg_enable_all_features :: bool
  cfg_vnc_resolution :: "string option"

definition sandbox_config_default :: SandboxConfig where
  "sandbox_config_default =
     \<lparr>cfg_image = ''nginx:latest'', cfg_name = None, cfg_environment = [],
      cfg_port_mappings = [], cfg_exposed_ports = [],
      cfg_resource_limits = resource_limits_default, cfg_volumes = [], cfg_command = None,
      cfg_inactivity_timeout_minutes = None, cfg_pull_policy = Missing, cfg_features = [],
      cfg_enable_all_features = False, cfg_vnc_resolution = None\<rparr>"

section \<open>Sandboxes\<close>

record ActivityTracking =
  at_last_api_activity :: time
  at_last_container_activity :: "time option"
  at_activity_count :: u64

record Sandbox =
  sb_id :: uuid
  sb_config :: SandboxConfig
  sb_state :: SandboxState
  sb_container_id :: "string option"
  sb_created_at :: time
  sb_updated_at :: time
  sb_error_message :: "string option"
  sb_volume_mounts :: "VolumeMount list"
  sb_activity :: ActivityTracking
  sb_inactivity_timeout_minutes :: "u64 option"
  sb_deleted_at :: "time option"
  sb_deleted_by :: "string option"
  sb_api_key_id :: "uuid option"

record KubernetesInfo =
  ki_node_name :: "string option"
  ki_pod_ip :: "string option"
  ki_service_name :: "string option"
  ki_message :: "string option"

record SandboxResponse =
  sr_id :: uuid
  sr_state :: SandboxState
  sr_config :: SandboxConfig
  sr_container_id :: "string option"
  sr_created_at :: time
  sr_updated_at :: time
  sr_deleted_at :: "time option"
  sr_deleted_by :: "string option"
  sr_api_key_id :: "uuid option"
  sr_kubernetes :: "KubernetesInfo option"

definition sandbox_response_from :: "Sandbox \<Rightarrow> SandboxResponse" where
  "sandbox_response_from s =
     \<lparr>sr_id = sb_id s, sr_state = sb_state s, sr_config = sb_config s,
      sr_container_id = sb_container_id s, sr_created_at = sb_created_at s,
      sr_updated_at = sb_updated_at s, sr_deleted_at = sb_deleted_at s,
      sr_deleted_by = sb_deleted_by s, sr_api_key_id = sb_api_key_id s,
      sr_kubernetes = None\<rparr>"

record CreateSandboxRequest =
  csr_image :: string
  csr_name :: "string option"
  csr_environment :: "(string \<times> string) list option"
  csr_port_mappings :: "PortMapping list option"
  csr_resource_limits :: "ResourceLimits option"
  csr_volumes :: "VolumeMount list option"
  csr_command :: "string list option"
  csr_inactivity_timeout_minutes :: "u64 option"
  csr_pull_policy :: PullPolicy
  csr_features :: "string list"
  csr_enable_all_features :: bool
  csr_vnc_resolution :: "string option"

definition create_sandbox_request_validate :: "CreateSandboxRequest \<Rightarrow> ApiError + unit" where
  "create_sandbox_request_validate r =
     (if trim (csr_image r) = []
      then Inl (ApiValidation ''image cannot be empty'' (Some ''image'') EC_ValidationError)
      else Inr ())"

section \<open>Observations of the backend\<close>

record ContainerStats =
  cs_cpu_percent :: f64
  cs_memory_usage_mb :: u64
  cs_memory_limit_mb :: u64
  cs_memory_percent :: f64
  cs_network_rx_bytes :: u64
  cs_network_tx_bytes :: u64
  cs_block_read_bytes :: u64
  cs_block_write_bytes :: u64
  cs_timestamp :: time

record SandboxInfo =
  si_id :: string
  si_name :: "string option"
  si_image :: "string option"
  si_state :: "string option"
  si_status :: "string option"
  si_created :: "i64 option"
  si_ports :: "(u16 \<times> u16) list"
  si_labels :: "(string \<times> string) list"
  si_node_name :: "string option"
  si_pod_ip :: "string option"

record ImageDetails =
  img_id :: string
  img_repo_tags :: "string list"
  img_size :: i64
  img_virtual_size :: i64
  img_created :: i64
  img_architecture :: string
  img_os :: string
  img_labels :: "(string \<times> string) list option"
  img_env :: "string list option"
  img_features :: "string list"

datatype SandboxProgressEvent =
    EvPulling string string "u64 option" "u64 option"
  | EvCreating string
  | EvStarting string
  | EvReady uuid string
  | EvError string

section \<open>Activities\<close>

datatype ActivityType =
    ActCreate | ActDelete | ActRestore | ActExec | ActStats | ActStop | ActStart | ActCleanup
  | ActInfo | ActContainerActivity | ActUpload | ActDownload

record SandboxActivity =
  act_id :: uuid
  act_sandbox_id :: uuid
  act_activity_type :: ActivityType
  act_timestamp :: time
  act_details :: json
  act_sandbox_is_deleted :: bool

record ActivityResponse =
  ar_id :: uuid
  ar_sandbox_id :: uuid
  ar_activity_type :: ActivityType
  ar_timestamp :: time
  ar_details :: json

definition activity_response_from :: "SandboxActivity \<Rightarrow> ActivityResponse" where
  "activity_response_from a =
     \<lparr>ar_id = act_id a, ar_sandbox_id = act_sandbox_id a,
      ar_activity_type = act_activity_type a, ar_timestamp = act_timestamp a,
      ar_details = act_details a\<rparr>"

section \<open>Properties\<close>

text \<open>
  Sandbox states survive storage: a string parses as a state exactly when it is the
  name \<open>as_str\<close> gives that state, so reading back a stored name yields the stored state and
  no other string is accepted.
\<close>

theorem sandbox_state_roundtrip:
  "sandbox_state_from_str s = Inr st \<longleftrightarrow> s = sandbox_state_as_str st"
  by (cases st) (auto simp: sandbox_state_from_str_def)

end
