(* ===== verification/Features.thy ===== *)
theory Features
  imports Types
begin

text \<open>
  Feature profiles (\<open>src/src/core/features.rs\<close>): the label an image carries, the user's
  selection, the set of features that is switched on, and how the resulting profile is
  merged into a sandbox configuration without overriding what the user asked for.
\<close>

section \<open>Feature metadata of an image\<close>

definition DSB_FEATURES_LABEL :: string where
  "DSB_FEATURES_LABEL = ''com.dsb.features''"

record FeaturePort =
  fp_host :: u16
  fp_container :: u16
  fp_protocol :: string
  fp_description :: string

record FeatureVolume =
  fv_volume_type :: string
  fv_container_path :: string
  fv_host_path :: "string option"
  fv_read_only :: bool
  fv_description :: string

record FeatureStaticServer =
  fss_container_path :: string
  fss_host_path_template :: "string option"
  fss_description :: string

record FeatureDefinition =
  fd_description :: string
  fd_ports :: "FeaturePort list"
  fd_env :: "(string \<times> string) list"
  fd_volumes :: "FeatureVolume list"
  fd_static_server :: "FeatureStaticServer option"
  fd_enabled_by_default :: bool

record ImageFeatureLabel =
  ifl_version :: string
  ifl_features :: "(string \<times> FeatureDefinition) list"
  ifl_default_command :: "string list option"

record FeatureProfile =
  prof_available_features :: "(string \<times> FeatureDefinition) list"
  prof_enabled_features :: "string list"
  prof_default_command :: "string list option"

record FeatureSelection =
  sel_enabled :: "string list"
  sel_disabled :: "string list"
  sel_enable_all :: bool

definition feature_profile_empty :: FeatureProfile where
  "feature_profile_empty =
     \<lparr>prof_available_features = [], prof_enabled_features = [], prof_default_command = None\<rparr>"

section \<open>Queries of a profile\<close>

definition is_feature_enabled :: "FeatureProfile \<Rightarrow> string \<Rightarrow> bool" where
  "is_feature_enabled p name = (name \<in> set (prof_enabled_features p))"

definition feature_port_mapping :: "FeaturePort \<Rightarrow> PortMapping" where
  "feature_port_mapping d =
     \<lparr>pm_host_port = fp_host d, pm_container_port = fp_container d,
      pm_protocol = (if to_lowercase (fp_protocol d) = ''udp'' then Udp else Tcp)\<rparr>"

definition get_ports :: "FeatureProfile \<Rightarrow> PortMapping list" where
  "get_ports p = concat (map (\<lambda>name.
     case map_of (prof_available_features p) name of
       None \<Rightarrow> []
     | Some f \<Rightarrow> map feature_port_mapping (fd_ports f)) (prof_enabled_features p))"

definition feature_volume_mount :: "string \<Rightarrow> string \<Rightarrow> FeatureVolume \<Rightarrow> VolumeMount option" where
  "feature_volume_mount sandbox_id name v =
     (if fv_volume_type v = ''dynamic_bind'' then
        Some (Bind (case fv_host_path v of
                      Some template \<Rightarrow> str_replace ''{sandbox_id}'' sandbox_id template
                    | None \<Rightarrow> ''/var/lib/dsb/feature-data/'' @ sandbox_id @ ''/'' @ name)
                   (fv_container_path v) (fv_read_only v))
      else if fv_volume_type v = ''bind'' then
        Some (Bind (case fv_host_path v of
                      Some h \<Rightarrow> h
                    | None \<Rightarrow> ''/tmp/dsb/'' @ sandbox_id @ ''/'' @ name)
                   (fv_container_path v) (fv_read_only v))
      else if fv_volume_type v = ''named'' then
        Some (Named (case fv_host_path v of
                       Some h \<Rightarrow> h
                     | None \<Rightarrow> ''dsb-'' @ name @ ''-'' @ sandbox_id)
                    (fv_container_path v) (fv_read_only v))
      else None)"

definition get_volumes :: "FeatureProfile \<Rightarrow> string \<Rightarrow> VolumeMount list" where
  "get_volumes p sandbox_id = concat (map (\<lambda>name.
     case map_of (prof_available_features p) name of
       None \<Rightarrow> []
     | Some f \<Rightarrow> List.map_filter (feature_volume_mount sandbox_id name) (fd_volumes f))
     (prof_enabled_features p))"

definition get_env :: "FeatureProfile \<Rightarrow> (string \<times> string) list" where
  "get_env p = foldl (\<lambda>env name.
     case map_of (prof_available_features p) name of
       None \<Rightarrow> env
     | Some f \<Rightarrow> hm_extend env (fd_env f)) [] (prof_enabled_features p)"

definition get_command :: "FeatureProfile \<Rightarrow> string list option" where
  "get_command p = (if prof_enabled_features p = [] then None else prof_default_command p)"

definition feature_static_server :: "FeatureProfile \<Rightarrow> string \<Rightarrow> FeatureStaticServer option" where
  "feature_static_server p name =
     (case map_of (prof_available_features p) name of None \<Rightarrow> None | Some f \<Rightarrow> fd_static_server f)"

definition has_static_server :: "FeatureProfile \<Rightarrow> bool" where
  "has_static_server p =
     list_ex (\<lambda>name. feature_static_server p name \<noteq> None) (prof_enabled_features p)"

definition get_static_server_config :: "FeatureProfile \<Rightarrow> FeatureStaticServer option" where
  "get_static_server_config p = find_map (feature_static_server p) (prof_enabled_features p)"

section \<open>Which features are switched on\<close>

definition feature_pushes :: "FeatureSelection \<Rightarrow> string \<Rightarrow> FeatureDefinition \<Rightarrow> bool" where
  "feature_pushes sel name f =
     (if name \<in> set (sel_disabled sel) then False
      else if name \<in> set (sel_enabled sel) then True
      else if sel_enabled sel \<noteq> [] then False
      else if sel_enable_all sel \<and> fd_enabled_by_default f then True
      else \<not> sel_enable_all sel \<and> fd_enabled_by_default f)"

definition determine_enabled_features ::
  "(string \<times> FeatureDefinition) list \<Rightarrow> FeatureSelection \<Rightarrow> string list" where
  "determine_enabled_features av sel =
     remdups_adj (sort (foldl (\<lambda>acc (name, f).
       if feature_pushes sel name f then acc @ [name] else acc) [] av))"

definition build_feature_profile :: "ImageFeatureLabel \<Rightarrow> FeatureSelection \<Rightarrow> FeatureProfile" where
  "build_feature_profile label sel =
     \<lparr>prof_available_features = ifl_features label,
      prof_enabled_features = determine_enabled_features (ifl_features label) sel,
      prof_default_command = ifl_default_command label\<rparr>"

section \<open>Applying a profile to a configuration\<close>

definition apply_ports :: "FeatureProfile \<Rightarrow> SandboxConfig \<Rightarrow> SandboxConfig" where
  "apply_ports p c =
     c\<lparr>cfg_exposed_ports :=
         foldl (\<lambda>acc pm. push_new acc (pm_container_port pm)) (cfg_exposed_ports c) (get_ports p)\<rparr>"

definition push_volume :: "VolumeMount list \<Rightarrow> VolumeMount \<Rightarrow> VolumeMount list" where
  "push_volume vs v =
     (if list_ex (\<lambda>u. vm_container_path u = vm_container_path v) vs then vs else vs @ [v])"

definition apply_volumes :: "FeatureProfile \<Rightarrow> string \<Rightarrow> SandboxConfig \<Rightarrow> SandboxConfig" where
  "apply_volumes p sandbox_id c =
     c\<lparr>cfg_volumes := foldl push_volume (cfg_volumes c) (get_volumes p sandbox_id)\<rparr>"

definition apply_env :: "FeatureProfile \<Rightarrow> SandboxConfig \<Rightarrow> SandboxConfig" where
  "apply_env p c =
     c\<lparr>cfg_environment :=
         foldl (\<lambda>env (k, v). hm_or_insert env k v) (cfg_environment c) (get_env p)\<rparr>"

definition apply_vnc :: "SandboxConfig \<Rightarrow> SandboxConfig" where
  "apply_vnc c =
     (case cfg_vnc_resolution c of
        None \<Rightarrow> c
      | Some r \<Rightarrow> c\<lparr>cfg_environment := hm_insert (cfg_environment c) ''VNC_RESOLUTION'' r\<rparr>)"

definition apply_command :: "FeatureProfile \<Rightarrow> SandboxConfig \<Rightarrow> SandboxConfig" where
  "apply_command p c =
     (case cfg_command c of
        Some _ \<Rightarrow> c
      | None \<Rightarrow> (case get_command p of None \<Rightarrow> c | Some cmd \<Rightarrow> c\<lparr>cfg_command := Some cmd\<rparr>))"

definition apply_features :: "FeatureProfile \<Rightarrow> SandboxConfig \<Rightarrow> SandboxConfig" where
  "apply_features p c =
     (if prof_enabled_features p = [] then c else c\<lparr>cfg_features := prof_enabled_features p\<rparr>)"

definition apply_feature_profile ::
  "SandboxConfig \<Rightarrow> FeatureProfile \<Rightarrow> string \<Rightarrow> string + SandboxConfig" where
  "apply_feature_profile c p sandbox_id =
     Inr (apply_features p (apply_command p (apply_vnc (apply_env p
       (apply_volumes p sandbox_id (apply_ports p c))))))"

section \<open>The set of enabled features\<close>

lemma foldl_filter_names:
  "foldl (\<lambda>acc (name, f). if P name f then acc @ [name] else acc) acc av =
     acc @ map fst (filter (\<lambda>(name, f). P name f) av)"
  by (induction av arbitrary: acc) auto

lemma feature_pushes_simp:
  "feature_pushes sel name f \<longleftrightarrow>
     name \<notin> set (sel_disabled sel) \<and>
     (name \<in> set (sel_enabled sel) \<or> sel_enabled sel = [] \<and> fd_enabled_by_default f)"
  by (auto simp: feature_pushes_def)

text \<open>
  Feature selection: whatever order the label's hash map is iterated in, the enabled
  features are exactly the sorted, duplicate-free list of available names that are not
  disabled and are either selected by name or, when nothing is selected by name, enabled
  by default. In particular the \<open>enable_all\<close> switch never changes the outcome.
\<close>

theorem determine_enabled_features_spec:
  "determine_enabled_features av sel =
     sorted_list_of_set {name. \<exists>f. (name, f) \<in> set av \<and> name \<notin> set (sel_disabled sel) \<and>
       (name \<in> set (sel_enabled sel) \<or> sel_enabled sel = [] \<and> fd_enabled_by_default f)}"
proof -
  let ?names = "map fst (filter (\<lambda>(name, f). feature_pushes sel name f) av)"
  have "determine_enabled_features av sel = sorted_list_of_set (set ?names)"
    by (simp add: determine_enabled_features_def foldl_filter_names remdups_adj_sort)
  moreover have "set ?names = {name. \<exists>f. (name, f) \<in> set av \<and> feature_pushes sel name f}"
    by force
  ultimately show ?thesis
    by (simp add: feature_pushes_simp)
qed

section \<open>What applying a profile changes\<close>

lemmas apply_defs = apply_features_def apply_command_def apply_vnc_def
  apply_env_def apply_volumes_def apply_ports_def

lemma foldl_push_port:
  "foldl (\<lambda>acc pm. push_new acc (g pm)) xs pms = foldl push_new xs (map g pms)"
  by (induction pms arbitrary: xs) auto

lemma map_of_or_insert_keep: "map_of m k = Some v \<Longrightarrow> map_of (hm_or_insert m a b) k = Some v"
  by (auto simp: map_of_hm_or_insert split: option.splits)

lemma map_of_foldl_or_insert:
  "map_of m k = Some v \<Longrightarrow> map_of (foldl (\<lambda>env (k, v). hm_or_insert env k v) m kvs) k = Some v"
  by (induction kvs arbitrary: m) (auto simp: map_of_or_insert_keep)

lemma map_of_foldl_or_insert_new:
  "k \<in> fst ` set kvs \<Longrightarrow> map_of (foldl (\<lambda>env (k, v). hm_or_insert env k v) m kvs) k \<noteq> None"
proof (induction kvs arbitrary: m)
  case (Cons kv kvs)
  obtain a b where kv: "kv = (a, b)" by (cases kv)
  show ?case
  proof (cases "k = a")
    case True
    then have "\<exists>v. map_of (hm_or_insert m a b) k = Some v"
      by (auto simp: map_of_hm_or_insert split: option.splits)
    then show ?thesis
      using map_of_foldl_or_insert [of "hm_or_insert m a b" k] by (auto simp: kv)
  next
    case False
    with Cons show ?thesis by (auto simp: kv)
  qed
qed simp

lemma foldl_or_insert_present:
  "fst ` set kvs \<subseteq> dom (map_of m) \<Longrightarrow> foldl (\<lambda>env (k, v). hm_or_insert env k v) m kvs = m"
  by (induction kvs) (auto simp: hm_or_insert_def)

lemma prefix_push_volume: "prefix vs (foldl push_volume vs ws)"
proof (induction ws arbitrary: vs)
  case (Cons w ws)
  have "prefix vs (push_volume vs w)" by (simp add: push_volume_def)
  also have "prefix (push_volume vs w) (foldl push_volume (push_volume vs w) ws)" by (rule Cons)
  finally show ?case by simp
qed simp

lemma distinct_push_volume:
  "distinct (map vm_container_path vs) \<Longrightarrow> distinct (map vm_container_path (foldl push_volume vs ws))"
proof (induction ws arbitrary: vs)
  case (Cons w ws)
  have "distinct (map vm_container_path (push_volume vs w))"
    using Cons.prems by (auto simp: push_volume_def list_ex_iff)
  then show ?case using Cons.IH by simp
qed simp

lemma paths_push_volume:
  "vm_container_path ` set (foldl push_volume vs ws) =
     vm_container_path ` set vs \<union> vm_container_path ` set ws"
proof (induction ws arbitrary: vs)
  case (Cons w ws)
  have "vm_container_path ` set (push_volume vs w) = insert (vm_container_path w) (vm_container_path ` set vs)"
    by (auto simp: push_volume_def list_ex_iff intro: rev_image_eqI)
  with Cons show ?case by simp
qed simp

lemma push_volume_present:
  "vm_container_path ` set ws \<subseteq> vm_container_path ` set vs \<Longrightarrow> foldl push_volume vs ws = vs"
proof (induction ws)
  case (Cons w ws)
  then obtain u where "u \<in> set vs" "vm_container_path u = vm_container_path w"
    by (metis imageE image_eqI in_mono list.set_intros(1))
  then have "push_volume vs w = vs" by (auto simp: push_volume_def list_ex_iff)
  with Cons show ?case by simp
qed simp

lemma apply_feature_profileD:
  "apply_feature_profile c p sid = Inr c' \<Longrightarrow>
   c' = apply_features p (apply_command p (apply_vnc (apply_env p
       (apply_volumes p sid (apply_ports p c)))))"
  by (simp add: apply_feature_profile_def)

text \<open>The fields of the configuration after a profile has been applied, one by one.\<close>

lemma apply_feature_profile_fields:
  assumes "apply_feature_profile c p sid = Inr c'"
  shows cfg_volumes_applied: "cfg_volumes c' = foldl push_volume (cfg_volumes c) (get_volumes p sid)"
    and cfg_exposed_ports_applied: "cfg_exposed_ports c' =
      foldl push_new (cfg_exposed_ports c) (map pm_container_port (get_ports p))"
    and cfg_command_applied: "cfg_command c' =
      (case cfg_command c of None \<Rightarrow> get_command p | Some cmd \<Rightarrow> Some cmd)"
    and cfg_environment_applied: "cfg_environment c' =
      (let env = foldl (\<lambda>env (k, v). hm_or_insert env k v) (cfg_environment c) (get_env p)
       in case cfg_vnc_resolution c of None \<Rightarrow> env | Some r \<Rightarrow> hm_insert env ''VNC_RESOLUTION'' r)"
    and cfg_features_applied: "cfg_features c' =
      (if prof_enabled_features p = [] then cfg_features c else prof_enabled_features p)"
  unfolding apply_feature_profileD [OF assms]
  by (simp_all add: apply_defs foldl_push_port [of pm_container_port] Let_def split: option.split)

lemma apply_feature_profile_other_fields:
  assumes "apply_feature_profile c p sid = Inr c'"
  shows "cfg_image c' = cfg_image c" "cfg_name c' = cfg_name c"
    "cfg_port_mappings c' = cfg_port_mappings c" "cfg_resource_limits c' = cfg_resource_limits c"
    "cfg_inactivity_timeout_minutes c' = cfg_inactivity_timeout_minutes c"
    "cfg_pull_policy c' = cfg_pull_policy c" "cfg_vnc_resolution c' = cfg_vnc_resolution c"
    "cfg_enable_all_features c' = cfg_enable_all_features c"
  unfolding apply_feature_profileD [OF assms]
  by (simp_all add: apply_defs split: option.split)

lemmas apply_feature_profile_all = apply_feature_profile_fields apply_feature_profile_other_fields

lemma SandboxConfig_eqI:
  "cfg_image c = cfg_image d \<Longrightarrow> cfg_name c = cfg_name d \<Longrightarrow>
   cfg_environment c = cfg_environment d \<Longrightarrow> cfg_port_mappings c = cfg_port_mappings d \<Longrightarrow>
   cfg_exposed_ports c = cfg_exposed_ports d \<Longrightarrow>
   cfg_resource_limits c = cfg_resource_limits d \<Longrightarrow> cfg_volumes c = cfg_volumes d \<Longrightarrow>
   cfg_command c = cfg_command d \<Longrightarrow>
   cfg_inactivity_timeout_minutes c = cfg_inactivity_timeout_minutes d \<Longrightarrow>
   cfg_pull_policy c = cfg_pull_policy d \<Longrightarrow> cfg_features c = cfg_features d \<Longrightarrow>
   cfg_enable_all_features c = cfg_enable_all_features d \<Longrightarrow>
   cfg_vnc_resolution c = cfg_vnc_resolution d \<Longrightarrow> c = (d :: SandboxConfig)"
  by simp

text \<open>
  A feature profile never overrides the user: after applying it, the user's volumes,
  exposed ports, command and environment entries (other than \<open>VNC_RESOLUTION\<close> when the
  user asked for a resolution) are all still in force, and image, name, published port
  mappings, resource limits, timeout and pull policy are untouched. Feature ports are
  therefore never published on the host.
\<close>

theorem apply_feature_profile_preserves_user:
  assumes "apply_feature_profile c p sid = Inr c'"
  shows "prefix (cfg_volumes c) (cfg_volumes c') \<and>
    prefix (cfg_exposed_ports c) (cfg_exposed_ports c') \<and>
    (\<forall>cmd. cfg_command c = Some cmd \<longrightarrow> cfg_command c' = Some cmd) \<and>
    (\<forall>k v. map_of (cfg_environment c) k = Some v \<and>
           (k \<noteq> ''VNC_RESOLUTION'' \<or> cfg_vnc_resolution c = None) \<longrightarrow>
         map_of (cfg_environment c') k = Some v) \<and>
    (\<forall>r. cfg_vnc_resolution c = Some r \<longrightarrow>
         map_of (cfg_environment c') ''VNC_RESOLUTION'' = Some r) \<and>
    cfg_image c' = cfg_image c \<and> cfg_name c' = cfg_name c \<and>
    cfg_port_mappings c' = cfg_port_mappings c \<and>
    cfg_resource_limits c' = cfg_resource_limits c \<and>
    cfg_inactivity_timeout_minutes c' = cfg_inactivity_timeout_minutes c \<and>
    cfg_pull_policy c' = cfg_pull_policy c"
proof -
  have env: "map_of (cfg_environment c') k = Some v"
    if "map_of (cfg_environment c) k = Some v" "k \<noteq> ''VNC_RESOLUTION'' \<or> cfg_vnc_resolution c = None"
    for k v
    using that map_of_foldl_or_insert [of "cfg_environment c" k v "get_env p"]
    by (cases "cfg_vnc_resolution c")
      (auto simp: cfg_environment_applied [OF assms] Let_def)
  have vnc: "map_of (cfg_environment c') ''VNC_RESOLUTION'' = Some r"
    if "cfg_vnc_resolution c = Some r" for r
    using that by (simp add: cfg_environment_applied [OF assms])
  have vols: "prefix (cfg_volumes c) (cfg_volumes c')"
    by (simp add: cfg_volumes_applied [OF assms] prefix_push_volume)
  have ports: "prefix (cfg_exposed_ports c) (cfg_exposed_ports c')"
    by (simp add: cfg_exposed_ports_applied [OF assms] prefix_foldl_push_new)
  show ?thesis
    using env vnc vols ports
    by (simp add: cfg_command_applied [OF assms] apply_feature_profile_other_fields [OF assms])
qed

text \<open>
  Applying the same profile again changes nothing: profile application is idempotent,
  so re-creating a sandbox from its stored configuration does not accumulate ports,
  volumes or environment entries.
\<close>

theorem apply_feature_profile_idempotent:
  assumes "apply_feature_profile c p sid = Inr c'"
  shows "apply_feature_profile c' p sid = Inr c'"
proof -
  obtain d where d: "apply_feature_profile c' p sid = Inr d"
    by (simp add: apply_feature_profile_def)
  have vnc: "cfg_vnc_resolution c = Some r \<Longrightarrow>
      map_of (cfg_environment c') ''VNC_RESOLUTION'' = Some r" for r
    by (simp add: cfg_environment_applied [OF assms])
  let ?env = "foldl (\<lambda>env (k, v). hm_or_insert env k v) (cfg_environment c) (get_env p)"
  have "fst ` set (get_env p) \<subseteq> dom (map_of ?env)"
    using map_of_foldl_or_insert_new by fast
  then have "fst ` set (get_env p) \<subseteq> dom (map_of (cfg_environment c'))"
    by (auto simp: cfg_environment_applied [OF assms] Let_def split: option.splits)
  then have env: "cfg_environment d = cfg_environment c'"
    by (cases "cfg_vnc_resolution c")
      (simp_all add: cfg_environment_applied [OF d] foldl_or_insert_present hm_insert_same
        apply_feature_profile_other_fields [OF assms], simp add: vnc hm_insert_same)
  have vol: "cfg_volumes d = cfg_volumes c'"
    by (simp add: cfg_volumes_applied [OF d] cfg_volumes_applied [OF assms]
        push_volume_present paths_push_volume)
  have ports: "cfg_exposed_ports d = cfg_exposed_ports c'"
    by (simp add: cfg_exposed_ports_applied [OF d] cfg_exposed_ports_applied [OF assms]
        foldl_push_new_present set_foldl_push_new)
  have "d = c'"
    by (rule SandboxConfig_eqI)
      (use env vol ports in \<open>simp_all add: apply_feature_profile_other_fields [OF d]
        cfg_command_applied [OF d] cfg_command_applied [OF assms]
        cfg_features_applied [OF d] cfg_features_applied [OF assms] split: option.splits\<close>)
  with d show ?thesis by simp
qed

text \<open>
  Applying a profile keeps a configuration conflict-free: when the user's exposed ports
  and container mount points are pairwise distinct, so are those of the result, and every
  mount point and port a feature wants is served.
\<close>

theorem apply_feature_profile_no_conflicts:
  assumes "apply_feature_profile c p sid = Inr c'"
    and "distinct (cfg_exposed_ports c)" and "distinct (map vm_container_path (cfg_volumes c))"
  shows "distinct (cfg_exposed_ports c') \<and> distinct (map vm_container_path (cfg_volumes c')) \<and>
    set (cfg_exposed_ports c') = set (cfg_exposed_ports c) \<union> pm_container_port ` set (get_ports p) \<and>
    vm_container_path ` set (cfg_volumes c') =
      vm_container_path ` set (cfg_volumes c) \<union> vm_container_path ` set (get_volumes p sid)"
  using assms(2,3)
  by (simp add: cfg_exposed_ports_applied [OF assms(1)] cfg_volumes_applied [OF assms(1)]
      distinct_foldl_push_new distinct_push_volume set_foldl_push_new paths_push_volume)

section \<open>Examples\<close>

definition example_feature :: FeatureDefinition where
  "example_feature =
     \<lparr>fd_description = ''desktop'',
      fd_ports = [\<lparr>fp_host = 5901, fp_container = 5901, fp_protocol = ''tcp'', fp_description = []\<rparr>],
      fd_env = [(''DISPLAY'', '':1'')],
      fd_volumes = [\<lparr>fv_volume_type = ''named'', fv_container_path = ''/data'', fv_host_path = None,
                     fv_read_only = False, fv_description = []\<rparr>],
      fd_static_server = None, fd_enabled_by_default = True\<rparr>"

definition example_label :: ImageFeatureLabel where
  "example_label = \<lparr>ifl_version = ''1'', ifl_features = [(''vnc'', example_feature)],
     ifl_default_command = Some [''supervisord'']\<rparr>"

definition example_profile :: FeatureProfile where
  "example_profile = \<lparr>prof_available_features = [(''vnc'', example_feature)],
     prof_enabled_features = [''vnc''], prof_default_command = Some [''supervisord'']\<rparr>"

definition example_applied :: SandboxConfig where
  "example_applied = sandbox_config_default
     \<lparr>cfg_exposed_ports := [5901], cfg_volumes := [Named ''dsb-vnc-s1'' ''/data'' False],
      cfg_environment := [(''DISPLAY'', '':1'')], cfg_command := Some [''supervisord''],
      cfg_features := [''vnc'']\<rparr>"

lemma example_apply:
  "apply_feature_profile sandbox_config_default example_profile ''s1'' = Inr example_applied"
  by code_simp

theorem apply_feature_profile_preserves_user_witness:
  "cfg_image example_applied = ''nginx:latest'' \<and> cfg_port_mappings example_applied = []"
  using apply_feature_profile_preserves_user [OF example_apply]
  by (simp add: sandbox_config_default_def)

theorem apply_feature_profile_idempotent_witness:
  "apply_feature_profile example_applied example_profile ''s1'' = Inr example_applied"
  by (rule apply_feature_profile_idempotent [OF example_apply])

theorem apply_feature_profile_no_conflicts_witness:
  "distinct (cfg_exposed_ports example_applied) \<and>
   distinct (map vm_container_path (cfg_volumes example_applied))"
  using apply_feature_profile_no_conflicts [OF example_apply]
  by (simp add: sandbox_config_default_def)

end
