(* ===== verification/Store.thy ===== *)
theory Store
  imports Types
begin

text \<open>
  The state store (\<open>src/src/core/store_trait.rs\<close>) as the service sees it, and the in-memory
  store (\<open>src/src/core/state.rs\<close>). The trait object \<open>Arc<dyn StateStoreTrait>\<close> is a record of
  operations over the store's own state; locale \<open>state_store\<close> states what every
  implementation promises the service, and \<open>reliable_store\<close> what an implementation without
  I/O adds. The PostgreSQL store is in theory \<open>PgStore\<close>.
\<close>

section \<open>The trait\<close>

record 's StateStoreTrait =
  ss_create_sandbox :: "Sandbox \<Rightarrow> ('s, string, unit) prog"
  ss_get_sandbox :: "uuid \<Rightarrow> 's \<Rightarrow> Sandbox option \<times> 's"
  ss_get_sandbox_with_deleted :: "uuid \<Rightarrow> bool \<Rightarrow> 's \<Rightarrow> Sandbox option \<times> 's"
  ss_list_sandboxes :: "'s \<Rightarrow> Sandbox list \<times> 's"
  ss_update_sandbox :: "Sandbox \<Rightarrow> ('s, string, unit) prog"
  ss_delete_sandbox :: "uuid \<Rightarrow> ('s, string, unit) prog"
  ss_list_sandboxes_owned_by :: "uuid \<Rightarrow> bool \<Rightarrow> 's \<Rightarrow> Sandbox list \<times> 's"
  ss_get_sandbox_if_owned_by :: "uuid \<Rightarrow> uuid \<Rightarrow> 's \<Rightarrow> Sandbox option \<times> 's"
  ss_get_sandbox_with_deleted_if_owned_by ::
    "uuid \<Rightarrow> uuid \<Rightarrow> bool \<Rightarrow> 's \<Rightarrow> Sandbox option \<times> 's"

text \<open>
  What a store must keep of a sandbox it is given: everything the lifecycle depends on.
  A store may normalise the rest (the PostgreSQL store rounds times and drops parts of the
  configuration).
\<close>

definition same_core :: "Sandbox \<Rightarrow> Sandbox \<Rightarrow> bool" where
  "same_core a b \<longleftrightarrow>
     sb_id a = sb_id b \<and> sb_state a = sb_state b \<and> sb_container_id a = sb_container_id b \<and>
     sb_error_message a = sb_error_message b \<and> sb_volume_mounts a = sb_volume_mounts b \<and>
     (sb_deleted_at a = None \<longleftrightarrow> sb_deleted_at b = None) \<and>
     sb_deleted_by a = sb_deleted_by b \<and> sb_api_key_id a = sb_api_key_id b"

lemma same_core_refl [simp, intro!]: "same_core a a"
  by (simp add: same_core_def)

lemma same_core_id: "same_core a b \<Longrightarrow> sb_id a = sb_id b"
  by (simp add: same_core_def)

definition owned_visible :: "uuid \<Rightarrow> bool \<Rightarrow> Sandbox \<Rightarrow> bool" where
  "owned_visible key include_deleted sb \<longleftrightarrow>
     sb_api_key_id sb = Some key \<and> (include_deleted \<or> sb_deleted_at sb = None)"

section \<open>What a store promises\<close>

locale state_store =
  fixes st :: "'s StateStoreTrait"
    and contents :: "'s \<Rightarrow> uuid \<rightharpoonup> Sandbox"
    and invar :: "'s \<Rightarrow> bool"
  assumes create_law: "invar s \<Longrightarrow>
      wpE (ss_create_sandbox st sb)
        (\<lambda>_ t. invar t \<and> (\<exists>sb'. contents t = (contents s)(sb_id sb \<mapsto> sb') \<and> same_core sb sb'))
        (\<lambda>_ t. invar t \<and> contents t = contents s) s"
    and update_law: "invar s \<Longrightarrow>
      wpE (ss_update_sandbox st sb)
        (\<lambda>_ t. invar t \<and> (\<exists>sb'. contents t = (contents s)(sb_id sb \<mapsto> sb') \<and> same_core sb sb'))
        (\<lambda>_ t. invar t \<and> contents t = contents s) s"
    and get_law: "invar s \<Longrightarrow> ss_get_sandbox st i s = (r, t) \<Longrightarrow>
      invar t \<and> contents t = contents s \<and>
      (\<forall>sb. r = Some sb \<longrightarrow> (\<exists>sb'. contents s i = Some sb' \<and> same_core sb sb'))"
    and get_with_deleted_law: "invar s \<Longrightarrow> ss_get_sandbox_with_deleted st i d s = (r, t) \<Longrightarrow>
      invar t \<and> contents t = contents s \<and>
      (\<forall>sb. r = Some sb \<longrightarrow> (\<exists>sb'. contents s i = Some sb' \<and> same_core sb sb'))"
    and list_law: "invar s \<Longrightarrow> ss_list_sandboxes st s = (l, t) \<Longrightarrow>
      invar t \<and> contents t = contents s \<and>
      (\<forall>sb \<in> set l. \<exists>sb'. contents s (sb_id sb) = Some sb' \<and> same_core sb sb')"
    and owned_law:
      "invar s \<Longrightarrow> ss_get_sandbox_with_deleted_if_owned_by st i key d s = (r, t) \<Longrightarrow>
      invar t \<and> contents t = contents s \<and>
      (\<forall>sb. r = Some sb \<longrightarrow>
         (\<exists>sb'. contents s i = Some sb' \<and> same_core sb sb' \<and> owned_visible key d sb'))"
    and list_owned_law: "invar s \<Longrightarrow> ss_list_sandboxes_owned_by st key d s = (l, t) \<Longrightarrow>
      invar t \<and> contents t = contents s \<and>
      (\<forall>sb \<in> set l. owned_visible key d sb \<and>
         (\<exists>sb'. contents s (sb_id sb) = Some sb' \<and> same_core sb sb'))"
    and key_law: "invar s \<Longrightarrow> contents s i = Some sb \<Longrightarrow> sb_id sb = i"

text \<open>A store without I/O: no operation fails and every record stays readable.\<close>

locale reliable_store = state_store st contents invar
  for st :: "'s StateStoreTrait" and contents :: "'s \<Rightarrow> uuid \<rightharpoonup> Sandbox" and invar :: "'s \<Rightarrow> bool" +
  assumes get_complete: "invar s \<Longrightarrow> ss_get_sandbox st i s = (contents s i, s)"
    and get_with_deleted_complete:
      "invar s \<Longrightarrow> ss_get_sandbox_with_deleted st i d s = (contents s i, s)"
    and update_exact: "invar s \<Longrightarrow> \<exists>t. ss_update_sandbox st sb s = (Inr (), t) \<and> invar t \<and>
      contents t = (contents s)(sb_id sb \<mapsto> sb)"
    and create_exact: "invar s \<Longrightarrow> \<exists>t. ss_create_sandbox st sb s = (Inr (), t) \<and> invar t \<and>
      contents t = (contents s)(sb_id sb \<mapsto> sb)"
    and owned_complete: "invar s \<Longrightarrow>
      ss_get_sandbox_with_deleted_if_owned_by st i key d s =
        (case contents s i of None \<Rightarrow> None
         | Some sb \<Rightarrow> if owned_visible key d sb then Some sb else None, s)"
    and list_owned_complete: "invar s \<Longrightarrow>
      set (fst (ss_list_sandboxes_owned_by st key d s)) = {sb \<in> ran (contents s). owned_visible key d sb}"
begin

lemma update_then_get:
  assumes "invar s" and "ss_update_sandbox st sb s = (r, t)"
  shows "ss_get_sandbox st (sb_id sb) t = (Some sb, t)"
  using assms update_exact [of s sb] get_complete [of t "sb_id sb"] by force

lemma update_frame:
  assumes "invar s" and "ss_update_sandbox st sb s = (r, t)" and "i \<noteq> sb_id sb"
  shows "ss_get_sandbox st i t = (contents s i, t)"
  using assms update_exact [of s sb] get_complete [of t i] by force

end

section \<open>The in-memory store\<close>

type_synonym mem_store = "(uuid \<times> Sandbox) list"

definition mem_new :: mem_store where
  "mem_new = []"

definition mem_create_sandbox :: "Sandbox \<Rightarrow> (mem_store, string, unit) prog" where
  "mem_create_sandbox sb s = (Inr (), AList.update (sb_id sb) sb s)"

definition mem_get_sandbox :: "uuid \<Rightarrow> mem_store \<Rightarrow> Sandbox option \<times> mem_store" where
  "mem_get_sandbox i s = (map_of s i, s)"

definition mem_get_sandbox_with_deleted ::
  "uuid \<Rightarrow> bool \<Rightarrow> mem_store \<Rightarrow> Sandbox option \<times> mem_store" where
  "mem_get_sandbox_with_deleted i include_deleted s = mem_get_sandbox i s"

definition mem_list_sandboxes :: "mem_store \<Rightarrow> Sandbox list \<times> mem_store" where
  "mem_list_sandboxes s = (map snd s, s)"

definition mem_update_sandbox :: "Sandbox \<Rightarrow> (mem_store, string, unit) prog" where
  "mem_update_sandbox sb s = (Inr (), AList.update (sb_id sb) sb s)"

definition mem_delete_sandbox :: "uuid \<Rightarrow> (mem_store, string, unit) prog" where
  "mem_delete_sandbox i s = (Inr (), AList.delete i s)"

definition mem_list_sandboxes_owned_by ::
  "uuid \<Rightarrow> bool \<Rightarrow> mem_store \<Rightarrow> Sandbox list \<times> mem_store" where
  "mem_list_sandboxes_owned_by key include_deleted s =
     (filter (\<lambda>sb. sb_api_key_id sb = Some key \<and> (include_deleted \<or> sb_deleted_at sb = None))
        (map snd s), s)"

definition mem_get_sandbox_if_owned_by ::
  "uuid \<Rightarrow> uuid \<Rightarrow> mem_store \<Rightarrow> Sandbox option \<times> mem_store" where
  "mem_get_sandbox_if_owned_by i key s =
     (case map_of s i of
        None \<Rightarrow> None
      | Some sb \<Rightarrow> if sb_api_key_id sb = Some key \<and> sb_deleted_at sb = None then Some sb else None, s)"

definition mem_get_sandbox_with_deleted_if_owned_by ::
  "uuid \<Rightarrow> uuid \<Rightarrow> bool \<Rightarrow> mem_store \<Rightarrow> Sandbox option \<times> mem_store" where
  "mem_get_sandbox_with_deleted_if_owned_by i key include_deleted s =
     (case map_of s i of
        None \<Rightarrow> None
      | Some sb \<Rightarrow>
          if sb_api_key_id sb = Some key \<and> (include_deleted \<or> sb_deleted_at sb = None)
          then Some sb else None, s)"

definition StateStore :: "mem_store StateStoreTrait" where
  "StateStore =
     \<lparr>ss_create_sandbox = mem_create_sandbox,
      ss_get_sandbox = mem_get_sandbox,
      ss_get_sandbox_with_deleted = mem_get_sandbox_with_deleted,
      ss_list_sandboxes = mem_list_sandboxes,
      ss_update_sandbox = mem_update_sandbox,
      ss_delete_sandbox = mem_delete_sandbox,
      ss_list_sandboxes_owned_by = mem_list_sandboxes_owned_by,
      ss_get_sandbox_if_owned_by = mem_get_sandbox_if_owned_by,
      ss_get_sandbox_with_deleted_if_owned_by = mem_get_sandbox_with_deleted_if_owned_by\<rparr>"

text \<open>Keys are distinct and every record is filed under its own identifier.\<close>

definition mem_invar :: "mem_store \<Rightarrow> bool" where
  "mem_invar s \<longleftrightarrow> distinct (map fst s) \<and> (\<forall>(i, sb) \<in> set s. sb_id sb = i)"

lemmas mem_defs = mem_create_sandbox_def mem_get_sandbox_def mem_get_sandbox_with_deleted_def
  mem_list_sandboxes_def mem_update_sandbox_def mem_delete_sandbox_def
  mem_list_sandboxes_owned_by_def mem_get_sandbox_if_owned_by_def
  mem_get_sandbox_with_deleted_if_owned_by_def

lemma set_alist_update: "set (AList.update k v s) \<subseteq> insert (k, v) (set s)"
  by (induction s) auto

lemma mem_invar_update: "mem_invar s \<Longrightarrow> mem_invar (AList.update (sb_id sb) sb s)"
  using set_alist_update [of "sb_id sb" sb s] by (fastforce simp: mem_invar_def distinct_update)

lemma mem_invar_delete: "mem_invar s \<Longrightarrow> mem_invar (AList.delete i s)"
  by (auto simp: mem_invar_def AList.delete_eq intro: distinct_map_filter)

lemma mem_invar_new: "mem_invar mem_new"
  by (simp add: mem_invar_def mem_new_def)

lemma mem_invar_id: "mem_invar s \<Longrightarrow> map_of s i = Some sb \<Longrightarrow> sb_id sb = i"
  by (auto simp: mem_invar_def dest: map_of_SomeD)

lemma mem_invar_value: "mem_invar s \<Longrightarrow> sb \<in> snd ` set s \<Longrightarrow> map_of s (sb_id sb) = Some sb"
  by (auto simp: mem_invar_def)

lemma mem_ran: "mem_invar s \<Longrightarrow> ran (map_of s) = snd ` set s"
  by (simp add: mem_invar_def ran_distinct)

interpretation mem: reliable_store StateStore map_of mem_invar
proof unfold_locales
  fix s t :: mem_store and l :: "Sandbox list" and key d
  assume "mem_invar s" and "ss_list_sandboxes_owned_by StateStore key d s = (l, t)"
  then show "mem_invar t \<and> map_of t = map_of s \<and> (\<forall>sb\<in>set l. owned_visible key d sb \<and>
      (\<exists>sb'. map_of s (sb_id sb) = Some sb' \<and> same_core sb sb'))"
    using mem_invar_value [of s] by (force simp: StateStore_def mem_defs owned_visible_def)
next
  fix s :: mem_store and key d
  assume "mem_invar s"
  then show "set (fst (ss_list_sandboxes_owned_by StateStore key d s)) =
      {sb \<in> ran (map_of s). owned_visible key d sb}"
    by (auto simp: StateStore_def mem_defs owned_visible_def mem_ran)
next
  fix s t :: mem_store and l :: "Sandbox list"
  assume "mem_invar s" and "ss_list_sandboxes StateStore s = (l, t)"
  then show "mem_invar t \<and> map_of t = map_of s \<and>
      (\<forall>sb\<in>set l. \<exists>sb'. map_of s (sb_id sb) = Some sb' \<and> same_core sb sb')"
    using mem_invar_value [of s] by (auto simp: StateStore_def mem_defs)
qed (auto simp: StateStore_def mem_defs wpE_def mem_invar_update update_conv' mem_invar_id
    owned_visible_def split: option.splits if_splits)

text \<open>
  Read-your-writes: after an update of the in-memory store, reading the same identifier
  returns exactly the sandbox that was written and reading any other identifier returns
  what was there before, for every well-formed store.
\<close>

theorem mem_store_read_your_writes:
  assumes "mem_invar s" and "mem_update_sandbox sb s = (r, t)"
  shows "mem_get_sandbox (sb_id sb) t = (Some sb, t) \<and>
    (\<forall>i. i \<noteq> sb_id sb \<longrightarrow> mem_get_sandbox i t = (map_of s i, t)) \<and> mem_invar t"
  using mem.update_then_get [of s sb r t] mem.update_frame [of s sb r t] mem_invar_update [of s sb] assms
  by (auto simp: StateStore_def mem_update_sandbox_def)

definition example_sandbox :: "uuid \<Rightarrow> SandboxState \<Rightarrow> string option \<Rightarrow> Sandbox" where
  "example_sandbox i stt cid =
     \<lparr>sb_id = i, sb_config = sandbox_config_default, sb_state = stt, sb_container_id = cid,
      sb_created_at = 0, sb_updated_at = 0, sb_error_message = None, sb_volume_mounts = [],
      sb_activity = \<lparr>at_last_api_activity = 0, at_last_container_activity = None,
        at_activity_count = 0\<rparr>,
      sb_inactivity_timeout_minutes = None, sb_deleted_at = None, sb_deleted_by = None,
      sb_api_key_id = None\<rparr>"

lemma example_sandbox_simps [simp]:
  "sb_id (example_sandbox i stt cid) = i" "sb_state (example_sandbox i stt cid) = stt"
  "sb_container_id (example_sandbox i stt cid) = cid" "sb_volume_mounts (example_sandbox i stt cid) = []"
  "sb_deleted_at (example_sandbox i stt cid) = None" "sb_deleted_by (example_sandbox i stt cid) = None"
  "sb_api_key_id (example_sandbox i stt cid) = None"
  "sb_config (example_sandbox i stt cid) = sandbox_config_default"
  by (simp_all add: example_sandbox_def)

lemma mem_invar_single [simp]: "mem_invar [(i, sb)] \<longleftrightarrow> sb_id sb = i"
  by (simp add: mem_invar_def)

theorem mem_store_read_your_writes_witness:
  "mem_get_sandbox 7 [(7, example_sandbox 7 Running (Some ''c''))] =
     (Some (example_sandbox 7 Running (Some ''c'')), [(7, example_sandbox 7 Running (Some ''c''))])"
  using mem_store_read_your_writes [of "[]" "example_sandbox 7 Running (Some ''c'')" "Inr ()"
      "[(7, example_sandbox 7 Running (Some ''c''))]"]
  by (simp add: mem_invar_def mem_update_sandbox_def example_sandbox_def)

end
