(* ===== verification/Service.thy ===== *)
theory Service
  imports Store Features
begin

text \<open>
  The sandbox service's surroundings: the world it runs in, the container backend behind
  \<open>Arc<dyn SandboxManager>\<close> (\<open>src/src/core/manager.rs\<close>), the activity log
  (\<open>src/src/core/activities.rs\<close>, \<open>src/src/db/activities.rs\<close>), the service record and its
  constructor-level helpers (\<open>src/src/core/sandbox.rs\<close>, \<open>src/src/core/sandbox/constructor.rs\<close>).

  The world holds the store, the backend and the activity table, and supplies what the
  code reads from outside: the clock, fresh UUIDs, whether a database statement succeeds,
  the text form of a UUID and the JSON parser for feature labels. Each reading consumes the
  next element of its sequence, so nothing is assumed about successive readings.
\<close>

record ('s, 'b) world =
  w_store :: 's
  w_backend :: 'b
  w_activities :: "SandboxActivity list"
  w_ticks :: nat
  w_uuids :: nat
  w_db_calls :: nat
  w_clock :: "nat \<Rightarrow> time"
  w_uuid_src :: "nat \<Rightarrow> uuid"
  w_db_up :: "nat \<Rightarrow> bool"
  w_uuid_to_string :: "uuid \<Rightarrow> string"
  w_parse_label :: "string \<Rightarrow> string + ImageFeatureLabel"

definition utc_now :: "(('s, 'b) world, 'e, time) prog" where
  "utc_now w = (Inr (w_clock w (w_ticks w)), w\<lparr>w_ticks := Suc (w_ticks w)\<rparr>)"

definition new_v4 :: "(('s, 'b) world, 'e, uuid) prog" where
  "new_v4 w = (Inr (w_uuid_src w (w_uuids w)), w\<lparr>w_uuids := Suc (w_uuids w)\<rparr>)"

definition uuid_text :: "uuid \<Rightarrow> (('s, 'b) world, 'e, string) prog" where
  "uuid_text i w = (Inr (w_uuid_to_string w i), w)"

section \<open>The backend\<close>

datatype ManagerError =
    ME_Api string
  | ME_NotFound string
  | ME_OperationFailed string
  | ME_NotSupported string
  | ME_Timeout string
  | ME_Conflict string
  | ME_Io string

fun manager_error_display :: "ManagerError \<Rightarrow> string" where
  "manager_error_display (ME_Api m) = ''API error: '' @ m"
| "manager_error_display (ME_NotFound m) = ''Not found: '' @ m"
| "manager_error_display (ME_OperationFailed m) = ''Operation failed: '' @ m"
| "manager_error_display (ME_NotSupported m) = ''Not supported in this backend: '' @ m"
| "manager_error_display (ME_Timeout m) = ''Timeout: '' @ m"
| "manager_error_display (ME_Conflict m) = ''Conflict: '' @ m"
| "manager_error_display (ME_Io m) = ''IO error: '' @ m"

record ExecCommandResult =
  ecr_output :: string
  ecr_exit_code :: i32

text \<open>
  Image pulls with progress call their callback once per report; the operation returns the
  reports it made, in order, with its result.
\<close>

record 'b SandboxManager =
  mgr_create :: "uuid option \<Rightarrow> SandboxConfig \<Rightarrow> ('b, ManagerError, string) prog"
  mgr_start :: "string \<Rightarrow> ('b, ManagerError, unit) prog"
  mgr_stop :: "string \<Rightarrow> ('b, ManagerError, unit) prog"
  mgr_delete :: "string \<Rightarrow> ('b, ManagerError, unit) prog"
  mgr_exec :: "string \<Rightarrow> string list \<Rightarrow> ('b, ManagerError, string) prog"
  mgr_stats :: "string \<Rightarrow> ('b, ManagerError, ContainerStats) prog"
  mgr_is_running :: "string \<Rightarrow> ('b, ManagerError, bool) prog"
  mgr_get_exit_info :: "string \<Rightarrow> ('b, ManagerError, i64 \<times> bool) prog"
  mgr_get_workdir :: "string \<Rightarrow> ('b, ManagerError, string) prog"
  mgr_list :: "bool \<Rightarrow> ('b, ManagerError, SandboxInfo list) prog"
  mgr_remove_volume :: "string \<Rightarrow> ('b, ManagerError, unit) prog"
  mgr_get_image_features :: "string \<Rightarrow> ('b, ManagerError, ImageDetails) prog"
  mgr_pull_image :: "string \<Rightarrow> ('b, ManagerError, unit) prog"
  mgr_pull_image_with_progress ::
    "string \<Rightarrow> 'b \<Rightarrow> ((string \<times> u64 option \<times> u64 option) list \<times> (ManagerError + unit)) \<times> 'b"
  mgr_image_exists :: "string \<Rightarrow> ('b, ManagerError, bool) prog"
  mgr_exec_http :: "string \<Rightarrow> string \<Rightarrow> string \<Rightarrow> json option \<Rightarrow> u64 option \<Rightarrow> ('b, ManagerError, json) prog"
  mgr_exec_with_stdin_result ::
    "string \<Rightarrow> string list \<Rightarrow> string option \<Rightarrow> u64 option \<Rightarrow> ('b, ManagerError, ExecCommandResult) prog"
  mgr_upload_archive :: "string \<Rightarrow> string \<Rightarrow> string \<Rightarrow> ('b, ManagerError, unit) prog"
  mgr_get_sandbox_k8s_status :: "uuid \<Rightarrow> ('b, ManagerError, KubernetesInfo option) prog"

text \<open>Calls into the backend and the store, lifted to the world.\<close>

definition on_backend :: "('b, 'e, 'a) prog \<Rightarrow> (('s, 'b) world, 'e, 'a) prog" where
  "on_backend m w = (case m (w_backend w) of (r, b) \<Rightarrow> (r, w\<lparr>w_backend := b\<rparr>))"

definition on_store :: "('s, 'e, 'a) prog \<Rightarrow> (('s, 'b) world, 'e, 'a) prog" where
  "on_store m w = (case m (w_store w) of (r, s) \<Rightarrow> (r, w\<lparr>w_store := s\<rparr>))"

definition read_store :: "('s \<Rightarrow> 'a \<times> 's) \<Rightarrow> (('s, 'b) world, 'e, 'a) prog" where
  "read_store m w = (case m (w_store w) of (r, s) \<Rightarrow> (Inr r, w\<lparr>w_store := s\<rparr>))"

section \<open>The service\<close>

record ToolTimeoutConfig =
  tt_default_secs :: u64
  tt_web_tools_secs :: u64
  tt_browser_tools_secs :: u64
  tt_databend_tools_secs :: u64
  tt_http_buffer_secs :: u64
  tt_max_allowed_secs :: u64

record DefaultUlimit =
  dul_name :: string
  dul_soft :: i64
  dul_hard :: i64

record DefaultResourceLimits =
  drl_memory_mb :: "u64 option"
  drl_cpu_quota :: "i64 option"
  drl_cpu_period :: "i64 option"
  drl_cpu_shares :: "u64 option"
  drl_pids_limit :: "i64 option"
  drl_ulimits :: "DefaultUlimit list option"

record ('s, 'b) SandboxService =
  svc_backend :: "'b SandboxManager"
  svc_state :: "'s StateStoreTrait"
  svc_activity_service :: bool
  svc_default_inactivity_timeout :: u64
  svc_cleanup_dry_run :: bool
  svc_state_monitor_interval :: u64
  svc_deleted_sandbox_retention_days :: u64
  svc_default_sandbox_image :: string
  svc_authentication_required :: bool
  svc_max_file_size_bytes :: u64
  svc_tool_timeouts :: ToolTimeoutConfig
  svc_default_resource_limits :: DefaultResourceLimits
  svc_max_browser_tabs :: u32

text \<open>The error of a service method: \<open>Box<dyn Error>\<close> made from a text, a backend or a store error.\<close>

datatype SvcError = SvcText string | SvcManager ManagerError | SvcStore string

type_synonym ('s, 'b, 'a) svc = "(('s, 'b) world, SvcError, 'a) prog"

definition store_get :: "('s, 'b) SandboxService \<Rightarrow> uuid \<Rightarrow> ('s, 'b, Sandbox option) svc" where
  "store_get svc i = read_store (ss_get_sandbox (svc_state svc) i)"

definition store_get_with_deleted ::
  "('s, 'b) SandboxService \<Rightarrow> uuid \<Rightarrow> bool \<Rightarrow> ('s, 'b, Sandbox option) svc" where
  "store_get_with_deleted svc i d = read_store (ss_get_sandbox_with_deleted (svc_state svc) i d)"

definition store_list :: "('s, 'b) SandboxService \<Rightarrow> ('s, 'b, Sandbox list) svc" where
  "store_list svc = read_store (ss_list_sandboxes (svc_state svc))"

definition store_create :: "('s, 'b) SandboxService \<Rightarrow> Sandbox \<Rightarrow> ('s, 'b, unit) svc" where
  "store_create svc sb = map_err SvcStore (on_store (ss_create_sandbox (svc_state svc) sb))"

definition store_update :: "('s, 'b) SandboxService \<Rightarrow> Sandbox \<Rightarrow> ('s, 'b, unit) svc" where
  "store_update svc sb = map_err SvcStore (on_store (ss_update_sandbox (svc_state svc) sb))"

definition get_or_not_found :: "('s, 'b) SandboxService \<Rightarrow> uuid \<Rightarrow> ('s, 'b, Sandbox) svc" where
  "get_or_not_found svc i = bindE (store_get svc i) (ok_or (SvcText ''Sandbox not found''))"

definition get_deleted_or_not_found :: "('s, 'b) SandboxService \<Rightarrow> uuid \<Rightarrow> ('s, 'b, Sandbox) svc" where
  "get_deleted_or_not_found svc i =
     bindE (store_get_with_deleted svc i True) (ok_or (SvcText ''Sandbox not found''))"

section \<open>The activity log\<close>

text \<open>\<open>ActivityStore::record_activity\<close>: one \<open>INSERT\<close>; a failing statement leaves the table alone.\<close>

definition db_statement :: "(('s, 'b) world, string, unit) prog" where
  "db_statement w =
     ((if w_db_up w (w_db_calls w) then Inr () else Inl ''database error''),
      w\<lparr>w_db_calls := Suc (w_db_calls w)\<rparr>)"

definition activity_store_record :: "SandboxActivity \<Rightarrow> (('s, 'b) world, string, unit) prog" where
  "activity_store_record a =
     bindE db_statement (\<lambda>_. modify (w_activities_update (\<lambda>l. l @ [a])))"

definition activity_service_record ::
  "uuid \<Rightarrow> ActivityType \<Rightarrow> json \<Rightarrow> (('s, 'b) world, string, SandboxActivity) prog" where
  "activity_service_record sid ty details =
     bindE new_v4 (\<lambda>aid. bindE utc_now (\<lambda>now.
       let a = \<lparr>act_id = aid, act_sandbox_id = sid, act_activity_type = ty,
                act_timestamp = now, act_details = details, act_sandbox_is_deleted = False\<rparr>
       in bindE (activity_store_record a) (\<lambda>_. ret a)))"

definition record_activity_async ::
  "uuid \<Rightarrow> ActivityType \<Rightarrow> json \<Rightarrow> (('s, 'b) world, 'e, unit) prog" where
  "record_activity_async sid ty details =
     bindE (attempt (activity_service_record sid ty details)) (\<lambda>_. ret ())"

definition record_activity ::
  "('s, 'b) SandboxService \<Rightarrow> uuid \<Rightarrow> ActivityType \<Rightarrow> json \<Rightarrow> ('s, 'b, unit) svc" where
  "record_activity svc sid ty details =
     (if svc_activity_service svc then record_activity_async sid ty details else ret ())"

definition mark_sandbox_activities_deleted ::
  "uuid \<Rightarrow> (('s, 'b) world, string, nat) prog" where
  "mark_sandbox_activities_deleted sid =
     bindE db_statement (\<lambda>_.
     bindE (modify (w_activities_update (map (\<lambda>a.
       if act_sandbox_id a = sid then a\<lparr>act_sandbox_is_deleted := True\<rparr> else a)))) (\<lambda>_.
     gets (\<lambda>w. length (filter (\<lambda>a. act_sandbox_id a = sid) (w_activities w)))))"

section \<open>Construction and configuration\<close>

definition default_tool_timeouts :: ToolTimeoutConfig where
  "default_tool_timeouts =
     \<lparr>tt_default_secs = 60, tt_web_tools_secs = 90, tt_browser_tools_secs = 120,
      tt_databend_tools_secs = 60, tt_http_buffer_secs = 30, tt_max_allowed_secs = 300\<rparr>"

definition default_resource_limits :: DefaultResourceLimits where
  "default_resource_limits =
     \<lparr>drl_memory_mb = None, drl_cpu_quota = None, drl_cpu_period = None, drl_cpu_shares = None,
      drl_pids_limit = None, drl_ulimits = None\<rparr>"

definition service_new ::
  "'b SandboxManager \<Rightarrow> 's StateStoreTrait \<Rightarrow> ('s, 'b) SandboxService" where
  "service_new backend state =
     \<lparr>svc_backend = backend, svc_state = state, svc_activity_service = False,
      svc_default_inactivity_timeout = 30, svc_cleanup_dry_run = False,
      svc_state_monitor_interval = 60, svc_deleted_sandbox_retention_days = 15,
      svc_default_sandbox_image = ''dsb/sandbox:latest'', svc_authentication_required = True,
      svc_max_file_size_bytes = 10 * 1024 * 1024, svc_tool_timeouts = default_tool_timeouts,
      svc_default_resource_limits = default_resource_limits, svc_max_browser_tabs = 20\<rparr>"

definition service_new_with_activity ::
  "'b SandboxManager \<Rightarrow> 's StateStoreTrait \<Rightarrow> ('s, 'b) SandboxService" where
  "service_new_with_activity backend state =
     \<lparr>svc_backend = backend, svc_state = state, svc_activity_service = True,
      svc_default_inactivity_timeout = 30, svc_cleanup_dry_run = False,
      svc_state_monitor_interval = 60, svc_deleted_sandbox_retention_days = 15,
      svc_default_sandbox_image = ''dsb/sandbox:latest'', svc_authentication_required = True,
      svc_max_file_size_bytes = 10 * 1024 * 1024, svc_tool_timeouts = default_tool_timeouts,
      svc_default_resource_limits = default_resource_limits, svc_max_browser_tabs = 20\<rparr>"

definition with_cleanup_config ::
  "('s, 'b) SandboxService \<Rightarrow> u64 \<Rightarrow> bool \<Rightarrow> u64 \<Rightarrow> u64 \<Rightarrow> ('s, 'b) SandboxService" where
  "with_cleanup_config svc timeout dry_run interval days =
     svc\<lparr>svc_default_inactivity_timeout := timeout, svc_cleanup_dry_run := dry_run,
         svc_state_monitor_interval := interval, svc_deleted_sandbox_retention_days := days\<rparr>"

definition with_frontend_config ::
  "('s, 'b) SandboxService \<Rightarrow> string \<Rightarrow> bool \<Rightarrow> ('s, 'b) SandboxService" where
  "with_frontend_config svc img auth =
     svc\<lparr>svc_default_sandbox_image := img, svc_authentication_required := auth\<rparr>"

definition with_file_upload_config ::
  "('s, 'b) SandboxService \<Rightarrow> u64 \<Rightarrow> ('s, 'b) SandboxService" where
  "with_file_upload_config svc n = svc\<lparr>svc_max_file_size_bytes := n\<rparr>"

definition with_resource_limits ::
  "('s, 'b) SandboxService \<Rightarrow> DefaultResourceLimits \<Rightarrow> ('s, 'b) SandboxService" where
  "with_resource_limits svc l = svc\<lparr>svc_default_resource_limits := l\<rparr>"

definition with_max_browser_tabs ::
  "('s, 'b) SandboxService \<Rightarrow> u32 \<Rightarrow> ('s, 'b) SandboxService" where
  "with_max_browser_tabs svc n = svc\<lparr>svc_max_browser_tabs := n\<rparr>"

definition opt_or :: "'a option \<Rightarrow> 'a option \<Rightarrow> 'a option" where
  "opt_or a b = (case a of Some x \<Rightarrow> Some x | None \<Rightarrow> b)"

definition merge_resource_limits ::
  "('s, 'b) SandboxService \<Rightarrow> ResourceLimits \<Rightarrow> ResourceLimits" where
  "merge_resource_limits svc r =
     (let d = svc_default_resource_limits svc;
          merged_ulimits =
            (if rl_ulimits r \<noteq> None then rl_ulimits r
             else map_option
               (map (\<lambda>u. \<lparr>ul_name = dul_name u, ul_soft = dul_soft u, ul_hard = dul_hard u\<rparr>))
               (drl_ulimits d))
      in \<lparr>rl_memory_mb = opt_or (rl_memory_mb r) (drl_memory_mb d),
          rl_cpu_quota = opt_or (rl_cpu_quota r) (drl_cpu_quota d),
          rl_cpu_period = opt_or (rl_cpu_period r) (drl_cpu_period d),
          rl_cpu_shares = opt_or (rl_cpu_shares r) (drl_cpu_shares d),
          rl_pids_limit = opt_or (rl_pids_limit r) (drl_pids_limit d),
          rl_ulimits = merged_ulimits\<rparr>)"

section \<open>Ownership\<close>

definition is_privileged_key :: "ApiKeyIdentity \<Rightarrow> bool" where
  "is_privileged_key ident = (ident_key_type ident = Privileged)"

definition check_sandbox_ownership_with_deleted ::
  "('s, 'b) SandboxService \<Rightarrow> ApiKeyIdentity \<Rightarrow> uuid \<Rightarrow> bool \<Rightarrow> (('s, 'b) world, ApiError, unit) prog" where
  "check_sandbox_ownership_with_deleted svc ident sid include_deleted =
     (if is_privileged_key ident then ret ()
      else bindE (uuid_text sid) (\<lambda>sid_text.
        case ident_id ident of
          None \<Rightarrow> throw (ApiSandboxNotFound sid_text)
        | Some key \<Rightarrow>
            bindE (read_store
              (ss_get_sandbox_with_deleted_if_owned_by (svc_state svc) sid key include_deleted))
              (\<lambda>r. case r of
                 Some _ \<Rightarrow> ret ()
               | None \<Rightarrow>
                   bindE (read_store (ss_get_sandbox_with_deleted (svc_state svc) sid include_deleted))
                     (\<lambda>_. throw (ApiSandboxNotFound sid_text)))))"

definition check_sandbox_ownership ::
  "('s, 'b) SandboxService \<Rightarrow> ApiKeyIdentity \<Rightarrow> uuid \<Rightarrow> (('s, 'b) world, ApiError, unit) prog" where
  "check_sandbox_ownership svc ident sid =
     check_sandbox_ownership_with_deleted svc ident sid False"

section \<open>Queries\<close>

definition svc_get_sandbox :: "('s, 'b) SandboxService \<Rightarrow> uuid \<Rightarrow> ('s, 'b, Sandbox option) svc" where
  "svc_get_sandbox svc i = store_get svc i"

definition svc_get_sandbox_with_deleted ::
  "('s, 'b) SandboxService \<Rightarrow> uuid \<Rightarrow> bool \<Rightarrow> ('s, 'b, Sandbox option) svc" where
  "svc_get_sandbox_with_deleted svc i d = store_get_with_deleted svc i d"

definition svc_list_sandboxes :: "('s, 'b) SandboxService \<Rightarrow> ('s, 'b, Sandbox list) svc" where
  "svc_list_sandboxes svc = store_list svc"

definition svc_list_sandboxes_owned_by ::
  "('s, 'b) SandboxService \<Rightarrow> uuid \<Rightarrow> bool \<Rightarrow> ('s, 'b, Sandbox list) svc" where
  "svc_list_sandboxes_owned_by svc key d =
     read_store (ss_list_sandboxes_owned_by (svc_state svc) key d)"

section \<open>Waiting for the tool proxy\<close>

text \<open>
  The polling loop of \<open>wait_for_tool_health\<close>. The deadline test reads the elapsed time of
  a monotonic clock; \<open>elapsed i\<close> is its value, in nanoseconds, at test number \<open>i\<close>. A tick
  of the interval timer only passes time. Each iteration spends one unit of fuel and
  running out of fuel is \<open>None\<close>.
\<close>

definition health_ok :: "json \<Rightarrow> bool" where
  "health_ok response =
     (Option.bind (json_get response ''status'') json_as_str = Some ''healthy'')"

fun wait_health_loop ::
  "nat \<Rightarrow> ('s, 'b) SandboxService \<Rightarrow> string \<Rightarrow> nat \<Rightarrow> (nat \<Rightarrow> int) \<Rightarrow> nat \<Rightarrow> ('s, 'b) world \<Rightarrow>
   ((SvcError + unit) \<times> ('s, 'b) world) option" where
  "wait_health_loop 0 svc cid timeout elapsed i w = None"
| "wait_health_loop (Suc fuel) svc cid timeout elapsed i w =
     (if int timeout * nanos_per_sec \<le> elapsed i
      then Some (Inl (SvcText (''Tool_proxy health check timed out after '' @
             show_nat timeout @ '' seconds'')), w)
      else (case on_backend
              (mgr_exec_http (svc_backend svc) cid ''/health'' ''GET'' None (Some 2)) w of
              (Inr response, v) \<Rightarrow>
                if health_ok response then Some (Inr (), v)
                else wait_health_loop fuel svc cid timeout elapsed (Suc i) v
            | (Inl _, v) \<Rightarrow> wait_health_loop fuel svc cid timeout elapsed (Suc i) v))"

definition wait_for_tool_health ::
  "nat \<Rightarrow> ('s, 'b) SandboxService \<Rightarrow> string \<Rightarrow> u64 option \<Rightarrow> (nat \<Rightarrow> int) \<Rightarrow> ('s, 'b) world \<Rightarrow>
   ((SvcError + unit) \<times> ('s, 'b) world) option" where
  "wait_for_tool_health fuel svc cid timeout_secs elapsed w =
     wait_health_loop fuel svc cid
       (case timeout_secs of None \<Rightarrow> 30 | Some t \<Rightarrow> unat t) elapsed 0 w"

section \<open>Weakest preconditions of the primitives\<close>

lemma wpE_utc_now [wp]:
  "wpE utc_now Q E w = Q (w_clock w (w_ticks w)) (w\<lparr>w_ticks := Suc (w_ticks w)\<rparr>)"
  by (simp add: wpE_def utc_now_def)

lemma wpE_new_v4 [wp]:
  "wpE new_v4 Q E w = Q (w_uuid_src w (w_uuids w)) (w\<lparr>w_uuids := Suc (w_uuids w)\<rparr>)"
  by (simp add: wpE_def new_v4_def)

lemma wpE_uuid_text [wp]: "wpE (uuid_text i) Q E w = Q (w_uuid_to_string w i) w"
  by (simp add: wpE_def uuid_text_def)

lemma wpE_on_backend [wp]:
  "wpE (on_backend m) Q E w =
     wpE m (\<lambda>a b. Q a (w\<lparr>w_backend := b\<rparr>)) (\<lambda>e b. E e (w\<lparr>w_backend := b\<rparr>)) (w_backend w)"
  by (simp add: wpE_def on_backend_def split: prod.splits sum.splits)

lemma wpE_on_store [wp]:
  "wpE (on_store m) Q E w =
     wpE m (\<lambda>a s. Q a (w\<lparr>w_store := s\<rparr>)) (\<lambda>e s. E e (w\<lparr>w_store := s\<rparr>)) (w_store w)"
  by (simp add: wpE_def on_store_def split: prod.splits sum.splits)

lemma wpE_read_store [wp]:
  "wpE (read_store f) Q E w = (case f (w_store w) of (r, s) \<Rightarrow> Q r (w\<lparr>w_store := s\<rparr>))"
  by (simp add: wpE_def read_store_def split: prod.splits)

lemma wpE_db_statement [wp]:
  "wpE db_statement Q E w =
     (let v = w\<lparr>w_db_calls := Suc (w_db_calls w)\<rparr>
      in if w_db_up w (w_db_calls w) then Q () v else E ''database error'' v)"
  by (simp add: wpE_def db_statement_def Let_def)

section \<open>A logic of invariants\<close>

text \<open>
  \<open>yields J m R\<close>: from every state with \<open>J\<close>, computation \<open>m\<close> ends in a state with \<open>J\<close>
  whether it returns or fails, and a returned value satisfies \<open>R\<close>.
\<close>

named_theorems yields_rules \<open>introduction rules of the invariant logic\<close>

definition yields :: "('w \<Rightarrow> bool) \<Rightarrow> ('w, 'e, 'a) prog \<Rightarrow> ('a \<Rightarrow> bool) \<Rightarrow> bool" where
  "yields J m R \<longleftrightarrow> (\<forall>w. J w \<longrightarrow> wpE m (\<lambda>a v. J v \<and> R a) (\<lambda>_. J) w)"

lemma yieldsI: "(\<And>w. J w \<Longrightarrow> wpE m (\<lambda>a v. J v \<and> R a) (\<lambda>_. J) w) \<Longrightarrow> yields J m R"
  by (simp add: yields_def)

lemma yieldsD: "yields J m R \<Longrightarrow> J w \<Longrightarrow> wpE m (\<lambda>a v. J v \<and> R a) (\<lambda>_. J) w"
  by (simp add: yields_def)

lemma yields_inv: "yields J m R \<Longrightarrow> J w \<Longrightarrow> m w = (r, v) \<Longrightarrow> J v"
  using yieldsD [of J m R w] by (cases r) (auto simp: wpE_def)

lemma yields_bind [yields_rules]:
  "yields J m R \<Longrightarrow> (\<And>a. R a \<Longrightarrow> yields J (f a) S) \<Longrightarrow> yields J (bindE m f) S"
  unfolding yields_def wpE_bindE by (blast intro: wpE_mono)

lemma yields_ret [yields_rules]: "R a \<Longrightarrow> yields J (ret a) R"
  by (simp add: yields_def wpE_ret)

lemma yields_throw [yields_rules]: "yields J (throw e) R"
  by (simp add: yields_def wpE_throw)

lemma yields_attempt [yields_rules]:
  "yields J m R \<Longrightarrow> yields J (attempt m) (\<lambda>r. \<forall>a. r = Inr a \<longrightarrow> R a)"
  unfolding yields_def wpE_attempt by (auto elim!: wpE_mono)

lemma yields_map_err [yields_rules]: "yields J m R \<Longrightarrow> yields J (map_err g m) R"
  by (simp add: yields_def wpE_map_err)

lemma yields_ok_or [yields_rules]: "(\<And>a. x = Some a \<Longrightarrow> R a) \<Longrightarrow> yields J (ok_or e x) R"
  by (simp add: yields_def wpE_ok_or split: option.splits)

lemma yields_if [yields_rules]:
  "(b \<Longrightarrow> yields J m R) \<Longrightarrow> (\<not> b \<Longrightarrow> yields J n R) \<Longrightarrow> yields J (if b then m else n) R"
  by simp

lemma yields_option [yields_rules]:
  "(x = None \<Longrightarrow> yields J m R) \<Longrightarrow> (\<And>a. x = Some a \<Longrightarrow> yields J (f a) R) \<Longrightarrow>
   yields J (case x of None \<Rightarrow> m | Some a \<Rightarrow> f a) R"
  by (cases x) simp_all

lemma yields_sum [yields_rules]:
  "(\<And>e. x = Inl e \<Longrightarrow> yields J (f e) R) \<Longrightarrow> (\<And>a. x = Inr a \<Longrightarrow> yields J (g a) R) \<Longrightarrow>
   yields J (case x of Inl e \<Rightarrow> f e | Inr a \<Rightarrow> g a) R"
  by (cases x) simp_all

lemma yields_weaken: "yields J m R \<Longrightarrow> (\<And>a. R a \<Longrightarrow> S a) \<Longrightarrow> yields J m S"
  unfolding yields_def by (blast intro: wpE_mono)

lemma yields_foldE:
  assumes "\<And>x a. x \<in> set xs \<Longrightarrow> R a \<Longrightarrow> yields J (f x a) R" and "R acc"
  shows "yields J (foldE f xs acc) R"
  using assms
  by (induction xs arbitrary: acc) (auto intro!: yields_ret yields_bind)

section \<open>The lifecycle invariant\<close>

text \<open>
  What the service keeps true of every stored sandbox: a deleted sandbox has no container
  and records who deleted it; a destroyed sandbox is deleted; a created, starting or running
  one has a container; one still being created has none; and no sandbox is ever left in the
  transitional state \<open>Destroying\<close>.
\<close>

definition sandbox_ok :: "Sandbox \<Rightarrow> bool" where
  "sandbox_ok sb \<longleftrightarrow>
     (sb_deleted_at sb \<noteq> None \<longrightarrow> sb_container_id sb = None) \<and>
     (sb_deleted_at sb \<noteq> None \<longleftrightarrow> sb_deleted_by sb \<noteq> None) \<and>
     (sb_state sb = Destroyed \<longrightarrow> sb_deleted_at sb \<noteq> None) \<and>
     (sb_state sb \<in> {Created, Starting, Running} \<longrightarrow> sb_container_id sb \<noteq> None) \<and>
     (sb_state sb = Creating \<longrightarrow> sb_container_id sb = None \<and> sb_deleted_at sb = None) \<and>
     sb_state sb \<noteq> Destroying"

lemma sandbox_ok_same_core: "same_core a b \<Longrightarrow> sandbox_ok a \<longleftrightarrow> sandbox_ok b"
  by (simp add: same_core_def sandbox_ok_def)

definition world_ok ::
  "('s \<Rightarrow> uuid \<rightharpoonup> Sandbox) \<Rightarrow> ('s \<Rightarrow> bool) \<Rightarrow> ('s, 'b) world \<Rightarrow> bool" where
  "world_ok contents invar w \<longleftrightarrow>
     invar (w_store w) \<and> (\<forall>i sb. contents (w_store w) i = Some sb \<longrightarrow> sandbox_ok sb)"

context state_store
begin

abbreviation wok :: "('s, 'b) world \<Rightarrow> bool" where
  "wok \<equiv> world_ok contents invar"

lemma wok_frame [simp]:
  "wok (w_ticks_update f w) = wok w" "wok (w_uuids_update f w) = wok w"
  "wok (w_db_calls_update f w) = wok w" "wok (w_backend_update g w) = wok w"
  "wok (w_activities_update h w) = wok w"
  by (simp_all add: world_ok_def)

lemma yields_utc_now [yields_rules]: "yields wok utc_now (\<lambda>_. True)"
  by (simp add: yields_def wpE_utc_now)

lemma yields_new_v4 [yields_rules]: "yields wok new_v4 (\<lambda>_. True)"
  by (simp add: yields_def wpE_new_v4)

lemma yields_uuid_text [yields_rules]: "yields wok (uuid_text i) (\<lambda>_. True)"
  by (simp add: yields_def wpE_uuid_text)

lemma yields_gets [yields_rules]: "yields wok (gets f) (\<lambda>_. True)"
  by (simp add: yields_def wpE_gets)

lemma yields_on_backend [yields_rules]: "yields wok (on_backend m) (\<lambda>_. True)"
  by (auto simp: yields_def on_backend_def wpE_def split: prod.splits sum.splits)

lemma yields_db_statement [yields_rules]: "yields wok db_statement (\<lambda>_. True)"
  by (simp add: yields_def wpE_db_statement)

lemma yields_record_activity_async [yields_rules]:
  "yields wok (record_activity_async i ty d) (\<lambda>_. True)"
  by (simp add: yields_def record_activity_async_def activity_service_record_def
      activity_store_record_def wp Let_def)

lemma yields_mark_deleted [yields_rules]:
  "yields wok (mark_sandbox_activities_deleted i) (\<lambda>_. True)"
  by (simp add: yields_def mark_sandbox_activities_deleted_def wp Let_def)

lemma yields_record_activity [yields_rules]:
  "yields wok (record_activity svc i ty d) (\<lambda>_. True)"
  unfolding record_activity_def by (intro yields_rules TrueI)

text \<open>Reads of a lawful store return sandboxes that satisfy the invariant; writes must.\<close>

lemma wok_same: "wok w \<Longrightarrow> invar s \<Longrightarrow> contents s = contents (w_store w) \<Longrightarrow>
    wok (w\<lparr>w_store := s\<rparr>)"
  by (simp add: world_ok_def)

lemma wok_invar: "wok w \<Longrightarrow> invar (w_store w)"
  by (simp add: world_ok_def)

lemma wok_sandbox: "wok w \<Longrightarrow> contents (w_store w) i = Some sb \<Longrightarrow> sandbox_ok sb \<and> sb_id sb = i"
  using key_law [of "w_store w" i sb] by (simp add: world_ok_def)

lemma wok_core: "wok w \<Longrightarrow> contents (w_store w) i = Some sb' \<Longrightarrow> same_core sb sb' \<Longrightarrow>
    sandbox_ok sb \<and> sb_id sb = i"
  using wok_sandbox [of w i sb'] sandbox_ok_same_core [of sb sb'] same_core_id [of sb sb'] by simp

lemma yields_read:
  assumes "\<And>(w :: ('s, 'b) world) r t. wok w \<Longrightarrow> f (w_store w) = (r, t) \<Longrightarrow>
      invar t \<and> contents t = contents (w_store w) \<and> R r"
  shows "yields (wok :: ('s, 'b) world \<Rightarrow> bool) (read_store f) R"
proof (rule yieldsI)
  fix w :: "('s, 'b) world"
  assume w: "wok w"
  obtain r t where e: "f (w_store w) = (r, t)" by (cases "f (w_store w)")
  from assms [OF w e] show "wpE (read_store f) (\<lambda>a v. wok v \<and> R a) (\<lambda>_. wok) w"
    by (simp add: wpE_read_store e wok_same [OF w])
qed

lemma yields_store_get [yields_rules]:
  "svc_state svc = st \<Longrightarrow>
   yields wok (store_get svc i) (\<lambda>r. \<forall>sb. r = Some sb \<longrightarrow> sandbox_ok sb \<and> sb_id sb = i)"
  unfolding store_get_def
proof (rule yields_read)
  fix w r t
  assume svc: "svc_state svc = st" and w: "wok w" and e: "ss_get_sandbox (svc_state svc) i (w_store w) = (r, t)"
  from get_law [OF wok_invar [OF w] e [unfolded svc]] wok_core [OF w]
  show "invar t \<and> contents t = contents (w_store w) \<and> (\<forall>sb. r = Some sb \<longrightarrow> sandbox_ok sb \<and> sb_id sb = i)"
    by blast
qed

lemma yields_store_get_with_deleted [yields_rules]:
  "svc_state svc = st \<Longrightarrow>
   yields wok (store_get_with_deleted svc i d)
     (\<lambda>r. \<forall>sb. r = Some sb \<longrightarrow> sandbox_ok sb \<and> sb_id sb = i)"
  unfolding store_get_with_deleted_def
proof (rule yields_read)
  fix w r t
  assume svc: "svc_state svc = st" and w: "wok w" and e: "ss_get_sandbox_with_deleted (svc_state svc) i d (w_store w) = (r, t)"
  from get_with_deleted_law [OF wok_invar [OF w] e [unfolded svc]] wok_core [OF w]
  show "invar t \<and> contents t = contents (w_store w) \<and> (\<forall>sb. r = Some sb \<longrightarrow> sandbox_ok sb \<and> sb_id sb = i)"
    by blast
qed

lemma yields_store_list [yields_rules]:
  assumes "svc_state svc = st"
  shows "yields wok (store_list svc) (\<lambda>l. \<forall>sb\<in>set l. sandbox_ok sb)"
  unfolding store_list_def assms
proof (rule yields_read)
  fix w l t
  assume w: "wok w" and l: "ss_list_sandboxes st (w_store w) = (l, t)"
  note law = list_law [OF wok_invar [OF w] l]
  have "sandbox_ok sb" if "sb \<in> set l" for sb
    using law that wok_sandbox [OF w] sandbox_ok_same_core by blast
  with law show "invar t \<and> contents t = contents (w_store w) \<and> (\<forall>sb\<in>set l. sandbox_ok sb)"
    by blast
qed

lemma wok_write:
  assumes "wok w" and "sandbox_ok sb" and "invar s"
    and "contents s = (contents (w_store w))(i \<mapsto> sb')" and "same_core sb sb'"
  shows "wok (w\<lparr>w_store := s\<rparr>)"
  using assms sandbox_ok_same_core [OF assms(5)] by (auto simp: world_ok_def)

lemma yields_store_update [yields_rules]:
  fixes svc :: "('s, 'b) SandboxService"
  assumes "svc_state svc = st" and "sandbox_ok sb"
  shows "yields wok (store_update svc sb) (\<lambda>_. True)"
proof (rule yieldsI)
  fix w :: "('s, 'b) world"
  assume w: "wok w"
  from update_law [OF wok_invar [OF w], of sb] show
    "wpE (store_update svc sb) (\<lambda>a v. wok v \<and> True) (\<lambda>_. wok) w"
    unfolding store_update_def wpE_map_err wpE_on_store assms(1)
    by (rule wpE_mono) (auto intro: wok_write [OF w assms(2)] wok_same [OF w])
qed

lemma yields_store_create [yields_rules]:
  fixes svc :: "('s, 'b) SandboxService"
  assumes "svc_state svc = st" and "sandbox_ok sb"
  shows "yields wok (store_create svc sb) (\<lambda>_. True)"
proof (rule yieldsI)
  fix w :: "('s, 'b) world"
  assume w: "wok w"
  from create_law [OF wok_invar [OF w], of sb] show
    "wpE (store_create svc sb) (\<lambda>a v. wok v \<and> True) (\<lambda>_. wok) w"
    unfolding store_create_def wpE_map_err wpE_on_store assms(1)
    by (rule wpE_mono) (auto intro: wok_write [OF w assms(2)] wok_same [OF w])
qed

lemma yields_get_or_not_found [yields_rules]:
  "svc_state svc = st \<Longrightarrow>
   yields wok (get_or_not_found svc i) (\<lambda>sb. sandbox_ok sb \<and> sb_id sb = i)"
  unfolding get_or_not_found_def
  by (rule yields_bind [OF yields_store_get]) (auto intro!: yields_ok_or)

lemma yields_get_deleted_or_not_found [yields_rules]:
  "svc_state svc = st \<Longrightarrow>
   yields wok (get_deleted_or_not_found svc i) (\<lambda>sb. sandbox_ok sb \<and> sb_id sb = i)"
  unfolding get_deleted_or_not_found_def
  by (rule yields_bind [OF yields_store_get_with_deleted]) (auto intro!: yields_ok_or)

text \<open>Tenant isolation over any lawful store: access is granted only to the owner.\<close>

lemma ownership_granted:
  assumes "svc_state svc = st" and "invar (w_store w)"
    and "check_sandbox_ownership_with_deleted svc ident sid d w = (Inr (), v)"
  shows "ident_key_type ident = Privileged \<or>
    (\<exists>key sb. ident_id ident = Some key \<and> contents (w_store w) sid = Some sb \<and>
       owned_visible key d sb)"
proof (cases "ident_key_type ident = Privileged")
  case False
  with assms obtain key r t where k: "ident_id ident = Some key"
    and e: "ss_get_sandbox_with_deleted_if_owned_by st sid key d (w_store w) = (Some r, t)"
    by (auto simp: check_sandbox_ownership_with_deleted_def is_privileged_key_def bindE_def
        uuid_text_def throw_def read_store_def split: option.splits prod.splits)
  from owned_law [OF assms(2) e] k show ?thesis
    by blast
qed simp

end

lemma ownership_denied_error:
  assumes "check_sandbox_ownership_with_deleted svc ident sid d w = (Inl e, v)"
  shows "e = ApiSandboxNotFound (w_uuid_to_string w sid)"
proof -
  have "wpE (check_sandbox_ownership_with_deleted svc ident sid d) (\<lambda>_ _. True)
    (\<lambda>e _. e = ApiSandboxNotFound (w_uuid_to_string w sid)) w"
    by (auto simp: check_sandbox_ownership_with_deleted_def is_privileged_key_def wp
        split: option.splits prod.splits)
  from wpE_errD [OF this assms] show ?thesis .
qed

section \<open>A concrete backend and world\<close>

text \<open>
  A small backend used by the concrete instances of the properties: its state lists the
  containers it has made and whether each runs; unknown containers are reported missing.
\<close>

type_synonym example_containers = "(string \<times> bool) list"

definition example_known :: "string \<Rightarrow> (example_containers \<Rightarrow> example_containers) \<Rightarrow>
    (example_containers, ManagerError, unit) prog" where
  "example_known c f b = (if map_of b c = None then (Inl (ME_NotFound c), b) else (Inr (), f b))"

definition example_backend :: "example_containers SandboxManager" where
  "example_backend =
     \<lparr>mgr_create = (\<lambda>i cfg b. let c = ''ctr0'' @ replicate (length b) (CHR ''x'')
        in (Inr c, b @ [(c, False)])),
      mgr_start = (\<lambda>c. example_known c (AList.update c True)),
      mgr_stop = (\<lambda>c. example_known c (AList.update c False)),
      mgr_delete = (\<lambda>c. example_known c (AList.delete c)),
      mgr_exec = (\<lambda>c cmd. ret []),
      mgr_stats = (\<lambda>c. throw (ME_NotSupported ''stats'')),
      mgr_is_running = (\<lambda>c b. case map_of b c of
         None \<Rightarrow> (Inl (ME_NotFound c), b) | Some r \<Rightarrow> (Inr r, b)),
      mgr_get_exit_info = (\<lambda>c. ret (0, False)),
      mgr_get_workdir = (\<lambda>c. ret ''/''),
      mgr_list = (\<lambda>a. ret []),
      mgr_remove_volume = (\<lambda>v. ret ()),
      mgr_get_image_features = (\<lambda>i. throw (ME_NotFound i)),
      mgr_pull_image = (\<lambda>i. ret ()),
      mgr_pull_image_with_progress = (\<lambda>i b. (([], Inr ()), b)),
      mgr_image_exists = (\<lambda>i. ret True),
      mgr_exec_http = (\<lambda>c p m body t. ret (JObject [(''status'', JString ''healthy'')])),
      mgr_exec_with_stdin_result = (\<lambda>c cmd i t. ret \<lparr>ecr_output = [], ecr_exit_code = 0\<rparr>),
      mgr_upload_archive = (\<lambda>c p d. ret ()),
      mgr_get_sandbox_k8s_status = (\<lambda>i. ret None)\<rparr>"

definition example_service :: "(mem_store, example_containers) SandboxService" where
  "example_service = service_new example_backend StateStore"

definition example_world :: "mem_store \<Rightarrow> example_containers \<Rightarrow> (mem_store, example_containers) world" where
  "example_world s b =
     \<lparr>w_store = s, w_backend = b, w_activities = [], w_ticks = 0, w_uuids = 0, w_db_calls = 0,
      w_clock = (\<lambda>n. int n * nanos_per_sec), w_uuid_src = (\<lambda>n. of_nat n + 100),
      w_db_up = (\<lambda>_. True), w_uuid_to_string = (\<lambda>i. show_nat (unat i)),
      w_parse_label = (\<lambda>_. Inl ''no label'')\<rparr>"

lemma example_service_state [simp]: "svc_state example_service = StateStore"
  by (simp add: example_service_def service_new_def)

lemma example_world_store [simp]: "w_store (example_world s b) = s"
  by (simp add: example_world_def)

section \<open>Termination of the health wait\<close>

text \<open>
  The interval timer fires at most once per 100 ms after its first, immediate tick, so the
  elapsed time at test \<open>i\<close> is at least \<open>i - 1\<close> periods: ten tests per second of the timeout,
  and two more, reach the deadline.
\<close>

definition timer_law :: "(nat \<Rightarrow> int) \<Rightarrow> bool" where
  "timer_law elapsed \<longleftrightarrow> (\<forall>i. (int i - 1) * 100000000 \<le> elapsed i)"

lemma wait_health_loop_terminates:
  assumes "timer_law elapsed" and "10 * timeout + 2 \<le> fuel + i" and "i \<le> 10 * timeout + 1"
  shows "\<exists>r v. wait_health_loop fuel svc cid timeout elapsed i w = Some (r, v)"
  using assms(2,3)
proof (induction fuel arbitrary: i w)
  case 0
  then show ?case by simp
next
  case (Suc fuel)
  have late: "int timeout * nanos_per_sec \<le> elapsed i" if "i = 10 * timeout + 1"
  proof -
    have "(int i - 1) * 100000000 \<le> elapsed i"
      using assms(1) by (simp add: timer_law_def)
    with that show ?thesis by (simp add: nanos_per_sec_def)
  qed
  show ?case
  proof (cases "i = 10 * timeout + 1")
    case True
    with late show ?thesis by simp
  next
    case False
    with Suc.prems have "10 * timeout + 2 \<le> fuel + Suc i" "Suc i \<le> 10 * timeout + 1" by simp_all
    note Suc.IH [OF this]
    then show ?thesis by (auto split: prod.splits sum.splits)
  qed
qed

lemma wait_health_loop_error:
  "wait_health_loop fuel svc cid timeout elapsed i w = Some (Inl e, v) \<Longrightarrow>
   e = SvcText (''Tool_proxy health check timed out after '' @ show_nat timeout @ '' seconds'')"
  by (induction fuel arbitrary: i w) (auto split: if_splits prod.splits sum.splits)

lemma wait_health_loop_store:
  "wait_health_loop fuel svc cid timeout elapsed i w = Some (r, v) \<Longrightarrow>
   \<exists>b. v = w\<lparr>w_backend := b\<rparr>"
proof (induction fuel arbitrary: i w)
  case (Suc fuel)
  obtain q b where q: "mgr_exec_http (svc_backend svc) cid ''/health'' ''GET'' None (Some 2)
      (w_backend w) = (q, b)"
    by (cases "mgr_exec_http (svc_backend svc) cid ''/health'' ''GET'' None (Some 2) (w_backend w)")
  from Suc.prems Suc.IH [of "Suc i" "w\<lparr>w_backend := b\<rparr>"] show ?case
    by (cases q) (auto simp: on_backend_def q split: if_splits intro: exI [of _ "w_backend w"])
qed simp

text \<open>
  Waiting for the tool proxy always ends: for every backend, with the timer's law and
  ten iterations per second of the timeout and two more, the wait returns; it either
  reports health or fails with the timeout message, and it changes nothing but the
  backend's state.
\<close>

theorem wait_for_tool_health_terminates:
  assumes "timer_law elapsed"
    and "timeout = (case timeout_secs of None \<Rightarrow> 30 | Some t \<Rightarrow> unat t)"
    and "10 * timeout + 2 \<le> fuel"
  shows "\<exists>r b. wait_for_tool_health fuel svc cid timeout_secs elapsed w = Some (r, w\<lparr>w_backend := b\<rparr>) \<and>
    (r = Inr () \<or> r = Inl (SvcText (''Tool_proxy health check timed out after '' @
       show_nat timeout @ '' seconds'')))"
proof -
  obtain r v where rv: "wait_health_loop fuel svc cid timeout elapsed 0 w = Some (r, v)"
    using wait_health_loop_terminates [OF assms(1), of timeout fuel 0 svc cid w] assms(3) by auto
  moreover obtain b where "v = w\<lparr>w_backend := b\<rparr>"
    using wait_health_loop_store [OF rv] by blast
  moreover have "r = Inr () \<or> r = Inl (SvcText (''Tool_proxy health check timed out after '' @
       show_nat timeout @ '' seconds''))"
    using wait_health_loop_error [of fuel svc cid timeout elapsed 0 w _ v] rv by (cases r) auto
  ultimately show ?thesis
    unfolding wait_for_tool_health_def assms(2) [symmetric] by blast
qed

theorem wait_for_tool_health_terminates_witness:
  "\<exists>r b. wait_for_tool_health 22 example_service ''ctr0'' (Some 2) (\<lambda>i. int i * 100000000)
      (example_world [] []) = Some (r, (example_world [] [])\<lparr>w_backend := b\<rparr>)"
proof -
  have "timer_law (\<lambda>i. int i * 100000000)"
    by (simp add: timer_law_def)
  from wait_for_tool_health_terminates [OF this, of 2 "Some 2" 22 example_service "''ctr0''"
      "example_world [] []"]
  show ?thesis by auto
qed

section \<open>Tenant isolation\<close>

context reliable_store
begin

lemma ownership_decision:
  assumes "svc_state svc = st" and "invar (w_store w)"
  shows "check_sandbox_ownership_with_deleted svc ident sid d w =
    (if ident_key_type ident = Privileged \<or>
        (\<exists>key sb. ident_id ident = Some key \<and> contents (w_store w) sid = Some sb \<and>
           owned_visible key d sb)
     then Inr () else Inl (ApiSandboxNotFound (w_uuid_to_string w sid)), w)"
  using assms
  by (auto simp: check_sandbox_ownership_with_deleted_def is_privileged_key_def bindE_def ret_def
      throw_def uuid_text_def read_store_def owned_complete get_with_deleted_complete
      split: option.splits)

end

text \<open>
  C8. Tenant isolation: over the in-memory store the ownership check grants access exactly to
  privileged callers and to the key that owns the (visible) sandbox; every other caller gets
  the same not-found error whether the sandbox is absent or belongs to someone else, and the
  check changes nothing.
\<close>

theorem tenant_isolation:
  assumes "svc_state svc = StateStore" and "mem_invar (w_store w)"
  shows "check_sandbox_ownership_with_deleted svc ident sid d w =
    (if ident_key_type ident = Privileged \<or>
        (\<exists>key sb. ident_id ident = Some key \<and> map_of (w_store w) sid = Some sb \<and>
           sb_api_key_id sb = Some key \<and> (d \<or> sb_deleted_at sb = None))
     then Inr () else Inl (ApiSandboxNotFound (w_uuid_to_string w sid)), w)"
  using mem.ownership_decision [OF assms] by (simp add: owned_visible_def)

theorem tenant_isolation_witness:
  "fst (check_sandbox_ownership_with_deleted example_service
      \<lparr>ident_id = Some 5, ident_key_type = Database\<rparr> 7 False
      (example_world [(7, (example_sandbox 7 Running (Some ''ctr0''))\<lparr>sb_api_key_id := Some 6\<rparr>)] [])) =
   Inl (ApiSandboxNotFound (w_uuid_to_string (example_world [] []) 7))"
proof -
  let ?s = "[(7 :: uuid, (example_sandbox 7 Running (Some ''ctr0''))\<lparr>sb_api_key_id := Some 6\<rparr>)]"
  have "mem_invar ?s" by (simp add: mem_invar_def example_sandbox_def)
  then show ?thesis
    using tenant_isolation [of example_service "example_world ?s []"
      "\<lparr>ident_id = Some 5, ident_key_type = Database\<rparr>" 7 False]
    by (simp add: example_world_def)
qed

section \<open>Merging resource limits\<close>

text \<open>
  Resource limits: every limit the request sets is kept, every limit it leaves open
  takes the configured default, so a limit is absent only when both leave it open; and
  merging twice is merging once.
\<close>

theorem merge_resource_limits_precedence:
  "rl_memory_mb (merge_resource_limits svc r) =
     opt_or (rl_memory_mb r) (drl_memory_mb (svc_default_resource_limits svc)) \<and>
   rl_ulimits (merge_resource_limits svc r) =
     (if rl_ulimits r \<noteq> None then rl_ulimits r
      else map_option (map (\<lambda>u. \<lparr>ul_name = dul_name u, ul_soft = dul_soft u, ul_hard = dul_hard u\<rparr>))
        (drl_ulimits (svc_default_resource_limits svc))) \<and>
   (rl_pids_limit (merge_resource_limits svc r) = None \<longleftrightarrow>
      rl_pids_limit r = None \<and> drl_pids_limit (svc_default_resource_limits svc) = None) \<and>
   merge_resource_limits svc (merge_resource_limits svc r) = merge_resource_limits svc r"
  by (auto simp: merge_resource_limits_def Let_def opt_or_def split: option.splits)

end
