(* ===== verification/Lifecycle.thy ===== *)
theory Lifecycle
  imports Service
begin

text \<open>
  The lifecycle operations of the service on an existing sandbox: stop, start and delete
  (\<open>src/src/core/sandbox/lifecycle.rs\<close>); cleanup, restore with its rollback, and shutdown
  (\<open>src/src/core/sandbox/cleanup.rs\<close>); activity timestamps and statistics
  (\<open>src/src/core/sandbox/activity.rs\<close>). Each is shown to keep the lifecycle invariant over
  any lawful store, and its outcome is characterised over a store without I/O.
\<close>

section \<open>Operations\<close>

fun tolerated_stop_error :: "ManagerError \<Rightarrow> bool" where
  "tolerated_stop_error (ME_Api m) = str_contains m ''404''"
| "tolerated_stop_error _ = False"

definition stop_sandbox :: "('s, 'b) SandboxService \<Rightarrow> uuid \<Rightarrow> ('s, 'b, unit) svc" where
  "stop_sandbox svc i =
     bindE (get_or_not_found svc i) (\<lambda>sandbox.
     bindE (case sb_container_id sandbox of
              None \<Rightarrow> ret ()
            | Some cid \<Rightarrow>
                bindE (attempt (on_backend (mgr_stop (svc_backend svc) cid))) (\<lambda>r. case r of
                  Inl e \<Rightarrow> if tolerated_stop_error e then ret () else throw (SvcManager e)
                | Inr _ \<Rightarrow> ret ())) (\<lambda>_.
     bindE utc_now (\<lambda>now.
     bindE (store_update svc (sandbox\<lparr>sb_state := Stopped, sb_updated_at := now\<rparr>)) (\<lambda>_.
     record_activity svc i ActStop (JObject [])))))"

definition start_sandbox :: "('s, 'b) SandboxService \<Rightarrow> uuid \<Rightarrow> ('s, 'b, unit) svc" where
  "start_sandbox svc i =
     bindE (get_or_not_found svc i) (\<lambda>sandbox.
     bindE (case sb_container_id sandbox of
              Some cid \<Rightarrow> map_err SvcManager (on_backend (mgr_start (svc_backend svc) cid))
            | None \<Rightarrow> throw (SvcText ''Sandbox has no container assigned'')) (\<lambda>_.
     bindE utc_now (\<lambda>now.
     bindE (store_update svc (sandbox\<lparr>sb_state := Running, sb_updated_at := now\<rparr>)) (\<lambda>_.
     record_activity svc i ActStart (JObject [])))))"

definition delete_container ::
  "('s, 'b) SandboxService \<Rightarrow> string option \<Rightarrow> ('s, 'b, unit) svc" where
  "delete_container svc container =
     (case container of
        None \<Rightarrow> ret ()
      | Some cid \<Rightarrow> map_err SvcManager (on_backend (mgr_delete (svc_backend svc) cid)))"

definition delete_sandbox :: "('s, 'b) SandboxService \<Rightarrow> uuid \<Rightarrow> ('s, 'b, unit) svc" where
  "delete_sandbox svc i =
     bindE (get_deleted_or_not_found svc i) (\<lambda>sandbox.
     bindE (delete_container svc (sb_container_id sandbox)) (\<lambda>_.
     bindE (record_activity svc i ActDelete (JObject [])) (\<lambda>_.
     bindE utc_now (\<lambda>deleted.
     bindE utc_now (\<lambda>now.
     bindE (store_update svc (sandbox\<lparr>sb_deleted_at := Some deleted, sb_deleted_by := Some ''system'',
              sb_state := Destroyed, sb_updated_at := now, sb_container_id := None\<rparr>)) (\<lambda>_.
     if svc_activity_service svc
     then bindE (attempt (mark_sandbox_activities_deleted i)) (\<lambda>_. ret ())
     else ret ()))))))"

definition remove_named_volume ::
  "('s, 'b) SandboxService \<Rightarrow> VolumeMount \<Rightarrow> unit \<Rightarrow> ('s, 'b, unit) svc" where
  "remove_named_volume svc v u =
     (case v of
        Named name path ro \<Rightarrow>
          bindE (attempt (on_backend (mgr_remove_volume (svc_backend svc) name))) (\<lambda>_. ret ())
      | Bind host path ro \<Rightarrow> ret ())"

definition cleanup_sandbox :: "('s, 'b) SandboxService \<Rightarrow> uuid \<Rightarrow> ('s, 'b, unit) svc" where
  "cleanup_sandbox svc i =
     bindE (get_deleted_or_not_found svc i) (\<lambda>sandbox.
     bindE (delete_container svc (sb_container_id sandbox)) (\<lambda>_.
     bindE (foldE (remove_named_volume svc) (sb_volume_mounts sandbox) ()) (\<lambda>_.
     bindE (store_get_with_deleted svc i True) (\<lambda>again. case again of
       None \<Rightarrow> ret ()
     | Some sandbox' \<Rightarrow>
         bindE utc_now (\<lambda>deleted.
         bindE utc_now (\<lambda>now.
         store_update svc (sandbox'\<lparr>sb_deleted_at := Some deleted,
           sb_deleted_by := Some ''auto-cleanup'', sb_state := Destroyed, sb_updated_at := now,
           sb_container_id := None\<rparr>)))))))"

definition create_container_for_sandbox ::
  "('s, 'b) SandboxService \<Rightarrow> Sandbox \<Rightarrow> ('s, 'b, string) svc" where
  "create_container_for_sandbox svc sandbox =
     bindE (case cfg_pull_policy (sb_config sandbox) of
              Always \<Rightarrow> map_err SvcManager
                (on_backend (mgr_pull_image (svc_backend svc) (cfg_image (sb_config sandbox))))
            | Missing \<Rightarrow> bindE (attempt
                (on_backend (mgr_pull_image (svc_backend svc) (cfg_image (sb_config sandbox)))))
                (\<lambda>_. ret ())
            | Never \<Rightarrow> ret ()) (\<lambda>_.
     map_err SvcManager
       (on_backend (mgr_create (svc_backend svc) (Some (sb_id sandbox)) (sb_config sandbox))))"

definition restore_sandbox :: "('s, 'b) SandboxService \<Rightarrow> uuid \<Rightarrow> ('s, 'b, unit) svc" where
  "restore_sandbox svc i =
     bindE (get_deleted_or_not_found svc i) (\<lambda>sandbox.
     if sb_deleted_at sandbox = None
     then throw (SvcText ''Sandbox is not deleted and cannot be restored'')
     else
       bindE (create_container_for_sandbox svc sandbox) (\<lambda>cid.
       bindE utc_now (\<lambda>now.
       let sandbox1 = sandbox\<lparr>sb_container_id := Some cid, sb_deleted_at := None,
                        sb_deleted_by := None, sb_state := Created, sb_updated_at := now\<rparr> in
       bindE (store_update svc sandbox1) (\<lambda>_.
       bindE (attempt (on_backend (mgr_start (svc_backend svc) cid))) (\<lambda>r. case r of
         Inr _ \<Rightarrow>
           bindE utc_now (\<lambda>now1.
           bindE utc_now (\<lambda>now2.
           bindE (store_update svc (sandbox1\<lparr>sb_state := Running, sb_updated_at := now1,
               sb_activity := (sb_activity sandbox1)\<lparr>at_last_api_activity := now2,
                 at_activity_count := at_activity_count (sb_activity sandbox1) + 1\<rparr>\<rparr>)) (\<lambda>_.
           record_activity svc i ActRestore (JObject []))))
       | Inl e \<Rightarrow>
           bindE utc_now (\<lambda>deleted.
           bindE (attempt (store_update svc (sandbox1\<lparr>sb_container_id := None,
               sb_deleted_at := Some deleted, sb_deleted_by := Some ''system'',
               sb_state := Error\<rparr>))) (\<lambda>_.
           throw (SvcManager e))))))))"

definition shutdown_cleanup_sandbox :: "('s, 'b) SandboxService \<Rightarrow> uuid \<Rightarrow> ('s, 'b, unit) svc" where
  "shutdown_cleanup_sandbox svc i =
     bindE (get_or_not_found svc i) (\<lambda>sandbox.
     bindE (delete_container svc (sb_container_id sandbox)) (\<lambda>_.
     bindE utc_now (\<lambda>now.
     bindE (store_update svc (sandbox\<lparr>sb_state := Stopped, sb_updated_at := now\<rparr>)) (\<lambda>_.
     record_activity svc i ActStop (JObject [])))))"

section \<open>Activity timestamps and statistics\<close>

definition record_api_activity :: "('s, 'b) SandboxService \<Rightarrow> uuid \<Rightarrow> ('s, 'b, unit) svc" where
  "record_api_activity svc i =
     bindE (store_get svc i) (\<lambda>found. case found of
       None \<Rightarrow> ret ()
     | Some sandbox \<Rightarrow>
         bindE utc_now (\<lambda>now. bindE utc_now (\<lambda>now1.
         bindE (attempt (store_update svc (sandbox\<lparr>sb_activity :=
             (sb_activity sandbox)\<lparr>at_last_api_activity := now,
               at_activity_count := at_activity_count (sb_activity sandbox) + 1\<rparr>,
             sb_updated_at := now1\<rparr>))) (\<lambda>_. ret ()))))"

definition update_container_activity :: "('s, 'b) SandboxService \<Rightarrow> uuid \<Rightarrow> ('s, 'b, unit) svc" where
  "update_container_activity svc i =
     bindE (store_get svc i) (\<lambda>found. case found of
       None \<Rightarrow> ret ()
     | Some sandbox \<Rightarrow>
         bindE utc_now (\<lambda>now. bindE utc_now (\<lambda>now1.
         bindE (attempt (store_update svc (sandbox\<lparr>sb_activity :=
             (sb_activity sandbox)\<lparr>at_last_container_activity := Some now\<rparr>,
             sb_updated_at := now1\<rparr>))) (\<lambda>_. ret ()))))"

definition get_sandbox_stats :: "('s, 'b) SandboxService \<Rightarrow> uuid \<Rightarrow> ('s, 'b, ContainerStats) svc" where
  "get_sandbox_stats svc i =
     bindE (get_or_not_found svc i) (\<lambda>sandbox.
     bindE (ok_or (SvcText ''Container not created'') (sb_container_id sandbox)) (\<lambda>cid.
     map_err SvcManager (on_backend (mgr_stats (svc_backend svc) cid))))"

text \<open>
  The streaming variant checks the sandbox and then samples in a background task until a
  sample fails or the receiver is gone: \<open>n\<close> is the number of samples the receiver accepts.
\<close>

primrec stats_stream_task ::
  "nat \<Rightarrow> ('s, 'b) SandboxService \<Rightarrow> string \<Rightarrow> ContainerStats list \<Rightarrow> ('s, 'b, ContainerStats list) svc" where
  "stats_stream_task 0 svc cid sent =
     bindE (attempt (on_backend (mgr_stats (svc_backend svc) cid))) (\<lambda>_. ret sent)"
| "stats_stream_task (Suc n) svc cid sent =
     bindE (attempt (on_backend (mgr_stats (svc_backend svc) cid))) (\<lambda>r. case r of
       Inl _ \<Rightarrow> ret sent
     | Inr s \<Rightarrow> stats_stream_task n svc cid (sent @ [s]))"

definition stream_sandbox_stats ::
  "nat \<Rightarrow> ('s, 'b) SandboxService \<Rightarrow> uuid \<Rightarrow> ('s, 'b, ContainerStats list) svc" where
  "stream_sandbox_stats n svc i =
     bindE (get_or_not_found svc i) (\<lambda>sandbox.
     if sb_state sandbox \<noteq> Running then throw (SvcText ''Sandbox is not running'')
     else bindE (ok_or (SvcText ''Container not created'') (sb_container_id sandbox)) (\<lambda>cid.
       stats_stream_task n svc cid []))"

section \<open>Every operation keeps the invariant\<close>

lemma bind_guard:
  "bindE (case x of None \<Rightarrow> throw e | Some a \<Rightarrow> m a) f =
     (case x of None \<Rightarrow> throw e | Some a \<Rightarrow> bindE (m a) f)"
  by (auto simp: fun_eq_iff bindE_def throw_def split: option.splits)

lemma ok_updates:
  "sandbox_ok sb \<Longrightarrow> sandbox_ok (sb\<lparr>sb_state := Stopped, sb_updated_at := t\<rparr>)"
  "sandbox_ok sb \<Longrightarrow> sb_container_id sb = Some c \<Longrightarrow>
     sandbox_ok (sb\<lparr>sb_state := Running, sb_updated_at := t\<rparr>)"
  "sandbox_ok (sb\<lparr>sb_activity := a, sb_updated_at := t\<rparr>) = sandbox_ok sb"
  by (auto simp: sandbox_ok_def)

context state_store
begin

lemma yields_delete_container [yields_rules]: "yields wok (delete_container svc c) (\<lambda>_. True)"
  unfolding delete_container_def by (intro yields_rules TrueI)

lemma yields_remove_named_volume: "yields wok (remove_named_volume svc v u) (\<lambda>_. True)"
  unfolding remove_named_volume_def by (cases v) (auto intro!: yields_rules)

lemma yields_remove_volumes [yields_rules]:
  "yields wok (foldE (remove_named_volume svc) vs u) (\<lambda>_. True)"
  by (rule yields_foldE) (auto intro: yields_remove_named_volume)

lemma yields_create_container [yields_rules]:
  "yields wok (create_container_for_sandbox svc sb) (\<lambda>_. True)"
  unfolding create_container_for_sandbox_def
  by (cases "cfg_pull_policy (sb_config sb)") (auto intro!: yields_rules)

lemma yields_stop_sandbox [yields_rules]:
  "svc_state svc = st \<Longrightarrow> yields wok (stop_sandbox svc i) (\<lambda>_. True)"
  unfolding stop_sandbox_def Let_def bind_guard
  by (rule TrueI | rule yields_rules | assumption | simp add: ok_updates | simp add: sandbox_ok_def)+

lemma yields_start_sandbox [yields_rules]:
  "svc_state svc = st \<Longrightarrow> yields wok (start_sandbox svc i) (\<lambda>_. True)"
  unfolding start_sandbox_def Let_def bind_guard
  by (rule TrueI | rule yields_rules | assumption | simp add: ok_updates | simp add: sandbox_ok_def)+

lemma yields_delete_sandbox [yields_rules]:
  "svc_state svc = st \<Longrightarrow> yields wok (delete_sandbox svc i) (\<lambda>_. True)"
  unfolding delete_sandbox_def Let_def bind_guard
  by (rule TrueI | rule yields_rules | assumption | simp add: ok_updates | simp add: sandbox_ok_def)+

lemma yields_cleanup_sandbox [yields_rules]:
  "svc_state svc = st \<Longrightarrow> yields wok (cleanup_sandbox svc i) (\<lambda>_. True)"
  unfolding cleanup_sandbox_def Let_def bind_guard
  by (rule TrueI | rule yields_rules | assumption | simp add: ok_updates | simp add: sandbox_ok_def)+

lemma yields_restore_sandbox [yields_rules]:
  "svc_state svc = st \<Longrightarrow> yields wok (restore_sandbox svc i) (\<lambda>_. True)"
  unfolding restore_sandbox_def Let_def bind_guard
  by (rule TrueI | rule yields_rules | assumption | simp add: ok_updates | simp add: sandbox_ok_def)+

lemma yields_shutdown_cleanup_sandbox [yields_rules]:
  "svc_state svc = st \<Longrightarrow> yields wok (shutdown_cleanup_sandbox svc i) (\<lambda>_. True)"
  unfolding shutdown_cleanup_sandbox_def Let_def bind_guard
  by (rule TrueI | rule yields_rules | assumption | simp add: ok_updates | simp add: sandbox_ok_def)+

lemma yields_record_api_activity [yields_rules]:
  "svc_state svc = st \<Longrightarrow> yields wok (record_api_activity svc i) (\<lambda>_. True)"
  unfolding record_api_activity_def Let_def bind_guard
  by (rule TrueI | rule yields_rules | assumption | simp add: ok_updates | simp add: sandbox_ok_def)+

lemma yields_update_container_activity [yields_rules]:
  "svc_state svc = st \<Longrightarrow> yields wok (update_container_activity svc i) (\<lambda>_. True)"
  unfolding update_container_activity_def Let_def bind_guard
  by (rule TrueI | rule yields_rules | assumption | simp add: ok_updates | simp add: sandbox_ok_def)+

lemma yields_stats_stream_task: "yields wok (stats_stream_task n svc cid l) (\<lambda>_. True)"
  by (induction n arbitrary: l) (auto intro!: yields_rules split: sum.split)

lemma yields_stream_sandbox_stats [yields_rules]:
  "svc_state svc = st \<Longrightarrow> yields wok (stream_sandbox_stats n svc i) (\<lambda>_. True)"
  unfolding stream_sandbox_stats_def
  by (rule TrueI | rule yields_stats_stream_task | rule yields_rules | assumption)+

lemma yields_get_sandbox_stats [yields_rules]:
  "svc_state svc = st \<Longrightarrow> yields wok (get_sandbox_stats svc i) (\<lambda>_. True)"
  unfolding get_sandbox_stats_def Let_def bind_guard
  by (rule TrueI | rule yields_rules | assumption | simp add: ok_updates | simp add: sandbox_ok_def)+

end

section \<open>Outcomes over a store without I/O\<close>

definition stop_ok :: "ManagerError + unit \<Rightarrow> bool" where
  "stop_ok r = (case r of Inr _ \<Rightarrow> True | Inl e \<Rightarrow> tolerated_stop_error e)"

lemma remove_volumes_frame:
  "\<exists>b'. foldE (remove_named_volume svc) vs () w = (Inr (), w\<lparr>w_backend := b'\<rparr>)"
proof (induction vs arbitrary: w)
  case Nil
  then show ?case by (auto simp: ret_def intro: exI [of _ "w_backend w"])
next
  case (Cons v vs)
  have "\<exists>b1. remove_named_volume svc v () w = (Inr (), w\<lparr>w_backend := b1\<rparr>)"
    by (cases v) (auto simp: remove_named_volume_def bindE_def attempt_def on_backend_def ret_def
        split: prod.splits intro: exI [of _ "w_backend w"])
  then obtain b1 where b1: "remove_named_volume svc v () w = (Inr (), w\<lparr>w_backend := b1\<rparr>)" ..
  obtain b2 where "foldE (remove_named_volume svc) vs () (w\<lparr>w_backend := b1\<rparr>) =
      (Inr (), w\<lparr>w_backend := b1\<rparr>\<lparr>w_backend := b2\<rparr>)"
    using Cons.IH [of "w\<lparr>w_backend := b1\<rparr>"] ..
  then show ?case by (auto simp: bindE_def b1)
qed

context reliable_store
begin

abbreviation put :: "'s \<Rightarrow> Sandbox \<Rightarrow> 's" where
  "put s sb \<equiv> snd (ss_update_sandbox st sb s)"

lemma put_simps:
  assumes "invar s"
  shows "contents (put s sb) = (contents s)(sb_id sb \<mapsto> sb)" "invar (put s sb)"
    "ss_update_sandbox st sb s = (Inr (), put s sb)"
  using update_exact [OF assms, of sb] by auto

lemma wpE_store_get_rel:
  assumes "svc_state svc = st" and "invar (w_store w)"
  shows "wpE (store_get svc i) Q E w = Q (contents (w_store w) i) w"
    and "wpE (store_get_with_deleted svc i d) Q E w = Q (contents (w_store w) i) w"
  using assms
  by (simp_all add: store_get_def store_get_with_deleted_def wp get_complete get_with_deleted_complete)

lemma wpE_store_update_rel:
  assumes "svc_state svc = st" and "invar (w_store w)"
  shows "wpE (store_update svc sb) Q E w = Q () (w\<lparr>w_store := put (w_store w) sb\<rparr>)"
proof -
  obtain t where t: "ss_update_sandbox st sb (w_store w) = (Inr (), t)"
    using put_simps(3) [OF assms(2)] by blast
  then show ?thesis by (simp add: store_update_def wp assms(1)) (simp add: wpE_def t)
qed

lemma wpE_get_or_not_found_rel:
  assumes "svc_state svc = st" and "invar (w_store w)" and "contents (w_store w) i = Some sb"
  shows "wpE (get_or_not_found svc i) Q E w = Q sb w"
    and "wpE (get_deleted_or_not_found svc i) Q E w = Q sb w"
  using assms by (simp_all add: get_or_not_found_def get_deleted_or_not_found_def wp wpE_store_get_rel)

lemmas rel_wp = wp wpE_store_get_rel wpE_store_update_rel wpE_get_or_not_found_rel

lemma wpE_record_activity_rel:
  assumes "\<And>w'. w_store w' = w_store w \<Longrightarrow> w_backend w' = w_backend w \<Longrightarrow>
      w_clock w' = w_clock w \<Longrightarrow> Q () w'"
  shows "wpE (record_activity svc i ty d) Q E w"
  using assms
  by (simp add: record_activity_def record_activity_async_def activity_service_record_def
      activity_store_record_def wp Let_def)

lemma stop_rel:
  assumes svc: "svc_state svc = st" and inv: "invar (w_store w)"
    and sb: "contents (w_store w) i = Some sb" "sb_container_id sb = Some c"
    and r: "mgr_stop (svc_backend svc) c (w_backend w) = (r, b)"
  shows "wpE (stop_sandbox svc i)
     (\<lambda>_ v. stop_ok r \<and> w_backend v = b \<and> contents (w_store v) = (contents (w_store w))
        (i \<mapsto> sb\<lparr>sb_state := Stopped, sb_updated_at := w_clock w (w_ticks w)\<rparr>))
     (\<lambda>e v. \<not> stop_ok r \<and> (\<exists>m. r = Inl m \<and> e = SvcManager m) \<and> w_backend v = b \<and>
        contents (w_store v) = contents (w_store w)) w"
  using key_law [OF inv sb(1)]
  by (cases r) (auto simp: stop_sandbox_def rel_wp stop_ok_def wpE_def [of "mgr_stop _ _"] r sb
      put_simps(1,2) svc inv intro!: wpE_record_activity_rel)

lemma start_rel:
  assumes svc: "svc_state svc = st" and inv: "invar (w_store w)"
    and sb: "contents (w_store w) i = Some sb" "sb_container_id sb = Some c"
    and r: "mgr_start (svc_backend svc) c (w_backend w) = (r, b)"
  shows "wpE (start_sandbox svc i)
     (\<lambda>_ v. r = Inr () \<and> w_backend v = b \<and> contents (w_store v) = (contents (w_store w))
        (i \<mapsto> sb\<lparr>sb_state := Running, sb_updated_at := w_clock w (w_ticks w)\<rparr>))
     (\<lambda>e v. (\<exists>m. r = Inl m \<and> e = SvcManager m) \<and> w_backend v = b \<and>
        contents (w_store v) = contents (w_store w)) w"
  using key_law [OF inv sb(1)]
  by (cases r) (auto simp: start_sandbox_def rel_wp wpE_def [of "mgr_start _ _"] r sb
      put_simps(1,2) svc inv intro!: wpE_record_activity_rel)

text \<open>Removing the container of a sandbox that may have none.\<close>

lemma wpE_delete_container:
  assumes "delete_container svc c w = (r, v)"
  shows "wpE (delete_container svc c) Q E w = (case r of Inl e \<Rightarrow> E e v | Inr a \<Rightarrow> Q a v)"
  by (simp add: wpE_def assms)

lemma delete_rel:
  assumes svc: "svc_state svc = st" and inv: "invar (w_store w)"
    and sb: "contents (w_store w) i = Some sb"
    and r: "delete_container svc (sb_container_id sb) w = (r, w\<lparr>w_backend := b\<rparr>)"
  shows "wpE (delete_sandbox svc i)
     (\<lambda>_ v. r = Inr () \<and> w_backend v = b \<and> (\<exists>d t. contents (w_store v) = (contents (w_store w))
        (i \<mapsto> sb\<lparr>sb_deleted_at := Some d, sb_deleted_by := Some ''system'', sb_state := Destroyed,
             sb_updated_at := t, sb_container_id := None\<rparr>)))
     (\<lambda>e v. r = Inl e \<and> w_backend v = b \<and> contents (w_store v) = contents (w_store w)) w"
proof (cases r)
  case (Inl e)
  then show ?thesis
    by (simp add: delete_sandbox_def rel_wp wpE_delete_container [OF r] sb svc inv)
next
  case (Inr u)
  then show ?thesis
    using key_law [OF inv sb]
    by (cases "svc_activity_service svc")
      (auto simp: delete_sandbox_def rel_wp wpE_delete_container [OF r] sb svc inv put_simps(1,2)
        mark_sandbox_activities_deleted_def Let_def intro!: wpE_record_activity_rel, blast+)
qed

text \<open>
  Cleanup removes the container first and stops if that fails; then it asks the backend to
  remove every named volume, in order, whatever each answer; then it writes the tombstone.
\<close>

lemma cleanup_rel:
  assumes svc: "svc_state svc = st" and inv: "invar (w_store w)"
    and sb: "contents (w_store w) i = Some sb"
    and r: "delete_container svc (sb_container_id sb) w = (r, w\<lparr>w_backend := b\<rparr>)"
    and v: "foldE (remove_named_volume svc) (sb_volume_mounts sb) () (w\<lparr>w_backend := b\<rparr>) =
      (Inr (), w\<lparr>w_backend := b'\<rparr>)"
  shows "wpE (cleanup_sandbox svc i)
     (\<lambda>_ v. r = Inr () \<and> w_backend v = b' \<and> (\<exists>d t. contents (w_store v) = (contents (w_store w))
        (i \<mapsto> sb\<lparr>sb_deleted_at := Some d, sb_deleted_by := Some ''auto-cleanup'', sb_state := Destroyed,
             sb_updated_at := t, sb_container_id := None\<rparr>)))
     (\<lambda>e v. r = Inl e \<and> v = w\<lparr>w_backend := b\<rparr>) w"
proof -
  have fold: "wpE (foldE (remove_named_volume svc) (sb_volume_mounts sb) ()) Q E (w\<lparr>w_backend := b\<rparr>) =
      Q () (w\<lparr>w_backend := b'\<rparr>)" for Q and E :: "SvcError \<Rightarrow> _"
    by (simp add: wpE_def v)
  show ?thesis
    using key_law [OF inv sb]
    by (cases r) (auto simp: cleanup_sandbox_def rel_wp wpE_delete_container [OF r] fold sb svc inv
        put_simps(1,2), blast?)
qed

lemma restore_rel:
  assumes svc: "svc_state svc = st" and inv: "invar (w_store w)"
    and sb: "contents (w_store w) i = Some sb" "sb_deleted_at sb \<noteq> None"
    and c: "create_container_for_sandbox svc sb w = (Inr c, w\<lparr>w_backend := b\<rparr>)"
    and r: "mgr_start (svc_backend svc) c b = (r, b')"
  shows "wpE (restore_sandbox svc i)
     (\<lambda>_ v. r = Inr () \<and> w_backend v = b' \<and> (\<exists>t a. contents (w_store v) = (contents (w_store w))
        (i \<mapsto> sb\<lparr>sb_container_id := Some c, sb_deleted_at := None, sb_deleted_by := None,
             sb_state := Running, sb_updated_at := t,
             sb_activity := (sb_activity sb)\<lparr>at_last_api_activity := a,
               at_activity_count := at_activity_count (sb_activity sb) + 1\<rparr>\<rparr>)))
     (\<lambda>e v. (\<exists>m. r = Inl m \<and> e = SvcManager m) \<and> w_backend v = b' \<and>
        (\<exists>d t. contents (w_store v) = (contents (w_store w))
        (i \<mapsto> sb\<lparr>sb_updated_at := t, sb_container_id := None, sb_deleted_at := Some d,
             sb_deleted_by := Some ''system'', sb_state := Error\<rparr>))) w"
proof -
  have create: "wpE (create_container_for_sandbox svc sb) Q E w = Q c (w\<lparr>w_backend := b\<rparr>)"
    for Q and E :: "SvcError \<Rightarrow> _"
    by (simp add: wpE_def c)
  show ?thesis
    using key_law [OF inv sb(1)]
    apply (cases r) 
    apply (simp add: restore_sandbox_def rel_wp create sb svc inv put_simps(1,2) Let_def
        wpE_def [of "mgr_start _ _"] r)
    apply blast
    apply (simp add: restore_sandbox_def rel_wp create sb svc inv put_simps(1,2) Let_def
        wpE_def [of "mgr_start _ _"] r)
    apply (rule wpE_record_activity_rel)
    apply simp
    apply (simp add: put_simps(1,2) inv)
    apply blast
    done
qed

end

section \<open>Properties\<close>

lemma delete_container_frame: "\<exists>r b. delete_container svc c w = (r, w\<lparr>w_backend := b\<rparr>)"
  by (cases c) (auto simp: delete_container_def ret_def map_err_def on_backend_def
      split: prod.splits sum.splits intro: exI [of _ "w_backend w"])



text \<open>
  Starting: a sandbox that has a container becomes \<open>Running\<close> exactly when the backend
  starts that container; otherwise the backend's error is returned and no record changes.
\<close>

theorem start_sandbox_outcome:
  assumes "svc_state svc = StateStore" and "mem_invar (w_store w)"
    and "map_of (w_store w) i = Some sb" and "sb_container_id sb = Some c"
    and "mgr_start (svc_backend svc) c (w_backend w) = (r, b)"
    and "start_sandbox svc i w = (res, v)"
  shows "w_backend v = b \<and> (case res of
      Inr _ \<Rightarrow> r = Inr () \<and> map_of (w_store v) = (map_of (w_store w))
        (i \<mapsto> sb\<lparr>sb_state := Running, sb_updated_at := w_clock w (w_ticks w)\<rparr>)
    | Inl e \<Rightarrow> (\<exists>m. r = Inl m \<and> e = SvcManager m) \<and> map_of (w_store v) = map_of (w_store w))"
  using mem.start_rel [OF assms(1-5)] assms(6) by (simp add: wpE_def split: sum.splits)

theorem start_sandbox_outcome_witness:
  "map_option sb_state (map_of (w_store (snd (start_sandbox example_service 7
      (example_world [(7, example_sandbox 7 Stopped (Some ''ctr0''))] [(''ctr0'', False)])))) 7) =
   Some Running"
proof -
  let ?w = "example_world [(7, example_sandbox 7 Stopped (Some ''ctr0''))] [(''ctr0'', False)]"
  obtain res v where e: "start_sandbox example_service 7 ?w = (res, v)"
    by (cases "start_sandbox example_service 7 ?w")
  have b: "mgr_start (svc_backend example_service) ''ctr0'' (w_backend ?w) = (Inr (), [(''ctr0'', True)])"
    by (simp add: example_service_def service_new_def example_backend_def example_known_def example_world_def)
  show ?thesis
    using start_sandbox_outcome [of example_service ?w 7 "example_sandbox 7 Stopped (Some ''ctr0'')" "''ctr0''", OF _ _ _ _ b e]
    by (cases res) (auto simp: e)
qed

text \<open>
  C5. Deleting: the container, if any, is removed first. If that fails the error is returned
  and every record stays as it was; if it succeeds exactly this record changes, to a
  \<open>Destroyed\<close> tombstone without container, marked as deleted by \<open>system\<close>.
\<close>

theorem delete_sandbox_outcome:
  assumes "svc_state svc = StateStore" and "mem_invar (w_store w)"
    and "map_of (w_store w) i = Some sb"
    and "delete_sandbox svc i w = (res, v)"
  shows "case res of
      Inr _ \<Rightarrow> delete_container svc (sb_container_id sb) w = (Inr (), w\<lparr>w_backend := w_backend v\<rparr>) \<and>
        (\<exists>d t. map_of (w_store v) = (map_of (w_store w))
          (i \<mapsto> sb\<lparr>sb_deleted_at := Some d, sb_deleted_by := Some ''system'', sb_state := Destroyed,
               sb_updated_at := t, sb_container_id := None\<rparr>))
    | Inl e \<Rightarrow> delete_container svc (sb_container_id sb) w = (Inl e, w\<lparr>w_backend := w_backend v\<rparr>) \<and>
        map_of (w_store v) = map_of (w_store w)"
proof -
  obtain r b where r: "delete_container svc (sb_container_id sb) w = (r, w\<lparr>w_backend := b\<rparr>)"
    using delete_container_frame [of svc "sb_container_id sb" w] by blast
  show ?thesis
    using mem.delete_rel [OF assms(1-3) r] assms(4) r by (auto simp: wpE_def split: sum.splits)
qed

theorem delete_sandbox_outcome_witness:
  "fst (delete_sandbox example_service 7
      (example_world [(7, example_sandbox 7 Running (Some ''ctr0''))] [])) =
   Inl (SvcManager (ME_NotFound ''ctr0''))"
proof -
  let ?w = "example_world [(7, example_sandbox 7 Running (Some ''ctr0''))] []"
  obtain res v where e: "delete_sandbox example_service 7 ?w = (res, v)"
    by (cases "delete_sandbox example_service 7 ?w")
  have c: "fst (delete_container example_service (Some ''ctr0'') ?w) =
      Inl (SvcManager (ME_NotFound ''ctr0''))"
    by (simp add: delete_container_def map_err_def on_backend_def example_service_def service_new_def
        example_backend_def example_known_def example_world_def)
  show ?thesis
    using delete_sandbox_outcome [of example_service ?w 7 "example_sandbox 7 Running (Some ''ctr0'')", OF _ _ _ e] c
    by (cases res) (auto simp: e)
qed




definition example_deleted :: Sandbox where
  "example_deleted = (example_sandbox 7 Destroyed None)\<lparr>sb_deleted_at := Some 3, sb_deleted_by := Some ''system''\<rparr>"

lemma example_deleted_simps [simp]:
  "sb_id example_deleted = 7" "sb_deleted_at example_deleted = Some 3"
  by (simp_all add: example_deleted_def)


text \<open>
  C38. Unknown sandboxes: every lifecycle operation on an identifier the store does not hold
  fails with the not-found error and changes nothing at all.
\<close>

theorem lifecycle_not_found:
  assumes "svc_state svc = StateStore" and "map_of (w_store w) i = None"
    and "f \<in> {stop_sandbox, start_sandbox, delete_sandbox, cleanup_sandbox, restore_sandbox,
      shutdown_cleanup_sandbox}"
  shows "f svc i w = (Inl (SvcText ''Sandbox not found''), w)"
  using assms
  by (auto simp: stop_sandbox_def start_sandbox_def delete_sandbox_def cleanup_sandbox_def
      restore_sandbox_def shutdown_cleanup_sandbox_def get_or_not_found_def get_deleted_or_not_found_def
      store_get_def store_get_with_deleted_def read_store_def StateStore_def mem_defs bindE_def
      ok_or_def throw_def)

theorem lifecycle_not_found_witness:
  "restore_sandbox example_service 7 (example_world [] []) =
     (Inl (SvcText ''Sandbox not found''), example_world [] [])"
  using lifecycle_not_found [of example_service "example_world [] []" 7 restore_sandbox] by simp

end
