(* ===== verification/Create.thy ===== *)
theory Create
  imports Lifecycle
begin

text \<open>
  Creating a sandbox (\<open>src/src/core/sandbox/create.rs\<close>): the synchronous path with its
  background health check, and the streaming path that reports progress events. Every
  failure after the record has been stored is written back as an \<open>Error\<close> record.
\<close>

section \<open>Parts shared by both paths\<close>

definition creating_record :: "uuid \<Rightarrow> SandboxConfig \<Rightarrow> ApiKeyIdentity option \<Rightarrow> time \<Rightarrow> Sandbox" where
  "creating_record i config identity now =
     \<lparr>sb_id = i, sb_config = config, sb_state = Creating, sb_container_id = None,
      sb_created_at = now, sb_updated_at = now, sb_error_message = None,
      sb_volume_mounts = cfg_volumes config,
      sb_activity = \<lparr>at_last_api_activity = now, at_last_container_activity = None,
        at_activity_count = 0\<rparr>,
      sb_inactivity_timeout_minutes = cfg_inactivity_timeout_minutes config,
      sb_deleted_at = None, sb_deleted_by = None,
      sb_api_key_id = Option.bind identity ident_id\<rparr>"

definition feature_selection_of :: "SandboxConfig \<Rightarrow> FeatureSelection" where
  "feature_selection_of config =
     \<lparr>sel_enabled = cfg_features config, sel_disabled = [],
      sel_enable_all = cfg_enable_all_features config\<rparr>"

definition needs_tool_proxy :: "SandboxConfig \<Rightarrow> bool" where
  "needs_tool_proxy config =
     (let is_supervisord_command = (case cfg_command config of
            None \<Rightarrow> False
          | Some cmd \<Rightarrow> list_ex (\<lambda>arg. str_contains arg ''supervisord'') cmd);
          has_custom_command = (cfg_command config \<noteq> None \<and> \<not> is_supervisord_command)
      in \<not> has_custom_command \<and>
         (cfg_enable_all_features config \<or>
          list_ex (\<lambda>f. f \<in> {''browser'', ''web'', ''databend'', ''vnc'', ''ssh''}) (cfg_features config)))"

definition apply_image_feature_profile ::
  "('s, 'b) SandboxService \<Rightarrow> uuid \<Rightarrow> SandboxConfig \<Rightarrow> FeatureSelection \<Rightarrow>
   (('s, 'b) world, 'e, SandboxConfig) prog" where
  "apply_image_feature_profile svc i config sel =
     bindE (attempt (on_backend (mgr_get_image_features (svc_backend svc) (cfg_image config)))) (\<lambda>r.
     case r of
       Inl _ \<Rightarrow> ret config
     | Inr details \<Rightarrow>
         (case Option.bind (img_labels details) (\<lambda>labels. map_of labels ''com.dsb.features'') of
            None \<Rightarrow> ret config
          | Some features_json \<Rightarrow>
              bindE (gets (\<lambda>w. w_parse_label w features_json)) (\<lambda>parsed. case parsed of
                Inl _ \<Rightarrow> ret config
              | Inr label \<Rightarrow>
                  bindE (uuid_text i) (\<lambda>i_text.
                    case apply_feature_profile config (build_feature_profile label sel) i_text of
                      Inl _ \<Rightarrow> ret config
                    | Inr config' \<Rightarrow> ret config'))))"

section \<open>The synchronous path\<close>

definition fail_with ::
  "('s, 'b) SandboxService \<Rightarrow> Sandbox \<Rightarrow> string \<Rightarrow> ManagerError \<Rightarrow> ('s, 'b, 'a) svc" where
  "fail_with svc sandbox what e =
     bindE utc_now (\<lambda>now.
     bindE (store_update svc (sandbox\<lparr>sb_state := Error,
              sb_error_message := Some (what @ manager_error_display e), sb_updated_at := now\<rparr>)) (\<lambda>_.
     throw (SvcManager e)))"

definition pull_for_create ::
  "('s, 'b) SandboxService \<Rightarrow> Sandbox \<Rightarrow> SandboxConfig \<Rightarrow> ('s, 'b, unit) svc" where
  "pull_for_create svc sandbox config =
     (let pull = bindE (attempt (on_backend (mgr_pull_image (svc_backend svc) (cfg_image config))))
            (\<lambda>r. case r of
               Inl e \<Rightarrow> fail_with svc sandbox ''Failed to pull image: '' e
             | Inr _ \<Rightarrow> ret ())
      in case cfg_pull_policy config of
           Always \<Rightarrow> pull
         | Missing \<Rightarrow>
             bindE (attempt (on_backend (mgr_image_exists (svc_backend svc) (cfg_image config)))) (\<lambda>r.
             case r of
               Inl e \<Rightarrow> fail_with svc sandbox ''Failed to check image existence: '' e
             | Inr found \<Rightarrow> if found then ret () else pull)
         | Never \<Rightarrow> ret ())"

definition inject_browser_tabs :: "('s, 'b) SandboxService \<Rightarrow> SandboxConfig \<Rightarrow> SandboxConfig" where
  "inject_browser_tabs svc config =
     (if ''browser'' \<in> set (cfg_features config)
      then config\<lparr>cfg_environment := hm_insert (cfg_environment config) ''MAX_BROWSER_TABS''
             (show_nat (unat (svc_max_browser_tabs svc)))\<rparr>
      else config)"

definition create_details :: "SandboxConfig \<Rightarrow> string \<Rightarrow> json" where
  "create_details config state =
     JObject [(''image'', JString (cfg_image config)),
              (''name'', case cfg_name config of None \<Rightarrow> JNull | Some n \<Rightarrow> JString n),
              (''state'', JString state)]"

definition launch_created ::
  "('s, 'b) SandboxService \<Rightarrow> Sandbox \<Rightarrow> SandboxConfig \<Rightarrow> ('s, 'b, Sandbox) svc" where
  "launch_created svc sandbox config =
     bindE (attempt (on_backend (mgr_create (svc_backend svc) (Some (sb_id sandbox)) config))) (\<lambda>r.
     case r of
       Inl e \<Rightarrow> fail_with svc sandbox ''Failed to create: '' e
     | Inr cid \<Rightarrow>
         let sandbox1 = sandbox\<lparr>sb_container_id := Some cid, sb_state := Created\<rparr> in
         bindE (attempt (on_backend (mgr_start (svc_backend svc) cid))) (\<lambda>s. case s of
           Inl e \<Rightarrow> fail_with svc sandbox1 ''Failed to start: '' e
         | Inr _ \<Rightarrow>
             let (next, text) = (if needs_tool_proxy (sb_config sandbox1)
                  then (Starting, ''starting'') else (Running, ''running'')) in
             bindE utc_now (\<lambda>now.
             let sandbox2 = sandbox1\<lparr>sb_state := next, sb_updated_at := now\<rparr> in
             bindE (store_update svc sandbox2) (\<lambda>_.
             bindE (record_activity svc (sb_id sandbox2) ActCreate (create_details config text)) (\<lambda>_.
             ret sandbox2)))))"

text \<open>Everything after the first store of the record.\<close>

definition provision ::
  "('s, 'b) SandboxService \<Rightarrow> Sandbox \<Rightarrow> SandboxConfig \<Rightarrow> FeatureSelection \<Rightarrow> ('s, 'b, Sandbox) svc" where
  "provision svc sandbox config sel =
     bindE (pull_for_create svc sandbox config) (\<lambda>_.
     bindE (apply_image_feature_profile svc (sb_id sandbox) config sel) (\<lambda>config1.
     let config2 = inject_browser_tabs svc config1;
         sandbox1 = sandbox\<lparr>sb_config := config2\<rparr> in
     bindE (store_update svc sandbox1) (\<lambda>_.
     launch_created svc sandbox1 config2)))"

definition create_sandbox ::
  "('s, 'b) SandboxService \<Rightarrow> SandboxConfig \<Rightarrow> ApiKeyIdentity option \<Rightarrow> ('s, 'b, Sandbox) svc" where
  "create_sandbox svc config0 identity =
     bindE new_v4 (\<lambda>i.
     bindE (uuid_text i) (\<lambda>i_text.
     let config1 = config0\<lparr>cfg_resource_limits := merge_resource_limits svc (cfg_resource_limits config0)\<rparr>;
         config = (case cfg_name config1 of
             None \<Rightarrow> config1\<lparr>cfg_name := Some (''sandbox-'' @ i_text)\<rparr>
           | Some _ \<Rightarrow> config1);
         sel = feature_selection_of config in
     bindE utc_now (\<lambda>now.
     let sandbox = creating_record i config identity now in
     bindE (store_create svc sandbox) (\<lambda>_.
     provision svc sandbox config sel))))"

text \<open>
  The task spawned for a sandbox left in \<open>Starting\<close>: whatever the health check answers, the
  sandbox is promoted to \<open>Running\<close> if it is still \<open>Starting\<close>.
\<close>

definition promote_starting :: "('s, 'b) SandboxService \<Rightarrow> uuid \<Rightarrow> ('s, 'b, unit) svc" where
  "promote_starting svc i =
     bindE (store_get svc i) (\<lambda>found. case found of
       None \<Rightarrow> ret ()
     | Some sb \<Rightarrow>
         if sb_state sb = Starting
         then bindE utc_now (\<lambda>now.
              bindE (attempt (store_update svc (sb\<lparr>sb_state := Running, sb_updated_at := now\<rparr>))) (\<lambda>_.
              ret ()))
         else ret ())"

definition health_check_task ::
  "nat \<Rightarrow> ('s, 'b) SandboxService \<Rightarrow> uuid \<Rightarrow> string \<Rightarrow> (nat \<Rightarrow> int) \<Rightarrow> ('s, 'b) world \<Rightarrow>
   ('s, 'b) world option" where
  "health_check_task fuel svc i cid elapsed w =
     (case wait_for_tool_health fuel svc cid (Some 30) elapsed w of
        None \<Rightarrow> None
      | Some (_, v) \<Rightarrow> Some (snd (promote_starting svc i v)))"

section \<open>The streaming path\<close>

text \<open>
  The background task sends events on an unbounded channel. Its computations carry the events
  sent so far; an early \<open>return\<close> ends them through the error channel, with the events.
\<close>

type_synonym ('s, 'b, 'a) stream = "(('s, 'b) world, SandboxProgressEvent list, 'a) prog"

definition stream_fail ::
  "('s, 'b) SandboxService \<Rightarrow> Sandbox \<Rightarrow> string \<Rightarrow> string \<Rightarrow> ManagerError \<Rightarrow>
   SandboxProgressEvent list \<Rightarrow> ('s, 'b, 'a) stream" where
  "stream_fail svc sandbox record_text event_text e evs =
     bindE utc_now (\<lambda>now.
     bindE (attempt (store_update svc (sandbox\<lparr>sb_state := Error,
        sb_error_message := Some (record_text @ manager_error_display e), sb_updated_at := now\<rparr>))) (\<lambda>_.
     throw (evs @ [EvError (event_text @ manager_error_display e)])))"

definition stream_pull ::
  "('s, 'b) SandboxService \<Rightarrow> Sandbox \<Rightarrow> string \<Rightarrow> SandboxProgressEvent list \<Rightarrow>
   ('s, 'b, SandboxProgressEvent list) stream" where
  "stream_pull svc sandbox img evs =
     bindE (gets w_backend) (\<lambda>b.
       case mgr_pull_image_with_progress (svc_backend svc) img b of
         ((reports, r), b') \<Rightarrow>
           let evs' = evs @ EvPulling img ''Starting pull...'' None None #
                 map (\<lambda>(status, current, total). EvPulling img status current total) reports in
           bindE (modify (\<lambda>w. w\<lparr>w_backend := b'\<rparr>)) (\<lambda>_. case r of
             Inl e \<Rightarrow> stream_fail svc sandbox ''Failed to pull image: '' ''Failed to pull: '' e evs'
           | Inr _ \<Rightarrow> ret evs'))"

definition stream_image ::
  "('s, 'b) SandboxService \<Rightarrow> Sandbox \<Rightarrow> SandboxConfig \<Rightarrow> ('s, 'b, SandboxProgressEvent list) stream" where
  "stream_image svc sandbox config =
     (case cfg_pull_policy config of
        Always \<Rightarrow> stream_pull svc sandbox (cfg_image config) []
      | Missing \<Rightarrow>
          bindE (attempt (on_backend (mgr_image_exists (svc_backend svc) (cfg_image config)))) (\<lambda>r.
          case r of
            Inl e \<Rightarrow> throw [EvError (''Failed to check image: '' @ manager_error_display e)]
          | Inr found \<Rightarrow>
              if found
              then ret [EvPulling (cfg_image config) ''Image exists locally'' (Some 0) (Some 0)]
              else stream_pull svc sandbox (cfg_image config) [])
      | Never \<Rightarrow> ret [EvPulling (cfg_image config) ''Using local image'' (Some 0) (Some 0)])"

definition stream_launch ::
  "('s, 'b) SandboxService \<Rightarrow> Sandbox \<Rightarrow> SandboxConfig \<Rightarrow> SandboxProgressEvent list \<Rightarrow>
   ('s, 'b, SandboxProgressEvent list \<times> Sandbox \<times> string) stream" where
  "stream_launch svc sandbox config evs =
     bindE (attempt (store_update svc sandbox)) (\<lambda>_.
     let evs1 = evs @ [EvCreating (cfg_image config)] in
     bindE (attempt (on_backend (mgr_create (svc_backend svc) (Some (sb_id sandbox)) config))) (\<lambda>r.
     case r of
       Inl e \<Rightarrow> stream_fail svc sandbox ''Failed to create: '' ''Failed to create container: '' e evs1
     | Inr cid \<Rightarrow>
         let sandbox1 = sandbox\<lparr>sb_container_id := Some cid, sb_state := Created\<rparr> in
         bindE (attempt (store_update svc sandbox1)) (\<lambda>_.
         let evs2 = evs1 @ [EvStarting cid] in
         bindE (attempt (on_backend (mgr_start (svc_backend svc) cid))) (\<lambda>s. case s of
           Inl e \<Rightarrow> stream_fail svc sandbox1 ''Failed to start: '' ''Failed to start: '' e evs2
         | Inr _ \<Rightarrow> ret (evs2, sandbox1, cid)))))"

definition stream_prepare ::
  "('s, 'b) SandboxService \<Rightarrow> uuid \<Rightarrow> SandboxConfig \<Rightarrow> ApiKeyIdentity option \<Rightarrow>
   ('s, 'b, SandboxProgressEvent list \<times> Sandbox \<times> string) stream" where
  "stream_prepare svc i config identity =
     bindE utc_now (\<lambda>now.
     let sandbox = creating_record i config identity now in
     bindE (attempt (on_store (ss_create_sandbox (svc_state svc) sandbox))) (\<lambda>r. case r of
       Inl e \<Rightarrow> throw [EvError (''Failed to create sandbox record: '' @ e)]
     | Inr _ \<Rightarrow>
         bindE (stream_image svc sandbox config) (\<lambda>evs.
         bindE (apply_image_feature_profile svc i config (feature_selection_of config)) (\<lambda>config'.
         stream_launch svc (sandbox\<lparr>sb_config := config'\<rparr>) config' evs))))"

definition stream_health_ok :: "json \<Rightarrow> bool" where
  "stream_health_ok response =
     (Option.bind (json_get response ''status'') json_as_str = Some ''healthy'' \<and>
      Option.bind (json_get response ''browser_connected'') json_as_bool = Some True)"

fun stream_health_loop ::
  "nat \<Rightarrow> ('s, 'b) SandboxService \<Rightarrow> string \<Rightarrow> (nat \<Rightarrow> int) \<Rightarrow> nat \<Rightarrow> ('s, 'b) world \<Rightarrow>
   ('s, 'b) world option" where
  "stream_health_loop 0 svc cid elapsed i w = None"
| "stream_health_loop (Suc fuel) svc cid elapsed i w =
     (if 30 * nanos_per_sec \<le> elapsed i then Some w
      else (case on_backend
              (mgr_exec_http (svc_backend svc) cid ''/health'' ''GET'' None (Some 2)) w of
              (Inr response, v) \<Rightarrow>
                if stream_health_ok response then Some v
                else stream_health_loop fuel svc cid elapsed (Suc i) v
            | (Inl _, v) \<Rightarrow> stream_health_loop fuel svc cid elapsed (Suc i) v))"

definition stream_finish ::
  "('s, 'b) SandboxService \<Rightarrow> uuid \<Rightarrow> Sandbox \<Rightarrow> string \<Rightarrow> SandboxProgressEvent list \<Rightarrow>
   ('s, 'b, SandboxProgressEvent list) stream" where
  "stream_finish svc i sandbox cid evs =
     bindE utc_now (\<lambda>now.
     bindE (attempt (store_update svc (sandbox\<lparr>sb_state := Running, sb_updated_at := now\<rparr>))) (\<lambda>_.
     ret (evs @ [EvReady i cid])))"

definition create_progress_task ::
  "nat \<Rightarrow> ('s, 'b) SandboxService \<Rightarrow> uuid \<Rightarrow> SandboxConfig \<Rightarrow> ApiKeyIdentity option \<Rightarrow> (nat \<Rightarrow> int) \<Rightarrow>
   ('s, 'b) world \<Rightarrow> (SandboxProgressEvent list \<times> ('s, 'b) world) option" where
  "create_progress_task fuel svc i config identity elapsed w =
     (case stream_prepare svc i config identity w of
        (Inl evs, v) \<Rightarrow> Some (evs, v)
      | (Inr (evs, sandbox, cid), v) \<Rightarrow>
          (case (if needs_tool_proxy (sb_config sandbox)
                 then stream_health_loop fuel svc cid elapsed 0 v else Some v) of
             None \<Rightarrow> None
           | Some u \<Rightarrow> (case stream_finish svc i sandbox cid evs u of
               (Inl evs', u') \<Rightarrow> Some (evs', u')
             | (Inr evs', u') \<Rightarrow> Some (evs', u'))))"

definition create_sandbox_with_progress ::
  "nat \<Rightarrow> ('s, 'b) SandboxService \<Rightarrow> SandboxConfig \<Rightarrow> ApiKeyIdentity option \<Rightarrow> (nat \<Rightarrow> int) \<Rightarrow>
   ('s, 'b) world \<Rightarrow> (SandboxProgressEvent list \<times> ('s, 'b) world) option" where
  "create_sandbox_with_progress fuel svc config identity elapsed w =
     create_progress_task fuel svc (w_uuid_src w (w_uuids w))
       (config\<lparr>cfg_resource_limits := merge_resource_limits svc (cfg_resource_limits config)\<rparr>)
       identity elapsed (w\<lparr>w_uuids := Suc (w_uuids w)\<rparr>)"

section \<open>Creation keeps the lifecycle invariant\<close>

lemma creating_record_ok [simp]:
  "sandbox_ok (creating_record i config identity now)"
  "sb_deleted_at (creating_record i config identity now) = None"
  "sb_id (creating_record i config identity now) = i"
  "sb_volume_mounts (creating_record i config identity now) = cfg_volumes config"
  "sb_api_key_id (creating_record i config identity now) = Option.bind identity ident_id"
  by (simp_all add: creating_record_def sandbox_ok_def)

lemma creation_updates:
  "sandbox_ok sb \<Longrightarrow> sandbox_ok (sb\<lparr>sb_state := Error, sb_error_message := m, sb_updated_at := t\<rparr>)"
  "sandbox_ok (sb\<lparr>sb_config := c\<rparr>) = sandbox_ok sb"
  "sandbox_ok sb \<Longrightarrow> sb_deleted_at sb = None \<Longrightarrow>
     sandbox_ok (sb\<lparr>sb_container_id := Some cid, sb_state := Created\<rparr>)"
  "sandbox_ok sb \<Longrightarrow> sb_deleted_at sb = None \<Longrightarrow>
     sandbox_ok (sb\<lparr>sb_container_id := Some cid, sb_state := Starting, sb_updated_at := t\<rparr>)"
  "sandbox_ok sb \<Longrightarrow> sb_deleted_at sb = None \<Longrightarrow>
     sandbox_ok (sb\<lparr>sb_container_id := Some cid, sb_state := Running, sb_updated_at := t\<rparr>)"
  by (auto simp: sandbox_ok_def)

context state_store
begin

lemma yields_modify_backend [yields_rules]:
  "yields wok (modify (\<lambda>w. w\<lparr>w_backend := b\<rparr>)) (\<lambda>_. True)"
  by (simp add: yields_def wpE_modify)

lemma yields_fail_with [yields_rules]:
  "svc_state svc = st \<Longrightarrow> sandbox_ok sb \<Longrightarrow> yields wok (fail_with svc sb what e) R"
  unfolding fail_with_def
  by (rule TrueI | rule yields_rules | assumption | simp add: creation_updates)+

lemma yields_apply_image [yields_rules]:
  "yields wok (apply_image_feature_profile svc i config sel) (\<lambda>_. True)"
  unfolding apply_image_feature_profile_def
  by (rule TrueI | rule yields_rules | assumption)+

lemma yields_pull_for_create [yields_rules]:
  "svc_state svc = st \<Longrightarrow> sandbox_ok sb \<Longrightarrow> yields wok (pull_for_create svc sb config) (\<lambda>_. True)"
  unfolding pull_for_create_def Let_def
  by (cases "cfg_pull_policy config"; simp)
    (rule TrueI | rule yields_rules | assumption)+

lemma yields_launch_created [yields_rules]:
  "svc_state svc = st \<Longrightarrow> sandbox_ok sb \<Longrightarrow> sb_deleted_at sb = None \<Longrightarrow>
   yields wok (launch_created svc sb config) (\<lambda>_. True)"
  unfolding launch_created_def Let_def split_beta
  by (rule TrueI | rule yields_rules | assumption | simp add: creation_updates)+

lemma yields_provision [yields_rules]:
  "svc_state svc = st \<Longrightarrow> sandbox_ok sb \<Longrightarrow> sb_deleted_at sb = None \<Longrightarrow>
   yields wok (provision svc sb config sel) (\<lambda>_. True)"
  unfolding provision_def Let_def
  by (rule TrueI | rule yields_rules | assumption | simp add: creation_updates)+

lemma yields_create_sandbox [yields_rules]:
  "svc_state svc = st \<Longrightarrow> yields wok (create_sandbox svc config identity) (\<lambda>_. True)"
  unfolding create_sandbox_def Let_def
  by (rule TrueI | rule yields_rules | assumption | simp add: creation_updates)+

lemma yields_promote_starting [yields_rules]:
  "svc_state svc = st \<Longrightarrow> yields wok (promote_starting svc i) (\<lambda>_. True)"
  unfolding promote_starting_def
  by (rule TrueI | rule yields_rules | assumption | (simp add: sandbox_ok_def, blast?))+

lemma health_check_task_ok:
  assumes "svc_state svc = st" and "wok w" and "health_check_task fuel svc i cid elapsed w = Some v"
  shows "wok v"
proof -
  obtain r u where u: "wait_for_tool_health fuel svc cid (Some 30) elapsed w = Some (r, u)"
    and v: "v = snd (promote_starting svc i u)"
    using assms(3) by (auto simp: health_check_task_def split: option.splits)
  from u have "wok u"
    using wait_health_loop_store assms(2) by (fastforce simp: wait_for_tool_health_def)
  then show ?thesis
    using yields_inv [OF yields_promote_starting [OF assms(1)]] v by (metis prod.collapse)
qed

lemma yields_stream_fail [yields_rules]:
  "svc_state svc = st \<Longrightarrow> sandbox_ok sb \<Longrightarrow> yields wok (stream_fail svc sb a b e evs) R"
  unfolding stream_fail_def
  by (rule TrueI | rule yields_rules | assumption | simp add: creation_updates)+

lemma yields_stream_pull [yields_rules]:
  "svc_state svc = st \<Longrightarrow> sandbox_ok sb \<Longrightarrow> yields wok (stream_pull svc sb img evs) (\<lambda>_. True)"
  unfolding stream_pull_def Let_def split_beta
  by (rule TrueI | rule yields_rules | assumption)+

lemma yields_stream_image [yields_rules]:
  "svc_state svc = st \<Longrightarrow> sandbox_ok sb \<Longrightarrow> yields wok (stream_image svc sb config) (\<lambda>_. True)"
  unfolding stream_image_def
  by (cases "cfg_pull_policy config"; simp)
    (rule TrueI | rule yields_rules | assumption)+

lemma yields_stream_launch [yields_rules]:
  "svc_state svc = st \<Longrightarrow> sandbox_ok sb \<Longrightarrow> sb_deleted_at sb = None \<Longrightarrow>
   yields wok (stream_launch svc sb config evs)
     (\<lambda>(evs', sb', cid). sandbox_ok sb' \<and> sb_container_id sb' = Some cid)"
  unfolding stream_launch_def Let_def
  by (rule TrueI | rule yields_rules | assumption | simp add: creation_updates)+

lemma yields_raw_create [yields_rules]:
  fixes svc :: "('s, 'b) SandboxService"
  assumes "svc_state svc = st" and "sandbox_ok sb"
  shows "yields (wok :: ('s, 'b) world \<Rightarrow> bool)
    (on_store (ss_create_sandbox (svc_state svc) sb)) (\<lambda>_. True)"
  using yields_store_create [OF assms] by (simp add: yields_def store_create_def wpE_map_err)

lemma yields_stream_prepare:
  "svc_state svc = st \<Longrightarrow> yields wok (stream_prepare svc i config identity)
     (\<lambda>(evs', sb', cid). sandbox_ok sb' \<and> sb_container_id sb' = Some cid)"
  unfolding stream_prepare_def Let_def
  by (rule TrueI | rule yields_rules | assumption | simp add: creation_updates)+

lemma stream_health_loop_store:
  "stream_health_loop fuel svc cid elapsed i w = Some v \<Longrightarrow> \<exists>b. v = w\<lparr>w_backend := b\<rparr>"
proof (induction fuel arbitrary: i w)
  case (Suc fuel)
  obtain q b where q: "mgr_exec_http (svc_backend svc) cid ''/health'' ''GET'' None (Some 2)
      (w_backend w) = (q, b)"
    by (cases "mgr_exec_http (svc_backend svc) cid ''/health'' ''GET'' None (Some 2) (w_backend w)")
  from Suc.prems Suc.IH [of "Suc i" "w\<lparr>w_backend := b\<rparr>"] show ?case
    by (cases q) (auto simp: on_backend_def q split: if_splits intro: exI [of _ "w_backend w"])
qed simp

lemma yields_stream_finish:
  "svc_state svc = st \<Longrightarrow> sandbox_ok sb \<Longrightarrow> sb_container_id sb = Some cid \<Longrightarrow>
   yields wok (stream_finish svc i sb cid evs) (\<lambda>_. True)"
  unfolding stream_finish_def
  by (rule TrueI | rule yields_rules | assumption | simp add: ok_updates)+

end

section \<open>The outcome of creation\<close>

definition failed_as :: "Sandbox \<Rightarrow> SvcError \<Rightarrow> bool" where
  "failed_as sb e \<longleftrightarrow> (\<exists>m what. e = SvcManager m \<and> sb_state sb = Error \<and>
     sb_error_message sb = Some (what @ manager_error_display m))"

definition launched_from :: "Sandbox \<Rightarrow> Sandbox \<Rightarrow> bool" where
  "launched_from sb sb' \<longleftrightarrow> (\<exists>cid t. sb' = sb\<lparr>sb_container_id := Some cid,
     sb_state := (if needs_tool_proxy (sb_config sb) then Starting else Running), sb_updated_at := t\<rparr>)"

lemma launched_fromI:
  "needs_tool_proxy (sb_config sb) \<Longrightarrow>
     launched_from sb (sb\<lparr>sb_container_id := Some c, sb_state := Starting, sb_updated_at := t\<rparr>)"
  "\<not> needs_tool_proxy (sb_config sb) \<Longrightarrow>
     launched_from sb (sb\<lparr>sb_container_id := Some c, sb_state := Running, sb_updated_at := t\<rparr>)"
  by (simp_all add: launched_from_def) blast+

lemma launched_from_fields:
  "launched_from sb sb' \<Longrightarrow> sb_id sb' = sb_id sb \<and> sb_config sb' = sb_config sb \<and>
     sb_state sb' = (if needs_tool_proxy (sb_config sb') then Starting else Running) \<and>
     sb_container_id sb' \<noteq> None \<and> sb_deleted_at sb' = sb_deleted_at sb \<and>
     sb_api_key_id sb' = sb_api_key_id sb \<and> sb_volume_mounts sb' = sb_volume_mounts sb"
  by (auto simp: launched_from_def)

context reliable_store
begin

lemma wpE_store_create_rel:
  assumes "svc_state svc = st" and "invar (w_store w)"
    and "\<And>s. invar s \<Longrightarrow> contents s = (contents (w_store w))(sb_id sb \<mapsto> sb) \<Longrightarrow> Q () (w\<lparr>w_store := s\<rparr>)"
  shows "wpE (store_create svc sb) Q E w"
  using create_exact [OF assms(2), of sb] assms(1,3)
  by (auto simp: store_create_def wp wpE_def [of "ss_create_sandbox _ _"])

lemma fail_with_rel:
  assumes "svc_state svc = st" and "invar (w_store w)"
  shows "wpE (fail_with svc sb what e) Q
    (\<lambda>e v. \<exists>sb'. sb_id sb' = sb_id sb \<and> w_store v = put (w_store w) sb' \<and> failed_as sb' e) w"
  using assms
  by (auto simp: fail_with_def rel_wp failed_as_def
      intro!: exI [of _ "sb\<lparr>sb_state := Error, sb_error_message := Some (what @ manager_error_display e),
        sb_updated_at := w_clock w (w_ticks w)\<rparr>"])

lemma pull_rel:
  assumes svc: "svc_state svc = st" and inv: "invar (w_store w)"
  shows "wpE (pull_for_create svc sb config) (\<lambda>_ v. w_store v = w_store w)
    (\<lambda>e v. \<exists>sb'. sb_id sb' = sb_id sb \<and> w_store v = put (w_store w) sb' \<and> failed_as sb' e) w"
proof -
  have fail: "wpE (fail_with svc sb what e) (\<lambda>_ v. w_store v = w_store w)
    (\<lambda>e v. \<exists>sb'. sb_id sb' = sb_id sb \<and> w_store v = put (w_store w) sb' \<and> failed_as sb' e)
    (w\<lparr>w_backend := b\<rparr>)" for what e b
    using fail_with_rel [of svc "w\<lparr>w_backend := b\<rparr>" sb what e] svc inv by simp
  show ?thesis
    by (cases "cfg_pull_policy config")
      (auto simp: pull_for_create_def rel_wp Let_def intro!: wpE_I [of "mgr_pull_image _ _"]
        wpE_I [of "mgr_image_exists _ _"] fail)
qed

lemma launch_rel:
  assumes svc: "svc_state svc = st" and inv: "invar (w_store w)"
  shows "wpE (launch_created svc sb config)
    (\<lambda>sb' v. launched_from sb sb' \<and> w_store v = put (w_store w) sb')
    (\<lambda>e v. \<exists>sb'. sb_id sb' = sb_id sb \<and> w_store v = put (w_store w) sb' \<and> failed_as sb' e) w"
proof -
  have fail: "wpE (fail_with svc sb1 what e) Q
    (\<lambda>e v. \<exists>sb'. sb_id sb' = sb_id sb \<and> w_store v = put (w_store w) sb' \<and> failed_as sb' e)
    (w\<lparr>w_backend := b\<rparr>)" if "sb_id sb1 = sb_id sb" for Q :: "Sandbox \<Rightarrow> _" and sb1 what e b
    using fail_with_rel [of svc "w\<lparr>w_backend := b\<rparr>" sb1 what e] svc inv that by simp
  show ?thesis
    by (auto simp: launch_created_def rel_wp svc inv Let_def split_beta launched_fromI
        intro!: wpE_I [of "mgr_create _ _ _"] wpE_I [of "mgr_start _ _"] fail wpE_record_activity_rel)
qed

lemma apply_image_rel:
  "wpE (apply_image_feature_profile svc i config sel) (\<lambda>_ v. w_store v = w_store w) E w"
  by (auto simp: apply_image_feature_profile_def wp intro!: wpE_I [of "mgr_get_image_features _ _"]
      split: option.splits sum.splits)

lemma provision_rel:
  fixes svc :: "('s, 'b) SandboxService"
  assumes svc: "svc_state svc = st" and inv: "invar (w_store w)"
  shows "wpE (provision svc sb config sel)
    (\<lambda>sb' v. \<exists>config'. launched_from (sb\<lparr>sb_config := config'\<rparr>) sb' \<and>
       invar (w_store v) \<and> contents (w_store v) = (contents (w_store w))(sb_id sb \<mapsto> sb'))
    (\<lambda>e v. \<exists>sb'. failed_as sb' e \<and> sb_id sb' = sb_id sb \<and>
       invar (w_store v) \<and> contents (w_store v) = (contents (w_store w))(sb_id sb \<mapsto> sb')) w"
    (is "wpE _ ?Q ?E w")
proof -
  have launch: "wpE (bindE (store_update svc (sb\<lparr>sb_config := c\<rparr>))
      (\<lambda>_. launch_created svc (sb\<lparr>sb_config := c\<rparr>) c)) ?Q ?E u" if "w_store u = w_store w" for u c
  proof -
    have "wpE (launch_created svc (sb\<lparr>sb_config := c\<rparr>) c) ?Q ?E
        (u\<lparr>w_store := put (w_store u) (sb\<lparr>sb_config := c\<rparr>)\<rparr>)"
      by (rule wpE_mono [OF launch_rel [OF svc]])
        (use that inv in \<open>auto simp: put_simps(1,2) dest: launched_from_fields\<close>)
    with that inv show ?thesis by (simp add: wpE_bindE wpE_store_update_rel svc)
  qed
  have features: "wpE (bindE (apply_image_feature_profile svc (sb_id sb) config sel) (\<lambda>config1.
      bindE (store_update svc (sb\<lparr>sb_config := inject_browser_tabs svc config1\<rparr>))
        (\<lambda>_. launch_created svc (sb\<lparr>sb_config := inject_browser_tabs svc config1\<rparr>)
          (inject_browser_tabs svc config1)))) ?Q ?E v" if "w_store v = w_store w" for v
    unfolding wpE_bindE [of "apply_image_feature_profile _ _ _ _"]
    by (rule wpE_mono [OF apply_image_rel]) (use launch that in auto)
  show ?thesis
    unfolding provision_def Let_def wpE_bindE [of "pull_for_create _ _ _"]
    by (rule wpE_mono [OF pull_rel [OF svc inv]]) (use features inv in \<open>auto simp: put_simps(1,2)\<close>)
qed

lemma create_rel:
  assumes svc: "svc_state svc = st" and inv: "invar (w_store w)"
    and i: "i = w_uuid_src w (w_uuids w)"
  shows "wpE (create_sandbox svc config identity)
    (\<lambda>sb v. contents (w_store v) = (contents (w_store w))(i \<mapsto> sb) \<and>
       sb_id sb = i \<and> sb_container_id sb \<noteq> None \<and> sb_deleted_at sb = None \<and>
       sb_state sb = (if needs_tool_proxy (sb_config sb) then Starting else Running) \<and>
       sb_api_key_id sb = Option.bind identity ident_id \<and>
       sb_volume_mounts sb = cfg_volumes config)
    (\<lambda>e v. \<exists>sb. contents (w_store v) = (contents (w_store w))(i \<mapsto> sb) \<and> failed_as sb e) w"
    (is "wpE _ ?Q ?E w")
proof -
  have "wpE (bindE (store_create svc (creating_record i c identity now))
      (\<lambda>_. provision svc (creating_record i c identity now) c sel)) ?Q ?E u"
    if u: "w_store u = w_store w" and c: "cfg_volumes c = cfg_volumes config" for u c now sel
    unfolding wpE_bindE
  proof (rule wpE_store_create_rel [OF svc])
    fix s
    assume "invar s" and "contents s = (contents (w_store u))
      (sb_id (creating_record i c identity now) \<mapsto> creating_record i c identity now)"
    then show "wpE (provision svc (creating_record i c identity now) c sel) ?Q ?E (u\<lparr>w_store := s\<rparr>)"
      using c u by (intro wpE_mono [OF provision_rel [OF svc]]) (auto dest!: launched_from_fields)
  qed (simp add: u inv)
  then show ?thesis
    by (auto simp: create_sandbox_def Let_def wpE_new_v4 wpE_uuid_text wpE_utc_now wpE_bindE i
        split: option.splits)
qed

end

section \<open>The event stream\<close>

fun final_event :: "SandboxProgressEvent \<Rightarrow> bool" where
  "final_event (EvReady i c) = True"
| "final_event (EvError m) = True"
| "final_event _ = False"

definition unfinished :: "SandboxProgressEvent list \<Rightarrow> bool" where
  "unfinished evs \<longleftrightarrow> (\<forall>e\<in>set evs. \<not> final_event e)"

definition stream_failed :: "(uuid \<rightharpoonup> Sandbox) \<Rightarrow> uuid \<Rightarrow> SandboxProgressEvent list \<Rightarrow> bool" where
  "stream_failed c i evs \<longleftrightarrow> (\<exists>pre m sb. evs = pre @ [EvError m] \<and> unfinished pre \<and> c i = Some sb \<and>
     (sb_state sb = Error \<or> sb_state sb = Creating \<and> starts_with m ''Failed to check image: ''))"

lemma unfinished_simps [simp]:
  "unfinished []" "unfinished (xs @ ys) \<longleftrightarrow> unfinished xs \<and> unfinished ys"
  "unfinished (x # xs) \<longleftrightarrow> \<not> final_event x \<and> unfinished xs"
  by (auto simp: unfinished_def)

lemma unfinished_reports [simp]: "unfinished (map (\<lambda>(s, c, t). EvPulling img s c t) l)"
  by (auto simp: unfinished_def)

lemma stream_health_loop_terminates:
  assumes "timer_law elapsed" and "302 \<le> fuel + i" and "i \<le> 301"
  shows "\<exists>v. stream_health_loop fuel svc cid elapsed i w = Some v"
  using assms(2,3)
proof (induction fuel arbitrary: i w)
  case (Suc fuel)
  have late: "30 * nanos_per_sec \<le> elapsed i" if "i = 301"
  proof -
    have "(int i - 1) * 100000000 \<le> elapsed i"
      using assms(1) by (simp add: timer_law_def)
    with that show ?thesis by (simp add: nanos_per_sec_def)
  qed
  show ?case
  proof (cases "i = 301")
    case True
    with late show ?thesis by simp
  next
    case False
    with Suc.prems have "302 \<le> fuel + Suc i" "Suc i \<le> 301" by simp_all
    note Suc.IH [OF this]
    then show ?thesis by (auto split: prod.splits sum.splits)
  qed
qed simp

context reliable_store
begin

lemma stream_fail_rel:
  assumes "svc_state svc = st" and "invar (w_store w)" and "unfinished evs" and "sb_id sb = i"
  shows "wpE (stream_fail svc sb a b e evs) Q (\<lambda>l v. stream_failed (contents (w_store v)) i l) w"
  using assms
  by (auto simp: stream_fail_def rel_wp stream_failed_def put_simps(1,2))

lemma stream_image_rel:
  assumes svc: "svc_state svc = st" and inv: "invar (w_store w)"
    and sb: "contents (w_store w) i = Some sb" "sb_id sb = i" "sb_state sb = Creating"
  shows "wpE (stream_image svc sb config) (\<lambda>evs v. unfinished evs \<and> w_store v = w_store w)
    (\<lambda>l v. stream_failed (contents (w_store v)) i l) w"
proof -
  have pull: "wpE (stream_pull svc sb img []) (\<lambda>evs v. unfinished evs \<and> w_store v = w_store w)
    (\<lambda>l v. stream_failed (contents (w_store v)) i l) u" if "w_store u = w_store w" for u img
    using that inv sb
    by (auto simp: stream_pull_def rel_wp Let_def split_beta intro!: stream_fail_rel [OF svc]
        split: sum.splits)
  have checked: "stream_failed (contents (w_store w)) i [EvError (''Failed to check image: '' @ m)]" for m
    using sb by (auto simp: stream_failed_def starts_with_def)
  show ?thesis
    by (cases "cfg_pull_policy config")
      (auto simp: stream_image_def rel_wp intro!: pull wpE_I [of "mgr_image_exists _ _"]
        checked [simplified])
qed

lemma stream_launch_rel:
  assumes svc: "svc_state svc = st" and inv: "invar (w_store w)" and i: "sb_id sb = i" and "unfinished evs"
  shows "wpE (stream_launch svc sb config evs)
    (\<lambda>(l, sb', cid) v. unfinished l \<and> invar (w_store v) \<and> sb_container_id sb' = Some cid \<and> sb_id sb' = i)
    (\<lambda>l v. stream_failed (contents (w_store v)) i l) w"
  using assms(4)
  by (auto simp: stream_launch_def rel_wp Let_def svc inv put_simps(1,2) i
      intro!: stream_fail_rel [OF svc] wpE_I [of "mgr_create _ _ _"] wpE_I [of "mgr_start _ _"])

lemma stream_prepare_rel:
  fixes svc :: "('s, 'b) SandboxService"
  assumes svc: "svc_state svc = st" and inv: "invar (w_store w)"
  shows "wpE (stream_prepare svc i config identity)
    (\<lambda>(l, sb', cid) v. unfinished l \<and> invar (w_store v) \<and> sb_container_id sb' = Some cid \<and> sb_id sb' = i)
    (\<lambda>l v. stream_failed (contents (w_store v)) i l) w"
    (is "wpE _ ?Q ?E w")
proof -
  define sb where "sb = creating_record i config identity (w_clock w (w_ticks w))"
  have sb: "sb_id sb = i" "sb_state sb = Creating"
    by (simp_all add: sb_def creating_record_def)
  have launch: "wpE (bindE (apply_image_feature_profile svc i config sel)
      (\<lambda>c. stream_launch svc (sb\<lparr>sb_config := c\<rparr>) c evs)) ?Q ?E v"
    if "unfinished evs" "invar (w_store v)" for evs sel v
    unfolding wpE_bindE
    by (rule wpE_mono [OF apply_image_rel])
      (use that sb in \<open>auto intro!: stream_launch_rel [OF svc]\<close>)
  obtain s where s: "ss_create_sandbox st sb (w_store w) = (Inr (), s)" "invar s"
      "contents s = (contents (w_store w))(i \<mapsto> sb)"
    using create_exact [OF inv, of sb] sb by auto
  let ?u = "w\<lparr>w_ticks := Suc (w_ticks w), w_store := s\<rparr>"
  have "wpE (stream_image svc sb config) (\<lambda>evs. wpE (bindE
      (apply_image_feature_profile svc i config (feature_selection_of config))
      (\<lambda>c. stream_launch svc (sb\<lparr>sb_config := c\<rparr>) c evs)) ?Q ?E) ?E ?u"
    using s sb by (intro wpE_mono [OF stream_image_rel [OF svc, of _ i]] launch) auto
  then show ?thesis
    by (simp add: stream_prepare_def Let_def svc wpE_bindE [of "stream_image _ _ _"] wpE_bindE [of utc_now]
        wpE_bindE [of "attempt _"] wpE_utc_now wpE_attempt wpE_on_store sb_def [symmetric]
        wpE_def [of "ss_create_sandbox _ _"] s)
qed

lemma create_progress_rel:
  assumes svc: "svc_state svc = st" and inv: "invar (w_store w)"
    and fuel: "timer_law elapsed" "302 \<le> fuel"
  shows "\<exists>evs v. create_progress_task fuel svc i config identity elapsed w = Some (evs, v) \<and>
    (stream_failed (contents (w_store v)) i evs \<or>
     (\<exists>pre cid sb. evs = pre @ [EvReady i cid] \<and> unfinished pre \<and> contents (w_store v) i = Some sb \<and>
        sb_state sb = Running \<and> sb_container_id sb = Some cid))"
proof (cases "stream_prepare svc i config identity w")
  case (Pair r u)
  note prep = stream_prepare_rel [OF svc inv, of i config identity]
  show ?thesis
  proof (cases r)
    case (Inl evs)
    with prep Pair show ?thesis by (auto simp: create_progress_task_def wpE_def)
  next
    case (Inr x)
    obtain evs sb cid where x: "x = (evs, sb, cid)" by (cases x)
    from prep Pair Inr x have p: "unfinished evs" "invar (w_store u)" "sb_container_id sb = Some cid" "sb_id sb = i"
      by (simp_all add: wpE_def)
    obtain b where b: "(if needs_tool_proxy (sb_config sb) then stream_health_loop fuel svc cid elapsed 0 u
        else Some u) = Some (u\<lparr>w_backend := b\<rparr>)"
    proof (cases "needs_tool_proxy (sb_config sb)")
      case True
      then show ?thesis
        using that stream_health_loop_terminates [OF fuel(1), of fuel 0 svc cid u] fuel(2)
          stream_health_loop_store [of fuel svc cid elapsed 0 u] by auto
    next
      case False
      then show ?thesis using that [of "w_backend u"] by simp
    qed
    have "wpE (stream_finish svc i sb cid evs) (\<lambda>evs' v. evs' = evs @ [EvReady i cid] \<and>
        (\<exists>sb. contents (w_store v) i = Some sb \<and> sb_state sb = Running \<and> sb_container_id sb = Some cid))
        (\<lambda>_ _. False) (u\<lparr>w_backend := b\<rparr>)"
      using p by (simp add: stream_finish_def rel_wp svc put_simps(1,2))
    then show ?thesis
      using Pair Inr x b p by (auto simp: create_progress_task_def wpE_def split: prod.splits sum.splits)
  qed
qed

end

section \<open>Properties\<close>

text \<open>
  C3. Creating a sandbox, over the in-memory store and any backend: exactly the record of the
  new identifier changes. On success it is the returned sandbox: it has a container, is owned
  by the caller's key, is not deleted, and is \<open>Starting\<close> when its configuration needs the tool
  proxy and \<open>Running\<close> otherwise; its volumes to clean up are those of the request. On failure
  the backend's error is returned and the record is in state \<open>Error\<close> with that error's text.
\<close>

theorem create_sandbox_outcome:
  assumes "svc_state svc = StateStore" and "mem_invar (w_store w)"
    and "i = w_uuid_src w (w_uuids w)"
    and "create_sandbox svc config identity w = (res, v)"
  shows "\<exists>sb. map_of (w_store v) = (map_of (w_store w))(i \<mapsto> sb) \<and> (case res of
      Inr sb' \<Rightarrow> sb' = sb \<and> sb_id sb = i \<and> sb_container_id sb \<noteq> None \<and> sb_deleted_at sb = None \<and>
        sb_state sb = (if needs_tool_proxy (sb_config sb) then Starting else Running) \<and>
        sb_api_key_id sb = Option.bind identity ident_id \<and>
        sb_volume_mounts sb = cfg_volumes config
    | Inl e \<Rightarrow> \<exists>m what. e = SvcManager m \<and> sb_state sb = Error \<and>
        sb_error_message sb = Some (what @ manager_error_display m))"
  using mem.create_rel [OF assms(1-3), of config identity] assms(4)
  by (auto simp: wpE_def failed_as_def split: sum.splits)

theorem create_sandbox_outcome_witness:
  "\<exists>sb. map_of (w_store (snd (create_sandbox example_service sandbox_config_default None
      (example_world [] [])))) = [100 \<mapsto> sb] \<and> sb_state sb \<in> {Starting, Running, Error}"
proof -
  obtain res v where e: "create_sandbox example_service sandbox_config_default None (example_world [] []) = (res, v)"
    by (cases "create_sandbox example_service sandbox_config_default None (example_world [] [])")
  have i: "100 = w_uuid_src (example_world [] []) (w_uuids (example_world [] []))"
    by (simp add: example_world_def)
  obtain sb where "map_of (w_store v) = [100 \<mapsto> sb]" "sb_state sb \<in> {Starting, Running, Error}"
    using create_sandbox_outcome [OF _ _ i e]
    by (cases res) (auto simp: mem_invar_def split: if_splits)
  then show ?thesis by (auto simp: e)
qed

text \<open>
  C39. The streaming path ends and reports truthfully: with the timer's law and 302 polls the
  task returns; its events end with exactly one terminal event; a final ready event means
  that the stored sandbox is \<open>Running\<close> with the container it names; a final error event means
  that it is in state \<open>Error\<close>, except that a failed check of the image leaves it \<open>Creating\<close>.
\<close>

theorem create_with_progress_outcome:
  assumes "svc_state svc = StateStore" and "mem_invar (w_store w)"
    and "timer_law elapsed" and "302 \<le> fuel" and "i = w_uuid_src w (w_uuids w)"
  shows "\<exists>evs v pre t sb. create_sandbox_with_progress fuel svc config identity elapsed w = Some (evs, v) \<and>
    evs = pre @ [t] \<and> (\<forall>e. e \<in> set pre \<longrightarrow> \<not> final_event e) \<and> map_of (w_store v) i = Some sb \<and>
    ((\<exists>cid. t = EvReady i cid \<and> sb_state sb = Running \<and> sb_container_id sb = Some cid) \<or>
     (\<exists>m. t = EvError m \<and>
        (sb_state sb = Error \<or> sb_state sb = Creating \<and> starts_with m ''Failed to check image: '')))"
proof -
  obtain evs v where *: "create_sandbox_with_progress fuel svc config identity elapsed w = Some (evs, v)"
    "stream_failed (map_of (w_store v)) i evs \<or>
     (\<exists>pre cid sb. evs = pre @ [EvReady i cid] \<and> unfinished pre \<and> map_of (w_store v) i = Some sb \<and>
        sb_state sb = Running \<and> sb_container_id sb = Some cid)"
    using mem.create_progress_rel [OF assms(1) _ assms(3,4), of "w\<lparr>w_uuids := Suc (w_uuids w)\<rparr>" i
        "config\<lparr>cfg_resource_limits := merge_resource_limits svc (cfg_resource_limits config)\<rparr>" identity]
      assms(2) unfolding create_sandbox_with_progress_def assms(5) [symmetric] by auto
  then show ?thesis
    by (elim disjE) (auto simp: stream_failed_def unfinished_def)
qed

theorem create_with_progress_outcome_witness:
  "\<exists>evs v pre t. create_sandbox_with_progress 302 example_service sandbox_config_default None
      (\<lambda>i. int i * 100000000) (example_world [] []) = Some (evs, v) \<and> evs = pre @ [t] \<and> final_event t"
proof -
  have "timer_law (\<lambda>i. int i * 100000000)"
    by (simp add: timer_law_def)
  from create_with_progress_outcome [OF _ _ this, of example_service "example_world [] []" 302 100
      sandbox_config_default None]
  show ?thesis by (fastforce simp: example_world_def mem_invar_def)
qed

text \<open>
  The background health check always ends, and then the sandbox it was started for is no
  longer \<open>Starting\<close>: whatever the probe answered, a sandbox still \<open>Starting\<close> becomes \<open>Running\<close>,
  and every other sandbox is left as it was.
\<close>

theorem health_check_task_promotes:
  assumes "svc_state svc = StateStore" and "mem_invar (w_store w)"
    and "timer_law elapsed" and "302 \<le> fuel" and "map_of (w_store w) i = Some sb"
  shows "\<exists>v t. health_check_task fuel svc i cid elapsed w = Some v \<and> map_of (w_store v) =
    (if sb_state sb = Starting
     then (map_of (w_store w))(i \<mapsto> sb\<lparr>sb_state := Running, sb_updated_at := t\<rparr>)
     else map_of (w_store w))"
proof -
  obtain r b where wait: "wait_health_loop fuel svc cid 30 elapsed 0 w = Some (r, w\<lparr>w_backend := b\<rparr>)"
    using wait_health_loop_terminates [OF assms(3), of 30 fuel 0 svc cid w] assms(4)
      wait_health_loop_store [of fuel svc cid 30 elapsed 0 w] by auto
  have "wpE (promote_starting svc i) (\<lambda>_ v. \<exists>t. map_of (w_store v) =
    (if sb_state sb = Starting
     then (map_of (w_store w))(i \<mapsto> sb\<lparr>sb_state := Running, sb_updated_at := t\<rparr>)
     else map_of (w_store w))) (\<lambda>_ _. False) (w\<lparr>w_backend := b\<rparr>)"
    using assms(1,2,5) mem_invar_id [OF assms(2,5)]
    by (auto simp: promote_starting_def mem.rel_wp mem.put_simps(1,2))
  then show ?thesis
    by (auto simp: health_check_task_def wait_for_tool_health_def wait wpE_def split: prod.splits sum.splits)
qed

theorem health_check_task_promotes_witness:
  "\<exists>v. health_check_task 302 example_service 7 ''ctr0'' (\<lambda>i. int i * 100000000)
      (example_world [(7, example_sandbox 7 Starting (Some ''ctr0''))] []) = Some v \<and>
    map_option sb_state (map_of (w_store v) 7) = Some Running"
proof -
  have "timer_law (\<lambda>i. int i * 100000000)"
    by (simp add: timer_law_def)
  from health_check_task_promotes [OF _ _ this, of example_service
      "example_world [(7, example_sandbox 7 Starting (Some ''ctr0''))] []" 302 7
      "example_sandbox 7 Starting (Some ''ctr0'')" "''ctr0''"]
  show ?thesis by auto
qed

end
