(* ===== verification/Exec.thy ===== *)
theory Exec
  imports Lifecycle
begin

text \<open>
  Running commands in a sandbox and moving files in and out of it
  (\<open>src/src/core/sandbox/exec.rs\<close>, \<open>src/src/core/sandbox/files.rs\<close>), with the quoting of
  paths for the shell (\<open>shell_quote\<close> of \<open>src/src/core/static_files.rs\<close>). The tar writer and
  the base64 decoder are third-party code: the operations take them as parameters.
\<close>

section \<open>Shell quoting\<close>

definition shell_quote :: "string \<Rightarrow> string" where
  "shell_quote path = CHR 0x27 # replace_char (CHR 0x27) [CHR 0x27, CHR 0x5C, CHR 0x27, CHR 0x27] path @ [CHR 0x27]"

text \<open>
  How a POSIX shell reads one word (Shell Command Language, section 2.2): inside single
  quotes every character up to the next quote is literal; outside, a backslash quotes one
  character, and a blank, a newline or an operator character ends the word. An open quote is
  an error; double quotes and expansions are outside the fragment and also give \<open>None\<close>.
\<close>

definition ends_word :: "char \<Rightarrow> bool" where
  "ends_word c = (c \<in> set '' ;&|<>()'' \<or> c = CHR 0x09 \<or> c = CHR 0x0A)"

fun sh_word :: "bool \<Rightarrow> string \<Rightarrow> string \<Rightarrow> (string \<times> string) option" where
  "sh_word True acc [] = None"
| "sh_word True acc (c # s) = (if c = CHR 0x27 then sh_word False acc s else sh_word True (acc @ [c]) s)"
| "sh_word False acc [] = Some (acc, [])"
| "sh_word False acc (c # s) =
     (if c = CHR 0x27 then sh_word True acc s
      else if c = CHR 0x5C then
        (case s of [] \<Rightarrow> None | d # s' \<Rightarrow> sh_word False (acc @ [d]) s')
      else if ends_word c then Some (acc, c # s)
      else if c = CHR 0x22 \<or> c = CHR ''$'' \<or> c = CHR 0x60 then None
      else sh_word False (acc @ [c]) s)"

section \<open>Timeouts of tools\<close>

definition infer_default_timeout :: "('s, 'b) SandboxService \<Rightarrow> string \<Rightarrow> u64" where
  "infer_default_timeout svc script_path =
     (if str_contains script_path ''browser'' then tt_browser_tools_secs (svc_tool_timeouts svc)
      else if str_contains script_path ''web'' then tt_web_tools_secs (svc_tool_timeouts svc)
      else if str_contains script_path ''databend'' then tt_databend_tools_secs (svc_tool_timeouts svc)
      else tt_default_secs (svc_tool_timeouts svc))"

definition get_tool_timeout :: "('s, 'b) SandboxService \<Rightarrow> string \<Rightarrow> u64 option \<Rightarrow> u64" where
  "get_tool_timeout svc script_path requested =
     (case requested of
        Some t \<Rightarrow> min t (tt_max_allowed_secs (svc_tool_timeouts svc))
      | None \<Rightarrow> infer_default_timeout svc script_path)"

section \<open>Commands and tools\<close>

record ExecToolHttpRequest =
  etr_interpreter :: string
  etr_script_path :: string
  etr_action :: string
  etr_args :: json
  etr_timeout :: "u64 option"
  etr_environment :: "(string \<times> string) list option"

definition exec_sandbox_result_with_stdin ::
  "('s, 'b) SandboxService \<Rightarrow> uuid \<Rightarrow> string list \<Rightarrow> string option \<Rightarrow> u64 option \<Rightarrow>
   ('s, 'b, ExecCommandResult) svc" where
  "exec_sandbox_result_with_stdin svc i command stdin timeout =
     bindE (get_or_not_found svc i) (\<lambda>sandbox.
     if sb_state sandbox \<noteq> Running
     then throw (SvcText (''Sandbox is not running (current state: '' @
            sandbox_state_as_str (sb_state sandbox) @ '')''))
     else
       bindE (ok_or (SvcText ''Container not running or not started'') (sb_container_id sandbox)) (\<lambda>cid.
       bindE (map_err SvcManager
         (on_backend (mgr_exec_with_stdin_result (svc_backend svc) cid command stdin timeout))) (\<lambda>result.
       bindE (record_activity svc i ActExec
         (JObject [(''command'', JArray (map JString command))])) (\<lambda>_.
       ret result))))"

definition exec_sandbox_with_stdin ::
  "('s, 'b) SandboxService \<Rightarrow> uuid \<Rightarrow> string list \<Rightarrow> string option \<Rightarrow> u64 option \<Rightarrow>
   ('s, 'b, string) svc" where
  "exec_sandbox_with_stdin svc i command stdin timeout =
     bindE (exec_sandbox_result_with_stdin svc i command stdin timeout) (\<lambda>r. ret (ecr_output r))"

definition exec_sandbox :: "('s, 'b) SandboxService \<Rightarrow> uuid \<Rightarrow> string list \<Rightarrow> ('s, 'b, string) svc" where
  "exec_sandbox svc i command = exec_sandbox_with_stdin svc i command None None"

definition exec_tool_http ::
  "('s, 'b) SandboxService \<Rightarrow> uuid \<Rightarrow> ExecToolHttpRequest \<Rightarrow> ('s, 'b, json) svc" where
  "exec_tool_http svc i request =
     bindE (get_or_not_found svc i) (\<lambda>sandbox.
     if sb_state sandbox \<noteq> Running then throw (SvcText ''Sandbox is not running'')
     else
       bindE (ok_or (SvcText ''Container not running or not started'') (sb_container_id sandbox)) (\<lambda>cid.
       let tool_timeout = get_tool_timeout svc (etr_script_path request) (etr_timeout request);
           http_timeout = tool_timeout + tt_http_buffer_secs (svc_tool_timeouts svc);
           body = JObject
             [(''interpreter'', JString (etr_interpreter request)),
              (''script_path'', JString (etr_script_path request)),
              (''action'', JString (etr_action request)),
              (''args'', etr_args request),
              (''timeout'', JNumber (uint tool_timeout)),
              (''environment'', case etr_environment request of
                 None \<Rightarrow> JNull | Some env \<Rightarrow> JObject (map (\<lambda>(k, v). (k, JString v)) env))] in
       bindE (attempt (on_backend (mgr_exec_http (svc_backend svc) cid ''/exec'' ''POST''
         (Some body) (Some http_timeout)))) (\<lambda>result.
       bindE (record_activity svc i ActExec (JObject
         [(''script'', JString (etr_script_path request)), (''action'', JString (etr_action request)),
          (''method'', JString ''http'')])) (\<lambda>_.
       case result of Inl e \<Rightarrow> throw (SvcManager e) | Inr r \<Rightarrow> ret r))))"

section \<open>Files\<close>

definition resolve_path ::
  "('s, 'b) SandboxService \<Rightarrow> string \<Rightarrow> string \<Rightarrow> ('s, 'b, string) svc" where
  "resolve_path svc cid path =
     (if \<not> starts_with path ''/'' then
        bindE (attempt (on_backend (mgr_get_workdir (svc_backend svc) cid))) (\<lambda>r. case r of
          Inr workdir \<Rightarrow> ret (trim_end_matches CHR ''/'' workdir @ ''/'' @ trim_start_matches CHR ''/'' path)
        | Inl _ \<Rightarrow> ret (''/'' @ trim_start_matches CHR ''/'' path))
      else ret path)"

definition running_container ::
  "('s, 'b) SandboxService \<Rightarrow> uuid \<Rightarrow> ('s, 'b, string) svc" where
  "running_container svc i =
     bindE (get_or_not_found svc i) (\<lambda>sandbox.
     if sb_state sandbox \<noteq> Running then throw (SvcText ''Sandbox is not running'')
     else ok_or (SvcText ''Container not created'') (sb_container_id sandbox))"

definition upload_file ::
  "(string \<Rightarrow> string \<Rightarrow> string + string) \<Rightarrow> ('s, 'b) SandboxService \<Rightarrow> uuid \<Rightarrow> string \<Rightarrow> string \<Rightarrow>
   ('s, 'b, unit) svc" where
  "upload_file build_tar svc i dest_path0 data =
     bindE (running_container svc i) (\<lambda>cid.
     bindE (resolve_path svc cid dest_path0) (\<lambda>dest_path.
     let tar_entry_path = trim_start_matches CHR ''/'' dest_path in
     if tar_entry_path = [] then throw (SvcText ''Invalid destination path'')
     else (case build_tar tar_entry_path data of
       Inl e \<Rightarrow> throw (SvcText e)
     | Inr tar_data \<Rightarrow>
         bindE (map_err (\<lambda>e. SvcText (''Failed to upload file: '' @ manager_error_display e))
           (on_backend (mgr_upload_archive (svc_backend svc) cid ''/'' tar_data))) (\<lambda>_.
         record_activity svc i ActUpload (JObject
           [(''path'', JString dest_path), (''size'', JNumber (int (length data)))])))))"

definition build_download_cmds :: "string \<Rightarrow> string list \<times> string list \<times> string list" where
  "build_download_cmds src_path =
     (let quoted = shell_quote src_path in
      ([''sh'', ''-c'', ''test -f '' @ quoted @ '' && echo '' @ [CHR 0x27] @ ''exists'' @ [CHR 0x27] @
          '' || echo '' @ [CHR 0x27] @ ''notfound'' @ [CHR 0x27]],
       [''sh'', ''-c'', ''wc -c < '' @ quoted @ '' 2>/dev/null || echo '' @ [CHR 0x27] @ ''0'' @ [CHR 0x27]],
       [''sh'', ''-c'', ''base64 -w0 '' @ quoted]))"

definition download_file ::
  "(string \<Rightarrow> string option) \<Rightarrow> ('s, 'b) SandboxService \<Rightarrow> uuid \<Rightarrow> string \<Rightarrow> ('s, 'b, string) svc" where
  "download_file decode svc i src_path0 =
     bindE (running_container svc i) (\<lambda>cid.
     bindE (resolve_path svc cid src_path0) (\<lambda>src_path.
     case build_download_cmds src_path of (check_cmd, size_cmd, read_cmd) \<Rightarrow>
     bindE (map_err SvcManager (on_backend (mgr_exec (svc_backend svc) cid check_cmd))) (\<lambda>check_result.
     if \<not> str_contains check_result ''exists'' then throw (SvcText ''File not found'')
     else
       bindE (map_err SvcManager (on_backend (mgr_exec (svc_backend svc) cid size_cmd))) (\<lambda>size_result.
       let file_size = (case parse_uint 64 (trim size_result) of None \<Rightarrow> 0 | Some n \<Rightarrow> n) in
       if unat (svc_max_file_size_bytes svc) < file_size
       then throw (SvcText (''File size '' @ show_nat file_size @ '' exceeds limit '' @
              show_nat (unat (svc_max_file_size_bytes svc))))
       else
         bindE (map_err SvcManager (on_backend (mgr_exec (svc_backend svc) cid read_cmd))) (\<lambda>encoded.
         bindE (ok_or (SvcText ''Failed to decode file content'') (decode (trim encoded))) (\<lambda>decoded.
         bindE (record_activity svc i ActDownload (JObject
           [(''path'', JString src_path), (''size'', JNumber (int (length decoded)))])) (\<lambda>_.
         ret decoded)))))))"

section \<open>None of these operations changes a sandbox record\<close>

context state_store
begin

lemma yields_running_container [yields_rules]:
  "svc_state svc = st \<Longrightarrow> yields wok (running_container svc i) (\<lambda>_. True)"
  unfolding running_container_def
  by (rule TrueI | rule yields_rules | assumption)+

lemma yields_resolve_path [yields_rules]: "yields wok (resolve_path svc cid p) (\<lambda>_. True)"
  unfolding resolve_path_def
  by (rule TrueI | rule yields_rules | assumption)+

lemma yields_exec_result [yields_rules]:
  "svc_state svc = st \<Longrightarrow> yields wok (exec_sandbox_result_with_stdin svc i c s t) (\<lambda>_. True)"
  unfolding exec_sandbox_result_with_stdin_def
  by (rule TrueI | rule yields_rules | assumption)+

lemma yields_exec_tool_http [yields_rules]:
  "svc_state svc = st \<Longrightarrow> yields wok (exec_tool_http svc i r) (\<lambda>_. True)"
  unfolding exec_tool_http_def Let_def
  by (rule TrueI | rule yields_rules | assumption)+

lemma yields_upload_file [yields_rules]:
  "svc_state svc = st \<Longrightarrow> yields wok (upload_file tar svc i p d) (\<lambda>_. True)"
  unfolding upload_file_def Let_def
  by (rule TrueI | rule yields_rules | assumption)+

lemma yields_download_file [yields_rules]:
  "svc_state svc = st \<Longrightarrow> yields wok (download_file dec svc i p) (\<lambda>_. True)"
  unfolding download_file_def Let_def split_beta
  by (rule TrueI | rule yields_rules | assumption)+

end

section \<open>Properties\<close>

lemma sh_word_quoted:
  "sh_word True acc (replace_char (CHR 0x27) [CHR 0x27, CHR 0x5C, CHR 0x27, CHR 0x27] p @ CHR 0x27 # rest) =
     sh_word False (acc @ p) rest"
  by (induction p arbitrary: acc) (simp_all add: replace_char_def)

lemma sh_word_shell_quote:
  assumes "rest = [] \<or> ends_word (hd rest)"
  shows "sh_word False [] (shell_quote p @ rest) = Some (p, rest)"
proof -
  have no: "c \<noteq> CHR 0x27 \<and> c \<noteq> CHR 0x5C" if "ends_word c" for c
    using that by (auto simp: ends_word_def)
  have "sh_word False p rest = Some (p, rest)"
    using assms no by (cases rest) auto
  then show ?thesis
    by (simp add: shell_quote_def sh_word_quoted)
qed

text \<open>
  No shell injection: for every path, quotes and backslashes included, the word a POSIX
  shell reads at the place of the path in each of the three download commands is exactly
  that path, and the rest of the command is what the program wrote.
\<close>

theorem download_cmds_quote_path:
  "\<exists>check size read. build_download_cmds p = ([''sh'', ''-c'', check], [''sh'', ''-c'', size], [''sh'', ''-c'', read]) \<and>
     take 8 check = ''test -f '' \<and>
     sh_word False [] (drop 8 check) =
       Some (p, '' && echo '' @ [CHR 0x27] @ ''exists'' @ [CHR 0x27] @ '' || echo '' @
         [CHR 0x27] @ ''notfound'' @ [CHR 0x27]) \<and>
     take 8 size = ''wc -c < '' \<and>
     sh_word False [] (drop 8 size) =
       Some (p, '' 2>/dev/null || echo '' @ [CHR 0x27] @ ''0'' @ [CHR 0x27]) \<and>
     take 12 read = ''base64 -w0 '' @ [CHR 0x27] \<and> sh_word False [] (drop 11 read) = Some (p, [])"
  using sh_word_shell_quote [of "'' && echo '' @ [CHR 0x27] @ ''exists'' @ [CHR 0x27] @ '' || echo '' @
         [CHR 0x27] @ ''notfound'' @ [CHR 0x27]" p]
    sh_word_shell_quote [of "'' 2>/dev/null || echo '' @ [CHR 0x27] @ ''0'' @ [CHR 0x27]" p]
    sh_word_shell_quote [of "[]" p]
  by (simp add: build_download_cmds_def ends_word_def shell_quote_def)

text \<open>
  Tool timeouts: a requested timeout is honoured up to the configured maximum, and with
  settings whose sum with the HTTP buffer fits 64 bits the HTTP timeout is strictly the
  larger of the two whenever the buffer is positive, so the tool times out first.
\<close>

theorem tool_timeout_bounds:
  assumes "requested = Some t"
    and "unat (tt_max_allowed_secs (svc_tool_timeouts svc)) +
      unat (tt_http_buffer_secs (svc_tool_timeouts svc)) < 2 ^ 64"
    and "0 < tt_http_buffer_secs (svc_tool_timeouts svc)"
  shows "get_tool_timeout svc path requested \<le> t \<and>
    get_tool_timeout svc path requested \<le> tt_max_allowed_secs (svc_tool_timeouts svc) \<and>
    get_tool_timeout svc path requested <
      get_tool_timeout svc path requested + tt_http_buffer_secs (svc_tool_timeouts svc)"
proof -
  let ?m = "tt_max_allowed_secs (svc_tool_timeouts svc)"
  let ?b = "tt_http_buffer_secs (svc_tool_timeouts svc)"
  have m: "min t ?m \<le> ?m" by simp
  then have "unat (min t ?m) + unat ?b < 2 ^ 64"
    using assms(2) by (simp add: word_le_nat_alt)
  then have "unat (min t ?m + ?b) = unat (min t ?m) + unat ?b"
    by (subst unat_add_lem [THEN iffD1]) simp_all
  moreover have "0 < unat ?b"
    using assms(3) by (simp add: word_less_nat_alt)
  ultimately have "min t ?m < min t ?m + ?b"
    by (simp add: word_less_nat_alt)
  then show ?thesis
    using assms(1) by (simp add: get_tool_timeout_def)
qed

theorem tool_timeout_bounds_witness:
  "get_tool_timeout example_service ''tool.py'' (Some 1000) \<le> 300"
  using tool_timeout_bounds [of "Some 1000" 1000 example_service "''tool.py''"]
  by (simp add: example_service_def service_new_def default_tool_timeouts_def)

end
