(* ===== verification/Tasks.thy ===== *)
theory Tasks
  imports Create Exec
begin

text \<open>
  The periodic background tasks (\<open>src/src/core/sandbox/tasks.rs\<close>), one definition per loop
  body: inactivity cleanup, removal of inactive containers, removal of containers of
  destroyed sandboxes, and the state monitor. The second half puts every operation of the
  service into one step relation and shows the lifecycle invariant of all reachable worlds.
  The expired-deletion task only logs.
\<close>

section \<open>Inactivity cleanup\<close>

definition last_activity :: "ActivityTracking \<Rightarrow> time" where
  "last_activity a =
     (case at_last_container_activity a of
        Some container_time \<Rightarrow>
          if at_last_api_activity a < container_time then container_time else at_last_api_activity a
      | None \<Rightarrow> at_last_api_activity a)"

definition elapsed_minutes :: "time \<Rightarrow> ActivityTracking \<Rightarrow> u64" where
  "elapsed_minutes now a = as_u64 (num_minutes (now - last_activity a))"

definition timeout_minutes :: "('s, 'b) SandboxService \<Rightarrow> Sandbox \<Rightarrow> u64" where
  "timeout_minutes svc sb =
     (case sb_inactivity_timeout_minutes sb of
        Some t \<Rightarrow> t
      | None \<Rightarrow> svc_default_inactivity_timeout svc)"

definition auto_cleanup_one ::
  "('s, 'b) SandboxService \<Rightarrow> Sandbox \<Rightarrow> unit \<Rightarrow> ('s, 'b, unit) svc" where
  "auto_cleanup_one svc sandbox u =
     (if sb_state sandbox = Destroyed \<or> sb_state sandbox = Destroying then ret ()
      else bindE utc_now (\<lambda>now.
        if timeout_minutes svc sandbox \<le> elapsed_minutes now (sb_activity sandbox)
        then if svc_cleanup_dry_run svc then ret ()
             else bindE (attempt (cleanup_sandbox svc (sb_id sandbox))) (\<lambda>_. ret ())
        else ret ()))"

definition auto_cleanup_tick :: "('s, 'b) SandboxService \<Rightarrow> ('s, 'b, unit) svc" where
  "auto_cleanup_tick svc =
     bindE (svc_list_sandboxes svc) (\<lambda>sandboxes. foldE (auto_cleanup_one svc) sandboxes ())"

section \<open>Inactive and destroyed containers\<close>

definition orphan_cleanup_one ::
  "('s, 'b) SandboxService \<Rightarrow> Sandbox \<Rightarrow> nat \<Rightarrow> ('s, 'b, nat) svc" where
  "orphan_cleanup_one svc sandbox removed =
     (if sb_state sandbox \<noteq> Running then ret removed
      else case sb_container_id sandbox of
        None \<Rightarrow> ret removed
      | Some cid \<Rightarrow>
          let a = sb_activity sandbox;
              last = (case at_last_container_activity a of
                 Some c \<Rightarrow> max (at_last_api_activity a) c | None \<Rightarrow> at_last_api_activity a) in
          bindE utc_now (\<lambda>now.
          if 30 < num_minutes (now - last) then
            bindE (attempt (on_backend (mgr_delete (svc_backend svc) cid))) (\<lambda>r. case r of
              Inl _ \<Rightarrow> ret removed
            | Inr _ \<Rightarrow>
                bindE (store_get svc (sb_id sandbox)) (\<lambda>found. case found of
                  None \<Rightarrow> ret (removed + 1)
                | Some sb \<Rightarrow>
                    bindE utc_now (\<lambda>now1.
                    bindE (attempt (store_update svc (sb\<lparr>sb_state := Stopped, sb_updated_at := now1\<rparr>)))
                      (\<lambda>_. ret (removed + 1)))))
          else ret removed))"

definition cleanup_orphaned_containers :: "('s, 'b) SandboxService \<Rightarrow> ('s, 'b, nat) svc" where
  "cleanup_orphaned_containers svc =
     bindE (svc_list_sandboxes svc) (\<lambda>sandboxes. foldE (orphan_cleanup_one svc) sandboxes 0)"

definition destroyed_cleanup_one ::
  "('s, 'b) SandboxService \<Rightarrow> Sandbox \<Rightarrow> nat \<Rightarrow> ('s, 'b, nat) svc" where
  "destroyed_cleanup_one svc sandbox removed =
     (if sb_state sandbox \<noteq> Destroyed then ret removed
      else case sb_container_id sandbox of
        None \<Rightarrow> ret removed
      | Some cid \<Rightarrow>
          bindE (attempt (on_backend (mgr_list (svc_backend svc) True))) (\<lambda>r. case r of
            Inl _ \<Rightarrow> ret removed
          | Inr containers \<Rightarrow>
              if list_ex (\<lambda>c. starts_with (si_id c) cid) containers
              then bindE (attempt (on_backend (mgr_delete (svc_backend svc) cid))) (\<lambda>d. case d of
                     Inl _ \<Rightarrow> ret removed
                   | Inr _ \<Rightarrow> ret (removed + 1))
              else ret removed))"

definition cleanup_destroyed_containers :: "('s, 'b) SandboxService \<Rightarrow> ('s, 'b, nat) svc" where
  "cleanup_destroyed_containers svc =
     bindE (svc_list_sandboxes svc) (\<lambda>sandboxes. foldE (destroyed_cleanup_one svc) sandboxes 0)"

section \<open>State monitor\<close>

definition state_monitor_one ::
  "('s, 'b) SandboxService \<Rightarrow> Sandbox \<Rightarrow> unit \<Rightarrow> ('s, 'b, unit) svc" where
  "state_monitor_one svc sandbox u =
     (if sb_state sandbox \<noteq> Running then ret ()
      else case sb_container_id sandbox of
        None \<Rightarrow> ret ()
      | Some cid \<Rightarrow>
          bindE (attempt (on_backend (mgr_is_running (svc_backend svc) cid))) (\<lambda>r. case r of
            Inl _ \<Rightarrow> ret ()
          | Inr running \<Rightarrow>
              if running then ret ()
              else
                bindE (attempt (on_backend (mgr_get_exit_info (svc_backend svc) cid))) (\<lambda>_.
                bindE (store_get svc (sb_id sandbox)) (\<lambda>found. case found of
                  None \<Rightarrow> ret ()
                | Some sb \<Rightarrow>
                    bindE utc_now (\<lambda>now.
                    bindE (attempt (store_update svc (sb\<lparr>sb_state := Stopped, sb_updated_at := now\<rparr>)))
                      (\<lambda>upd. case upd of
                         Inl _ \<Rightarrow> ret ()
                       | Inr _ \<Rightarrow> record_activity svc (sb_id sandbox) ActStop
                           (JObject [(''reason'', JString ''container_stopped''),
                                     (''auto_detected'', JBool True)])))))))"

definition state_monitor_tick :: "('s, 'b) SandboxService \<Rightarrow> ('s, 'b, unit) svc" where
  "state_monitor_tick svc =
     bindE (svc_list_sandboxes svc) (\<lambda>sandboxes. foldE (state_monitor_one svc) sandboxes ())"

section \<open>One step of the service\<close>

text \<open>
  Every public operation that changes state, every background task, and the environment: the
  backend may change at any time (a container dies, an image disappears).
\<close>

inductive svc_step :: "('s, 'b) SandboxService \<Rightarrow> ('s, 'b) world \<Rightarrow> ('s, 'b) world \<Rightarrow> bool"
  for svc :: "('s, 'b) SandboxService" where
  step_create: "create_sandbox svc config identity w = (r, v) \<Longrightarrow> svc_step svc w v"
| step_health: "health_check_task fuel svc i cid elapsed w = Some v \<Longrightarrow> svc_step svc w v"
| step_progress: "create_sandbox_with_progress fuel svc config identity elapsed w = Some (evs, v) \<Longrightarrow>
    svc_step svc w v"
| step_stop: "stop_sandbox svc i w = (u, v) \<Longrightarrow> svc_step svc w v"
| step_start: "start_sandbox svc i w = (u, v) \<Longrightarrow> svc_step svc w v"
| step_delete: "delete_sandbox svc i w = (u, v) \<Longrightarrow> svc_step svc w v"
| step_cleanup: "cleanup_sandbox svc i w = (u, v) \<Longrightarrow> svc_step svc w v"
| step_restore: "restore_sandbox svc i w = (u, v) \<Longrightarrow> svc_step svc w v"
| step_shutdown: "shutdown_cleanup_sandbox svc i w = (u, v) \<Longrightarrow> svc_step svc w v"
| step_api_activity: "record_api_activity svc i w = (u, v) \<Longrightarrow> svc_step svc w v"
| step_container_activity: "update_container_activity svc i w = (u, v) \<Longrightarrow> svc_step svc w v"
| step_stats: "get_sandbox_stats svc i w = (s, v) \<Longrightarrow> svc_step svc w v"
| step_stats_stream: "stream_sandbox_stats n svc i w = (l, v) \<Longrightarrow> svc_step svc w v"
| step_exec: "exec_sandbox_result_with_stdin svc i command stdin timeout w = (x, v) \<Longrightarrow> svc_step svc w v"
| step_tool: "exec_tool_http svc i request w = (x', v) \<Longrightarrow> svc_step svc w v"
| step_upload: "upload_file build_tar svc i path data w = (u, v) \<Longrightarrow> svc_step svc w v"
| step_download: "download_file decode svc i path w = (d, v) \<Longrightarrow> svc_step svc w v"
| step_auto_cleanup: "auto_cleanup_tick svc w = (u, v) \<Longrightarrow> svc_step svc w v"
| step_orphans: "cleanup_orphaned_containers svc w = (n, v) \<Longrightarrow> svc_step svc w v"
| step_destroyed: "cleanup_destroyed_containers svc w = (n, v) \<Longrightarrow> svc_step svc w v"
| step_monitor: "state_monitor_tick svc w = (u, v) \<Longrightarrow> svc_step svc w v"
| step_environment: "svc_step svc w (w\<lparr>w_backend := b\<rparr>)"

inductive reachable :: "('s, 'b) SandboxService \<Rightarrow> ('s, 'b) world \<Rightarrow> ('s, 'b) world \<Rightarrow> bool"
  for svc :: "('s, 'b) SandboxService" and w0 :: "('s, 'b) world" where
  reachable_init: "reachable svc w0 w0"
| reachable_step: "reachable svc w0 w \<Longrightarrow> svc_step svc w v \<Longrightarrow> reachable svc w0 v"

section \<open>Tasks keep the invariant\<close>

context state_store
begin

lemma yields_list [yields_rules]:
  "svc_state svc = st \<Longrightarrow> yields wok (svc_list_sandboxes svc) (\<lambda>l. \<forall>sb\<in>set l. sandbox_ok sb)"
  unfolding svc_list_sandboxes_def by (rule yields_store_list)

lemma yields_auto_cleanup_one:
  "svc_state svc = st \<Longrightarrow> yields wok (auto_cleanup_one svc sb u) (\<lambda>_. True)"
  unfolding auto_cleanup_one_def
  by (rule TrueI | rule yields_rules | assumption)+

lemma yields_orphan_cleanup_one:
  "svc_state svc = st \<Longrightarrow> yields wok (orphan_cleanup_one svc sb n) (\<lambda>_. True)"
  unfolding orphan_cleanup_one_def Let_def
  by (rule TrueI | rule yields_rules | assumption | simp add: ok_updates)+

lemma yields_destroyed_cleanup_one:
  "yields wok (destroyed_cleanup_one svc sb n) (\<lambda>_. True)"
  unfolding destroyed_cleanup_one_def
  by (rule TrueI | rule yields_rules | assumption)+

lemma yields_state_monitor_one:
  "svc_state svc = st \<Longrightarrow> yields wok (state_monitor_one svc sb u) (\<lambda>_. True)"
  unfolding state_monitor_one_def
  by (rule TrueI | rule yields_rules | assumption | simp add: ok_updates)+

lemma yields_ticks:
  assumes "svc_state svc = st"
  shows "yields wok (auto_cleanup_tick svc) (\<lambda>_. True)"
    and "yields wok (cleanup_orphaned_containers svc) (\<lambda>_. True)"
    and "yields wok (cleanup_destroyed_containers svc) (\<lambda>_. True)"
    and "yields wok (state_monitor_tick svc) (\<lambda>_. True)"
  unfolding auto_cleanup_tick_def cleanup_orphaned_containers_def cleanup_destroyed_containers_def
    state_monitor_tick_def
  by (rule yields_bind [OF yields_list [OF assms]], rule yields_foldE,
      auto intro: assms yields_auto_cleanup_one yields_orphan_cleanup_one
        yields_destroyed_cleanup_one yields_state_monitor_one)+

lemma create_with_progress_ok:
  assumes svc: "svc_state svc = st" and w: "wok w"
    and run: "create_sandbox_with_progress fuel svc config identity elapsed w = Some (evs, v)"
  shows "wok v"
proof -
  let ?i = "w_uuid_src w (w_uuids w)"
  let ?c = "config\<lparr>cfg_resource_limits := merge_resource_limits svc (cfg_resource_limits config)\<rparr>"
  obtain r u where u: "stream_prepare svc ?i ?c identity (w\<lparr>w_uuids := Suc (w_uuids w)\<rparr>) = (r, u)"
    by (cases "stream_prepare svc ?i ?c identity (w\<lparr>w_uuids := Suc (w_uuids w)\<rparr>)")
  have prep: "wok u \<and> (\<forall>evs sb cid. r = Inr (evs, sb, cid) \<longrightarrow> sandbox_ok sb \<and> sb_container_id sb = Some cid)"
    using yieldsD [OF yields_stream_prepare [OF svc], of "w\<lparr>w_uuids := Suc (w_uuids w)\<rparr>" ?i ?c identity] w u
    by (cases r) (auto simp: wpE_def)
  show ?thesis
  proof (cases r)
    case (Inl l)
    with run u prep show ?thesis by (auto simp: create_sandbox_with_progress_def create_progress_task_def)
  next
    case (Inr x)
    obtain l sb cid where x: "x = (l, sb, cid)" by (cases x)
    from run u Inr x obtain t where
      t: "(if needs_tool_proxy (sb_config sb) then stream_health_loop fuel svc cid elapsed 0 u else Some u) = Some t"
      and v: "v = snd (stream_finish svc ?i sb cid l t)"
      by (auto simp: create_sandbox_with_progress_def create_progress_task_def
          split: option.splits sum.splits prod.splits)
    have "wok t"
      using t prep stream_health_loop_store [of fuel svc cid elapsed 0 u t] by (auto split: if_splits)
    with prep Inr x show ?thesis
      using yields_inv [OF yields_stream_finish [OF svc, of sb cid ?i l], of t] v by (metis prod.collapse)
  qed
qed

lemma svc_step_ok:
  assumes "svc_step svc w v" and svc: "svc_state svc = st" and "wok w"
  shows "wok v"
  using assms(1,3)
  by cases (auto intro: health_check_task_ok [OF svc] create_with_progress_ok [OF svc]
      yields_inv [OF yields_create_sandbox [OF svc]] yields_inv [OF yields_stop_sandbox [OF svc]]
      yields_inv [OF yields_start_sandbox [OF svc]] yields_inv [OF yields_delete_sandbox [OF svc]]
      yields_inv [OF yields_cleanup_sandbox [OF svc]] yields_inv [OF yields_restore_sandbox [OF svc]]
      yields_inv [OF yields_shutdown_cleanup_sandbox [OF svc]]
      yields_inv [OF yields_record_api_activity [OF svc]]
      yields_inv [OF yields_update_container_activity [OF svc]]
      yields_inv [OF yields_stream_sandbox_stats [OF svc]] yields_inv [OF yields_exec_result [OF svc]]
      yields_inv [OF yields_exec_tool_http [OF svc]] yields_inv [OF yields_upload_file [OF svc]]
      yields_inv [OF yields_download_file [OF svc]]
      yields_inv [OF yields_get_sandbox_stats [OF svc]] yields_inv [OF yields_ticks(1) [OF svc]]
      yields_inv [OF yields_ticks(2) [OF svc]] yields_inv [OF yields_ticks(3) [OF svc]]
      yields_inv [OF yields_ticks(4) [OF svc]])

lemma reachable_ok:
  assumes "reachable svc w0 w" and "svc_state svc = st" and "wok w0"
  shows "wok w"
  using assms(1) by induction (auto intro: assms svc_step_ok)

text \<open>On a world that satisfies the invariant the task for destroyed sandboxes finds nothing.\<close>

lemma destroyed_cleanup_noop:
  assumes "\<forall>sb\<in>set l. sandbox_ok sb"
  shows "foldE (destroyed_cleanup_one svc) l n w = (Inr n, w)"
  using assms
  by (induction l) (auto simp: ret_def bindE_def destroyed_cleanup_one_def sandbox_ok_def split: option.splits)

lemma cleanup_destroyed_noop:
  assumes "wok w" and "svc_state svc = st"
  shows "\<exists>s. cleanup_destroyed_containers svc w = (Inr 0, w\<lparr>w_store := s\<rparr>) \<and>
    contents s = contents (w_store w)"
proof -
  obtain l s where l: "ss_list_sandboxes st (w_store w) = (l, s)"
    by (cases "ss_list_sandboxes st (w_store w)")
  have "\<forall>sb\<in>set l. sandbox_ok sb"
    using yieldsD [OF yields_list [OF assms(2)] assms(1)]
    by (simp add: svc_list_sandboxes_def store_list_def wpE_read_store assms(2) l)
  then show ?thesis
    using list_law [OF wok_invar [OF assms(1)] l]
    by (intro exI [of _ s]) (simp add: cleanup_destroyed_containers_def bindE_def
        svc_list_sandboxes_def store_list_def read_store_def assms(2) l destroyed_cleanup_noop)
qed

end

section \<open>Properties\<close>

text \<open>
  C2. The lifecycle invariant: in every world the service can reach from an empty in-memory
  store by any sequence of its operations, background tasks and backend changes, every
  stored sandbox is filed under its own identifier and is well-formed: a deleted sandbox has
  no container and records who deleted it; a destroyed one is deleted; a created, starting
  or running one has a container; one still being created has none and is not deleted; and
  none is left in the transitional state \<open>Destroying\<close>.
\<close>

theorem lifecycle_invariant:
  assumes "svc_state svc = StateStore" and "w_store w0 = mem_new" and "reachable svc w0 w"
  shows "mem_invar (w_store w) \<and> (\<forall>i sb. map_of (w_store w) i = Some sb \<longrightarrow> sandbox_ok sb)"
proof -
  have "world_ok map_of mem_invar w0"
    using assms(2) by (simp add: world_ok_def mem_invar_new) (simp add: mem_new_def)
  from mem.reachable_ok [OF assms(3,1) this] show ?thesis by (simp add: world_ok_def)
qed

theorem lifecycle_invariant_witness:
  "mem_invar (w_store (snd (create_sandbox example_service sandbox_config_default None
     (example_world mem_new []))))"
proof -
  let ?w = "example_world mem_new []"
  have "svc_step example_service ?w (snd (create_sandbox example_service sandbox_config_default None ?w))"
    by (rule step_create [OF prod.collapse [symmetric]])
  then have "reachable example_service ?w (snd (create_sandbox example_service sandbox_config_default None ?w))"
    by (rule reachable_step [OF reachable_init])
  then show ?thesis
    using lifecycle_invariant [of example_service ?w
        "snd (create_sandbox example_service sandbox_config_default None ?w)"] by simp
qed

text \<open>
  The task that looks for containers of destroyed sandboxes never finds one: in every
  reachable world it returns zero without changing anything or calling the backend, because
  a destroyed sandbox no longer names its container.
\<close>

theorem cleanup_destroyed_is_noop:
  assumes "svc_state svc = StateStore" and "w_store w0 = mem_new" and "reachable svc w0 w"
  shows "cleanup_destroyed_containers svc w = (Inr 0, w)"
proof -
  have ok: "world_ok map_of mem_invar w"
    using mem.reachable_ok [OF assms(3,1)] assms(2)
    by (simp add: world_ok_def mem_invar_new) (simp add: mem_new_def)
  then have "\<forall>sb\<in>set (map snd (w_store w)). sandbox_ok sb"
    by (auto simp: world_ok_def) (metis mem_invar_value snd_conv rev_image_eqI)
  then show ?thesis
    by (simp add: cleanup_destroyed_containers_def bindE_def svc_list_sandboxes_def store_list_def
        read_store_def assms(1) StateStore_def mem_list_sandboxes_def mem.destroyed_cleanup_noop)
qed

theorem cleanup_destroyed_is_noop_witness:
  "cleanup_destroyed_containers example_service (example_world mem_new []) =
     (Inr 0, example_world mem_new [])"
  using cleanup_destroyed_is_noop [OF example_service_state example_world_store reachable_init] .

text \<open>
  The inactivity rule: when the last activity lies in the past (and less than \<open>2 ^ 63\<close>
  minutes ago), a sandbox that is not destroyed is cleaned up exactly when the number of whole
  minutes since the later of its two activity times reaches its own timeout, or the default
  one when it has none. In a dry run, or when it is not due, nothing but the clock is read.
\<close>

theorem auto_cleanup_decision:
  assumes "sb_state sb \<noteq> Destroyed" and "sb_state sb \<noteq> Destroying"
    and "now = w_clock w (w_ticks w)"
    and "last_activity (sb_activity sb) \<le> now"
    and "now - last_activity (sb_activity sb) < 2 ^ 63 * (60 * nanos_per_sec)"
  shows "auto_cleanup_one svc sb () w =
    (if int (unat (timeout_minutes svc sb)) \<le> (now - last_activity (sb_activity sb)) div (60 * nanos_per_sec)
        \<and> \<not> svc_cleanup_dry_run svc
     then (Inr (), snd (cleanup_sandbox svc (sb_id sb) (w\<lparr>w_ticks := Suc (w_ticks w)\<rparr>)))
     else (Inr (), w\<lparr>w_ticks := Suc (w_ticks w)\<rparr>))"
proof -
  let ?m = "(now - last_activity (sb_activity sb)) div (60 * nanos_per_sec)"
  have m: "0 \<le> ?m" "?m < 2 ^ 63"
    using assms(4,5) by (simp_all add: nanos_per_sec_def div_less_iff_less_mult pos_imp_zdiv_nonneg_iff)
  have "elapsed_minutes now (sb_activity sb) = word_of_int ?m"
    using assms(4) by (simp add: elapsed_minutes_def as_u64_def num_minutes_nonneg)
  then have "int (unat (elapsed_minutes now (sb_activity sb))) = ?m"
    using m by (simp add: uint_word_of_int flip: uint_nat)
  then have "timeout_minutes svc sb \<le> elapsed_minutes now (sb_activity sb) \<longleftrightarrow>
      int (unat (timeout_minutes svc sb)) \<le> ?m"
    by (simp add: word_le_def)
  then show ?thesis
    using assms(1-3)
    by (auto simp: auto_cleanup_one_def bindE_def utc_now_def attempt_def ret_def split: prod.splits)
qed

theorem auto_cleanup_decision_witness:
  "auto_cleanup_one example_service (example_sandbox 7 Running None) () (example_world [] []) =
     (Inr (), (example_world [] [])\<lparr>w_ticks := 1\<rparr>)"
proof -
  have a: "last_activity (sb_activity (example_sandbox 7 Running None)) = 0"
    "timeout_minutes example_service (example_sandbox 7 Running None) = 30"
    by (simp_all add: last_activity_def example_sandbox_def timeout_minutes_def example_service_def
        service_new_def)
  have c: "w_clock (example_world [] []) (w_ticks (example_world [] [])) = 0"
    "Suc (w_ticks (example_world [] [])) = 1"
    by (simp_all add: example_world_def)
  show ?thesis
    using auto_cleanup_decision [of "example_sandbox 7 Running None" 0 "example_world [] []" example_service]
    by (simp add: a c nanos_per_sec_def)
qed

text \<open>
  Clock skew: the cast of the elapsed minutes to \<open>u64\<close> wraps. A sandbox whose last
  activity is a minute or more in the future is always due, whatever its timeout below
  \<open>2 ^ 63\<close> minutes.
\<close>

theorem auto_cleanup_future_timestamp:
  assumes "now + 60 * nanos_per_sec \<le> last_activity (sb_activity sb)"
    and "last_activity (sb_activity sb) < now + 2 ^ 62 * (60 * nanos_per_sec)"
    and "timeout_minutes svc sb < 2 ^ 63"
  shows "timeout_minutes svc sb \<le> elapsed_minutes now (sb_activity sb)"
proof -
  define d where "d = now - last_activity (sb_activity sb)"
  have d: "d \<le> - (60 * nanos_per_sec)" "- (2 ^ 62 * (60 * nanos_per_sec)) < d"
    using assms(1,2) by (simp_all add: d_def)
  define k where "k = (- d) div nanos_per_sec div 60"
  have neg: "num_minutes d = - k" "1 \<le> k"
    using num_minutes_neg [OF d(1)] by (simp_all add: k_def)
  have "k \<le> 2 ^ 62"
    using d(2) unfolding k_def nanos_per_sec_def by linarith
  then have "(2 ^ 64 - k) mod 2 ^ 64 = 2 ^ 64 - k"
    using neg(2) by (intro mod_pos_pos_trivial) simp_all
  then have "uint (word_of_int (- k) :: u64) = 2 ^ 64 - k"
    by (simp only: uint_word_of_int minus_mod_self1 len_of_numeral_defs) simp
  then have "2 ^ 63 \<le> unat (word_of_int (- k) :: u64)"
    using \<open>k \<le> 2 ^ 62\<close> by (simp only: unat_eq_nat_uint) simp
  moreover have "unat (timeout_minutes svc sb) < 2 ^ 63"
    using assms(3) by (simp add: word_less_nat_alt)
  ultimately show ?thesis
    by (simp add: elapsed_minutes_def as_u64_def d_def [symmetric] neg word_le_nat_alt)
qed

theorem auto_cleanup_future_timestamp_witness:
  "timeout_minutes example_service (example_sandbox 7 Running None) \<le>
     elapsed_minutes (- 60 * nanos_per_sec) (sb_activity (example_sandbox 7 Running None))"
  using auto_cleanup_future_timestamp [of "- 60 * nanos_per_sec" "example_sandbox 7 Running None" example_service]
  by (simp add: last_activity_def example_sandbox_def timeout_minutes_def example_service_def
        service_new_def nanos_per_sec_def)

text \<open>
  A dry run of the inactivity task changes no sandbox and never calls the backend.
\<close>

theorem auto_cleanup_dry_run:
  assumes "svc_state svc = StateStore" and "svc_cleanup_dry_run svc"
  shows "\<exists>n. auto_cleanup_tick svc w = (Inr (), w\<lparr>w_ticks := n\<rparr>)"
proof -
  have "\<exists>n. foldE (auto_cleanup_one svc) l () w = (Inr (), w\<lparr>w_ticks := n\<rparr>)" for l
  proof (induction l arbitrary: w)
    case Nil
    then show ?case by (auto simp: ret_def intro: exI [of _ "w_ticks w"])
  next
    case (Cons sb l)
    have "\<exists>n. auto_cleanup_one svc sb () w = (Inr (), w\<lparr>w_ticks := n\<rparr>)"
      using assms(2)
      by (auto simp: auto_cleanup_one_def ret_def bindE_def utc_now_def intro: exI [of _ "w_ticks w"])
    then obtain n where n: "auto_cleanup_one svc sb () w = (Inr (), w\<lparr>w_ticks := n\<rparr>)" ..
    show ?case
      using Cons.IH [of "w\<lparr>w_ticks := n\<rparr>"] by (simp add: bindE_def n)
  qed
  then show ?thesis
    by (simp add: auto_cleanup_tick_def bindE_def svc_list_sandboxes_def store_list_def read_store_def
        assms(1) StateStore_def mem_list_sandboxes_def)
qed

theorem auto_cleanup_dry_run_witness:
  "\<exists>n. auto_cleanup_tick (with_cleanup_config example_service 30 True 60 15) (example_world [] []) =
     (Inr (), (example_world [] [])\<lparr>w_ticks := n\<rparr>)"
  using auto_cleanup_dry_run [of "with_cleanup_config example_service 30 True 60 15" "example_world [] []"]
  by (simp add: with_cleanup_config_def)

end
