(* ===== verification/PgStore.thy ===== *)
theory PgStore
  imports Store
begin

text \<open>
  The PostgreSQL state store (\<open>src/src/db/store\<close>): table \<open>sandboxes\<close> as a list of rows, one
  definition per method, each statement able to fail. What the third-party crates do is a
  parameter: record \<open>codec\<close> holds the JSON encoders and decoders of \<open>serde_json\<close> and the
  rounding of time stamps, and \<open>codec_ok\<close> states the round trips the code relies on. Locale
  \<open>pg_codec\<close> makes the store a second implementation of \<open>state_store\<close>.
\<close>

section \<open>Rows\<close>

record 'j codec =
  cd_null :: 'j
  cd_env :: "(string \<times> string) list \<Rightarrow> 'j"
  cd_env_of :: "'j \<Rightarrow> (string \<times> string) list option"
  cd_ports :: "PortMapping list \<Rightarrow> 'j"
  cd_ports_of :: "'j \<Rightarrow> PortMapping list option"
  cd_limits :: "ResourceLimits \<Rightarrow> 'j"
  cd_limits_of :: "'j \<Rightarrow> ResourceLimits option"
  cd_volumes :: "VolumeMount list \<Rightarrow> 'j"
  cd_volumes_of :: "'j \<Rightarrow> VolumeMount list option"
  cd_strings :: "string list \<Rightarrow> 'j"
  cd_strings_of :: "'j \<Rightarrow> string list option"
  cd_time :: "time \<Rightarrow> time"

definition codec_ok :: "'j codec \<Rightarrow> bool" where
  "codec_ok cd \<longleftrightarrow>
     (\<forall>x. cd_env_of cd (cd_env cd x) = Some x) \<and> (\<forall>x. cd_ports_of cd (cd_ports cd x) = Some x) \<and>
     (\<forall>x. cd_limits_of cd (cd_limits cd x) = Some x) \<and>
     (\<forall>x. cd_volumes_of cd (cd_volumes cd x) = Some x) \<and>
     (\<forall>x. cd_strings_of cd (cd_strings cd x) = Some x \<and> cd_strings cd x \<noteq> cd_null cd)"

record 'j row =
  r_id :: uuid
  r_image :: string
  r_name :: "string option"
  r_environment :: 'j
  r_port_mappings :: 'j
  r_resource_limits :: 'j
  r_volumes :: 'j
  r_command :: 'j
  r_inactivity_timeout_minutes :: "i64 option"
  r_pull_policy :: string
  r_features :: 'j
  r_enable_all_features :: bool
  r_vnc_resolution :: "string option"
  r_state :: string
  r_container_id :: "string option"
  r_error_message :: "string option"
  r_volume_mounts :: 'j
  r_last_api_activity :: time
  r_last_container_activity :: "time option"
  r_activity_count :: i64
  r_created_at :: time
  r_updated_at :: time
  r_deleted_at :: "time option"
  r_deleted_by :: "string option"
  r_api_key_id :: "uuid option"

definition serialize_command :: "'j codec \<Rightarrow> string list option \<Rightarrow> 'j" where
  "serialize_command cd c = (case c of None \<Rightarrow> cd_null cd | Some cmd \<Rightarrow> cd_strings cd cmd)"

text \<open>The columns of an \<open>INSERT\<close>, and those an \<open>UPDATE\<close> sets (all but \<open>id\<close> and \<open>created_at\<close>).\<close>

definition insert_row :: "'j codec \<Rightarrow> Sandbox \<Rightarrow> 'j row" where
  "insert_row cd sb =
     \<lparr>r_id = sb_id sb, r_image = cfg_image (sb_config sb), r_name = cfg_name (sb_config sb),
      r_environment = cd_env cd (cfg_environment (sb_config sb)),
      r_port_mappings = cd_ports cd (cfg_port_mappings (sb_config sb)),
      r_resource_limits = cd_limits cd (cfg_resource_limits (sb_config sb)),
      r_volumes = cd_volumes cd (cfg_volumes (sb_config sb)),
      r_command = serialize_command cd (cfg_command (sb_config sb)),
      r_inactivity_timeout_minutes = cfg_inactivity_timeout_minutes (sb_config sb),
      r_pull_policy = pull_policy_as_str (cfg_pull_policy (sb_config sb)),
      r_features = cd_strings cd (cfg_features (sb_config sb)),
      r_enable_all_features = cfg_enable_all_features (sb_config sb),
      r_vnc_resolution = cfg_vnc_resolution (sb_config sb),
      r_state = sandbox_state_as_str (sb_state sb),
      r_container_id = sb_container_id sb, r_error_message = sb_error_message sb,
      r_volume_mounts = cd_volumes cd (sb_volume_mounts sb),
      r_last_api_activity = cd_time cd (at_last_api_activity (sb_activity sb)),
      r_last_container_activity = map_option (cd_time cd) (at_last_container_activity (sb_activity sb)),
      r_activity_count = at_activity_count (sb_activity sb),
      r_created_at = cd_time cd (sb_created_at sb), r_updated_at = cd_time cd (sb_updated_at sb),
      r_deleted_at = map_option (cd_time cd) (sb_deleted_at sb), r_deleted_by = sb_deleted_by sb,
      r_api_key_id = sb_api_key_id sb\<rparr>"

definition update_row :: "'j codec \<Rightarrow> Sandbox \<Rightarrow> 'j row \<Rightarrow> 'j row" where
  "update_row cd sb r = (insert_row cd sb)\<lparr>r_id := r_id r, r_created_at := r_created_at r\<rparr>"

definition parse_pull_policy :: "string \<Rightarrow> string + PullPolicy" where
  "parse_pull_policy s =
     (if s = ''always'' then Inr Always
      else if s = ''missing'' then Inr Missing
      else if s = ''never'' then Inr Never
      else Inl (''Invalid pull_policy: '' @ s))"

definition parse_sandbox_state :: "string \<Rightarrow> string + SandboxState" where
  "parse_sandbox_state s =
     (if s = ''creating'' then Inr Creating
      else if s = ''created'' then Inr Created
      else if s = ''starting'' then Inr Starting
      else if s = ''running'' then Inr Running
      else if s = ''stopped'' then Inr Stopped
      else if s = ''error'' then Inr Error
      else if s = ''destroying'' then Inr Destroying
      else if s = ''destroyed'' then Inr Destroyed
      else Inl (''Invalid state: '' @ s))"

text \<open>
  Reading a row. The column \<open>command\<close> is \<open>None\<close> when the query does not select it; \<open>try_get\<close>
  then fails and the code falls back to JSON null.
\<close>

definition ok_or_msg :: "string \<Rightarrow> 'a option \<Rightarrow> string + 'a" where
  "ok_or_msg m x = (case x of None \<Rightarrow> Inl m | Some a \<Rightarrow> Inr a)"

definition bind_res :: "'e + 'a \<Rightarrow> ('a \<Rightarrow> 'e + 'b) \<Rightarrow> 'e + 'b" where
  "bind_res x f = (case x of Inl e \<Rightarrow> Inl e | Inr a \<Rightarrow> f a)"

definition deserialize_command :: "'j codec \<Rightarrow> 'j option \<Rightarrow> string + string list option" where
  "deserialize_command cd col =
     (let command = (case col of None \<Rightarrow> cd_null cd | Some j \<Rightarrow> j) in
      if command = cd_null cd then Inr None
      else (case cd_strings_of cd command of
              None \<Rightarrow> Inl ''Failed to deserialize command''
            | Some c \<Rightarrow> Inr (Some c)))"

definition deserialize_features :: "'j codec \<Rightarrow> 'j \<Rightarrow> string + string list" where
  "deserialize_features cd features =
     (if features = cd_null cd then Inr []
      else ok_or_msg ''Failed to deserialize features'' (cd_strings_of cd features))"

definition row_to_sandbox :: "'j codec \<Rightarrow> bool \<Rightarrow> 'j row \<Rightarrow> string + Sandbox" where
  "row_to_sandbox cd has_command r =
     bind_res (parse_pull_policy (r_pull_policy r)) (\<lambda>pull_policy.
     bind_res (parse_sandbox_state (r_state r)) (\<lambda>state.
     bind_res (ok_or_msg ''Failed to deserialize environment'' (cd_env_of cd (r_environment r))) (\<lambda>environment.
     bind_res (ok_or_msg ''Failed to deserialize port_mappings'' (cd_ports_of cd (r_port_mappings r))) (\<lambda>port_mappings.
     bind_res (ok_or_msg ''Failed to deserialize resource_limits'' (cd_limits_of cd (r_resource_limits r))) (\<lambda>resource_limits.
     bind_res (ok_or_msg ''Failed to deserialize volumes'' (cd_volumes_of cd (r_volumes r))) (\<lambda>volumes.
     bind_res (ok_or_msg ''Failed to deserialize volume_mounts'' (cd_volumes_of cd (r_volume_mounts r))) (\<lambda>volume_mounts.
     bind_res (deserialize_command cd (if has_command then Some (r_command r) else None)) (\<lambda>command.
     bind_res (deserialize_features cd (r_features r)) (\<lambda>features.
     Inr \<lparr>sb_id = r_id r,
          sb_config = \<lparr>cfg_image = r_image r, cfg_name = r_name r, cfg_environment = environment,
            cfg_port_mappings = port_mappings, cfg_exposed_ports = [],
            cfg_resource_limits = resource_limits, cfg_volumes = volumes, cfg_command = command,
            cfg_inactivity_timeout_minutes = r_inactivity_timeout_minutes r,
            cfg_pull_policy = pull_policy, cfg_features = features,
            cfg_enable_all_features = r_enable_all_features r,
            cfg_vnc_resolution = r_vnc_resolution r\<rparr>,
          sb_state = state, sb_container_id = r_container_id r, sb_created_at = r_created_at r,
          sb_updated_at = r_updated_at r, sb_error_message = r_error_message r,
          sb_volume_mounts = volume_mounts,
          sb_activity = \<lparr>at_last_api_activity = r_last_api_activity r,
            at_last_container_activity = r_last_container_activity r,
            at_activity_count = r_activity_count r\<rparr>,
          sb_inactivity_timeout_minutes = r_inactivity_timeout_minutes r,
          sb_deleted_at = r_deleted_at r, sb_deleted_by = r_deleted_by r,
          sb_api_key_id = r_api_key_id r\<rparr>)))))))))"

section \<open>Statements\<close>

text \<open>
  The store's state: the table, and for each statement sent to the server whether it gets
  through, and the server's clock. Taking a connection from the pool counts as a statement.
\<close>

record 'j pg =
  pg_rows :: "'j row list"
  pg_calls :: nat
  pg_up :: "nat \<Rightarrow> bool"
  pg_clock :: "nat \<Rightarrow> time"

definition pg_statement :: "('j pg, string, time) prog" where
  "pg_statement s =
     ((if pg_up s (pg_calls s) then Inr (pg_clock s (pg_calls s)) else Inl ''database error''),
      s\<lparr>pg_calls := Suc (pg_calls s)\<rparr>)"

definition pg_query :: "('j row \<Rightarrow> bool) \<Rightarrow> ('j pg, string, 'j row list) prog" where
  "pg_query p =
     bindE pg_statement (\<lambda>_.
     bindE pg_statement (\<lambda>_.
     gets (\<lambda>s. filter p (pg_rows s))))"

definition pg_execute :: "(time \<Rightarrow> 'j row list \<Rightarrow> 'j row list) \<Rightarrow> (time \<Rightarrow> 'j row \<Rightarrow> bool) \<Rightarrow> ('j pg, string, nat) prog" where
  "pg_execute f p =
     bindE pg_statement (\<lambda>_.
     bindE pg_statement (\<lambda>now.
     bindE (gets (\<lambda>s. length (filter (p now) (pg_rows s)))) (\<lambda>n.
     bindE (modify (pg_rows_update (f now))) (\<lambda>_. ret n))))"

definition pg_insert :: "'j row \<Rightarrow> ('j pg, string, unit) prog" where
  "pg_insert r =
     bindE pg_statement (\<lambda>_.
     bindE pg_statement (\<lambda>_.
     bindE (gets pg_rows) (\<lambda>rows.
     if r_id r \<in> r_id ` set rows then throw ''duplicate key''
     else modify (pg_rows_update (\<lambda>rows. rows @ [r])))))"

definition pg_create_sandbox :: "'j codec \<Rightarrow> Sandbox \<Rightarrow> ('j pg, string, unit) prog" where
  "pg_create_sandbox cd sb = pg_insert (insert_row cd sb)"

definition query_result :: "('j pg, string, 'a) prog \<Rightarrow> ('a \<Rightarrow> 'b) \<Rightarrow> 'b \<Rightarrow> 'j pg \<Rightarrow> 'b \<times> 'j pg" where
  "query_result m f dflt s = (case m s of (Inl _, t) \<Rightarrow> (dflt, t) | (Inr a, t) \<Rightarrow> (f a, t))"

definition read_row :: "'j codec \<Rightarrow> bool \<Rightarrow> 'j row list \<Rightarrow> Sandbox option" where
  "read_row cd has_command rows =
     (case rows of
        [r] \<Rightarrow> (case row_to_sandbox cd has_command r of Inl _ \<Rightarrow> None | Inr sb \<Rightarrow> Some sb)
      | _ \<Rightarrow> None)"

definition pg_get_sandbox_with_deleted ::
  "'j codec \<Rightarrow> uuid \<Rightarrow> bool \<Rightarrow> 'j pg \<Rightarrow> Sandbox option \<times> 'j pg" where
  "pg_get_sandbox_with_deleted cd i include_deleted =
     query_result (pg_query (\<lambda>r. r_id r = i \<and> (include_deleted \<or> r_deleted_at r = None)))
       (read_row cd False) None"

definition pg_get_sandbox :: "'j codec \<Rightarrow> uuid \<Rightarrow> 'j pg \<Rightarrow> Sandbox option \<times> 'j pg" where
  "pg_get_sandbox cd i = pg_get_sandbox_with_deleted cd i False"

definition pg_update_sandbox :: "'j codec \<Rightarrow> Sandbox \<Rightarrow> ('j pg, string, unit) prog" where
  "pg_update_sandbox cd sb =
     bindE (pg_execute (\<lambda>_. map (\<lambda>r. if r_id r = sb_id sb then update_row cd sb r else r))
       (\<lambda>_ r. r_id r = sb_id sb)) (\<lambda>rows_affected.
     if rows_affected = 0 then throw ''Sandbox not found'' else ret ())"

definition pg_delete_sandbox :: "uuid \<Rightarrow> ('j pg, string, unit) prog" where
  "pg_delete_sandbox i =
     bindE (pg_execute (\<lambda>_. filter (\<lambda>r. r_id r \<noteq> i)) (\<lambda>_ r. r_id r = i)) (\<lambda>_. ret ())"

definition read_rows :: "'j codec \<Rightarrow> bool \<Rightarrow> 'j row list \<Rightarrow> Sandbox list" where
  "read_rows cd has_command rows = List.map_filter (\<lambda>r.
     case row_to_sandbox cd has_command r of Inl _ \<Rightarrow> None | Inr sb \<Rightarrow> Some sb) rows"

definition newest_first :: "'j row list \<Rightarrow> 'j row list" where
  "newest_first rows = sort_key (\<lambda>r. - r_created_at r) rows"

section \<open>Filtered and paginated listing\<close>

record SandboxListFilters =
  slf_include_deleted :: bool
  slf_state :: "SandboxState option"
  slf_image :: "string option"
  slf_created_after :: "time option"
  slf_created_before :: "time option"
  slf_page :: "nat option"
  slf_per_page :: "nat option"

record PaginationMeta =
  pgm_page :: nat
  pgm_per_page :: nat
  pgm_total :: nat
  pgm_total_pages :: nat
  pgm_has_next :: bool
  pgm_has_prev :: bool

record SandboxListResponse =
  slr_data :: "Sandbox list"
  slr_pagination :: PaginationMeta

datatype sql_param = PState | PImage | PAfter | PBefore | PLimit | POffset

definition count_opt :: "'a option \<Rightarrow> nat" where
  "count_opt x = (if x = None then 0 else 1)"

text \<open>The placeholder numbers the \<open>WHERE\<close> clause uses, in the order its conditions are pushed.\<close>

definition where_placeholders :: "SandboxListFilters \<Rightarrow> nat list" where
  "where_placeholders f =
     (if slf_state f \<noteq> None then [2] else []) @
     (if slf_image f \<noteq> None then [if slf_state f = None then 2 else 3] else []) @
     (if slf_created_after f \<noteq> None then [2 + count_opt (slf_state f) + count_opt (slf_image f)] else []) @
     (if slf_created_before f \<noteq> None
      then [2 + count_opt (slf_state f) + count_opt (slf_image f) + count_opt (slf_created_after f)] else [])"

definition count_params :: "SandboxListFilters \<Rightarrow> sql_param list" where
  "count_params f =
     (if slf_state f \<noteq> None then
        (if slf_image f \<noteq> None then
           (if slf_created_after f \<noteq> None then
              (if slf_created_before f \<noteq> None then [PState, PImage, PAfter, PBefore]
               else [PState, PImage, PAfter])
            else if slf_created_before f \<noteq> None then [PState, PBefore]
            else [PState])
         else if slf_created_after f \<noteq> None then [PState, PAfter]
         else if slf_created_before f \<noteq> None then [PState, PBefore]
         else [PState])
      else if slf_image f \<noteq> None then
        (if slf_created_after f \<noteq> None then
           (if slf_created_before f \<noteq> None then [PImage, PAfter, PBefore] else [PImage, PAfter])
         else if slf_created_before f \<noteq> None then [PImage, PBefore]
         else [PImage])
      else if slf_created_after f \<noteq> None then
        (if slf_created_before f \<noteq> None then [PAfter, PBefore] else [PAfter])
      else if slf_created_before f \<noteq> None then [PBefore]
      else [])"

definition select_params :: "SandboxListFilters \<Rightarrow> sql_param list" where
  "select_params f =
     (if slf_state f \<noteq> None then
        (if slf_image f \<noteq> None then
           (if slf_created_after f \<noteq> None then
              (if slf_created_before f \<noteq> None then [PState, PImage, PAfter, PBefore]
               else [PState, PImage, PAfter])
            else if slf_created_before f \<noteq> None then [PState, PImage, PBefore]
            else [PState, PImage])
         else if slf_created_after f \<noteq> None then [PState, PAfter]
         else if slf_created_before f \<noteq> None then [PState, PBefore]
         else [PState])
      else if slf_image f \<noteq> None then
        (if slf_created_after f \<noteq> None then
           (if slf_created_before f \<noteq> None then [PImage, PAfter, PBefore] else [PImage, PAfter])
         else if slf_created_before f \<noteq> None then [PImage, PBefore]
         else [PImage])
      else if slf_created_after f \<noteq> None then
        (if slf_created_before f \<noteq> None then [PAfter, PBefore] else [PAfter])
      else if slf_created_before f \<noteq> None then [PBefore]
      else []) @ [PLimit, POffset]"

definition select_placeholders :: "SandboxListFilters \<Rightarrow> nat list" where
  "select_placeholders f =
     (let param_offset = count_opt (slf_state f) + count_opt (slf_image f) +
            count_opt (slf_created_after f) + count_opt (slf_created_before f) + 1
      in where_placeholders f @ [param_offset, param_offset + 1])"

text \<open>
  A statement with placeholders \<open>$1\<close> to \<open>$n\<close> takes exactly \<open>n\<close> parameters, where \<open>n\<close> is the
  largest number that occurs; every smaller number must occur too, or its type cannot be
  determined. Otherwise preparing or executing it fails.
\<close>

definition statement_ok :: "nat list \<Rightarrow> sql_param list \<Rightarrow> bool" where
  "statement_ok placeholders params \<longleftrightarrow> set placeholders = {1..<Suc (length params)}"

text \<open>
  Rows that satisfy the conditions, given the parameter bound to each placeholder. With the
  conditions of this code a statement that passes \<open>statement_ok\<close> has no condition but the
  soft-delete one, so only that one is interpreted.
\<close>

definition visible_row :: "SandboxListFilters \<Rightarrow> 'j row \<Rightarrow> bool" where
  "visible_row f r \<longleftrightarrow> slf_include_deleted f \<or> r_deleted_at r = None"

definition total_pages_of :: "nat \<Rightarrow> nat \<Rightarrow> nat" where
  "total_pages_of n per_page = (if n = 0 then 1 else (n + per_page - 1) div per_page)"

definition list_sandboxes_filtered ::
  "'j codec \<Rightarrow> SandboxListFilters \<Rightarrow> ('j pg, string, SandboxListResponse) prog" where
  "list_sandboxes_filtered cd f =
     bindE pg_statement (\<lambda>_.
     bindE pg_statement (\<lambda>_.
     if \<not> statement_ok (where_placeholders f) (count_params f) then throw ''parameter mismatch''
     else
       bindE (gets (\<lambda>s. length (filter (visible_row f) (pg_rows s)))) (\<lambda>total.
       let page = max (case slf_page f of None \<Rightarrow> 1 | Some p \<Rightarrow> p) 1;
           per_page = min (max (case slf_per_page f of None \<Rightarrow> 50 | Some p \<Rightarrow> p) 1) 200;
           offset = (page - 1) * per_page;
           total_pages = total_pages_of total per_page in
       bindE pg_statement (\<lambda>_.
       if \<not> statement_ok (select_placeholders f) (select_params f) then throw ''parameter mismatch''
       else
         bindE (gets (\<lambda>s. take per_page (drop offset (newest_first (filter (visible_row f) (pg_rows s)))))) (\<lambda>rows.
         ret \<lparr>slr_data = read_rows cd False rows,
              slr_pagination = \<lparr>pgm_page = page, pgm_per_page = per_page, pgm_total = total,
                pgm_total_pages = total_pages, pgm_has_next = (page < total_pages),
                pgm_has_prev = (1 < page)\<rparr>\<rparr>)))))"

definition list_all_filter :: SandboxListFilters where
  "list_all_filter =
     \<lparr>slf_include_deleted = True, slf_state = None, slf_image = None, slf_created_after = None,
      slf_created_before = None, slf_page = None, slf_per_page = None\<rparr>"

definition pg_list_sandboxes :: "'j codec \<Rightarrow> 'j pg \<Rightarrow> Sandbox list \<times> 'j pg" where
  "pg_list_sandboxes cd = query_result (list_sandboxes_filtered cd list_all_filter) slr_data []"

section \<open>Ownership queries\<close>

definition fetch_sandboxes_owned_by ::
  "'j codec \<Rightarrow> uuid \<Rightarrow> bool \<Rightarrow> 'j pg \<Rightarrow> Sandbox list \<times> 'j pg" where
  "fetch_sandboxes_owned_by cd key include_deleted =
     query_result (pg_query (\<lambda>r. r_api_key_id r = Some key \<and> (include_deleted \<or> r_deleted_at r = None)))
       (\<lambda>rows. read_rows cd True (newest_first rows)) []"

definition fetch_sandbox_with_deleted_if_owned_by ::
  "'j codec \<Rightarrow> uuid \<Rightarrow> uuid \<Rightarrow> bool \<Rightarrow> 'j pg \<Rightarrow> Sandbox option \<times> 'j pg" where
  "fetch_sandbox_with_deleted_if_owned_by cd i key include_deleted =
     query_result (pg_query (\<lambda>r. r_id r = i \<and> r_api_key_id r = Some key \<and>
         (include_deleted \<or> r_deleted_at r = None)))
       (read_row cd True) None"

definition fetch_sandbox_if_owned_by ::
  "'j codec \<Rightarrow> uuid \<Rightarrow> uuid \<Rightarrow> 'j pg \<Rightarrow> Sandbox option \<times> 'j pg" where
  "fetch_sandbox_if_owned_by cd i key =
     query_result (pg_query (\<lambda>r. r_id r = i \<and> r_api_key_id r = Some key \<and> r_deleted_at r = None))
       (read_row cd True) None"

definition PostgresStateStore :: "'j codec \<Rightarrow> 'j pg StateStoreTrait" where
  "PostgresStateStore cd =
     \<lparr>ss_create_sandbox = pg_create_sandbox cd,
      ss_get_sandbox = pg_get_sandbox cd,
      ss_get_sandbox_with_deleted = pg_get_sandbox_with_deleted cd,
      ss_list_sandboxes = pg_list_sandboxes cd,
      ss_update_sandbox = pg_update_sandbox cd,
      ss_delete_sandbox = pg_delete_sandbox,
      ss_list_sandboxes_owned_by = fetch_sandboxes_owned_by cd,
      ss_get_sandbox_if_owned_by = fetch_sandbox_if_owned_by cd,
      ss_get_sandbox_with_deleted_if_owned_by = fetch_sandbox_with_deleted_if_owned_by cd\<rparr>"

lemma PostgresStateStore_ops [simp]:
  "ss_create_sandbox (PostgresStateStore cd) = pg_create_sandbox cd"
  "ss_get_sandbox (PostgresStateStore cd) = pg_get_sandbox cd"
  "ss_get_sandbox_with_deleted (PostgresStateStore cd) = pg_get_sandbox_with_deleted cd"
  "ss_list_sandboxes (PostgresStateStore cd) = pg_list_sandboxes cd"
  "ss_update_sandbox (PostgresStateStore cd) = pg_update_sandbox cd"
  "ss_list_sandboxes_owned_by (PostgresStateStore cd) = fetch_sandboxes_owned_by cd"
  "ss_get_sandbox_with_deleted_if_owned_by (PostgresStateStore cd) =
     fetch_sandbox_with_deleted_if_owned_by cd"
  by (simp_all add: PostgresStateStore_def)

section \<open>Maintenance\<close>

datatype StoreError =
    SE_Postgres string
  | SE_Serialization string
  | SE_NotFound uuid
  | SE_InvalidState string
  | SE_Message string

fun store_error_code :: "StoreError \<Rightarrow> ErrorCode" where
  "store_error_code (SE_Postgres m) = EC_DatabaseQueryFailed"
| "store_error_code (SE_Serialization m) = EC_InternalError"
| "store_error_code (SE_NotFound i) = EC_SandboxNotFound"
| "store_error_code (SE_InvalidState m) = EC_SandboxInvalidState"
| "store_error_code (SE_Message m) = EC_InternalError"

definition soft_delete_sandbox :: "uuid \<Rightarrow> string option \<Rightarrow> ('j pg, StoreError, unit) prog" where
  "soft_delete_sandbox i deleted_by =
     bindE (map_err SE_Message (pg_execute
       (\<lambda>now. map (\<lambda>r. if r_id r = i \<and> r_deleted_at r = None
          then r\<lparr>r_deleted_at := Some now, r_deleted_by := deleted_by, r_state := ''destroying'',
                r_updated_at := now\<rparr> else r))
       (\<lambda>_ r. r_id r = i \<and> r_deleted_at r = None))) (\<lambda>rows_affected.
     if rows_affected = 0 then throw (SE_NotFound i) else ret ())"

definition pg_restore_sandbox :: "uuid \<Rightarrow> ('j pg, StoreError, unit) prog" where
  "pg_restore_sandbox i =
     bindE (map_err SE_Message (pg_execute
       (\<lambda>now. map (\<lambda>r. if r_id r = i \<and> r_deleted_at r \<noteq> None
          then r\<lparr>r_deleted_at := None, r_deleted_by := None, r_state := ''stopped'',
                r_updated_at := now\<rparr> else r))
       (\<lambda>_ r. r_id r = i \<and> r_deleted_at r \<noteq> None))) (\<lambda>rows_affected.
     if rows_affected = 0 then throw (SE_NotFound i) else ret ())"

definition permanently_delete_sandbox :: "uuid \<Rightarrow> ('j pg, string, unit) prog" where
  "permanently_delete_sandbox i =
     bindE (pg_execute (\<lambda>_. filter (\<lambda>r. r_id r \<noteq> i)) (\<lambda>_ r. r_id r = i)) (\<lambda>_. ret ())"

definition expired_row :: "i64 \<Rightarrow> time \<Rightarrow> 'j row \<Rightarrow> bool" where
  "expired_row retention_days now r =
     (case r_deleted_at r of
        None \<Rightarrow> False
      | Some d \<Rightarrow> d < now - sint (retention_days * 86400) * nanos_per_sec)"

definition cleanup_expired_sandboxes :: "i64 \<Rightarrow> ('j pg, string, nat) prog" where
  "cleanup_expired_sandboxes retention_days =
     pg_execute (\<lambda>now. filter (\<lambda>r. \<not> expired_row retention_days now r)) (expired_row retention_days)"

text \<open>The table's \<open>check_state\<close> constraint (\<open>src/src/db/migration.rs\<close>).\<close>

definition check_state :: "string \<Rightarrow> bool" where
  "check_state state \<longleftrightarrow> state \<in> {''creating'', ''created'', ''starting'', ''running'', ''stopped'',
     ''error'', ''destroying'', ''destroyed''}"

definition set_state :: "uuid \<Rightarrow> string \<Rightarrow> string option \<Rightarrow> ('j pg, string, unit) prog" where
  "set_state i state error_message =
     bindE pg_statement (\<lambda>now.
       if \<not> check_state state then throw ''violates check constraint''
       else modify (pg_rows_update (map (\<lambda>r. if r_id r = i
         then r\<lparr>r_state := state, r_updated_at := now,
               r_error_message := (case error_message of None \<Rightarrow> r_error_message r | Some m \<Rightarrow> Some m)\<rparr>
         else r))))"

definition recover_one :: "'j row \<Rightarrow> nat \<times> nat \<Rightarrow> ('j pg, string, nat \<times> nat) prog" where
  "recover_one r counts =
     (if r_container_id r \<noteq> None
      then bindE (set_state (r_id r) ''Running'' None) (\<lambda>_. ret (fst counts + 1, snd counts))
      else bindE (set_state (r_id r) ''Failed''
             (Some ''Sandbox creation timed out during server restart'')) (\<lambda>_.
           ret (fst counts, snd counts + 1)))"

definition recover_stuck_sandboxes :: "i64 \<Rightarrow> ('j pg, string, nat \<times> nat) prog" where
  "recover_stuck_sandboxes timeout_secs =
     bindE pg_statement (\<lambda>_.
     bindE pg_statement (\<lambda>now.
     bindE (gets (\<lambda>s. sort_key r_created_at (filter (\<lambda>r. r_state r = ''Creating'' \<and>
        r_created_at r < now - sint timeout_secs * nanos_per_sec) (pg_rows s)))) (\<lambda>rows.
     foldE recover_one rows (0, 0))))"

section \<open>Reading back what was written\<close>

text \<open>What a read returns of a written sandbox: \<open>has_command\<close> tells whether the query selects the command.\<close>

definition normalise :: "'j codec \<Rightarrow> bool \<Rightarrow> Sandbox \<Rightarrow> Sandbox" where
  "normalise cd has_command sb =
     sb\<lparr>sb_config := (sb_config sb)\<lparr>cfg_exposed_ports := [],
          cfg_command := (if has_command then cfg_command (sb_config sb) else None)\<rparr>,
        sb_created_at := cd_time cd (sb_created_at sb), sb_updated_at := cd_time cd (sb_updated_at sb),
        sb_activity := (sb_activity sb)\<lparr>
          at_last_api_activity := cd_time cd (at_last_api_activity (sb_activity sb)),
          at_last_container_activity := map_option (cd_time cd) (at_last_container_activity (sb_activity sb))\<rparr>,
        sb_inactivity_timeout_minutes := cfg_inactivity_timeout_minutes (sb_config sb),
        sb_deleted_at := map_option (cd_time cd) (sb_deleted_at sb)\<rparr>"

lemma same_core_normalise: "same_core sb (normalise cd h sb)"
  by (simp add: same_core_def normalise_def)

lemma parse_inverse [simp]:
  "parse_pull_policy (pull_policy_as_str p) = Inr p"
  "parse_sandbox_state (sandbox_state_as_str st) = Inr st"
  by (cases p; simp add: parse_pull_policy_def) (cases st; simp add: parse_sandbox_state_def)

lemma bind_res_simps [simp]: "bind_res (Inr a) f = f a" "bind_res (Inl e) f = Inl e"
  by (simp_all add: bind_res_def)

lemma bind_res_Inr: "bind_res x f = Inr b \<longleftrightarrow> (\<exists>a. x = Inr a \<and> f a = Inr b)"
  by (cases x) simp_all

lemma ok_or_msg_simps [simp]: "ok_or_msg m (Some a) = Inr a" "ok_or_msg m None = Inl m"
  by (simp_all add: ok_or_msg_def)

lemma row_to_sandbox_insert:
  assumes "codec_ok cd"
  shows "row_to_sandbox cd h (insert_row cd sb) = Inr (normalise cd h sb)"
  using assms
  by (cases "cfg_command (sb_config sb)")
    (simp_all add: row_to_sandbox_def insert_row_def codec_ok_def deserialize_command_def
      deserialize_features_def serialize_command_def normalise_def)

lemma row_to_sandbox_update:
  assumes "codec_ok cd" and "r_id r = sb_id sb"
  shows "row_to_sandbox cd h (update_row cd sb r) =
    Inr ((normalise cd h sb)\<lparr>sb_created_at := r_created_at r\<rparr>)"
  using assms
  by (cases "cfg_command (sb_config sb)")
    (simp_all add: row_to_sandbox_def insert_row_def update_row_def codec_ok_def deserialize_command_def
      deserialize_features_def serialize_command_def normalise_def)

lemma row_to_sandbox_fields:
  "row_to_sandbox cd h r = Inr sb \<Longrightarrow>
     sb_id sb = r_id r \<and> sb_api_key_id sb = r_api_key_id r \<and> sb_deleted_at sb = r_deleted_at r"
  by (auto simp: row_to_sandbox_def bind_res_Inr)

lemma row_to_sandbox_core:
  "row_to_sandbox cd h r = Inr sb \<Longrightarrow> row_to_sandbox cd h' r = Inr sb' \<Longrightarrow> same_core sb sb'"
  by (auto simp: row_to_sandbox_def bind_res_Inr same_core_def)

section \<open>The table as a store\<close>

definition full_sandbox :: "'j codec \<Rightarrow> 'j row \<Rightarrow> Sandbox" where
  "full_sandbox cd r = projr (row_to_sandbox cd True r)"

definition pg_contents :: "'j codec \<Rightarrow> 'j pg \<Rightarrow> uuid \<rightharpoonup> Sandbox" where
  "pg_contents cd s = map_of (map (\<lambda>r. (r_id r, full_sandbox cd r)) (pg_rows s))"

definition pg_invar :: "'j codec \<Rightarrow> 'j pg \<Rightarrow> bool" where
  "pg_invar cd s \<longleftrightarrow> distinct (map r_id (pg_rows s)) \<and>
     (\<forall>r. r \<in> set (pg_rows s) \<longrightarrow> row_to_sandbox cd True r = Inr (full_sandbox cd r))"

lemma pg_frame [simp]:
  "pg_contents cd (pg_calls_update f s) = pg_contents cd s"
  "pg_invar cd (pg_calls_update f s) = pg_invar cd s"
  "pg_contents cd (pg_rows_update g (pg_calls_update f s)) = pg_contents cd (pg_rows_update g s)"
  "pg_invar cd (pg_rows_update g (pg_calls_update f s)) = pg_invar cd (pg_rows_update g s)"
  by (simp_all add: pg_contents_def pg_invar_def)

lemma wpE_pg_statement [wp]:
  "wpE pg_statement Q E s =
     (let t = s\<lparr>pg_calls := Suc (pg_calls s)\<rparr>
      in if pg_up s (pg_calls s) then Q (pg_clock s (pg_calls s)) t else E ''database error'' t)"
  by (simp add: wpE_def pg_statement_def Let_def)

lemma wpE_pg_execute [wp]:
  "wpE (pg_execute f p) Q E s =
     (let t = s\<lparr>pg_calls := Suc (pg_calls s)\<rparr>; u = s\<lparr>pg_calls := Suc (Suc (pg_calls s))\<rparr>;
          now = pg_clock s (Suc (pg_calls s))
      in if \<not> pg_up s (pg_calls s) then E ''database error'' t
         else if \<not> pg_up s (Suc (pg_calls s)) then E ''database error'' u
         else Q (length (filter (p now) (pg_rows s))) (pg_rows_update (f now) u))"
  by (simp add: pg_execute_def wp Let_def)

lemma pg_contents_row:
  "pg_invar cd s \<Longrightarrow> r \<in> set (pg_rows s) \<Longrightarrow> pg_contents cd s (r_id r) = Some (full_sandbox cd r)"
  unfolding pg_contents_def pg_invar_def by (auto simp: map_of_eq_Some_iff o_def)

lemma pg_contents_Some:
  "pg_contents cd s i = Some sb \<Longrightarrow> \<exists>r\<in>set (pg_rows s). r_id r = i \<and> sb = full_sandbox cd r"
  unfolding pg_contents_def by (drule map_of_SomeD) auto

lemma pg_row_core:
  assumes "pg_invar cd s" and "r \<in> set (pg_rows s)" and "row_to_sandbox cd h r = Inr sb"
  shows "pg_contents cd s (sb_id sb) = Some (full_sandbox cd r) \<and> same_core sb (full_sandbox cd r)"
  using assms pg_contents_row [OF assms(1,2)] row_to_sandbox_fields [OF assms(3)]
    row_to_sandbox_core [OF assms(3)]
  by (auto simp: pg_invar_def)

lemma query_result_query:
  assumes "query_result (pg_query p) f dflt s = (x, t)"
  shows "(\<exists>n. t = s\<lparr>pg_calls := n\<rparr>) \<and> (x = dflt \<or> x = f (filter p (pg_rows s)))"
  using assms
  by (auto simp: query_result_def pg_query_def pg_statement_def bindE_def gets_def split: if_splits)

lemma read_row_Some:
  "read_row cd h (filter p l) = Some sb \<Longrightarrow> \<exists>r\<in>set l. p r \<and> row_to_sandbox cd h r = Inr sb"
proof -
  assume "read_row cd h (filter p l) = Some sb"
  then obtain r where "filter p l = [r]" "row_to_sandbox cd h r = Inr sb"
    by (auto simp: read_row_def split: list.splits sum.splits)
  then show ?thesis by (auto dest: filter_eq_ConsD)
qed

lemma read_rows_mem:
  "sb \<in> set (read_rows cd h l) \<longleftrightarrow> (\<exists>r\<in>set l. row_to_sandbox cd h r = Inr sb)"
  by (induction l) (auto simp: read_rows_def List.map_filter_simps split: sum.splits option.splits)

lemma set_newest_first [simp]: "set (newest_first l) = set l"
  by (simp add: newest_first_def)

lemma map_of_update_rows:
  assumes "distinct (map r_id l)" and "r \<in> set l" and "r_id r = i"
    and "\<And>r. r_id (g r) = r_id r"
  shows "map_of (map (\<lambda>r. (r_id r, f r)) (map (\<lambda>r. if r_id r = i then g r else r) l)) =
    (map_of (map (\<lambda>r. (r_id r, f r)) l))(i \<mapsto> f (g r))"
  using assms
proof (induction l)
  case (Cons a l)
  show ?case
  proof (cases "r_id a = i")
    case True
    with Cons.prems have "a = r" and no: "\<forall>x\<in>set l. r_id x \<noteq> i"
      by (auto simp: image_iff)
    then have "map (\<lambda>r. if r_id r = i then g r else r) l = l"
      by (simp add: map_idI)
    with True \<open>a = r\<close> Cons.prems show ?thesis by (auto simp: fun_eq_iff)
  next
    case False
    with Cons show ?thesis by (auto simp: fun_eq_iff)
  qed
qed simp

locale pg_codec =
  fixes cd :: "'j codec"
  assumes codec: "codec_ok cd"
begin

lemma create_pg:
  assumes "pg_invar cd s"
  shows "wpE (pg_create_sandbox cd sb)
    (\<lambda>_ t. pg_invar cd t \<and> pg_contents cd t = (pg_contents cd s)(sb_id sb \<mapsto> normalise cd True sb))
    (\<lambda>_ t. pg_invar cd t \<and> pg_contents cd t = pg_contents cd s) s"
proof -
  have id: "r_id (insert_row cd sb) = sb_id sb" by (simp add: insert_row_def)
  have full: "full_sandbox cd (insert_row cd sb) = normalise cd True sb"
    by (simp add: full_sandbox_def row_to_sandbox_insert [OF codec])
  have new: "map_of (map (\<lambda>r. (r_id r, full_sandbox cd r)) l @ [(i, x)]) =
      (map_of (map (\<lambda>r. (r_id r, full_sandbox cd r)) l))(i \<mapsto> x)" if "i \<notin> r_id ` set l" for l i x
    using that by (induction l) (auto simp: fun_eq_iff)
  show ?thesis
    using assms new [of "sb_id sb" "pg_rows s" "normalise cd True sb"]
    by (auto simp: pg_create_sandbox_def pg_insert_def wp Let_def pg_contents_def pg_invar_def id full
        row_to_sandbox_insert [OF codec])
qed

lemma update_pg:
  assumes inv: "pg_invar cd s"
  shows "wpE (pg_update_sandbox cd sb)
    (\<lambda>_ t. pg_invar cd t \<and> (\<exists>c. pg_contents cd t =
       (pg_contents cd s)(sb_id sb \<mapsto> (normalise cd True sb)\<lparr>sb_created_at := c\<rparr>)))
    (\<lambda>_ t. pg_invar cd t \<and> pg_contents cd t = pg_contents cd s) s"
proof -
  let ?g = "\<lambda>r. if r_id r = sb_id sb then update_row cd sb r else r"
  have id: "r_id (update_row cd sb r) = r_id r" for r by (simp add: update_row_def)
  have full: "full_sandbox cd (update_row cd sb r) = (normalise cd True sb)\<lparr>sb_created_at := r_created_at r\<rparr>"
    if "r_id r = sb_id sb" for r
    by (simp add: full_sandbox_def row_to_sandbox_update [OF codec that])
  have rows: "row_to_sandbox cd True (update_row cd sb r) = Inr (full_sandbox cd (update_row cd sb r))"
    if "r_id r = sb_id sb" for r
    using that by (simp add: full row_to_sandbox_update [OF codec])
  have ids: "map r_id (map ?g (pg_rows s)) = map r_id (pg_rows s)"
    by (simp add: id)
  show ?thesis
  proof (cases "\<exists>r\<in>set (pg_rows s). r_id r = sb_id sb")
    case True
    then obtain r where r: "r \<in> set (pg_rows s)" "r_id r = sb_id sb" ..
    have "filter (\<lambda>r. r_id r = sb_id sb) (pg_rows s) \<noteq> []"
      using r by (auto simp: filter_empty_conv)
    moreover have "map_of (map (\<lambda>r. (r_id r, full_sandbox cd r)) (map ?g (pg_rows s))) =
        (pg_contents cd s)(sb_id sb \<mapsto> (normalise cd True sb)\<lparr>sb_created_at := r_created_at r\<rparr>)"
      using map_of_update_rows [of "pg_rows s" r "sb_id sb" "update_row cd sb" "full_sandbox cd"] inv r id full
      by (simp add: pg_invar_def pg_contents_def)
    moreover have "pg_invar cd (pg_rows_update (map ?g) s)"
      using inv rows ids by (auto simp: pg_invar_def simp del: map_map)
    ultimately show ?thesis
      using inv by (auto simp: pg_update_sandbox_def wp Let_def pg_contents_def)
  next
    case False
    then have none: "filter (\<lambda>r. r_id r = sb_id sb) (pg_rows s) = []" "map ?g (pg_rows s) = pg_rows s"
      by (auto simp: filter_empty_conv map_idI)
    then show ?thesis
      using inv by (auto simp: pg_update_sandbox_def wp Let_def pg_invar_def pg_contents_def)
  qed
qed

lemma get_pg:
  assumes inv: "pg_invar cd s" and run: "query_result (pg_query p) (read_row cd h) None s = (x, t)"
  shows "pg_invar cd t \<and> pg_contents cd t = pg_contents cd s \<and>
    (\<forall>sb. x = Some sb \<longrightarrow> (\<exists>r. r \<in> set (pg_rows s) \<and> p r \<and> row_to_sandbox cd h r = Inr sb \<and>
       pg_contents cd s (r_id r) = Some (full_sandbox cd r) \<and> same_core sb (full_sandbox cd r)))"
proof -
  obtain n where t: "t = s\<lparr>pg_calls := n\<rparr>" and x: "x = None \<or> x = read_row cd h (filter p (pg_rows s))"
    using query_result_query [OF run] by auto
  have "\<exists>r. r \<in> set (pg_rows s) \<and> p r \<and> row_to_sandbox cd h r = Inr sb \<and>
       pg_contents cd s (r_id r) = Some (full_sandbox cd r) \<and> same_core sb (full_sandbox cd r)"
    if "x = Some sb" for sb
  proof -
    from x that obtain r where r: "r \<in> set (pg_rows s)" "p r" "row_to_sandbox cd h r = Inr sb"
      using read_row_Some [of cd h p "pg_rows s" sb] by auto
    with pg_row_core [OF inv r(1,3)] pg_contents_row [OF inv r(1)] show ?thesis by blast
  qed
  with inv t show ?thesis by simp
qed

lemma list_pg:
  assumes inv: "pg_invar cd s" and run: "pg_list_sandboxes cd s = (l, t)"
  shows "pg_invar cd t \<and> pg_contents cd t = pg_contents cd s \<and>
    (\<forall>sb \<in> set l. \<exists>sb'. pg_contents cd s (sb_id sb) = Some sb' \<and> same_core sb sb')"
proof -
  have "wpE (list_sandboxes_filtered cd list_all_filter)
    (\<lambda>x t. (\<exists>n. t = s\<lparr>pg_calls := n\<rparr>) \<and>
       (\<forall>sb \<in> set (slr_data x). \<exists>r\<in>set (pg_rows s). row_to_sandbox cd False r = Inr sb))
    (\<lambda>_ t. \<exists>n. t = s\<lparr>pg_calls := n\<rparr>) s"
    by (auto simp: list_sandboxes_filtered_def wp Let_def list_all_filter_def read_rows_mem
        dest!: in_set_takeD in_set_dropD) (auto simp: read_rows_mem dest: in_set_takeD)
  then have t: "\<exists>n. t = s\<lparr>pg_calls := n\<rparr>"
    and l: "\<forall>sb \<in> set l. \<exists>r\<in>set (pg_rows s). row_to_sandbox cd False r = Inr sb"
    using run by (auto simp: pg_list_sandboxes_def query_result_def wpE_def split: prod.splits sum.splits)
  from t inv have "pg_invar cd t \<and> pg_contents cd t = pg_contents cd s" by auto
  with l show ?thesis using pg_row_core [OF inv] by blast
qed

lemma owned_list_pg:
  assumes inv: "pg_invar cd s" and run: "fetch_sandboxes_owned_by cd key d s = (l, t)"
  shows "pg_invar cd t \<and> pg_contents cd t = pg_contents cd s \<and>
    (\<forall>sb \<in> set l. owned_visible key d sb \<and>
       (\<exists>sb'. pg_contents cd s (sb_id sb) = Some sb' \<and> same_core sb sb'))"
proof -
  obtain n where t: "t = s\<lparr>pg_calls := n\<rparr>" and l: "l = [] \<or> l = read_rows cd True (newest_first
      (filter (\<lambda>r. r_api_key_id r = Some key \<and> (d \<or> r_deleted_at r = None)) (pg_rows s)))"
    using query_result_query [OF run [unfolded fetch_sandboxes_owned_by_def]] by auto
  have "owned_visible key d sb \<and> (\<exists>sb'. pg_contents cd s (sb_id sb) = Some sb' \<and> same_core sb sb')"
    if "sb \<in> set l" for sb
  proof -
    from that l obtain r where r: "r \<in> set (pg_rows s)" "row_to_sandbox cd True r = Inr sb"
        "r_api_key_id r = Some key" "d \<or> r_deleted_at r = None"
      by (auto simp: read_rows_mem)
    with pg_row_core [OF inv r(1,2)] row_to_sandbox_fields [OF r(2)] show ?thesis
      by (auto simp: owned_visible_def)
  qed
  with inv t show ?thesis by simp
qed

lemma key_pg: "pg_invar cd s \<Longrightarrow> pg_contents cd s i = Some sb \<Longrightarrow> sb_id sb = i"
  using pg_contents_Some [of cd s i sb] row_to_sandbox_fields by (fastforce simp: pg_invar_def)

end

text \<open>Every lawful codec makes the PostgreSQL store an implementation of the service's store.\<close>

sublocale pg_codec \<subseteq> pg: state_store "PostgresStateStore cd" "pg_contents cd" "pg_invar cd"
proof unfold_locales
  fix s :: "'j pg" and sb
  assume inv: "pg_invar cd s"
  show "wpE (ss_create_sandbox (PostgresStateStore cd) sb)
    (\<lambda>_ t. pg_invar cd t \<and> (\<exists>sb'. pg_contents cd t = (pg_contents cd s)(sb_id sb \<mapsto> sb') \<and> same_core sb sb'))
    (\<lambda>_ t. pg_invar cd t \<and> pg_contents cd t = pg_contents cd s) s"
    unfolding PostgresStateStore_ops
    by (rule wpE_mono [OF create_pg [OF inv, of sb]]) (use same_core_normalise in blast)+
next
  fix s :: "'j pg" and sb
  assume inv: "pg_invar cd s"
  have core: "same_core sb ((normalise cd True sb)\<lparr>sb_created_at := c\<rparr>)" for c
    by (simp add: same_core_def normalise_def)
  show "wpE (ss_update_sandbox (PostgresStateStore cd) sb)
    (\<lambda>_ t. pg_invar cd t \<and> (\<exists>sb'. pg_contents cd t = (pg_contents cd s)(sb_id sb \<mapsto> sb') \<and> same_core sb sb'))
    (\<lambda>_ t. pg_invar cd t \<and> pg_contents cd t = pg_contents cd s) s"
    unfolding PostgresStateStore_ops
    by (rule wpE_mono [OF update_pg [OF inv, of sb]]) (use core in blast)+
next
  fix s t :: "'j pg" and i r
  assume inv: "pg_invar cd s" and "ss_get_sandbox (PostgresStateStore cd) i s = (r, t)"
  then show "pg_invar cd t \<and> pg_contents cd t = pg_contents cd s \<and>
      (\<forall>sb. r = Some sb \<longrightarrow> (\<exists>sb'. pg_contents cd s i = Some sb' \<and> same_core sb sb'))"
    using get_pg [OF inv] by (fastforce simp: pg_get_sandbox_def pg_get_sandbox_with_deleted_def)
next
  fix s t :: "'j pg" and i d r
  assume inv: "pg_invar cd s" and "ss_get_sandbox_with_deleted (PostgresStateStore cd) i d s = (r, t)"
  then show "pg_invar cd t \<and> pg_contents cd t = pg_contents cd s \<and>
      (\<forall>sb. r = Some sb \<longrightarrow> (\<exists>sb'. pg_contents cd s i = Some sb' \<and> same_core sb sb'))"
    using get_pg [OF inv] by (fastforce simp: pg_get_sandbox_with_deleted_def)
next
  fix s t :: "'j pg" and i key d r
  assume inv: "pg_invar cd s"
    and run: "ss_get_sandbox_with_deleted_if_owned_by (PostgresStateStore cd) i key d s = (r, t)"
  have law: "pg_invar cd t \<and> pg_contents cd t = pg_contents cd s \<and>
    (\<forall>sb. r = Some sb \<longrightarrow> (\<exists>x. x \<in> set (pg_rows s) \<and>
       (r_id x = i \<and> r_api_key_id x = Some key \<and> (d \<or> r_deleted_at x = None)) \<and>
       row_to_sandbox cd True x = Inr sb \<and> pg_contents cd s (r_id x) = Some (full_sandbox cd x) \<and>
       same_core sb (full_sandbox cd x)))"
    by (rule get_pg [OF inv]) (use run in \<open>simp add: fetch_sandbox_with_deleted_if_owned_by_def\<close>)
  have own: "owned_visible key d (full_sandbox cd x)"
    if "x \<in> set (pg_rows s)" "r_api_key_id x = Some key" "d \<or> r_deleted_at x = None" for x
    using that inv row_to_sandbox_fields [of cd True x "full_sandbox cd x"]
    by (auto simp: pg_invar_def owned_visible_def)
  from law own show "pg_invar cd t \<and> pg_contents cd t = pg_contents cd s \<and>
      (\<forall>sb. r = Some sb \<longrightarrow>
         (\<exists>sb'. pg_contents cd s i = Some sb' \<and> same_core sb sb' \<and> owned_visible key d sb'))"
    by blast
qed (unfold PostgresStateStore_ops, (rule list_pg owned_list_pg key_pg; assumption)+)

end
