(* ===== verification/Jsonb.thy ===== *)
theory Jsonb
  imports PgStore
begin

text \<open>
  The JSON form of the columns of table \<open>sandboxes\<close>: what \<open>#[derive(Serialize, Deserialize)]\<close>
  makes of the declarations in \<open>src/src/core/types.rs\<close> (field names as object keys, \<open>type\<close> as
  the tag of a volume, lower-case names of the enum variants, \<open>null\<close> for an absent option).
  With these encoders the PostgreSQL store implements the interface of the service.
\<close>

section \<open>Encoding\<close>

definition enc_option :: "('a \<Rightarrow> json) \<Rightarrow> 'a option \<Rightarrow> json" where
  "enc_option f x = (case x of None \<Rightarrow> JNull | Some a \<Rightarrow> f a)"

definition enc_unsigned :: "'w::len word \<Rightarrow> json" where
  "enc_unsigned w = JNumber (uint w)"

definition enc_signed :: "'w::len word \<Rightarrow> json" where
  "enc_signed w = JNumber (sint w)"

definition enc_env :: "(string \<times> string) list \<Rightarrow> json" where
  "enc_env env = JObject (map (\<lambda>(k, v). (k, JString v)) env)"

definition enc_strings :: "string list \<Rightarrow> json" where
  "enc_strings l = JArray (map JString l)"

definition enc_port :: "PortMapping \<Rightarrow> json" where
  "enc_port p = JObject
     [(''host_port'', enc_unsigned (pm_host_port p)), (''container_port'', enc_unsigned (pm_container_port p)),
      (''protocol'', JString (case pm_protocol p of Tcp \<Rightarrow> ''tcp'' | Udp \<Rightarrow> ''udp''))]"

definition enc_volume :: "VolumeMount \<Rightarrow> json" where
  "enc_volume v =
     (case v of
        Bind host path ro \<Rightarrow> JObject [(''type'', JString ''bind''), (''host_path'', JString host),
          (''container_path'', JString path), (''read_only'', JBool ro)]
      | Named name path ro \<Rightarrow> JObject [(''type'', JString ''named''), (''name'', JString name),
          (''container_path'', JString path), (''read_only'', JBool ro)])"

definition enc_ulimit :: "Ulimit \<Rightarrow> json" where
  "enc_ulimit u = JObject [(''name'', JString (ul_name u)), (''soft'', enc_signed (ul_soft u)),
     (''hard'', enc_signed (ul_hard u))]"

definition enc_limits :: "ResourceLimits \<Rightarrow> json" where
  "enc_limits r = JObject
     [(''memory_mb'', enc_option enc_unsigned (rl_memory_mb r)),
      (''cpu_quota'', enc_option enc_signed (rl_cpu_quota r)),
      (''cpu_period'', enc_option enc_signed (rl_cpu_period r)),
      (''cpu_shares'', enc_option enc_unsigned (rl_cpu_shares r)),
      (''pids_limit'', enc_option enc_signed (rl_pids_limit r)),
      (''ulimits'', enc_option (\<lambda>l. JArray (map enc_ulimit l)) (rl_ulimits r))]"

section \<open>Decoding\<close>

fun map_opt :: "('a \<Rightarrow> 'b option) \<Rightarrow> 'a list \<Rightarrow> 'b list option" where
  "map_opt f [] = Some []"
| "map_opt f (x # xs) =
     (case f x of None \<Rightarrow> None
      | Some y \<Rightarrow> (case map_opt f xs of None \<Rightarrow> None | Some ys \<Rightarrow> Some (y # ys)))"

definition field :: "json \<Rightarrow> string \<Rightarrow> (json \<Rightarrow> 'a option) \<Rightarrow> 'a option" where
  "field j k f = Option.bind (json_get j k) f"

text \<open>An absent or null field of an option type is \<open>None\<close>.\<close>

definition opt_field :: "json \<Rightarrow> string \<Rightarrow> (json \<Rightarrow> 'a option) \<Rightarrow> 'a option option" where
  "opt_field j k f =
     (case json_get j k of
        None \<Rightarrow> Some None
      | Some v \<Rightarrow> if v = JNull then Some None else map_option Some (f v))"

fun dec_unsigned :: "json \<Rightarrow> 'w::len word option" where
  "dec_unsigned (JNumber n) =
     (if 0 \<le> n \<and> n < 2 ^ LENGTH('w) then Some (word_of_int n) else None)"
| "dec_unsigned _ = None"

fun dec_signed :: "json \<Rightarrow> 'w::len word option" where
  "dec_signed (JNumber n) =
     (if - (2 ^ (LENGTH('w) - 1)) \<le> n \<and> n < 2 ^ (LENGTH('w) - 1) then Some (word_of_int n) else None)"
| "dec_signed _ = None"

fun dec_env :: "json \<Rightarrow> (string \<times> string) list option" where
  "dec_env (JObject kvs) = map_opt (\<lambda>(k, v). map_option (Pair k) (json_as_str v)) kvs"
| "dec_env _ = None"

fun dec_array :: "(json \<Rightarrow> 'a option) \<Rightarrow> json \<Rightarrow> 'a list option" where
  "dec_array f (JArray l) = map_opt f l"
| "dec_array f _ = None"

definition dec_strings :: "json \<Rightarrow> string list option" where
  "dec_strings = dec_array json_as_str"

definition dec_protocol :: "json \<Rightarrow> PortProtocol option" where
  "dec_protocol j =
     (if json_as_str j = Some ''tcp'' then Some Tcp
      else if json_as_str j = Some ''udp'' then Some Udp else None)"

definition dec_port :: "json \<Rightarrow> PortMapping option" where
  "dec_port j =
     Option.bind (field j ''host_port'' dec_unsigned) (\<lambda>h.
     Option.bind (field j ''container_port'' dec_unsigned) (\<lambda>c.
     Option.bind (field j ''protocol'' dec_protocol) (\<lambda>p.
     Some \<lparr>pm_host_port = h, pm_container_port = c, pm_protocol = p\<rparr>)))"

definition dec_volume :: "json \<Rightarrow> VolumeMount option" where
  "dec_volume j =
     Option.bind (field j ''type'' json_as_str) (\<lambda>t.
     Option.bind (field j ''container_path'' json_as_str) (\<lambda>path.
     Option.bind (field j ''read_only'' json_as_bool) (\<lambda>ro.
       if t = ''bind'' then Option.bind (field j ''host_path'' json_as_str) (\<lambda>h. Some (Bind h path ro))
       else if t = ''named'' then Option.bind (field j ''name'' json_as_str) (\<lambda>n. Some (Named n path ro))
       else None)))"

definition dec_ulimit :: "json \<Rightarrow> Ulimit option" where
  "dec_ulimit j =
     Option.bind (field j ''name'' json_as_str) (\<lambda>n.
     Option.bind (field j ''soft'' dec_signed) (\<lambda>s.
     Option.bind (field j ''hard'' dec_signed) (\<lambda>h.
     Some \<lparr>ul_name = n, ul_soft = s, ul_hard = h\<rparr>)))"

definition dec_limits :: "json \<Rightarrow> ResourceLimits option" where
  "dec_limits j =
     Option.bind (opt_field j ''memory_mb'' dec_unsigned) (\<lambda>m.
     Option.bind (opt_field j ''cpu_quota'' dec_signed) (\<lambda>q.
     Option.bind (opt_field j ''cpu_period'' dec_signed) (\<lambda>p.
     Option.bind (opt_field j ''cpu_shares'' dec_unsigned) (\<lambda>s.
     Option.bind (opt_field j ''pids_limit'' dec_signed) (\<lambda>l.
     Option.bind (opt_field j ''ulimits'' (dec_array dec_ulimit)) (\<lambda>u.
     Some \<lparr>rl_memory_mb = m, rl_cpu_quota = q, rl_cpu_period = p, rl_cpu_shares = s,
           rl_pids_limit = l, rl_ulimits = u\<rparr>))))))"

definition jsonb_codec :: "(time \<Rightarrow> time) \<Rightarrow> json codec" where
  "jsonb_codec tm =
     \<lparr>cd_null = JNull, cd_env = enc_env, cd_env_of = dec_env,
      cd_ports = (\<lambda>l. JArray (map enc_port l)), cd_ports_of = dec_array dec_port,
      cd_limits = enc_limits, cd_limits_of = dec_limits,
      cd_volumes = (\<lambda>l. JArray (map enc_volume l)), cd_volumes_of = dec_array dec_volume,
      cd_strings = enc_strings, cd_strings_of = dec_strings, cd_time = tm\<rparr>"

section \<open>Round trips\<close>

lemma map_opt_map: "(\<And>x. f (g x) = Some x) \<Longrightarrow> map_opt f (map g l) = Some l"
  by (induction l) simp_all

lemma dec_enc_unsigned [simp]: "dec_unsigned (enc_unsigned w) = Some w"
  by (simp add: enc_unsigned_def)

lemma dec_enc_signed [simp]: "dec_signed (enc_signed (w :: 'w::len word)) = Some w"
  using sint_range_size [of w] by (simp add: enc_signed_def word_size)

lemma not_null [simp]: "enc_unsigned w \<noteq> JNull" "enc_signed w \<noteq> JNull"
  by (simp_all add: enc_unsigned_def enc_signed_def)

lemma field_simps_obj [simp]:
  "field (JObject ((k, v) # kvs)) k' f = (if k = k' then f v else field (JObject kvs) k' f)"
  "opt_field (JObject ((k, v) # kvs)) k' f =
     (if k = k' then (if v = JNull then Some None else map_option Some (f v))
      else opt_field (JObject kvs) k' f)"
  by (simp_all add: field_def opt_field_def)

lemma dec_enc_port [simp]: "dec_port (enc_port p) = Some p"
  by (cases "pm_protocol p") (simp_all add: dec_port_def enc_port_def dec_protocol_def)

lemma dec_enc_volume [simp]: "dec_volume (enc_volume v) = Some v"
  by (cases v) (simp_all add: dec_volume_def enc_volume_def)

lemma dec_enc_ulimit [simp]: "dec_ulimit (enc_ulimit u) = Some u"
  by (simp add: dec_ulimit_def enc_ulimit_def)

lemma dec_enc_option [simp]:
  assumes "\<And>a. g (f a) = Some a" and "\<And>a. f a \<noteq> JNull"
  shows "(if enc_option f x = JNull then Some None else map_option Some (g (enc_option f x))) = Some x"
  using assms by (cases x) (simp_all add: enc_option_def)

lemma dec_enc_limits [simp]: "dec_limits (enc_limits r) = Some r"
  by (simp add: dec_limits_def enc_limits_def map_opt_map)

lemma dec_enc_env [simp]: "dec_env (enc_env env) = Some env"
  using map_opt_map [of "\<lambda>(k, v). map_option (Pair k) (json_as_str v)" "\<lambda>(k, v). (k, JString v)" env]
  by (simp add: enc_env_def split_beta)

text \<open>
  Stored configurations survive: every environment, port mapping, volume, resource limit
  and list of strings decodes to itself from the JSON it is stored as, and an absent value
  is distinguishable from every list.
\<close>

theorem jsonb_codec_ok: "codec_ok (jsonb_codec tm)"
  by (simp add: codec_ok_def jsonb_codec_def map_opt_map enc_strings_def dec_strings_def)

interpretation pgj: pg_codec "jsonb_codec tm" for tm
  by unfold_locales (simp add: codec_ok_def jsonb_codec_def map_opt_map enc_strings_def dec_strings_def)

section \<open>Properties of the PostgreSQL store\<close>

definition example_pg :: "Sandbox list \<Rightarrow> json pg" where
  "example_pg l = \<lparr>pg_rows = map (insert_row (jsonb_codec id)) l, pg_calls = 0, pg_up = (\<lambda>_. True),
     pg_clock = (\<lambda>n. int n * nanos_per_sec)\<rparr>"

definition example_with_command :: Sandbox where
  "example_with_command = (example_sandbox 7 Stopped (Some ''c''))\<lparr>sb_config :=
     sandbox_config_default\<lparr>cfg_command := Some [''sleep'', ''60'']\<rparr>\<rparr>"

text \<open>
  C40. Reading back a stored sandbox: when every statement gets through, creating a sandbox
  under a fresh identifier succeeds and reading it returns the sandbox with rounded times,
  without its exposed ports and without its command, which the query does not select;
  everything else is returned as written.
\<close>

theorem pg_create_then_get:
  assumes "codec_ok cd" and "\<And>n. pg_up s n" and "sb_id sb \<notin> r_id ` set (pg_rows s)"
  shows "\<exists>t. pg_create_sandbox cd sb s = (Inr (), t) \<and>
    fst (pg_get_sandbox_with_deleted cd (sb_id sb) True t) = Some (normalise cd False sb)"
proof -
  have id: "r_id (insert_row cd sb) = sb_id sb" by (simp add: insert_row_def)
  have none: "filter (\<lambda>r. r_id r = sb_id sb) (pg_rows s) = []"
    using assms(3) by (auto simp: filter_empty_conv image_iff)
  show ?thesis
    using assms(2,3)
    by (simp add: pg_create_sandbox_def pg_insert_def bindE_def pg_statement_def gets_def modify_def id
        pg_get_sandbox_with_deleted_def query_result_def pg_query_def none read_row_def
        row_to_sandbox_insert [OF assms(1)])
qed

theorem pg_create_then_get_witness:
  "\<exists>t. pg_create_sandbox (jsonb_codec id) example_with_command (example_pg []) = (Inr (), t) \<and>
    fst (pg_get_sandbox_with_deleted (jsonb_codec id) 7 True t) =
      Some (normalise (jsonb_codec id) False example_with_command)"
  using pg_create_then_get [OF pgj.codec, of "example_pg []" example_with_command id]
  by (simp add: example_pg_def example_with_command_def)

text \<open>
  Read-modify-write loses the command: whenever a sandbox is read from the PostgreSQL
  store and an update with the configuration that was read succeeds (as stopping, starting,
  deleting and recording activity do), the stored command is null afterwards, whatever it
  was before.
\<close>

theorem pg_get_update_erases_command:
  assumes "pg_get_sandbox_with_deleted cd i d s = (Some sb, t)"
    and "sb_id sb' = i" and "sb_config sb' = sb_config sb"
    and "pg_update_sandbox cd sb' t = (Inr (), u)"
    and "r \<in> set (pg_rows u)" and "r_id r = i"
  shows "r_command r = cd_null cd"
proof -
  have q: "query_result (pg_query (\<lambda>r. r_id r = i \<and> (d \<or> r_deleted_at r = None)))
      (read_row cd False) None s = (Some sb, t)"
    using assms(1) by (simp add: pg_get_sandbox_with_deleted_def)
  obtain x where "row_to_sandbox cd False x = Inr sb"
    using query_result_query [OF q] read_row_Some [of cd False _ "pg_rows s" sb] by fastforce
  then have none: "cfg_command (sb_config sb) = None"
    by (auto simp: row_to_sandbox_def bind_res_Inr deserialize_command_def)
  have "wpE (pg_update_sandbox cd sb') (\<lambda>_ u. \<forall>r. r \<in> set (pg_rows u) \<longrightarrow> r_id r = sb_id sb' \<longrightarrow>
      r_command r = serialize_command cd (cfg_command (sb_config sb'))) (\<lambda>_ _. True) t"
    by (auto simp: pg_update_sandbox_def wp Let_def update_row_def insert_row_def)
  from wpE_okD [OF this assms(4)] assms(2,3,5,6) none show ?thesis
    by (simp add: serialize_command_def)
qed

theorem pg_get_update_erases_command_witness:
  "list_all (\<lambda>r. r_command r = JNull) (filter (\<lambda>r. r_id r = 7) (pg_rows (snd (pg_update_sandbox (jsonb_codec id)
      (normalise (jsonb_codec id) False example_with_command) ((example_pg [example_with_command])\<lparr>pg_calls := 2\<rparr>)))))"
proof -
  let ?cd = "jsonb_codec id"
  let ?s = "example_pg [example_with_command]"
  let ?sb = "normalise ?cd False example_with_command"
  have id: "r_id (insert_row ?cd example_with_command) = 7"
    by (simp add: insert_row_def example_with_command_def)
  have get: "pg_get_sandbox_with_deleted ?cd 7 True ?s = (Some ?sb, ?s\<lparr>pg_calls := 2\<rparr>)"
    by (simp add: pg_get_sandbox_with_deleted_def query_result_def pg_query_def bindE_def pg_statement_def
        gets_def read_row_def row_to_sandbox_insert [OF pgj.codec] example_pg_def id)
  have "fst (pg_update_sandbox ?cd ?sb (?s\<lparr>pg_calls := 2\<rparr>)) = Inr ()"
    by (simp add: pg_update_sandbox_def pg_execute_def bindE_def pg_statement_def gets_def modify_def
        ret_def example_pg_def id) (simp add: normalise_def example_with_command_def)
  then have upd: "pg_update_sandbox ?cd ?sb (?s\<lparr>pg_calls := 2\<rparr>) =
      (Inr (), snd (pg_update_sandbox ?cd ?sb (?s\<lparr>pg_calls := 2\<rparr>)))"
    by (metis prod.collapse)
  have "sb_id ?sb = 7"
    by (simp add: normalise_def example_with_command_def)
  from pg_get_update_erases_command [OF get this refl upd] show ?thesis
    by (simp add: list_all_iff jsonb_codec_def)
qed

text \<open>
  Startup recovery never finds a stuck sandbox: the query compares the state with
  \<open>Creating\<close> while every row the table's check constraint admits holds a lower-case name, so
  the recovery reports zero sandboxes, or the database's error, and leaves the table alone.
\<close>

theorem recover_stuck_is_noop:
  assumes "\<And>r. r \<in> set (pg_rows s) \<Longrightarrow> check_state (r_state r)"
    and "recover_stuck_sandboxes timeout_secs s = (res, t)"
  shows "pg_rows t = pg_rows s \<and> (res = Inr (0, 0) \<or> res = Inl ''database error'')"
proof -
  have none: "filter (\<lambda>r. r_state r = ''Creating'' \<and> P r) (pg_rows s) = []" for P
    using assms(1) by (fastforce simp: filter_empty_conv check_state_def)
  show ?thesis
    using assms(2)
    by (auto simp: recover_stuck_sandboxes_def bindE_def pg_statement_def gets_def none ret_def
        split: if_splits)
qed

theorem recover_stuck_is_noop_witness:
  "fst (recover_stuck_sandboxes 300 (example_pg [example_sandbox 7 Creating None])) \<in>
     {Inr (0, 0), Inl ''database error''}"
proof -
  let ?s = "example_pg [example_sandbox 7 Creating None]"
  have "check_state (r_state r)" if "r \<in> set (pg_rows ?s)" for r
    using that by (simp add: example_pg_def insert_row_def check_state_def)
  then show ?thesis
    using recover_stuck_is_noop [of ?s 300 "fst (recover_stuck_sandboxes 300 ?s)"
        "snd (recover_stuck_sandboxes 300 ?s)"] by auto
qed

text \<open>
  Filtered listing always fails: with a filter on the state, the image or the creation
  time the statement numbers its first condition \<open>$2\<close>, so the parameters never match and the
  call returns an error, for every table.
\<close>

theorem filtered_listing_fails:
  assumes "slf_state f \<noteq> None \<or> slf_image f \<noteq> None \<or> slf_created_after f \<noteq> None \<or>
    slf_created_before f \<noteq> None"
  shows "\<exists>e t. list_sandboxes_filtered cd f s = (Inl e, t)"
proof -
  have one: "1 \<notin> set (where_placeholders f)"
    by (auto simp: where_placeholders_def)
  have "count_params f \<noteq> []"
    using assms by (auto simp: count_params_def)
  then have "\<not> statement_ok (where_placeholders f) (count_params f)"
    using one by (auto simp: statement_ok_def)
  then show ?thesis
    by (simp add: list_sandboxes_filtered_def bindE_def pg_statement_def throw_def)
qed

theorem filtered_listing_fails_witness:
  "\<exists>e t. list_sandboxes_filtered (jsonb_codec id) (list_all_filter\<lparr>slf_state := Some Running\<rparr>)
     (example_pg []) = (Inl e, t)"
  using filtered_listing_fails [of "list_all_filter\<lparr>slf_state := Some Running\<rparr>"] by simp

text \<open>
  Listing is cut off: with every statement succeeding, \<open>list_sandboxes\<close> returns the 50
  most recently created sandboxes (without their commands) and no others, so the background
  tasks built on it never see an older one.
\<close>

theorem pg_list_newest_50:
  assumes "\<And>n. pg_up s n"
  shows "fst (pg_list_sandboxes cd s) = read_rows cd False (take 50 (newest_first (pg_rows s))) \<and>
    length (fst (pg_list_sandboxes cd s)) \<le> 50"
proof -
  have ok: "statement_ok (where_placeholders list_all_filter) (count_params list_all_filter)"
    "statement_ok (select_placeholders list_all_filter) (select_params list_all_filter)"
    by (auto simp: statement_ok_def where_placeholders_def count_params_def select_placeholders_def
        select_params_def list_all_filter_def count_opt_def)
  have eq: "fst (pg_list_sandboxes cd s) = read_rows cd False (take 50 (newest_first (pg_rows s)))"
    using assms ok
    by (simp add: pg_list_sandboxes_def query_result_def list_sandboxes_filtered_def bindE_def
        pg_statement_def gets_def ret_def Let_def visible_row_def list_all_filter_def)
  have len: "length (read_rows cd h l) \<le> length l" for h and l :: "'a row list"
    by (induction l) (auto simp: read_rows_def List.map_filter_simps split: option.split)
  show ?thesis
    unfolding eq using len [of False "take 50 (newest_first (pg_rows s))"] by simp
qed

theorem pg_list_newest_50_witness:
  "length (fst (pg_list_sandboxes (jsonb_codec id) (example_pg [example_with_command]))) \<le> 50"
proof -
  have "pg_up (example_pg [example_with_command]) n" for n
    by (simp add: example_pg_def)
  from pg_list_newest_50 [of "example_pg [example_with_command]" "jsonb_codec id", OF this]
  show ?thesis by blast
qed

text \<open>
  Retention: the expiry job removes exactly the rows that were soft-deleted before the
  cut-off and returns their number; a sandbox that is not deleted is never removed.
\<close>

theorem cleanup_expired_exact:
  assumes "cleanup_expired_sandboxes days s = (res, t)"
  shows "((\<exists>now. res = Inr (length (filter (expired_row days now) (pg_rows s))) \<and>
        pg_rows t = filter (\<lambda>r. \<not> expired_row days now r) (pg_rows s)) \<or>
      res = Inl ''database error'' \<and> pg_rows t = pg_rows s) \<and>
    (\<forall>r. r \<in> set (pg_rows s) \<and> r_deleted_at r = None \<longrightarrow> r \<in> set (pg_rows t))"
proof -
  have "(\<exists>now. res = Inr (length (filter (expired_row days now) (pg_rows s))) \<and>
        pg_rows t = filter (\<lambda>r. \<not> expired_row days now r) (pg_rows s)) \<or>
      res = Inl ''database error'' \<and> pg_rows t = pg_rows s"
    using assms
    by (auto simp: cleanup_expired_sandboxes_def pg_execute_def bindE_def pg_statement_def gets_def
        modify_def ret_def split: if_splits)
  then show ?thesis
    by (auto simp: expired_row_def)
qed

theorem cleanup_expired_exact_witness:
  "insert_row (jsonb_codec id) example_with_command \<in>
     set (pg_rows (snd (cleanup_expired_sandboxes 15 (example_pg [example_with_command]))))"
proof -
  let ?s = "example_pg [example_with_command]"
  have "insert_row (jsonb_codec id) example_with_command \<in> set (pg_rows ?s)"
    "r_deleted_at (insert_row (jsonb_codec id) example_with_command) = None"
    by (simp_all add: example_pg_def) (simp add: insert_row_def example_with_command_def)
  then show ?thesis
    using cleanup_expired_exact [of 15 ?s "fst (cleanup_expired_sandboxes 15 ?s)"
        "snd (cleanup_expired_sandboxes 15 ?s)"] by simp
qed

end
