(* ===== verification/Ssh.thy ===== *)
theory Ssh
  imports PgStore Service
begin

text \<open>
  SSH sessions: the service (\<open>src/src/core/ssh_service.rs\<close>), its two stores
  (\<open>src/src/db/ssh_sessions.rs\<close>) and the session type of \<open>src/src/core/types.rs\<close>.
  The table \<open>ssh_sessions\<close> lives in the database that also holds the sandboxes, so a session
  statement is a statement of that database: it may fail, and it reads the same clock.
  The locale \<open>session_store\<close> states what the service relies on; both stores interpret it.
\<close>

section \<open>Sessions\<close>

datatype SshSessionState = SshConnecting | SshActive | SshDisconnected | SshTerminated | SshError

fun ssh_session_state_as_str :: "SshSessionState \<Rightarrow> string" where
  "ssh_session_state_as_str SshConnecting = ''connecting''"
| "ssh_session_state_as_str SshActive = ''active''"
| "ssh_session_state_as_str SshDisconnected = ''disconnected''"
| "ssh_session_state_as_str SshTerminated = ''terminated''"
| "ssh_session_state_as_str SshError = ''error''"

definition is_terminal :: "SshSessionState \<Rightarrow> bool" where
  "is_terminal st \<longleftrightarrow> st = SshDisconnected \<or> st = SshTerminated \<or> st = SshError"

datatype SshAuthMethod = SshApiKey | SshCertificate

fun ssh_auth_method_as_str :: "SshAuthMethod \<Rightarrow> string" where
  "ssh_auth_method_as_str SshApiKey = ''api_key''"
| "ssh_auth_method_as_str SshCertificate = ''certificate''"

text \<open>A session, with its authentication method and state typed, and its row, with both as text.\<close>

record ('a, 't) session_record =
  sn_id :: uuid
  sn_sandbox_id :: uuid
  sn_client_ip :: string
  sn_ssh_version :: "string option"
  sn_auth_method :: 'a
  sn_ssh_session_id :: "string option"
  sn_exec_id :: "string option"
  sn_pty_term :: "string option"
  sn_pty_rows :: "i32 option"
  sn_pty_cols :: "i32 option"
  sn_state :: 't
  sn_connected_at :: time
  sn_disconnected_at :: "time option"
  sn_last_activity_at :: time
  sn_bytes_sent :: i64
  sn_bytes_received :: i64
  sn_duration_seconds :: "i32 option"
  sn_termination_reason :: "string option"
  sn_created_at :: time
  sn_updated_at :: time

type_synonym SshSession = "(SshAuthMethod, SshSessionState) session_record"
type_synonym SshSessionRow = "(string, string) session_record"

record CreateSshSessionRequest =
  css_sandbox_id :: uuid
  css_client_ip :: string
  css_ssh_version :: "string option"
  css_auth_method :: SshAuthMethod
  css_username :: "string option"
  css_public_key :: "string option"

definition valid_key_prefixes :: "string list" where
  "valid_key_prefixes =
     [''ssh-rsa'', ''ssh-ed25519'', ''ecdsa-sha2-nistp256'', ''ecdsa-sha2-nistp384'',
      ''ecdsa-sha2-nistp521'', ''ssh-dss'']"

definition ssh_request_validate :: "CreateSshSessionRequest \<Rightarrow> ApiError + unit" where
  "ssh_request_validate req =
     bind_res
       (case css_username req of
        Some username \<Rightarrow>
          if trim username = []
          then Inl (ApiValidation ''SSH username cannot be empty'' (Some ''username'') EC_ValidationError)
          else Inr ()
      | None \<Rightarrow> Inr ())
       (\<lambda>_. case css_public_key req of
        None \<Rightarrow> Inr ()
      | Some public_key \<Rightarrow>
          let trimmed = trim public_key
          in if trimmed = []
             then Inl (ApiValidation ''SSH public key cannot be empty'' (Some ''public_key'') EC_ValidationError)
             else if \<not> list_ex (starts_with trimmed) valid_key_prefixes
             then Inl (ApiValidation (''Invalid SSH public key format. Must be a valid SSH public key '' @
                    ''(e.g., ssh-rsa, ssh-ed25519, ecdsa-sha2-nistp256)'')
                    (Some ''public_key'') EC_ValidationError)
             else Inr ())"

section \<open>The store interface\<close>

record ('s, 'b) ssh_world =
  sw_world :: "('s, 'b) world"
  sw_sessions :: "SshSessionRow list"

record SshSessionFilters =
  ssf_sandbox_id :: "uuid option"
  ssf_state :: "SshSessionState option"
  ssf_limit :: "nat option"
  ssf_offset :: "nat option"

record SessionStatistics =
  stat_total_sessions :: i64
  stat_active_sessions :: i64
  stat_connecting_sessions :: i64
  stat_disconnected_sessions :: i64
  stat_terminated_sessions :: i64
  stat_error_sessions :: i64
  stat_total_bytes_sent :: i64
  stat_total_bytes_received :: i64

record 'w SshSessionStoreTrait =
  sst_create :: "SshSession \<Rightarrow> ('w, StoreError, unit) prog"
  sst_get :: "uuid \<Rightarrow> 'w \<Rightarrow> SshSession option \<times> 'w"
  sst_list :: "SshSessionFilters \<Rightarrow> 'w \<Rightarrow> SshSession list \<times> 'w"
  sst_update :: "SshSession \<Rightarrow> ('w, StoreError, unit) prog"
  sst_delete :: "uuid \<Rightarrow> ('w, StoreError, unit) prog"
  sst_terminate_by_sandbox :: "uuid \<Rightarrow> ('w, StoreError, unit) prog"
  sst_stale :: "i64 \<Rightarrow> ('w, StoreError, SshSession list) prog"
  sst_stuck :: "i64 \<Rightarrow> ('w, StoreError, SshSession list) prog"
  sst_orphaned :: "('w, StoreError, SshSession list) prog"
  sst_statistics :: "('w, StoreError, SessionStatistics) prog"

section \<open>The PostgreSQL store\<close>

definition on_world :: "(('s, 'b) world, 'e, 'a) prog \<Rightarrow> (('s, 'b) ssh_world, 'e, 'a) prog" where
  "on_world m w = (case m (sw_world w) of (r, v) \<Rightarrow> (r, w\<lparr>sw_world := v\<rparr>))"

definition pool_get :: "(('j pg, 'b) ssh_world, StoreError, unit) prog" where
  "pool_get = bindE (map_err SE_Message (on_world (on_store pg_statement))) (\<lambda>_. ret ())"

definition run_statement :: "(('j pg, 'b) ssh_world, StoreError, time) prog" where
  "run_statement = map_err SE_Postgres (on_world (on_store pg_statement))"

definition parse_auth_method :: "string \<Rightarrow> StoreError + SshAuthMethod" where
  "parse_auth_method m =
     (if m = ''api_key'' then Inr SshApiKey
      else if m = ''certificate'' then Inr SshCertificate
      else Inl (SE_InvalidState ''Invalid auth_method''))"

definition parse_session_state :: "string \<Rightarrow> StoreError + SshSessionState" where
  "parse_session_state m =
     (if m = ''connecting'' then Inr SshConnecting
      else if m = ''active'' then Inr SshActive
      else if m = ''disconnected'' then Inr SshDisconnected
      else if m = ''terminated'' then Inr SshTerminated
      else if m = ''error'' then Inr SshError
      else Inl (SE_InvalidState (''Invalid state: '' @ m)))"

definition row_to_session :: "SshSessionRow \<Rightarrow> StoreError + SshSession" where
  "row_to_session r =
     bind_res (parse_auth_method (sn_auth_method r)) (\<lambda>auth.
     bind_res (parse_session_state (sn_state r)) (\<lambda>st.
     Inr \<lparr>sn_id = sn_id r, sn_sandbox_id = sn_sandbox_id r, sn_client_ip = sn_client_ip r,
          sn_ssh_version = sn_ssh_version r, sn_auth_method = auth,
          sn_ssh_session_id = sn_ssh_session_id r, sn_exec_id = sn_exec_id r,
          sn_pty_term = sn_pty_term r, sn_pty_rows = sn_pty_rows r, sn_pty_cols = sn_pty_cols r,
          sn_state = st, sn_connected_at = sn_connected_at r,
          sn_disconnected_at = sn_disconnected_at r, sn_last_activity_at = sn_last_activity_at r,
          sn_bytes_sent = sn_bytes_sent r, sn_bytes_received = sn_bytes_received r,
          sn_duration_seconds = sn_duration_seconds r,
          sn_termination_reason = sn_termination_reason r,
          sn_created_at = sn_created_at r, sn_updated_at = sn_updated_at r\<rparr>))"

text \<open>The values bound to a statement; \<open>tm\<close> is the precision of a \<open>timestamptz\<close> column.\<close>

definition session_row :: "(time \<Rightarrow> time) \<Rightarrow> SshSession \<Rightarrow> SshSessionRow" where
  "session_row tm s =
     \<lparr>sn_id = sn_id s, sn_sandbox_id = sn_sandbox_id s, sn_client_ip = sn_client_ip s,
      sn_ssh_version = sn_ssh_version s, sn_auth_method = ssh_auth_method_as_str (sn_auth_method s),
      sn_ssh_session_id = sn_ssh_session_id s, sn_exec_id = sn_exec_id s,
      sn_pty_term = sn_pty_term s, sn_pty_rows = sn_pty_rows s, sn_pty_cols = sn_pty_cols s,
      sn_state = ssh_session_state_as_str (sn_state s), sn_connected_at = tm (sn_connected_at s),
      sn_disconnected_at = map_option tm (sn_disconnected_at s),
      sn_last_activity_at = tm (sn_last_activity_at s),
      sn_bytes_sent = sn_bytes_sent s, sn_bytes_received = sn_bytes_received s,
      sn_duration_seconds = sn_duration_seconds s, sn_termination_reason = sn_termination_reason s,
      sn_created_at = tm (sn_created_at s), sn_updated_at = tm (sn_updated_at s)\<rparr>"

text \<open>An insert is refused for a used identifier and for a sandbox without a row (\<open>fk_sandbox\<close>).\<close>

definition pg_create_ssh_session ::
  "(time \<Rightarrow> time) \<Rightarrow> SshSession \<Rightarrow> (('j pg, 'b) ssh_world, StoreError, unit) prog" where
  "pg_create_ssh_session tm session =
     bindE pool_get (\<lambda>_.
     bindE run_statement (\<lambda>_.
     bindE (gets (\<lambda>w. (sn_id session \<in> sn_id ` set (sw_sessions w),
                       sn_sandbox_id session \<in> r_id ` set (pg_rows (w_store (sw_world w)))))) (\<lambda>(used, known).
     if used then throw (SE_Postgres ''duplicate key value'')
     else if \<not> known then throw (SE_Postgres ''violates foreign key constraint'')
     else modify (sw_sessions_update (\<lambda>rows. rows @ [session_row tm session])))))"

definition res_option :: "'e + 'a \<Rightarrow> 'a option" where
  "res_option r = (case r of Inr a \<Rightarrow> Some a | Inl _ \<Rightarrow> None)"

definition select_sessions ::
  "(time \<Rightarrow> ('j pg, 'b) ssh_world \<Rightarrow> SshSessionRow \<Rightarrow> bool) \<Rightarrow> (SshSessionRow \<Rightarrow> int) \<Rightarrow>
     (('j pg, 'b) ssh_world, StoreError, SshSessionRow list) prog" where
  "select_sessions p key =
     bindE pool_get (\<lambda>_.
     bindE run_statement (\<lambda>now.
     gets (\<lambda>w. sort_key key (filter (p now w) (sw_sessions w)))))"

definition pg_get_ssh_session ::
  "uuid \<Rightarrow> ('j pg, 'b) ssh_world \<Rightarrow> SshSession option \<times> ('j pg, 'b) ssh_world" where
  "pg_get_ssh_session i w =
     (case select_sessions (\<lambda>_ _ r. sn_id r = i) (\<lambda>_. 0) w of
        (Inr [row], v) \<Rightarrow> (res_option (row_to_session row), v)
      | (_, v) \<Rightarrow> (None, v))"

definition matches_filters :: "SshSessionFilters \<Rightarrow> SshSessionRow \<Rightarrow> bool" where
  "matches_filters f r \<longleftrightarrow>
     (case ssf_sandbox_id f of None \<Rightarrow> True | Some i \<Rightarrow> sn_sandbox_id r = i) \<and>
     (case ssf_state f of None \<Rightarrow> True | Some st \<Rightarrow> sn_state r = ssh_session_state_as_str st)"

definition pg_list_ssh_sessions ::
  "SshSessionFilters \<Rightarrow> ('j pg, 'b) ssh_world \<Rightarrow> SshSession list \<times> ('j pg, 'b) ssh_world" where
  "pg_list_ssh_sessions f w =
     (case select_sessions (\<lambda>_ _. matches_filters f) (\<lambda>r. - sn_connected_at r) w of
        (Inr rows, v) \<Rightarrow> (List.map_filter (\<lambda>r. res_option (row_to_session r)) rows, v)
      | (Inl _, v) \<Rightarrow> ([], v))"

text \<open>An update binds every column but the identifier and the creation time.\<close>

definition updated_row :: "(time \<Rightarrow> time) \<Rightarrow> SshSession \<Rightarrow> time \<Rightarrow> SshSessionRow \<Rightarrow> SshSessionRow" where
  "updated_row tm s now r =
     (session_row tm s)\<lparr>sn_id := sn_id r, sn_created_at := sn_created_at r, sn_updated_at := now\<rparr>"

definition update_sessions ::
  "(time \<Rightarrow> SshSessionRow list \<Rightarrow> SshSessionRow list) \<Rightarrow> (('j pg, 'b) ssh_world, StoreError, unit) prog" where
  "update_sessions f =
     bindE pool_get (\<lambda>_.
     bindE run_statement (\<lambda>now.
     modify (sw_sessions_update (f now))))"

definition pg_update_ssh_session ::
  "(time \<Rightarrow> time) \<Rightarrow> SshSession \<Rightarrow> (('j pg, 'b) ssh_world, StoreError, unit) prog" where
  "pg_update_ssh_session tm s =
     update_sessions (\<lambda>now. map (\<lambda>r. if sn_id r = sn_id s then updated_row tm s now r else r))"

definition pg_delete_ssh_session :: "uuid \<Rightarrow> (('j pg, 'b) ssh_world, StoreError, unit) prog" where
  "pg_delete_ssh_session i = update_sessions (\<lambda>_. filter (\<lambda>r. sn_id r \<noteq> i))"

definition live_row :: "SshSessionRow \<Rightarrow> bool" where
  "live_row r \<longleftrightarrow> sn_state r \<in> {''connecting'', ''active''}"

definition terminated_row :: "time \<Rightarrow> SshSessionRow \<Rightarrow> SshSessionRow" where
  "terminated_row now r =
     r\<lparr>sn_state := ''terminated'', sn_disconnected_at := Some now,
       sn_termination_reason := Some ''Sandbox deleted'', sn_updated_at := now\<rparr>"

definition pg_terminate_sessions_by_sandbox ::
  "uuid \<Rightarrow> (('j pg, 'b) ssh_world, StoreError, unit) prog" where
  "pg_terminate_sessions_by_sandbox i =
     update_sessions (\<lambda>now. map (\<lambda>r.
       if sn_sandbox_id r = i \<and> live_row r then terminated_row now r else r))"

text \<open>\<open>rows.iter().map(row_to_session).collect()\<close>: the first unreadable row fails the query.\<close>

fun collect_sessions :: "SshSessionRow list \<Rightarrow> StoreError + SshSession list" where
  "collect_sessions [] = Inr []"
| "collect_sessions (r # rows) =
     bind_res (row_to_session r) (\<lambda>s. bind_res (collect_sessions rows) (\<lambda>l. Inr (s # l)))"

definition stale_row :: "i64 \<Rightarrow> time \<Rightarrow> SshSessionRow \<Rightarrow> bool" where
  "stale_row timeout_secs now r \<longleftrightarrow>
     live_row r \<and> sn_last_activity_at r < now - sint timeout_secs * nanos_per_sec"

definition stuck_row :: "i64 \<Rightarrow> time \<Rightarrow> SshSessionRow \<Rightarrow> bool" where
  "stuck_row timeout_secs now r \<longleftrightarrow>
     sn_state r = ''connecting'' \<and> sn_connected_at r < now - sint timeout_secs * nanos_per_sec"

definition sandbox_row_state :: "'j pg \<Rightarrow> uuid \<Rightarrow> string option" where
  "sandbox_row_state s i = map_option r_state (find (\<lambda>r. r_id r = i) (pg_rows s))"

definition orphaned_row :: "'j pg \<Rightarrow> SshSessionRow \<Rightarrow> bool" where
  "orphaned_row s r \<longleftrightarrow> live_row r \<and> sandbox_row_state s (sn_sandbox_id r) \<noteq> Some ''running''"

definition pg_get_stale_sessions :: "i64 \<Rightarrow> (('j pg, 'b) ssh_world, StoreError, SshSession list) prog" where
  "pg_get_stale_sessions timeout_secs =
     bindE (select_sessions (\<lambda>now _. stale_row timeout_secs now) sn_last_activity_at)
       (\<lambda>rows. lift_res (collect_sessions rows))"

definition pg_get_stuck_connecting_sessions ::
  "i64 \<Rightarrow> (('j pg, 'b) ssh_world, StoreError, SshSession list) prog" where
  "pg_get_stuck_connecting_sessions timeout_secs =
     bindE (select_sessions (\<lambda>now _. stuck_row timeout_secs now) sn_connected_at)
       (\<lambda>rows. lift_res (collect_sessions rows))"

definition pg_get_orphaned_sessions :: "(('j pg, 'b) ssh_world, StoreError, SshSession list) prog" where
  "pg_get_orphaned_sessions =
     bindE (select_sessions (\<lambda>_ w. orphaned_row (w_store (sw_world w))) sn_connected_at)
       (\<lambda>rows. lift_res (collect_sessions rows))"

text \<open>
  The aggregate query, without the average duration, which is a floating-point number. A sum
  that does not fit its \<open>BIGINT\<close> column fails the statement.
\<close>

definition fits_bigint :: "int \<Rightarrow> bool" where
  "fits_bigint n \<longleftrightarrow> - (2 ^ 63) \<le> n \<and> n < 2 ^ 63"

definition count_state :: "string \<Rightarrow> SshSessionRow list \<Rightarrow> i64" where
  "count_state st rows = of_nat (length (filter (\<lambda>r. sn_state r = st) rows))"

definition pg_get_session_statistics :: "(('j pg, 'b) ssh_world, StoreError, SessionStatistics) prog" where
  "pg_get_session_statistics =
     bindE pool_get (\<lambda>_.
     bindE run_statement (\<lambda>_.
     bindE (gets sw_sessions) (\<lambda>rows.
     let sent = sum_list (map (\<lambda>r. sint (sn_bytes_sent r)) rows);
         received = sum_list (map (\<lambda>r. sint (sn_bytes_received r)) rows)
     in if \<not> fits_bigint sent \<or> \<not> fits_bigint received then throw (SE_Postgres ''bigint out of range'')
     else ret \<lparr>stat_total_sessions = of_nat (length rows),
          stat_active_sessions = count_state ''active'' rows,
          stat_connecting_sessions = count_state ''connecting'' rows,
          stat_disconnected_sessions = count_state ''disconnected'' rows,
          stat_terminated_sessions = count_state ''terminated'' rows,
          stat_error_sessions = count_state ''error'' rows,
          stat_total_bytes_sent = word_of_int sent,
          stat_total_bytes_received = word_of_int received\<rparr>)))"

definition PostgresSshSessionStore :: "(time \<Rightarrow> time) \<Rightarrow> ('j pg, 'b) ssh_world SshSessionStoreTrait" where
  "PostgresSshSessionStore tm =
     \<lparr>sst_create = pg_create_ssh_session tm, sst_get = pg_get_ssh_session,
      sst_list = pg_list_ssh_sessions, sst_update = pg_update_ssh_session tm,
      sst_delete = pg_delete_ssh_session, sst_terminate_by_sandbox = pg_terminate_sessions_by_sandbox,
      sst_stale = pg_get_stale_sessions, sst_stuck = pg_get_stuck_connecting_sessions,
      sst_orphaned = pg_get_orphaned_sessions, sst_statistics = pg_get_session_statistics\<rparr>"

definition noop_error :: StoreError where
  "noop_error = SE_Message ''SSH session management requires PostgreSQL''"

definition NoopSshSessionStore :: "'w SshSessionStoreTrait" where
  "NoopSshSessionStore =
     \<lparr>sst_create = (\<lambda>_. throw noop_error), sst_get = (\<lambda>_ w. (None, w)), sst_list = (\<lambda>_ w. ([], w)),
      sst_update = (\<lambda>_. throw noop_error), sst_delete = (\<lambda>_. throw noop_error),
      sst_terminate_by_sandbox = (\<lambda>_. throw noop_error), sst_stale = (\<lambda>_. throw noop_error),
      sst_stuck = (\<lambda>_. throw noop_error), sst_orphaned = throw noop_error,
      sst_statistics = throw noop_error\<rparr>"

section \<open>The service\<close>

datatype SshServiceError =
    SandboxNotFound uuid
  | SandboxNotRunning uuid
  | AuthenticationFailed string
  | SessionNotFound uuid
  | DatabaseError string
  | InvalidRequest string

fun ssh_error_code :: "SshServiceError \<Rightarrow> ErrorCode" where
  "ssh_error_code (SandboxNotFound _) = EC_SandboxNotFound"
| "ssh_error_code (SandboxNotRunning _) = EC_SandboxInvalidState"
| "ssh_error_code (AuthenticationFailed _) = EC_SshAuthenticationFailed"
| "ssh_error_code (SessionNotFound _) = EC_SshSessionNotFound"
| "ssh_error_code (DatabaseError _) = EC_DatabaseQueryFailed"
| "ssh_error_code (InvalidRequest _) = EC_ValidationInvalidRequest"

fun store_error_display :: "(uuid \<Rightarrow> string) \<Rightarrow> StoreError \<Rightarrow> string" where
  "store_error_display sh (SE_Postgres m) = ''PostgreSQL error: '' @ m"
| "store_error_display sh (SE_Serialization m) = ''Serialization error: '' @ m"
| "store_error_display sh (SE_NotFound i) = ''Sandbox '' @ sh i @ '' not found''"
| "store_error_display sh (SE_InvalidState m) = ''Invalid state: '' @ m"
| "store_error_display sh (SE_Message m) = m"

record ('s, 'b) SshSessionService =
  ssv_ssh_store :: "('s, 'b) ssh_world SshSessionStoreTrait"
  ssv_sandbox_service :: "('s, 'b) SandboxService option"

type_synonym ('s, 'b, 'a) ssh = "(('s, 'b) ssh_world, SshServiceError, 'a) prog"

definition ssh_new :: "('s, 'b) ssh_world SshSessionStoreTrait \<Rightarrow> ('s, 'b) SshSessionService" where
  "ssh_new store = \<lparr>ssv_ssh_store = store, ssv_sandbox_service = None\<rparr>"

definition new_with_sandbox_service ::
  "('s, 'b) ssh_world SshSessionStoreTrait \<Rightarrow> ('s, 'b) SandboxService \<Rightarrow> ('s, 'b) SshSessionService" where
  "new_with_sandbox_service store svc = \<lparr>ssv_ssh_store = store, ssv_sandbox_service = Some svc\<rparr>"

definition db_call :: "(('s, 'b) ssh_world, StoreError, 'a) prog \<Rightarrow> ('s, 'b, 'a) ssh" where
  "db_call m =
     bindE (attempt m) (\<lambda>r. case r of
       Inr a \<Rightarrow> ret a
     | Inl e \<Rightarrow> bindE (gets (\<lambda>w. w_uuid_to_string (sw_world w)))
         (\<lambda>sh. throw (DatabaseError (store_error_display sh e))))"

definition authorize_sandbox_access ::
  "('s, 'b) SshSessionService \<Rightarrow> ApiKeyIdentity \<Rightarrow> uuid \<Rightarrow> (('s, 'b) ssh_world, ApiError, unit) prog" where
  "authorize_sandbox_access ssv ident sandbox_id =
     (case ssv_sandbox_service ssv of
        Some svc \<Rightarrow> on_world (check_sandbox_ownership svc ident sandbox_id)
      | None \<Rightarrow>
          if ident_key_type ident = Privileged then ret ()
          else throw (ApiValidation ''SSH session authorization requires a privileged API key'' None
                 EC_AuthorizationInsufficientPermissions))"

definition check_running :: "('s, 'b) SandboxService \<Rightarrow> uuid \<Rightarrow> ('s, 'b, unit) ssh" where
  "check_running svc i =
     bindE (on_world (read_store (ss_get_sandbox (svc_state svc) i))) (\<lambda>r. case r of
       None \<Rightarrow> throw (SandboxNotFound i)
     | Some sb \<Rightarrow> if sb_state sb \<noteq> Running then throw (SandboxNotRunning i) else ret ())"

definition new_session :: "uuid \<Rightarrow> time \<Rightarrow> CreateSshSessionRequest \<Rightarrow> SshSession" where
  "new_session i now req =
     \<lparr>sn_id = i, sn_sandbox_id = css_sandbox_id req, sn_client_ip = css_client_ip req,
      sn_ssh_version = css_ssh_version req, sn_auth_method = css_auth_method req,
      sn_ssh_session_id = None, sn_exec_id = None, sn_pty_term = None, sn_pty_rows = None,
      sn_pty_cols = None, sn_state = SshConnecting, sn_connected_at = now, sn_disconnected_at = None,
      sn_last_activity_at = now, sn_bytes_sent = 0, sn_bytes_received = 0,
      sn_duration_seconds = None, sn_termination_reason = None,
      sn_created_at = now, sn_updated_at = now\<rparr>"

definition create_session ::
  "('s, 'b) SshSessionService \<Rightarrow> CreateSshSessionRequest \<Rightarrow> ('s, 'b, SshSession) ssh" where
  "create_session ssv req =
     bindE (case ssv_sandbox_service ssv of
              Some svc \<Rightarrow> check_running svc (css_sandbox_id req)
            | None \<Rightarrow> ret ()) (\<lambda>_.
     bindE (on_world utc_now) (\<lambda>now.
     bindE (on_world new_v4) (\<lambda>i.
     bindE (db_call (sst_create (ssv_ssh_store ssv) (new_session i now req))) (\<lambda>_.
     ret (new_session i now req)))))"

definition get_session :: "('s, 'b) SshSessionService \<Rightarrow> uuid \<Rightarrow> ('s, 'b, SshSession) ssh" where
  "get_session ssv i w =
     (case sst_get (ssv_ssh_store ssv) i w of (r, v) \<Rightarrow> ok_or (SessionNotFound i) r v)"

definition list_sessions ::
  "('s, 'b) SshSessionService \<Rightarrow> SshSessionFilters \<Rightarrow> ('s, 'b) ssh_world \<Rightarrow> SshSession list \<times> ('s, 'b) ssh_world" where
  "list_sessions ssv f = sst_list (ssv_ssh_store ssv) f"

definition mark_session_active ::
  "('s, 'b) SshSessionService \<Rightarrow> uuid \<Rightarrow> string option \<Rightarrow> string option \<Rightarrow> string option \<Rightarrow>
     i32 option \<Rightarrow> i32 option \<Rightarrow> ('s, 'b, unit) ssh" where
  "mark_session_active ssv i ssh_session_id exec_id pty_term pty_rows pty_cols =
     bindE (get_session ssv i) (\<lambda>session.
     bindE (on_world utc_now) (\<lambda>now.
     db_call (sst_update (ssv_ssh_store ssv)
       (session\<lparr>sn_state := SshActive, sn_ssh_session_id := ssh_session_id, sn_exec_id := exec_id,
          sn_pty_term := pty_term, sn_pty_rows := pty_rows, sn_pty_cols := pty_cols,
          sn_updated_at := now\<rparr>))))"

definition update_activity ::
  "('s, 'b) SshSessionService \<Rightarrow> uuid \<Rightarrow> i64 \<Rightarrow> i64 \<Rightarrow> ('s, 'b, unit) ssh" where
  "update_activity ssv i bytes_sent bytes_received =
     bindE (get_session ssv i) (\<lambda>session.
     bindE (on_world utc_now) (\<lambda>now1.
     bindE (on_world utc_now) (\<lambda>now2.
     db_call (sst_update (ssv_ssh_store ssv)
       (session\<lparr>sn_last_activity_at := now1, sn_bytes_sent := bytes_sent,
          sn_bytes_received := bytes_received, sn_updated_at := now2\<rparr>)))))"

text \<open>
  Both ways of ending a session read the clock for \<open>disconnected_at\<close>, for \<open>updated_at\<close> and for
  the argument of \<open>unwrap_or\<close>; the duration in whole seconds is cast to 32 bits.
\<close>

definition session_duration :: "time \<Rightarrow> SshSession \<Rightarrow> i32" where
  "session_duration disconnected_at session =
     word_of_int (num_seconds (disconnected_at - sn_connected_at session))"

definition disconnect_session :: "('s, 'b) SshSessionService \<Rightarrow> uuid \<Rightarrow> ('s, 'b, unit) ssh" where
  "disconnect_session ssv i =
     bindE (get_session ssv i) (\<lambda>session.
     if is_terminal (sn_state session) then ret ()
     else
       bindE (on_world utc_now) (\<lambda>now1.
       bindE (on_world utc_now) (\<lambda>now2.
       bindE (on_world utc_now) (\<lambda>_.
       db_call (sst_update (ssv_ssh_store ssv)
         (session\<lparr>sn_state := SshDisconnected, sn_disconnected_at := Some now1,
            sn_updated_at := now2, sn_duration_seconds := Some (session_duration now1 session)\<rparr>))))))"

definition terminate_session :: "('s, 'b) SshSessionService \<Rightarrow> uuid \<Rightarrow> string \<Rightarrow> ('s, 'b, unit) ssh" where
  "terminate_session ssv i reason =
     bindE (get_session ssv i) (\<lambda>session.
     bindE (on_world utc_now) (\<lambda>now1.
     bindE (on_world utc_now) (\<lambda>now2.
     bindE (on_world utc_now) (\<lambda>_.
     db_call (sst_update (ssv_ssh_store ssv)
       (session\<lparr>sn_state := SshTerminated, sn_disconnected_at := Some now1,
          sn_termination_reason := Some reason, sn_updated_at := now2,
          sn_duration_seconds := Some (session_duration now1 session)\<rparr>))))))"

definition terminate_sessions_by_sandbox :: "('s, 'b) SshSessionService \<Rightarrow> uuid \<Rightarrow> ('s, 'b, unit) ssh" where
  "terminate_sessions_by_sandbox ssv i = db_call (sst_terminate_by_sandbox (ssv_ssh_store ssv) i)"

definition get_stale_sessions :: "('s, 'b) SshSessionService \<Rightarrow> i64 \<Rightarrow> ('s, 'b, SshSession list) ssh" where
  "get_stale_sessions ssv timeout_secs = db_call (sst_stale (ssv_ssh_store ssv) timeout_secs)"

definition get_stuck_connecting_sessions ::
  "('s, 'b) SshSessionService \<Rightarrow> i64 \<Rightarrow> ('s, 'b, SshSession list) ssh" where
  "get_stuck_connecting_sessions ssv timeout_secs = db_call (sst_stuck (ssv_ssh_store ssv) timeout_secs)"

definition get_orphaned_sessions :: "('s, 'b) SshSessionService \<Rightarrow> ('s, 'b, SshSession list) ssh" where
  "get_orphaned_sessions ssv = db_call (sst_orphaned (ssv_ssh_store ssv))"

definition get_statistics :: "('s, 'b) SshSessionService \<Rightarrow> ('s, 'b, SessionStatistics) ssh" where
  "get_statistics ssv = db_call (sst_statistics (ssv_ssh_store ssv))"

text \<open>One round of the cleanup task: the three queries in turn, errors only logged.\<close>

definition terminate_each ::
  "('s, 'b) SshSessionService \<Rightarrow> string \<Rightarrow> SshSession list \<Rightarrow> ('s, 'b, unit) ssh" where
  "terminate_each ssv reason sessions =
     foldE (\<lambda>session _. bindE (attempt (terminate_session ssv (sn_id session) reason)) (\<lambda>_. ret ())) sessions ()"

definition terminate_all ::
  "('s, 'b) SshSessionService \<Rightarrow> string \<Rightarrow> ('s, 'b, SshSession list) ssh \<Rightarrow> ('s, 'b, unit) ssh" where
  "terminate_all ssv reason query =
     bindE (attempt query) (\<lambda>r. case r of
       Inl _ \<Rightarrow> ret ()
     | Inr sessions \<Rightarrow> terminate_each ssv reason sessions)"

definition ssh_cleanup_tick :: "('s, 'b) SshSessionService \<Rightarrow> i64 \<Rightarrow> i64 \<Rightarrow> ('s, 'b, unit) ssh" where
  "ssh_cleanup_tick ssv idle_timeout connecting_timeout =
     bindE (terminate_all ssv ''Idle timeout'' (get_stale_sessions ssv idle_timeout)) (\<lambda>_.
     bindE (terminate_all ssv ''Connection timeout - stuck in connecting state''
              (get_stuck_connecting_sessions ssv connecting_timeout)) (\<lambda>_.
     terminate_all ssv ''Sandbox no longer running'' (get_orphaned_sessions ssv)))"

section \<open>Histories\<close>

text \<open>
  The operations that can change a session, in any order; between two of them the rest of the
  system may change everything but the table of sessions.
\<close>

datatype ('s, 'b) ssh_op =
    OpCreate CreateSshSessionRequest
  | OpActive uuid "string option" "string option" "string option" "i32 option" "i32 option"
  | OpActivity uuid i64 i64
  | OpDisconnect uuid
  | OpTerminate uuid string
  | OpTerminateBySandbox uuid
  | OpCleanup i64 i64
  | OpWorld "('s, 'b) world"

fun ssh_exec :: "('s, 'b) SshSessionService \<Rightarrow> ('s, 'b) ssh_op \<Rightarrow> ('s, 'b) ssh_world \<Rightarrow> ('s, 'b) ssh_world" where
  "ssh_exec ssv (OpCreate req) w = snd (create_session ssv req w)"
| "ssh_exec ssv (OpActive i a b c d e) w = snd (mark_session_active ssv i a b c d e w)"
| "ssh_exec ssv (OpActivity i sent received) w = snd (update_activity ssv i sent received w)"
| "ssh_exec ssv (OpDisconnect i) w = snd (disconnect_session ssv i w)"
| "ssh_exec ssv (OpTerminate i reason) w = snd (terminate_session ssv i reason w)"
| "ssh_exec ssv (OpTerminateBySandbox i) w = snd (terminate_sessions_by_sandbox ssv i w)"
| "ssh_exec ssv (OpCleanup idle connecting) w = snd (ssh_cleanup_tick ssv idle connecting w)"
| "ssh_exec ssv (OpWorld x) w = w\<lparr>sw_world := x\<rparr>"

definition ssh_run :: "('s, 'b) SshSessionService \<Rightarrow> ('s, 'b) ssh_op list \<Rightarrow> ('s, 'b) ssh_world \<Rightarrow> ('s, 'b) ssh_world" where
  "ssh_run ssv ops w = fold (ssh_exec ssv) ops w"

text \<open>The invariant of a session that the service manages.\<close>

definition session_ok :: "SshSession \<Rightarrow> bool" where
  "session_ok s \<longleftrightarrow>
     sn_state s \<noteq> SshError \<and>
     (sn_state s = SshConnecting \<longrightarrow>
        sn_disconnected_at s = None \<and> sn_duration_seconds s = None \<and> sn_termination_reason s = None) \<and>
     (sn_state s = SshDisconnected \<longrightarrow> sn_disconnected_at s \<noteq> None \<and> sn_duration_seconds s \<noteq> None) \<and>
     (sn_state s = SshTerminated \<longrightarrow> sn_disconnected_at s \<noteq> None \<and> sn_termination_reason s \<noteq> None)"

section \<open>What the service relies on\<close>

text \<open>
  A store keeps what the service decides about a session; it may round times. \<open>ended\<close> is what
  terminating by sandbox does to a live session.
\<close>

definition same_session :: "SshSession \<Rightarrow> SshSession \<Rightarrow> bool" where
  "same_session s t \<longleftrightarrow>
     sn_id t = sn_id s \<and> sn_sandbox_id t = sn_sandbox_id s \<and> sn_state t = sn_state s \<and>
     (sn_disconnected_at t = None \<longleftrightarrow> sn_disconnected_at s = None) \<and>
     sn_duration_seconds t = sn_duration_seconds s \<and>
     sn_termination_reason t = sn_termination_reason s"

definition ended :: "SshSession \<Rightarrow> SshSession \<Rightarrow> bool" where
  "ended s t \<longleftrightarrow>
     \<not> is_terminal (sn_state s) \<and> sn_id s = sn_id t \<and> sn_state t = SshTerminated \<and>
     sn_disconnected_at t \<noteq> None \<and> sn_termination_reason t \<noteq> None"

text \<open>
  The state machine of a session: what one operation may do to session \<open>k\<close>, besides leaving it
  as it is.
\<close>

definition disconnected :: "SshSession \<Rightarrow> SshSession \<Rightarrow> bool" where
  "disconnected s t \<longleftrightarrow> \<not> is_terminal (sn_state s) \<and>
     (\<exists>n d. same_session (s\<lparr>sn_state := SshDisconnected, sn_disconnected_at := Some n,
        sn_duration_seconds := Some d\<rparr>) t)"

definition terminated :: "string \<Rightarrow> SshSession \<Rightarrow> SshSession \<Rightarrow> bool" where
  "terminated reason s t \<longleftrightarrow>
     (\<exists>n d. same_session (s\<lparr>sn_state := SshTerminated, sn_disconnected_at := Some n,
        sn_termination_reason := Some reason, sn_duration_seconds := Some d\<rparr>) t)"

fun transition :: "('s, 'b) ssh_op \<Rightarrow> uuid \<Rightarrow> SshSession \<Rightarrow> SshSession \<Rightarrow> bool" where
  "transition (OpActive i a b c d e) k s t \<longleftrightarrow> k = i \<and> same_session (s\<lparr>sn_state := SshActive\<rparr>) t"
| "transition (OpActivity i sent received) k s t \<longleftrightarrow> k = i \<and> same_session s t"
| "transition (OpDisconnect i) k s t \<longleftrightarrow> k = i \<and> disconnected s t"
| "transition (OpTerminate i reason) k s t \<longleftrightarrow> k = i \<and> terminated reason s t"
| "transition (OpTerminateBySandbox i) k s t \<longleftrightarrow> ended s t"
| "transition (OpCleanup a b) k s t \<longleftrightarrow> (\<exists>reason. terminated reason s t)"
| "transition (OpCreate req) k s t \<longleftrightarrow> False"
| "transition (OpWorld x) k s t \<longleftrightarrow> False"

fun is_create :: "('s, 'b) ssh_op \<Rightarrow> bool" where
  "is_create (OpCreate req) = True"
| "is_create _ = False"

definition fresh_session :: "SshSession \<Rightarrow> bool" where
  "fresh_session s \<longleftrightarrow> sn_state s = SshConnecting \<and> sn_disconnected_at s = None \<and>
     sn_duration_seconds s = None \<and> sn_termination_reason s = None"

definition history_step :: "('s, 'b) ssh_op \<Rightarrow> uuid \<Rightarrow> SshSession option \<Rightarrow> SshSession option \<Rightarrow> bool" where
  "history_step op k x y \<longleftrightarrow>
     (case x of
        None \<Rightarrow> (case y of None \<Rightarrow> True | Some t \<Rightarrow> is_create op \<and> fresh_session t)
      | Some s \<Rightarrow> (case y of None \<Rightarrow> False | Some t \<Rightarrow> t = s \<or> transition op k s t))"

lemma history_step_refl [simp]: "history_step op k x x"
  by (simp add: history_step_def split: option.splits)

lemma history_step_upd:
  assumes "m i = None \<Longrightarrow> is_create op \<and> fresh_session t" and "\<And>s. m i = Some s \<Longrightarrow> transition op i s t"
  shows "history_step op k (m k) ((m(i \<mapsto> t)) k)"
  using assms by (cases "k = i") (auto simp: history_step_def split: option.splits)

lemma terminated_trans: "terminated r s t \<Longrightarrow> terminated r' t u \<Longrightarrow> terminated r' s u"
  by (auto simp: terminated_def same_session_def)

lemma history_step_cleanup_trans:
  "history_step (OpCleanup a b) k x y \<Longrightarrow> history_step (OpCleanup a b) k y z \<Longrightarrow> history_step (OpCleanup a b) k x z"
  by (auto simp: history_step_def split: option.splits intro: terminated_trans)

lemmas session_defs = same_session_def session_ok_def ended_def disconnected_def terminated_def
  fresh_session_def is_terminal_def

lemma history_step_ok: "history_step op k x y \<Longrightarrow> (\<forall>s. x = Some s \<longrightarrow> session_ok s) \<Longrightarrow> y = Some t \<Longrightarrow> session_ok t"
  by (cases op) (auto simp: history_step_def session_defs split: option.splits)

lemma history_step_terminal:
  "history_step op k x y \<Longrightarrow> x = Some s \<Longrightarrow> is_terminal (sn_state s) \<Longrightarrow> (\<forall>a b c d e. op \<noteq> OpActive k a b c d e) \<Longrightarrow>
     \<exists>t. y = Some t \<and> is_terminal (sn_state t)"
  by (cases op) (auto simp: history_step_def session_defs split: option.splits)

locale session_store =
  fixes store :: "('s, 'b) ssh_world SshSessionStoreTrait"
    and contents :: "('s, 'b) ssh_world \<Rightarrow> uuid \<rightharpoonup> SshSession"
    and invar :: "('s, 'b) ssh_world \<Rightarrow> bool"
  assumes frame: "contents (sw_world_update f w) = contents w" "invar (sw_world_update f w) = invar w"
    and create_law: "invar w \<Longrightarrow> wpE (sst_create store s)
      (\<lambda>_ v. invar v \<and> contents w (sn_id s) = None \<and>
         (\<exists>t. contents v = (contents w)(sn_id s \<mapsto> t) \<and> same_session s t))
      (\<lambda>_ v. invar v \<and> contents v = contents w) w"
    and get_law: "invar w \<Longrightarrow> sst_get store i w = (r, v) \<Longrightarrow>
      invar v \<and> contents v = contents w \<and> (\<forall>s. r = Some s \<longrightarrow> contents w i = Some s \<and> sn_id s = i)"
    and update_law: "invar w \<Longrightarrow> wpE (sst_update store s)
      (\<lambda>_ v. invar v \<and> (contents v = contents w \<or>
         (\<exists>t. contents v = (contents w)(sn_id s \<mapsto> t) \<and> same_session s t)))
      (\<lambda>_ v. invar v \<and> contents v = contents w) w"
    and terminate_law: "invar w \<Longrightarrow> wpE (sst_terminate_by_sandbox store i)
      (\<lambda>_ v. invar v \<and> (\<forall>k. contents v k = contents w k \<or>
         (\<exists>s t. contents w k = Some s \<and> contents v k = Some t \<and> ended s t)))
      (\<lambda>_ v. invar v \<and> contents v = contents w) w"
    and query_law:
      "invar w \<Longrightarrow> wpE (sst_stale store n) (\<lambda>_ v. invar v \<and> contents v = contents w)
         (\<lambda>_ v. invar v \<and> contents v = contents w) w"
      "invar w \<Longrightarrow> wpE (sst_stuck store n) (\<lambda>_ v. invar v \<and> contents v = contents w)
         (\<lambda>_ v. invar v \<and> contents v = contents w) w"
      "invar w \<Longrightarrow> wpE (sst_orphaned store) (\<lambda>_ v. invar v \<and> contents v = contents w)
         (\<lambda>_ v. invar v \<and> contents v = contents w) w"
begin

text \<open>At most session \<open>i\<close> changed, by operation \<open>op\<close>.\<close>

definition changes :: "('s, 'b) ssh_world \<Rightarrow> uuid \<Rightarrow> (SshSession \<Rightarrow> SshSession \<Rightarrow> bool) \<Rightarrow> ('s, 'b) ssh_world \<Rightarrow> bool" where
  "changes w i P v \<longleftrightarrow>
     invar v \<and> (contents v = contents w \<or>
       (\<exists>s t. contents w i = Some s \<and> P s t \<and> contents v = (contents w)(i \<mapsto> t)))"

lemma wpE_on_world: "wpE (on_world m) Q E w = wpE m (\<lambda>a v. Q a (w\<lparr>sw_world := v\<rparr>)) (\<lambda>e v. E e (w\<lparr>sw_world := v\<rparr>)) (sw_world w)"
  by (simp add: wpE_def on_world_def split: prod.splits sum.splits)

lemma frame_upd: "contents (w\<lparr>sw_world := x\<rparr>) = contents w" "invar (w\<lparr>sw_world := x\<rparr>) = invar w"
  using frame [of "\<lambda>_. x" w] by simp_all

lemma changes_frame [simp]: "changes w i P (v\<lparr>sw_world := x\<rparr>) = changes w i P v"
  by (simp add: changes_def frame_upd)

lemma wpE_db_call:
  "wpE m Q (\<lambda>_. E) w \<Longrightarrow> wpE (db_call m) Q (\<lambda>_. E) w"
  unfolding db_call_def wpE_bindE wpE_attempt by (erule wpE_mono) (simp_all add: wp)

lemma get_session_wp:
  assumes "invar w" and "ssv_ssh_store ssv = store"
    and "\<And>s v. contents w i = Some s \<Longrightarrow> sn_id s = i \<Longrightarrow> invar v \<Longrightarrow> contents v = contents w \<Longrightarrow> Q s v"
    and "\<And>e v. invar v \<Longrightarrow> contents v = contents w \<Longrightarrow> E e v"
  shows "wpE (get_session ssv i) Q E w"
proof -
  obtain r v where run: "sst_get store i w = (r, v)" by (cases "sst_get store i w")
  then have "get_session ssv i w = ok_or (SessionNotFound i) r v"
    by (simp add: get_session_def assms(2))
  moreover from get_law [OF assms(1) run] have "wpE (ok_or (SessionNotFound i) r) Q E v"
    using assms(3,4) by (auto simp: wpE_ok_or split: option.splits)
  ultimately show ?thesis by (simp add: wpE_def)
qed

lemma update_changes:
  assumes "contents w i = Some s" and "invar v" and "contents v = contents w" and "sn_id s2 = i"
    and "\<And>t. same_session s2 t \<Longrightarrow> P s t"
  shows "wpE (db_call (sst_update store s2)) (\<lambda>_. changes w i P) (\<lambda>_. changes w i P) v"
  by (rule wpE_db_call, rule wpE_mono [OF update_law [OF assms(2)]])
    (use assms in \<open>auto simp: changes_def\<close>)

lemma unchanged_changes: "invar v \<Longrightarrow> contents v = contents w \<Longrightarrow> changes w i P v"
  by (simp add: changes_def)

lemma changes_ops:
  assumes "invar w" and st: "ssv_ssh_store ssv = store"
  shows "wpE (mark_session_active ssv i a b c d e)
      (\<lambda>_. changes w i (\<lambda>s. same_session (s\<lparr>sn_state := SshActive\<rparr>)))
      (\<lambda>_. changes w i (\<lambda>s. same_session (s\<lparr>sn_state := SshActive\<rparr>))) w"
    and "wpE (update_activity ssv i x y) (\<lambda>_. changes w i same_session) (\<lambda>_. changes w i same_session) w"
    and "wpE (disconnect_session ssv i) (\<lambda>_. changes w i disconnected) (\<lambda>_. changes w i disconnected) w"
    and "wpE (terminate_session ssv i reason)
      (\<lambda>_. changes w i (terminated reason)) (\<lambda>_. changes w i (terminated reason)) w"
  unfolding mark_session_active_def update_activity_def disconnect_session_def terminate_session_def
    wpE_bindE wpE_on_world wpE_utc_now wpE_if wpE_ret st
  by (rule get_session_wp [OF assms];
      auto intro!: update_changes unchanged_changes simp: frame_upd same_session_def disconnected_def terminated_def)+

lemma create_wp:
  assumes "invar w" and "ssv_ssh_store ssv = store"
  shows "wpE (create_session ssv req)
    (\<lambda>_ v. invar v \<and> (\<forall>k. history_step (OpCreate req :: ('s, 'b) ssh_op) k (contents w k) (contents v k)))
    (\<lambda>_ v. invar v \<and> (\<forall>k. history_step (OpCreate req :: ('s, 'b) ssh_op) k (contents w k) (contents v k))) w"
    (is "wpE _ (\<lambda>_. ?H) _ _")
proof -
  let ?J = "\<lambda>v. invar v \<and> contents v = contents w"
  have check: "yields ?J (case ssv_sandbox_service ssv of
      Some svc \<Rightarrow> check_running svc (css_sandbox_id req) | None \<Rightarrow> ret ()) (\<lambda>_. True)"
    by (auto simp: yields_def wpE_on_world check_running_def wpE_read_store wp frame_upd split: option.splits)
  have store: "wpE (db_call (sst_create store (new_session i now req))) (\<lambda>_. ?H) (\<lambda>_. ?H) v"
    if "?J v" for i now v
    by (rule wpE_db_call, rule wpE_mono [OF create_law [of v "new_session i now req"]])
      (use that in \<open>auto simp: same_session_def new_session_def fresh_session_def simp del: fun_upd_apply
         intro!: history_step_upd\<close>)
  show ?thesis
    unfolding create_session_def wpE_bindE wpE_on_world wpE_utc_now wpE_new_v4 wpE_ret assms(2)
    by (rule wpE_mono [OF yieldsD [OF check]]) (use assms(1) store in \<open>auto simp: frame_upd\<close>)
qed

lemma wp_cleanup_tick:
  assumes st: "ssv_ssh_store ssv = store" and J: "\<And>w. J w \<Longrightarrow> invar w"
    and same: "\<And>w v. J w \<Longrightarrow> invar v \<Longrightarrow> contents v = contents w \<Longrightarrow> J v"
    and ends: "\<And>w v i reason. J w \<Longrightarrow> changes w i (terminated reason) v \<Longrightarrow> J v"
  shows "yields J (ssh_cleanup_tick ssv a b) (\<lambda>_. True)"
proof -
  have one: "yields J (terminate_session ssv i reason) (\<lambda>_. True)" for i reason
    by (rule yieldsI, rule wpE_mono [OF changes_ops(4) [OF J st]]) (auto intro: ends)
  have query: "yields J (db_call m) (\<lambda>_. True)"
    if "\<And>w. invar w \<Longrightarrow> wpE m (\<lambda>_ v. invar v \<and> contents v = contents w) (\<lambda>_ v. invar v \<and> contents v = contents w) w"
    for m :: "(('s, 'b) ssh_world, StoreError, 'q) prog"
    by (rule yieldsI, rule wpE_db_call, rule wpE_mono [OF that [OF J]]) (auto intro: same)
  have all: "yields J (terminate_all ssv reason q) (\<lambda>_. True)"
    if "yields J q (\<lambda>_. True)" for q reason
    unfolding terminate_all_def terminate_each_def
    by (rule yields_bind [OF yields_attempt [OF that]])
      (auto intro!: yields_sum yields_ret yields_foldE yields_bind [OF yields_attempt [OF one]])
  show ?thesis
    unfolding ssh_cleanup_tick_def get_stale_sessions_def get_stuck_connecting_sessions_def
      get_orphaned_sessions_def st
    by (rule yields_bind [OF all [OF query [OF query_law(1)]] yields_bind [OF all [OF query [OF query_law(2)]]
          all [OF query [OF query_law(3)]]]])
qed

lemma changes_history:
  assumes "changes w i P v" and "\<And>s t. P s t \<Longrightarrow> transition op i s t"
  shows "invar v \<and> (\<forall>k. history_step op k (contents w k) (contents v k))"
  using assms by (auto simp: changes_def simp del: fun_upd_apply intro!: history_step_upd)

lemma cleanup_history:
  assumes st: "ssv_ssh_store ssv = store" and inv: "invar w"
  shows "wpE (ssh_cleanup_tick ssv a b)
    (\<lambda>_ v. invar v \<and> (\<forall>k. history_step (OpCleanup a b :: ('s, 'b) ssh_op) k (contents w k) (contents v k)))
    (\<lambda>_ v. invar v \<and> (\<forall>k. history_step (OpCleanup a b :: ('s, 'b) ssh_op) k (contents w k) (contents v k))) w"
    (is "wpE _ (\<lambda>_. ?J) _ _")
proof -
  have "yields ?J (ssh_cleanup_tick ssv a b) (\<lambda>_. True)"
  proof (rule wp_cleanup_tick [OF st])
    fix u v i reason
    assume "?J u" and "changes u i (terminated reason) v"
    then show "?J v"
      using changes_history [of u i "terminated reason" v "OpCleanup a b"]
      by (auto intro: history_step_cleanup_trans)
  qed simp_all
  from yieldsD [OF this, of w] inv show ?thesis by simp
qed

text \<open>Every operation follows the state machine, whatever fails on the way.\<close>

lemma exec_history:
  assumes st: "ssv_ssh_store ssv = store" and inv: "invar w"
  shows "invar (ssh_exec ssv op w) \<and> (\<forall>k. history_step op k (contents w k) (contents (ssh_exec ssv op w) k))"
proof -
  note step = changes_history [OF changes_ops(1) [OF inv st, unfolded wpE_snd]]
    changes_history [OF changes_ops(2) [OF inv st, unfolded wpE_snd]]
    changes_history [OF changes_ops(3) [OF inv st, unfolded wpE_snd]]
    changes_history [OF changes_ops(4) [OF inv st, unfolded wpE_snd]]
  show ?thesis
  proof (cases op)
    case (OpTerminateBySandbox i)
    have "wpE (terminate_sessions_by_sandbox ssv i)
      (\<lambda>_ v. invar v \<and> (\<forall>k. history_step op k (contents w k) (contents v k)))
      (\<lambda>_ v. invar v \<and> (\<forall>k. history_step op k (contents w k) (contents v k))) w"
      unfolding terminate_sessions_by_sandbox_def st
      by (rule wpE_db_call, rule wpE_mono [OF terminate_law [OF inv]], unfold OpTerminateBySandbox)
        (simp_all add: history_step_def split: option.splits, metis option.distinct(1) option.inject)
    then show ?thesis by (simp add: wpE_snd OpTerminateBySandbox)
  qed (simp_all only: ssh_exec.simps frame_upd history_step_refl inv simp_thms
      create_wp [OF inv st, unfolded wpE_snd] cleanup_history [OF st inv, unfolded wpE_snd],
      (rule step, simp)+)
qed

lemma run_history:
  assumes "ssv_ssh_store ssv = store" and "invar w"
  shows "invar (ssh_run ssv ops w)"
  using assms(2) by (induction ops arbitrary: w) (simp_all add: ssh_run_def exec_history [OF assms(1)])

lemma run_session_ok:
  assumes st: "ssv_ssh_store ssv = store" and "invar w" and "\<And>k s. contents w k = Some s \<Longrightarrow> session_ok s"
    and "contents (ssh_run ssv ops w) k = Some s"
  shows "session_ok s"
  using assms(2-)
proof (induction ops arbitrary: w)
  case (Cons op ops)
  note step = exec_history [OF st Cons.prems(1), of op]
  then have "session_ok t" if "contents (ssh_exec ssv op w) k = Some t" for k t
    using history_step_ok Cons.prems(2) that by blast
  with Cons.IH [of "ssh_exec ssv op w"] step Cons.prems(3) show ?case by (simp add: ssh_run_def)
qed (simp add: ssh_run_def)

lemma run_terminal:
  assumes st: "ssv_ssh_store ssv = store" and "invar w"
    and "contents w k = Some s" and "is_terminal (sn_state s)"
    and "\<And>a b c d e. OpActive k a b c d e \<notin> set ops"
  shows "\<exists>t. contents (ssh_run ssv ops w) k = Some t \<and> is_terminal (sn_state t)"
  using assms(2-)
proof (induction ops arbitrary: w s)
  case (Cons op ops)
  note step = exec_history [OF st Cons.prems(1), of op]
  have "\<forall>a b c d e. op \<noteq> OpActive k a b c d e" using Cons.prems(4) by (metis list.set_intros(1))
  with step history_step_terminal Cons.prems(2,3)
  obtain t where "contents (ssh_exec ssv op w) k = Some t" "is_terminal (sn_state t)" by blast
  with Cons.IH [of "ssh_exec ssv op w" t] Cons.prems(4) step show ?case by (simp add: ssh_run_def)
qed (simp add: ssh_run_def)

end

section \<open>The stores keep their contract\<close>

definition session_contents :: "('s, 'b) ssh_world \<Rightarrow> uuid \<rightharpoonup> SshSession" where
  "session_contents w k =
     (case find (\<lambda>r. sn_id r = k) (sw_sessions w) of
        None \<Rightarrow> None
      | Some r \<Rightarrow> res_option (row_to_session r))"

definition session_invar :: "('s, 'b) ssh_world \<Rightarrow> bool" where
  "session_invar w \<longleftrightarrow> distinct (map sn_id (sw_sessions w)) \<and>
     (\<forall>r. r \<in> set (sw_sessions w) \<longrightarrow> res_option (row_to_session r) \<noteq> None)"

lemma find_map_id:
  assumes "\<And>r. sn_id (g r) = sn_id r"
  shows "find (\<lambda>r. sn_id r = k) (map g l) = map_option g (find (\<lambda>r. sn_id r = k) l)"
  by (induction l) (simp_all add: assms)

lemma find_sn_id: "find (\<lambda>r. sn_id r = k) l = Some r \<Longrightarrow> sn_id r = k \<and> r \<in> set l"
  by (auto simp: find_Some_iff)

lemma find_append: "find p (l @ m) = (case find p l of None \<Rightarrow> find p m | Some x \<Rightarrow> Some x)"
  by (induction l) simp_all

lemma parse_session_fields [simp]:
  "parse_auth_method (ssh_auth_method_as_str a) = Inr a"
  "parse_session_state (ssh_session_state_as_str st) = Inr st"
  by (cases a; simp add: parse_auth_method_def) (cases st; simp add: parse_session_state_def)

lemma res_option_simps [simp]: "res_option (Inr a) = Some a" "res_option (Inl e) = None"
  by (simp_all add: res_option_def)

lemma row_to_session_row: "\<exists>t. row_to_session (session_row tm s) = Inr t \<and> same_session s t"
  by (simp add: row_to_session_def session_row_def same_session_def)

lemma row_to_session_updated:
  "sn_id r = sn_id s \<Longrightarrow> \<exists>t. row_to_session (updated_row tm s now r) = Inr t \<and> same_session s t"
  by (simp add: row_to_session_def session_row_def updated_row_def same_session_def)

lemma live_row_state:
  "row_to_session r = Inr s \<Longrightarrow> live_row r \<longleftrightarrow> \<not> is_terminal (sn_state s)"
  by (auto simp: row_to_session_def bind_res_Inr parse_session_state_def live_row_def is_terminal_def split: if_splits)

lemma row_to_session_terminated:
  "row_to_session r = Inr s \<Longrightarrow> live_row r \<Longrightarrow>
     \<exists>t. row_to_session (terminated_row now r) = Inr t \<and> ended s t"
  using live_row_state [of r s]
  by (auto simp: row_to_session_def bind_res_Inr terminated_row_def parse_session_state_def ended_def)

lemma wpE_pool_get [wp]:
  "wpE pool_get Q E w = wpE pg_statement
     (\<lambda>_ s. Q () (w\<lparr>sw_world := (sw_world w)\<lparr>w_store := s\<rparr>\<rparr>))
     (\<lambda>e s. E (SE_Message e) (w\<lparr>sw_world := (sw_world w)\<lparr>w_store := s\<rparr>\<rparr>)) (w_store (sw_world w))"
  by (simp add: pool_get_def wpE_def bindE_def map_err_def on_world_def on_store_def ret_def
      split: prod.splits sum.splits)

lemma wpE_run_statement [wp]:
  "wpE run_statement Q E w = wpE pg_statement
     (\<lambda>now s. Q now (w\<lparr>sw_world := (sw_world w)\<lparr>w_store := s\<rparr>\<rparr>))
     (\<lambda>e s. E (SE_Postgres e) (w\<lparr>sw_world := (sw_world w)\<lparr>w_store := s\<rparr>\<rparr>)) (w_store (sw_world w))"
  by (simp add: run_statement_def wpE_def map_err_def on_world_def on_store_def
      split: prod.splits sum.splits)

text \<open>What the statements do, whichever of them fail.\<close>

definition same_sessions :: "('s, 'b) ssh_world \<Rightarrow> ('s, 'b) ssh_world \<Rightarrow> bool" where
  "same_sessions w v \<longleftrightarrow> sw_sessions v = sw_sessions w"

lemma same_sessions_view:
  "same_sessions w v \<Longrightarrow> session_contents v = session_contents w \<and> session_invar v = session_invar w"
  by (simp add: same_sessions_def session_contents_def session_invar_def fun_eq_iff)

lemma session_frame:
  "session_contents (sw_world_update f w) = session_contents w"
  "session_invar (sw_world_update f w) = session_invar w"
  by (simp_all add: session_contents_def [abs_def] session_invar_def)

lemma select_sessions_frame:
  "wpE (select_sessions p key) (\<lambda>rows v. same_sessions w v \<and>
      (\<exists>now x. rows = sort_key key (filter (p now x) (sw_sessions w)))) (\<lambda>_. same_sessions w) w"
  by (auto simp: select_sessions_def wp Let_def same_sessions_def)

lemma update_sessions_frame:
  "wpE (update_sessions f) (\<lambda>_ v. \<exists>now. sw_sessions v = f now (sw_sessions w)) (\<lambda>_. same_sessions w) w"
  by (auto simp: update_sessions_def wp Let_def same_sessions_def)

lemma view_of_map:
  assumes "sw_sessions v = map g (sw_sessions w)" and "\<And>r. sn_id (g r) = sn_id r"
    and "\<And>r. res_option (row_to_session r) \<noteq> None \<Longrightarrow> res_option (row_to_session (g r)) \<noteq> None"
    and "session_invar w"
  shows "session_invar v" and "session_contents v k =
    (case find (\<lambda>r. sn_id r = k) (sw_sessions w) of None \<Rightarrow> None | Some r \<Rightarrow> res_option (row_to_session (g r)))"
  using assms
  by (auto simp: session_invar_def session_contents_def find_map_id o_def split: option.splits)

lemma PostgresSshSessionStore_ops [simp]:
  "sst_create (PostgresSshSessionStore tm) = pg_create_ssh_session tm"
  "sst_get (PostgresSshSessionStore tm) = pg_get_ssh_session"
  "sst_update (PostgresSshSessionStore tm) = pg_update_ssh_session tm"
  "sst_terminate_by_sandbox (PostgresSshSessionStore tm) = pg_terminate_sessions_by_sandbox"
  "sst_stale (PostgresSshSessionStore tm) = pg_get_stale_sessions"
  "sst_stuck (PostgresSshSessionStore tm) = pg_get_stuck_connecting_sessions"
  "sst_orphaned (PostgresSshSessionStore tm) = pg_get_orphaned_sessions"
  "sst_list (PostgresSshSessionStore tm) = pg_list_ssh_sessions"
  by (simp_all add: PostgresSshSessionStore_def)

lemma query_view:
  assumes "session_invar w" and "wpE m (\<lambda>_ v. same_sessions w v) (\<lambda>_. same_sessions w) w"
  shows "wpE m (\<lambda>_ v. session_invar v \<and> session_contents v = session_contents w)
    (\<lambda>_ v. session_invar v \<and> session_contents v = session_contents w) w"
  by (rule wpE_mono [OF assms(2)]) (use assms(1) same_sessions_view in blast)+

lemma collect_frame:
  "wpE (bindE (select_sessions p key) (\<lambda>rows. lift_res (collect_sessions rows)))
     (\<lambda>_. same_sessions w) (\<lambda>_. same_sessions w) w"
  unfolding wpE_bindE
  by (rule wpE_mono [OF select_sessions_frame]) (auto simp: lift_res_def wp split: sum.splits)

lemma pg_create_view:
  assumes inv: "session_invar w"
  shows "wpE (pg_create_ssh_session tm s)
    (\<lambda>_ v. session_invar v \<and> session_contents w (sn_id s) = None \<and>
       (\<exists>t. session_contents v = (session_contents w)(sn_id s \<mapsto> t) \<and> same_session s t))
    (\<lambda>_ v. session_invar v \<and> session_contents v = session_contents w) w"
proof -
  have used: "find (\<lambda>r. sn_id r = sn_id s) l = None" if "sn_id s \<notin> sn_id ` set l" for l :: "SshSessionRow list"
    using that by (auto simp: find_None_iff image_iff)
  have id: "sn_id (session_row tm s) = sn_id s" by (simp add: session_row_def)
  obtain t where t: "row_to_session (session_row tm s) = Inr t" "same_session s t"
    using row_to_session_row by blast
  show ?thesis
    using inv t used
    by (auto simp: pg_create_ssh_session_def wp Let_def session_invar_def session_contents_def fun_eq_iff
        find_append id split: option.splits)
qed

lemma pg_update_view:
  assumes inv: "session_invar w"
  shows "wpE (pg_update_ssh_session tm s)
    (\<lambda>_ v. session_invar v \<and> (session_contents v = session_contents w \<or>
       (\<exists>t. session_contents v = (session_contents w)(sn_id s \<mapsto> t) \<and> same_session s t)))
    (\<lambda>_ v. session_invar v \<and> session_contents v = session_contents w) w"
proof (unfold pg_update_ssh_session_def, rule wpE_mono [OF update_sessions_frame])
  fix v :: "('a pg, 'b) ssh_world"
  let ?g = "\<lambda>now r. if sn_id r = sn_id s then updated_row tm s now r else r"
  assume "\<exists>now. sw_sessions v = map (?g now) (sw_sessions w)"
  then obtain now where v: "sw_sessions v = map (?g now) (sw_sessions w)" ..
  have id: "sn_id (?g now r) = sn_id r" for r by (simp add: updated_row_def)
  have "res_option (row_to_session (?g now r)) \<noteq> None" if "res_option (row_to_session r) \<noteq> None" for r
    using row_to_session_updated [of r s tm now] that by (cases "sn_id r = sn_id s") auto
  note view = view_of_map [OF v id this inv]
  show "session_invar v \<and> (session_contents v = session_contents w \<or>
       (\<exists>t. session_contents v = (session_contents w)(sn_id s \<mapsto> t) \<and> same_session s t))"
  proof (cases "find (\<lambda>r. sn_id r = sn_id s) (sw_sessions w)")
    case None
    then have "?g now r = r" if "r \<in> set (sw_sessions w)" for r
      using that by (auto simp: find_None_iff)
    then have "session_contents v = session_contents w"
      using v by (simp add: session_contents_def [abs_def] map_idI)
    with view(1) show ?thesis by blast
  next
    case (Some r)
    then have r: "sn_id r = sn_id s" by (auto simp: find_Some_iff)
    then obtain t where t: "row_to_session (updated_row tm s now r) = Inr t" "same_session s t"
      using row_to_session_updated by blast
    have "session_contents v k = ((session_contents w)(sn_id s \<mapsto> t)) k" for k
      using Some t r by (cases "k = sn_id s") (auto simp: view(2) session_contents_def [of w] dest: find_sn_id split: option.splits)
    then have "session_contents v = (session_contents w)(sn_id s \<mapsto> t)" ..
    with view(1) t show ?thesis by blast
  qed
qed (use inv same_sessions_view in blast)

lemma pg_terminate_view:
  assumes inv: "session_invar w"
  shows "wpE (pg_terminate_sessions_by_sandbox i)
    (\<lambda>_ v. session_invar v \<and> (\<forall>k. session_contents v k = session_contents w k \<or>
       (\<exists>s t. session_contents w k = Some s \<and> session_contents v k = Some t \<and> ended s t)))
    (\<lambda>_ v. session_invar v \<and> session_contents v = session_contents w) w"
proof (unfold pg_terminate_sessions_by_sandbox_def, rule wpE_mono [OF update_sessions_frame])
  fix v :: "('a pg, 'b) ssh_world"
  let ?g = "\<lambda>now r. if sn_sandbox_id r = i \<and> live_row r then terminated_row now r else r"
  assume "\<exists>now. sw_sessions v = map (?g now) (sw_sessions w)"
  then obtain now where v: "sw_sessions v = map (?g now) (sw_sessions w)" ..
  have id: "sn_id (?g now r) = sn_id r" for r by (simp add: terminated_row_def)
  have some: "\<exists>t. row_to_session (?g now r) = Inr t \<and> (t = s \<or> ended s t)" if "row_to_session r = Inr s" for r s
    using that row_to_session_terminated [OF that, of now] by auto
  then have "res_option (row_to_session (?g now r)) \<noteq> None" if "res_option (row_to_session r) \<noteq> None" for r
    using that by (fastforce simp: res_option_def split: sum.splits)
  note view = view_of_map [OF v id this inv]
  show "session_invar v \<and> (\<forall>k. session_contents v k = session_contents w k \<or>
       (\<exists>s t. session_contents w k = Some s \<and> session_contents v k = Some t \<and> ended s t))"
  proof (intro conjI allI view(1))
    fix k
    show "session_contents v k = session_contents w k \<or>
       (\<exists>s t. session_contents w k = Some s \<and> session_contents v k = Some t \<and> ended s t)"
    proof (cases "find (\<lambda>r. sn_id r = k) (sw_sessions w)")
      case (Some r)
      with inv have "res_option (row_to_session r) \<noteq> None"
        using find_sn_id unfolding session_invar_def by blast
      then obtain s where "row_to_session r = Inr s"
        by (cases "row_to_session r") auto
      with some [OF this] Some show ?thesis by (auto simp: view(2) session_contents_def [of w])
    qed (simp add: view(2) session_contents_def [of w])
  qed
qed (use inv same_sessions_view in blast)

lemma pg_get_view:
  assumes "session_invar w" and "pg_get_ssh_session i w = (r, v)"
  shows "session_invar v \<and> session_contents v = session_contents w \<and>
    (\<forall>s. r = Some s \<longrightarrow> session_contents w i = Some s \<and> sn_id s = i)"
proof -
  have sel: "same_sessions w v \<and> (\<forall>s. r = Some s \<longrightarrow>
      (\<exists>row. filter (\<lambda>r. sn_id r = i) (sw_sessions w) = [row] \<and> row_to_session row = Inr s))"
    using assms(2) select_sessions_frame [of "\<lambda>_ _ r. sn_id r = i" "\<lambda>_. 0" w]
    by (auto simp: pg_get_ssh_session_def wpE_def res_option_def sort_key_const
        split: prod.splits sum.splits list.splits)
  have one: "find (\<lambda>r. sn_id r = i) l = Some row \<and> sn_id row = i"
    if "filter (\<lambda>r. sn_id r = i) l = [row]" for l row
    using that by (induction l) (auto split: if_splits)
  have id: "row_to_session row = Inr s \<Longrightarrow> sn_id s = sn_id row" for row s
    by (auto simp: row_to_session_def bind_res_Inr)
  have "session_contents w i = Some s \<and> sn_id s = i" if "r = Some s" for s
  proof -
    from sel that obtain row where "filter (\<lambda>r. sn_id r = i) (sw_sessions w) = [row]" "row_to_session row = Inr s"
      by blast
    with one [OF this(1)] id [OF this(2)] show ?thesis by (simp add: session_contents_def)
  qed
  with sel show ?thesis using assms(1) same_sessions_view [of w v] by blast
qed

lemma pg_query_views:
  assumes "session_invar w"
  shows "wpE (pg_get_stale_sessions n) (\<lambda>_ v. session_invar v \<and> session_contents v = session_contents w)
      (\<lambda>_ v. session_invar v \<and> session_contents v = session_contents w) w"
    and "wpE (pg_get_stuck_connecting_sessions n) (\<lambda>_ v. session_invar v \<and> session_contents v = session_contents w)
      (\<lambda>_ v. session_invar v \<and> session_contents v = session_contents w) w"
    and "wpE pg_get_orphaned_sessions (\<lambda>_ v. session_invar v \<and> session_contents v = session_contents w)
      (\<lambda>_ v. session_invar v \<and> session_contents v = session_contents w) w"
  unfolding pg_get_stale_sessions_def pg_get_stuck_connecting_sessions_def pg_get_orphaned_sessions_def
  by (rule query_view [OF assms collect_frame])+

interpretation pg_ssh: session_store "PostgresSshSessionStore tm :: ('j pg, 'b) ssh_world SshSessionStoreTrait"
  session_contents session_invar for tm
  by (unfold_locales, unfold PostgresSshSessionStore_ops)
    (rule session_frame pg_create_view pg_update_view pg_terminate_view pg_get_view pg_query_views; assumption)+

interpretation noop_ssh: session_store "NoopSshSessionStore :: ('s, 'b) ssh_world SshSessionStoreTrait"
  "\<lambda>_ _. None" "\<lambda>_. True"
  by unfold_locales (auto simp: NoopSshSessionStore_def wp)

end
