(* ===== verification/SshProps.thy ===== *)
theory SshProps
  imports Ssh Jsonb
begin

text \<open>
  What the SSH session service guarantees on the PostgreSQL store: the state machine of a
  session, the invariant of the stored sessions, and, when every statement gets through,
  what the individual operations and the cleanup task achieve.
\<close>

section \<open>When every statement gets through\<close>

definition db_reliable :: "('j pg, 'b) ssh_world \<Rightarrow> bool" where
  "db_reliable w \<longleftrightarrow> (\<forall>n. pg_up (w_store (sw_world w)) n)"

definition db_now :: "('j pg, 'b) ssh_world \<Rightarrow> time" where
  "db_now w = pg_clock (w_store (sw_world w)) (Suc (pg_calls (w_store (sw_world w))))"

definition after_call :: "('j pg, 'b) ssh_world \<Rightarrow> ('j pg, 'b) ssh_world" where
  "after_call w = w\<lparr>sw_world := (sw_world w)\<lparr>w_store := (w_store (sw_world w))
     \<lparr>pg_calls := Suc (Suc (pg_calls (w_store (sw_world w))))\<rparr>\<rparr>\<rparr>"

definition after_ticks :: "nat \<Rightarrow> ('j pg, 'b) ssh_world \<Rightarrow> ('j pg, 'b) ssh_world" where
  "after_ticks n w = w\<lparr>sw_world := (sw_world w)\<lparr>w_ticks := w_ticks (sw_world w) + n\<rparr>\<rparr>"

lemma after_frame [simp]:
  "sw_sessions (after_call w) = sw_sessions w" "sw_sessions (after_ticks n w) = sw_sessions w"
  "db_reliable (after_call w) = db_reliable w" "db_reliable (after_ticks n w) = db_reliable w"
  "db_reliable (sw_sessions_update f w) = db_reliable w"
  "pg_rows (w_store (sw_world (after_call w))) = pg_rows (w_store (sw_world w))"
  "pg_rows (w_store (sw_world (after_ticks n w))) = pg_rows (w_store (sw_world w))"
  "pg_clock (w_store (sw_world (after_call w))) = pg_clock (w_store (sw_world w))"
  "pg_clock (w_store (sw_world (after_ticks n w))) = pg_clock (w_store (sw_world w))"
  "pg_calls (w_store (sw_world (after_call w))) = Suc (Suc (pg_calls (w_store (sw_world w))))"
  "pg_calls (w_store (sw_world (after_ticks n w))) = pg_calls (w_store (sw_world w))"
  "session_contents (after_call w) = session_contents w" "session_contents (after_ticks n w) = session_contents w"
  "session_invar (after_call w) = session_invar w" "session_invar (after_ticks n w) = session_invar w"
  by (simp_all add: after_call_def after_ticks_def db_reliable_def session_frame)

lemma select_run:
  "db_reliable w \<Longrightarrow> select_sessions p key w =
     (Inr (sort_key key (filter (p (db_now w) (after_call w)) (sw_sessions w))), after_call w)"
  by (simp add: select_sessions_def pool_get_def run_statement_def bindE_def map_err_def on_world_def
      on_store_def pg_statement_def ret_def gets_def db_reliable_def db_now_def after_call_def)

lemma update_run:
  "db_reliable w \<Longrightarrow> update_sessions f w = (Inr (), sw_sessions_update (f (db_now w)) (after_call w))"
  by (simp add: update_sessions_def pool_get_def run_statement_def bindE_def map_err_def on_world_def
      on_store_def pg_statement_def ret_def modify_def db_reliable_def db_now_def after_call_def)

lemma db_call_run: "m w = (Inr a, v) \<Longrightarrow> db_call m w = (Inr a, v)"
  by (simp add: db_call_def bindE_def attempt_def ret_def)

lemma utc_now_run: "on_world utc_now w = (Inr (w_clock (sw_world w) (w_ticks (sw_world w))), after_ticks 1 w)"
  by (simp add: on_world_def utc_now_def after_ticks_def)

text \<open>The row of a stored session.\<close>

lemma stored_row:
  assumes "session_invar w" and "session_contents w i = Some s"
  obtains r where "filter (\<lambda>r. sn_id r = i) (sw_sessions w) = [r]" and "row_to_session r = Inr s"
    and "r \<in> set (sw_sessions w)" and "sn_id r = i"
proof -
  from assms(2) obtain r where find: "find (\<lambda>r. sn_id r = i) (sw_sessions w) = Some r"
    and "res_option (row_to_session r) = Some s"
    by (auto simp: session_contents_def split: option.splits)
  then have row: "row_to_session r = Inr s" by (cases "row_to_session r") auto
  have "filter (\<lambda>r. sn_id r = i) l = [r]"
    if "distinct (map sn_id l)" "find (\<lambda>r. sn_id r = i) l = Some r" for l
    using that
  proof (induction l)
    case (Cons a l)
    show ?case
    proof (cases "sn_id a = i")
      case True
      with Cons.prems have "filter (\<lambda>r. sn_id r = i) l = []"
        by (auto simp: filter_empty_conv image_iff)
      with True Cons.prems show ?thesis by simp
    qed (use Cons in auto)
  qed simp
  with assms(1) find row find_sn_id [OF find] show ?thesis
    by (intro that) (auto simp: session_invar_def)
qed

lemma stored_id: "session_invar w \<Longrightarrow> session_contents w i = Some s \<Longrightarrow> sn_id s = i"
  by (erule (1) stored_row) (auto simp: row_to_session_def bind_res_Inr)

lemma get_session_run:
  assumes "db_reliable w" and "session_invar w" and "ssv_ssh_store ssv = PostgresSshSessionStore tm"
  shows "session_contents w i = Some s \<Longrightarrow> get_session ssv i w = (Inr s, after_call w)"
    and "session_contents w i = None \<Longrightarrow> get_session ssv i w = (Inl (SessionNotFound i), after_call w)"
proof -
  assume "session_contents w i = Some s"
  with assms(2) obtain r where "filter (\<lambda>r. sn_id r = i) (sw_sessions w) = [r]" "row_to_session r = Inr s"
    by (rule stored_row)
  then show "get_session ssv i w = (Inr s, after_call w)"
    by (simp add: get_session_def assms(3) pg_get_ssh_session_def select_run [OF assms(1)] ok_or_def ret_def)
next
  assume none: "session_contents w i = None"
  then have "find (\<lambda>r. sn_id r = i) (sw_sessions w) = None"
    using assms(2) find_sn_id [of i "sw_sessions w"]
    by (auto simp: session_contents_def session_invar_def split: option.splits)
  then have "filter (\<lambda>r. sn_id r = i) (sw_sessions w) = []"
    by (auto simp: find_None_iff filter_empty_conv)
  then show "get_session ssv i w = (Inl (SessionNotFound i), after_call w)"
    by (simp add: get_session_def assms(3) pg_get_ssh_session_def select_run [OF assms(1)] ok_or_def throw_def)
qed

lemma update_session_run:
  assumes "db_reliable w"
  shows "db_call (pg_update_ssh_session tm s) w =
    (Inr (), sw_sessions_update (map (\<lambda>r. if sn_id r = sn_id s then updated_row tm s (db_now w) r else r)) (after_call w))"
  by (rule db_call_run) (simp add: pg_update_ssh_session_def update_run [OF assms])

text \<open>Ending a stored session, with the two clock readings it writes.\<close>

lemma terminate_run:
  assumes rel: "db_reliable w" and inv: "session_invar w" and st: "ssv_ssh_store ssv = PostgresSshSessionStore tm"
    and some: "session_contents w i = Some s"
  shows "\<exists>s2 n. sn_id s2 = sn_id s \<and> sn_state s2 = SshTerminated \<and> terminate_session ssv i reason w =
    (Inr (), sw_sessions_update (map (\<lambda>r. if sn_id r = sn_id s2 then updated_row tm s2 n r else r))
       (after_call (after_ticks 3 (after_call w))))"
proof -
  have upd: "sst_update (ssv_ssh_store ssv) = pg_update_ssh_session tm" by (simp add: st)
  have ticks: "after_ticks 1 (after_ticks 1 (after_ticks 1 v)) = after_ticks 3 v" for v :: "('a pg, 'b) ssh_world"
    by (simp add: after_ticks_def eval_nat_numeral)
  show ?thesis
    unfolding terminate_session_def bindE_def get_session_run(1) [OF rel inv st some] utc_now_run
      prod.case sum.case upd
    by (subst update_session_run, simp add: rel, unfold ticks, (rule exI)+, rule conjI [rotated],
        rule conjI [rotated], rule refl) simp_all
qed

section \<open>The cleanup task\<close>

text \<open>From \<open>w\<close> to \<open>v\<close> sessions only ended: a session that is live in \<open>v\<close> is the same row in \<open>w\<close>.\<close>

definition only_ended :: "('j pg, 'b) ssh_world \<Rightarrow> ('j pg, 'b) ssh_world \<Rightarrow> bool" where
  "only_ended w v \<longleftrightarrow> session_invar v \<and> db_reliable v \<and>
     pg_rows (w_store (sw_world v)) = pg_rows (w_store (sw_world w)) \<and>
     pg_clock (w_store (sw_world v)) = pg_clock (w_store (sw_world w)) \<and>
     pg_calls (w_store (sw_world w)) \<le> pg_calls (w_store (sw_world v)) \<and>
     (\<forall>r. r \<in> set (sw_sessions v) \<longrightarrow> live_row r \<longrightarrow> r \<in> set (sw_sessions w))"

lemma only_ended_trans: "only_ended u v \<Longrightarrow> only_ended v w \<Longrightarrow> only_ended u w"
  unfolding only_ended_def by (auto intro: order_trans)

lemma only_ended_frame:
  "session_invar w \<Longrightarrow> db_reliable w \<Longrightarrow> only_ended w (after_call w)"
  "only_ended w v \<Longrightarrow> only_ended w (after_call v)"
  "only_ended w v \<Longrightarrow> only_ended w (after_ticks n v)"
  by (auto simp: only_ended_def)

lemma updated_row_id [simp]: "sn_id (updated_row tm s now r) = sn_id r"
  by (simp add: updated_row_def)

lemma updated_not_live: "sn_state s = SshTerminated \<Longrightarrow> \<not> live_row (updated_row tm s now r)"
  by (simp add: live_row_def updated_row_def session_row_def)

lemma terminate_only_ended:
  assumes rel: "db_reliable w" and inv: "session_invar w" and st: "ssv_ssh_store ssv = PostgresSshSessionStore tm"
  shows "only_ended w (snd (terminate_session ssv i reason w)) \<and>
    (\<forall>r. r \<in> set (sw_sessions (snd (terminate_session ssv i reason w))) \<longrightarrow> sn_id r = i \<longrightarrow> \<not> live_row r)"
proof (cases "session_contents w i")
  case None
  have "sn_id r \<noteq> i" if "r \<in> set (sw_sessions w)" for r
    using None that inv
    by (auto simp: session_contents_def session_invar_def find_None_iff split: option.splits dest: find_sn_id)
  with get_session_run(2) [OF rel inv st None] show ?thesis
    using only_ended_frame(1) [OF inv rel] by (auto simp: terminate_session_def bindE_def)
next
  case (Some s)
  obtain s2 n v where s2: "sn_id s2 = sn_id s" "sn_state s2 = SshTerminated"
    and v: "terminate_session ssv i reason w = (Inr (), v)"
    "v = sw_sessions_update (map (\<lambda>r. if sn_id r = sn_id s2 then updated_row tm s2 n r else r))
       (after_call (after_ticks 3 (after_call w)))"
    using terminate_run [OF rel inv st Some] by blast
  have "session_invar (snd (terminate_session ssv i reason w))"
    using pg_ssh.changes_ops(4) [OF inv st, unfolded wpE_snd] by (simp add: pg_ssh.changes_def)
  with s2 v stored_id [OF inv Some] show ?thesis
    using updated_not_live [OF s2(2)] rel inv by (auto simp: only_ended_def)
qed

lemma terminate_list_only_ended:
  assumes "db_reliable w" and "session_invar w" and st: "ssv_ssh_store ssv = PostgresSshSessionStore tm"
  shows "\<exists>v. terminate_each ssv reason sessions w = (Inr (), v) \<and> only_ended w v \<and>
    (\<forall>r. r \<in> set (sw_sessions v) \<longrightarrow> sn_id r \<in> sn_id ` set sessions \<longrightarrow> \<not> live_row r)"
  using assms(1,2)
proof (induction sessions arbitrary: w)
  case Nil
  then show ?case by (simp add: terminate_each_def ret_def only_ended_def)
next
  case (Cons a l)
  let ?u = "snd (terminate_session ssv (sn_id a) reason w)"
  note u = terminate_only_ended [OF Cons.prems st, of "sn_id a" reason]
  then have "db_reliable ?u" "session_invar ?u" by (simp_all add: only_ended_def)
  from Cons.IH [OF this] obtain v where
    run: "terminate_each ssv reason l ?u = (Inr (), v)"
    and v: "only_ended ?u v" "\<forall>r. r \<in> set (sw_sessions v) \<longrightarrow> sn_id r \<in> sn_id ` set l \<longrightarrow> \<not> live_row r" by blast
  have "\<not> live_row r" if "r \<in> set (sw_sessions v)" "sn_id r = sn_id a" for r
    using u v(1) that unfolding only_ended_def by blast
  with run v u show ?case
    by (intro exI [of _ v]) (auto simp: terminate_each_def bindE_def attempt_def ret_def split_beta intro: only_ended_trans)
qed

lemma collect_sessions_ids:
  assumes "\<And>r. r \<in> set rows \<Longrightarrow> res_option (row_to_session r) \<noteq> None"
  shows "\<exists>l. collect_sessions rows = Inr l \<and> sn_id ` set l = sn_id ` set rows"
  using assms
proof (induction rows)
  case (Cons r rows)
  then obtain l where l: "collect_sessions rows = Inr l" "sn_id ` set l = sn_id ` set rows" by auto
  from Cons.prems [of r] obtain s where s: "row_to_session r = Inr s" by (cases "row_to_session r") auto
  then have "sn_id s = sn_id r" by (auto simp: row_to_session_def bind_res_Inr)
  with l s show ?case by simp
qed simp

text \<open>One query of the task and the terminations it leads to.\<close>

lemma terminate_all_run:
  assumes rel: "db_reliable w" and inv: "session_invar w" and st: "ssv_ssh_store ssv = PostgresSshSessionStore tm"
  shows "\<exists>v. terminate_all ssv reason
      (db_call (bindE (select_sessions p key) (\<lambda>rows. lift_res (collect_sessions rows)))) w = (Inr (), v) \<and>
    only_ended w v \<and>
    (\<forall>r. r \<in> set (sw_sessions v) \<longrightarrow> live_row r \<longrightarrow> \<not> p (db_now w) (after_call w) r)"
proof -
  let ?rows = "sort_key key (filter (p (db_now w) (after_call w)) (sw_sessions w))"
  obtain l where l: "collect_sessions ?rows = Inr l" "sn_id ` set l = sn_id ` set ?rows"
    using collect_sessions_ids [of ?rows] inv by (auto simp: session_invar_def)
  have query: "db_call (bindE (select_sessions p key) (\<lambda>rows. lift_res (collect_sessions rows))) w = (Inr l, after_call w)"
    by (rule db_call_run) (simp add: bindE_def select_run [OF rel] l(1) lift_res_def ret_def)
  obtain v where v: "terminate_each ssv reason l (after_call w) = (Inr (), v)" "only_ended (after_call w) v"
    "\<forall>r. r \<in> set (sw_sessions v) \<longrightarrow> sn_id r \<in> sn_id ` set l \<longrightarrow> \<not> live_row r"
    using terminate_list_only_ended [of "after_call w" ssv tm reason l] rel inv st by auto
  have "\<not> p (db_now w) (after_call w) r" if "r \<in> set (sw_sessions v)" "live_row r" for r
    using that v(2,3) l(2) by (auto simp: only_ended_def)
  with v query show ?thesis
    using only_ended_trans [OF only_ended_frame(1) [OF inv rel] v(2)]
    by (intro exI [of _ v]) (simp add: terminate_all_def bindE_def attempt_def)
qed

section \<open>Examples\<close>

definition example_ssh_service :: "(json pg, example_containers) SshSessionService" where
  "example_ssh_service = new_with_sandbox_service (PostgresSshSessionStore id)
     (service_new example_backend (PostgresStateStore (jsonb_codec id)))"

definition example_session :: "SshSessionState \<Rightarrow> SshSession" where
  "example_session st = (new_session 5 0 \<lparr>css_sandbox_id = 7, css_client_ip = ''10.0.0.1'',
     css_ssh_version = None, css_auth_method = SshApiKey, css_username = None, css_public_key = None\<rparr>)
     \<lparr>sn_state := st, sn_disconnected_at := Some 3, sn_duration_seconds := Some 1,
      sn_termination_reason := Some ''Idle timeout''\<rparr>"

definition example_ssh_world :: "SshSession list \<Rightarrow> (json pg, example_containers) ssh_world" where
  "example_ssh_world l =
     \<lparr>sw_world = \<lparr>w_store = example_pg [example_with_command], w_backend = [], w_activities = [], w_ticks = 0,
        w_uuids = 0, w_db_calls = 0, w_clock = (\<lambda>n. int n * nanos_per_sec), w_uuid_src = (\<lambda>n. of_nat n + 100),
        w_db_up = (\<lambda>_. True), w_uuid_to_string = (\<lambda>i. show_nat (unat i)),
        w_parse_label = (\<lambda>_. Inl ''no label'')\<rparr>,
      sw_sessions = map (session_row id) l\<rparr>"

lemma example_ssh [simp]:
  "ssv_ssh_store example_ssh_service = PostgresSshSessionStore id"
  "db_reliable (example_ssh_world l)" "sw_sessions (example_ssh_world l) = map (session_row id) l"
  by (simp_all add: example_ssh_service_def new_with_sandbox_service_def db_reliable_def example_ssh_world_def
      example_pg_def)

lemma session_row_id [simp]: "sn_id (session_row tm s) = sn_id s"
  by (simp add: session_row_def)

lemma example_ssh_one [simp]:
  "session_invar (example_ssh_world [s])"
  "session_contents (example_ssh_world [s]) (sn_id s) = res_option (row_to_session (session_row id s))"
  using row_to_session_row [of id s] by (auto simp: session_invar_def session_contents_def)

lemma row_to_session_id: "row_to_session (session_row id s) = Inr s"
  by (simp add: row_to_session_def session_row_def option.map_id)

lemma example_session_id [simp]:
  "sn_id (example_session st) = 5" "sn_state (example_session st) = st"
  "sn_termination_reason (example_session st) = Some ''Idle timeout''"
  by (simp_all add: example_session_def new_session_def)

lemma example_row_sandbox: "sn_sandbox_id (session_row id (example_session st)) = 7"
  by (simp add: example_session_def new_session_def session_row_def)

section \<open>Properties\<close>

text \<open>
  C35. The service refines the state machine of a session: whichever statements fail, one
  operation leaves every session as it was or moves it along the transition of that
  operation, new sessions appear only by creation and in state \<open>connecting\<close>, none disappears,
  and identifiers stay unique and rows readable.
\<close>

theorem ssh_refines_state_machine:
  assumes "ssv_ssh_store ssv = PostgresSshSessionStore tm" and "session_invar w"
  shows "session_invar (ssh_exec ssv op w) \<and>
    (\<forall>k. history_step op k (session_contents w k) (session_contents (ssh_exec ssv op w) k))"
  by (rule pg_ssh.exec_history [OF assms])

theorem ssh_refines_state_machine_witness:
  "\<forall>k. history_step (OpCleanup 60 60 :: (json pg, example_containers) ssh_op) k (session_contents (example_ssh_world [example_session SshActive]) k)
     (session_contents (ssh_exec example_ssh_service (OpCleanup 60 60)
        (example_ssh_world [example_session SshActive])) k)"
  using ssh_refines_state_machine [of example_ssh_service id "example_ssh_world [example_session SshActive]"
      "OpCleanup 60 60"] by simp



text \<open>
  Marking a session active does not look at its state: when every statement gets through,
  an ended session becomes active again and keeps the time, duration and reason of its end.
\<close>

theorem mark_active_resurrects:
  assumes "ssv_ssh_store ssv = PostgresSshSessionStore id" and "session_invar w" and "db_reliable w"
    and "session_contents w i = Some s" and "is_terminal (sn_state s)"
  shows "\<exists>v t. mark_session_active ssv i a b c d e w = (Inr (), v) \<and> session_contents v i = Some t \<and>
    sn_state t = SshActive \<and> sn_disconnected_at t = sn_disconnected_at s \<and>
    sn_duration_seconds t = sn_duration_seconds s \<and> sn_termination_reason t = sn_termination_reason s"
proof -
  obtain r where r: "find (\<lambda>r. sn_id r = i) (sw_sessions w) = Some r"
    using assms(4) by (auto simp: session_contents_def split: option.splits)
  have id: "sn_id s = i" "sn_id r = i" using stored_id [OF assms(2,4)] find_sn_id [OF r] by simp_all
  show ?thesis
    using assms(3) r id
    by (simp add: mark_session_active_def bindE_def get_session_run(1) [OF assms(3,2,1,4)] utc_now_run
        assms(1) update_session_run session_contents_def find_map_id updated_row_def session_row_def
        row_to_session_def parse_session_state_def option.map_id)
qed

theorem mark_active_resurrects_witness:
  "\<exists>v t. mark_session_active example_ssh_service 5 None None None None None
      (example_ssh_world [example_session SshTerminated]) = (Inr (), v) \<and> session_contents v 5 = Some t \<and>
    sn_state t = SshActive \<and> sn_termination_reason t = Some ''Idle timeout''"
  using mark_active_resurrects [of example_ssh_service "example_ssh_world [example_session SshTerminated]" 5
      "example_session SshTerminated" None None None None None]
    example_ssh_one(2) [of "example_session SshTerminated"]
  by (auto simp: row_to_session_id is_terminal_def)

text \<open>
  The cleanup task is complete: when every statement gets through, one round leaves no
  live session that was idle for longer than the idle timeout when the round began, none that
  was still connecting after the connecting timeout at its second query, and none whose
  sandbox is not running; and a session that is still live was not touched.
\<close>

theorem ssh_cleanup_complete:
  assumes "ssv_ssh_store ssv = PostgresSshSessionStore tm" and "session_invar w" and "db_reliable w"
  shows "\<exists>v n. ssh_cleanup_tick ssv idle connecting w = (Inr (), v) \<and> pg_calls (w_store (sw_world w)) < n \<and>
    (\<forall>r. r \<in> set (sw_sessions v) \<longrightarrow> live_row r \<longrightarrow>
       r \<in> set (sw_sessions w) \<and> \<not> stale_row idle (db_now w) r \<and>
       \<not> stuck_row connecting (pg_clock (w_store (sw_world w)) n) r \<and>
       sandbox_row_state (w_store (sw_world w)) (sn_sandbox_id r) = Some ''running'')"
proof -
  note run = terminate_all_run [OF _ _ assms(1)]
  obtain v1 where v1: "terminate_all ssv ''Idle timeout'' (get_stale_sessions ssv idle) w = (Inr (), v1)"
    "only_ended w v1" "\<forall>r. r \<in> set (sw_sessions v1) \<longrightarrow> live_row r \<longrightarrow> \<not> stale_row idle (db_now w) r"
    using run [OF assms(3,2), of "''Idle timeout''" "\<lambda>now _. stale_row idle now" sn_last_activity_at]
    by (auto simp: get_stale_sessions_def assms(1) pg_get_stale_sessions_def)
  then obtain v2 where v2: "terminate_all ssv ''Connection timeout - stuck in connecting state''
      (get_stuck_connecting_sessions ssv connecting) v1 = (Inr (), v2)"
    "only_ended v1 v2" "\<forall>r. r \<in> set (sw_sessions v2) \<longrightarrow> live_row r \<longrightarrow> \<not> stuck_row connecting (db_now v1) r"
    using run [of v1 "''Connection timeout - stuck in connecting state''" "\<lambda>now _. stuck_row connecting now" sn_connected_at]
    by (auto simp: get_stuck_connecting_sessions_def assms(1) pg_get_stuck_connecting_sessions_def only_ended_def)
  then obtain v where v: "terminate_all ssv ''Sandbox no longer running'' (get_orphaned_sessions ssv) v2 = (Inr (), v)"
    "only_ended v2 v" "\<forall>r. r \<in> set (sw_sessions v) \<longrightarrow> live_row r \<longrightarrow> \<not> orphaned_row (w_store (sw_world (after_call v2))) r"
    using run [of v2 "''Sandbox no longer running''" "\<lambda>_ w. orphaned_row (w_store (sw_world w))" sn_connected_at]
    by (auto simp: get_orphaned_sessions_def assms(1) pg_get_orphaned_sessions_def only_ended_def)
  have "ssh_cleanup_tick ssv idle connecting w = (Inr (), v)"
    using v1(1) v2(1) v(1) by (simp add: ssh_cleanup_tick_def bindE_def)
  moreover have "pg_calls (w_store (sw_world w)) < Suc (pg_calls (w_store (sw_world v1)))"
    using v1(2) by (simp add: only_ended_def)
  moreover have "pg_clock (w_store (sw_world w)) (Suc (pg_calls (w_store (sw_world v1)))) = db_now v1"
    using v1(2) by (simp add: only_ended_def db_now_def)
  moreover have "sandbox_row_state (w_store (sw_world (after_call v2))) = sandbox_row_state (w_store (sw_world w))"
    using v1(2) v2(2) by (simp add: only_ended_def sandbox_row_state_def fun_eq_iff)
  ultimately show ?thesis
    using v1 v2 v unfolding only_ended_def orphaned_row_def by (metis (no_types, lifting))
qed

theorem ssh_cleanup_complete_witness:
  "\<exists>v. ssh_cleanup_tick example_ssh_service 60 60 (example_ssh_world [example_session SshActive]) = (Inr (), v) \<and>
     list_all (\<lambda>r. \<not> live_row r) (sw_sessions v)"
proof -
  have "sandbox_row_state (w_store (sw_world (example_ssh_world [example_session SshActive]))) 7 \<noteq> Some ''running''"
    by (simp add: sandbox_row_state_def example_ssh_world_def example_pg_def example_with_command_def insert_row_def)
  then show ?thesis
    using ssh_cleanup_complete [of example_ssh_service id "example_ssh_world [example_session SshActive]" 60 60]
    by (auto simp: list_all_iff example_row_sandbox) (metis example_row_sandbox)
qed

end
