(* ===== verification/Database.thy ===== *)
theory Database
  imports Prelude
begin

text \<open>
  A table of the database as the stores of API keys, session tokens and activities use it: its
  rows, which statements get through, the server's clock and identifier source, and the clock
  and random numbers of the process that issues the statements. Taking a connection from the
  pool counts as a statement. A time bound to a statement is rounded to the precision of a
  \<open>timestamptz\<close> column. A panic of the process is an outcome of its own.
\<close>

datatype db_error = DbError string | DbPanic string

record 'r table =
  tb_rows :: "'r list"
  tb_calls :: nat
  tb_up :: "nat \<Rightarrow> bool"
  tb_clock :: "nat \<Rightarrow> time"
  tb_uuids :: "nat \<Rightarrow> uuid"
  tb_ticks :: nat
  tb_local_clock :: "nat \<Rightarrow> time"
  tb_draws :: nat
  tb_random :: "nat \<Rightarrow> nat"
  tb_precision :: "time \<Rightarrow> time"

type_synonym ('r, 'a) tb = "('r table, db_error, 'a) prog"

text \<open>A statement returns the index under which the server's clock and identifiers are read.\<close>

definition tb_statement :: "('r, nat) tb" where
  "tb_statement s =
     ((if tb_up s (tb_calls s) then Inr (tb_calls s) else Inl (DbError ''database error'')),
      s\<lparr>tb_calls := Suc (tb_calls s)\<rparr>)"

definition tb_client :: "('r, unit) tb" where
  "tb_client = bindE tb_statement (\<lambda>_. ret ())"

definition tb_query :: "('r \<Rightarrow> bool) \<Rightarrow> ('r, 'r list) tb" where
  "tb_query p = bindE tb_statement (\<lambda>_. gets (\<lambda>s. filter p (tb_rows s)))"

definition tb_execute :: "(time \<Rightarrow> 'r \<Rightarrow> bool) \<Rightarrow> (time \<Rightarrow> 'r list \<Rightarrow> 'r list) \<Rightarrow> ('r, nat) tb" where
  "tb_execute p f =
     bindE tb_statement (\<lambda>n.
     bindE (gets (\<lambda>s. (tb_clock s n, length (filter (p (tb_clock s n)) (tb_rows s))))) (\<lambda>(now, count).
     bindE (modify (tb_rows_update (f now))) (\<lambda>_. ret count)))"

definition tb_utc_now :: "('r, time) tb" where
  "tb_utc_now s = (Inr (tb_local_clock s (tb_ticks s)), s\<lparr>tb_ticks := Suc (tb_ticks s)\<rparr>)"

definition tb_draw :: "nat \<Rightarrow> ('r, nat list) tb" where
  "tb_draw n s = (Inr (map (\<lambda>i. tb_random s (tb_draws s + i)) [0..<n]), s\<lparr>tb_draws := tb_draws s + n\<rparr>)"

lemma wpE_tb_statement [wp]:
  "wpE tb_statement Q E s =
     (let t = s\<lparr>tb_calls := Suc (tb_calls s)\<rparr>
      in if tb_up s (tb_calls s) then Q (tb_calls s) t else E (DbError ''database error'') t)"
  by (simp add: wpE_def tb_statement_def Let_def)

lemma wpE_tb_client [wp]:
  "wpE tb_client Q E s =
     (let t = s\<lparr>tb_calls := Suc (tb_calls s)\<rparr>
      in if tb_up s (tb_calls s) then Q () t else E (DbError ''database error'') t)"
  by (simp add: tb_client_def wp Let_def)

lemma wpE_tb_query [wp]:
  "wpE (tb_query p) Q E s =
     (let t = s\<lparr>tb_calls := Suc (tb_calls s)\<rparr>
      in if tb_up s (tb_calls s) then Q (filter p (tb_rows s)) t else E (DbError ''database error'') t)"
  by (simp add: tb_query_def wp Let_def)

lemma wpE_tb_execute [wp]:
  "wpE (tb_execute p f) Q E s =
     (let t = s\<lparr>tb_calls := Suc (tb_calls s)\<rparr>; now = tb_clock s (tb_calls s)
      in if tb_up s (tb_calls s)
         then Q (length (filter (p now) (tb_rows s))) (tb_rows_update (f now) t)
         else E (DbError ''database error'') t)"
  by (simp add: tb_execute_def wp Let_def)

lemma wpE_tb_utc_now [wp]:
  "wpE tb_utc_now Q E s = Q (tb_local_clock s (tb_ticks s)) (s\<lparr>tb_ticks := Suc (tb_ticks s)\<rparr>)"
  by (simp add: wpE_def tb_utc_now_def)

lemma wpE_tb_draw [wp]:
  "wpE (tb_draw n) Q E s =
     Q (map (\<lambda>i. tb_random s (tb_draws s + i)) [0..<n]) (s\<lparr>tb_draws := tb_draws s + n\<rparr>)"
  by (simp add: wpE_def tb_draw_def)

text \<open>A table whose statements all get through.\<close>

definition tb_reliable :: "'r table \<Rightarrow> bool" where
  "tb_reliable s \<longleftrightarrow> (\<forall>n. tb_up s n)"

lemma tb_reliable_simps [simp]:
  "tb_reliable (tb_calls_update f s) = tb_reliable s" "tb_reliable (tb_rows_update g s) = tb_reliable s"
  "tb_reliable (tb_ticks_update f s) = tb_reliable s" "tb_reliable (tb_draws_update f s) = tb_reliable s"
  by (simp_all add: tb_reliable_def)

lemma tb_reliable_up: "tb_reliable s \<Longrightarrow> tb_up s n"
  by (simp add: tb_reliable_def)

end
