(* ===== verification/Auth.thy ===== *)
theory Auth
  imports Database Jsonb Service
begin

text \<open>
  Authentication: the store of API keys (\<open>src/src/db/api_key_store.rs\<close>), the middleware that
  resolves the identity of a request and the login endpoints (\<open>src/src/api/auth.rs\<close>), and the
  administration endpoints with their own guard (\<open>src/src/api/handlers/admin.rs\<close>).
  The password hash is a parameter; so are the JSON text of an identity in the session cookie
  and the encryption of the cookie, whose decrypted value the request carries.
\<close>

section \<open>API keys\<close>

record 'c ApiKey =
  ak_id :: uuid
  ak_key_hash :: string
  ak_key_prefix :: string
  ak_name :: string
  ak_description :: "string option"
  ak_scopes :: 'c
  ak_is_active :: bool
  ak_created_at :: time
  ak_expires_at :: "time option"
  ak_last_used_at :: "time option"
  ak_created_by :: "string option"

type_synonym key_row = "json ApiKey"
type_synonym api_key = "string list ApiKey"

record CreateApiKeyRequest =
  cak_name :: string
  cak_description :: "string option"
  cak_scopes :: "string list option"
  cak_expires_in_days :: "i64 option"
  cak_created_by :: "string option"

record ApiKeyResponse =
  akr_api_key :: string
  akr_key :: api_key

text \<open>The hash library: a salted hash and its verification.\<close>

record bcrypt =
  bc_hash :: "nat \<Rightarrow> string \<Rightarrow> string + string"
  bc_verify :: "string \<Rightarrow> string \<Rightarrow> string + bool"

definition bcrypt_ok :: "bcrypt \<Rightarrow> bool" where
  "bcrypt_ok bc \<longleftrightarrow>
     (\<forall>salt key h k. bc_hash bc salt key = Inr h \<longrightarrow> bc_verify bc k h = Inr (k = key))"

definition key_charset :: string where
  "key_charset = ''abcdefghijklmnopqrstuvwxyzABCDEFGHIJKLMNOPQRSTUVWXYZ0123456789''"

definition generate_api_key :: "(key_row, string) tb" where
  "generate_api_key =
     bindE (tb_draw 32) (\<lambda>draws.
     ret (''dsb_pk_'' @ map (\<lambda>d. key_charset ! (d mod length key_charset)) draws))"

text \<open>Slicing a string inside a character panics: a byte \<open>10xxxxxx\<close> continues a character.\<close>

definition str_prefix :: "string \<Rightarrow> nat \<Rightarrow> ('w, db_error, string) prog" where
  "str_prefix s n =
     (if is_char_boundary s n then ret (take n s) else throw (DbPanic ''byte index is not a char boundary''))"

section \<open>The PostgreSQL store of keys\<close>

primrec check_rows :: "bcrypt \<Rightarrow> string \<Rightarrow> key_row list \<Rightarrow> (key_row, uuid option) tb" where
  "check_rows bc key [] = ret None"
| "check_rows bc key (row # rows) =
     bindE (case ak_expires_at row of
              Some expiry \<Rightarrow> bindE tb_utc_now (\<lambda>now. ret (expiry < now))
            | None \<Rightarrow> ret False) (\<lambda>expired.
     if expired then check_rows bc key rows
     else (case bc_verify bc key (ak_key_hash row) of
         Inl e \<Rightarrow> throw (DbError e)
       | Inr True \<Rightarrow>
           bindE (tb_execute (\<lambda>_ r. ak_id r = ak_id row)
             (\<lambda>now. map (\<lambda>r. if ak_id r = ak_id row then r\<lparr>ak_last_used_at := Some now\<rparr> else r))) (\<lambda>_.
           ret (Some (ak_id row)))
       | Inr False \<Rightarrow> check_rows bc key rows))"

definition validate_api_key :: "bcrypt \<Rightarrow> string \<Rightarrow> (key_row, uuid option) tb" where
  "validate_api_key bc key =
     bindE tb_client (\<lambda>_.
     bindE (str_prefix key (min 8 (length key))) (\<lambda>key_prefix.
     bindE (tb_query (\<lambda>r. ak_key_prefix r = key_prefix \<and> ak_is_active r)) (\<lambda>rows.
     check_rows bc key rows)))"

definition hash_api_key :: "bcrypt \<Rightarrow> string \<Rightarrow> (key_row, string) tb" where
  "hash_api_key bc key =
     bindE (tb_draw 1) (\<lambda>salts. case bc_hash bc (hd salts) key of
       Inl e \<Rightarrow> throw (DbError e)
     | Inr h \<Rightarrow> ret h)"

text \<open>The first lines of creation and rotation: a new key, its hash and its prefix.\<close>

definition new_key :: "bcrypt \<Rightarrow> (key_row, string \<times> string \<times> string) tb" where
  "new_key bc =
     bindE generate_api_key (\<lambda>api_key.
     bindE (hash_api_key bc api_key) (\<lambda>key_hash.
     bindE (str_prefix api_key 8) (\<lambda>key_prefix.
     ret (api_key, key_hash, key_prefix))))"

text \<open>
  \<open>Utc::now() + Duration::days(d)\<close> panics outside the range of \<open>chrono\<close>: a duration is at most
  \<open>i64::MAX\<close> milliseconds and the last instant is in the year 262142.
\<close>

definition max_instant :: time where
  "max_instant = 8210266876799 * nanos_per_sec + 999999999"

definition min_instant :: time where
  "min_instant = - 8334601228800 * nanos_per_sec"

definition add_seconds :: "time \<Rightarrow> int \<Rightarrow> time option" where
  "add_seconds now secs =
     (if \<bar>secs\<bar> * 1000 \<le> 2 ^ 63 - 1 \<and> min_instant \<le> now + secs * nanos_per_sec \<and>
         now + secs * nanos_per_sec \<le> max_instant
      then Some (now + secs * nanos_per_sec) else None)"

definition expiry_of :: "i64 option \<Rightarrow> (key_row, time option) tb" where
  "expiry_of expires_in_days =
     (case expires_in_days of
        None \<Rightarrow> ret None
      | Some days \<Rightarrow>
          bindE tb_utc_now (\<lambda>now. case add_seconds now (sint days * 86400) of
            None \<Rightarrow> throw (DbPanic ''overflow in Duration or DateTime'')
          | Some t \<Rightarrow> ret (Some t)))"

text \<open>
  The constraints of table \<open>api_keys\<close>: unique identifiers and hashes, unique names of active
  keys, expiry after creation.
\<close>

definition key_constraints :: "key_row \<Rightarrow> key_row list \<Rightarrow> bool" where
  "key_constraints row rows \<longleftrightarrow>
     ak_id row \<notin> ak_id ` set rows \<and> ak_key_hash row \<notin> ak_key_hash ` set rows \<and>
     \<not> (ak_is_active row \<and> (\<exists>r \<in> set rows. ak_is_active r \<and> ak_name r = ak_name row)) \<and>
     (case ak_expires_at row of None \<Rightarrow> True | Some t \<Rightarrow> ak_created_at row < t)"

definition decode_scopes :: "json \<Rightarrow> string list" where
  "decode_scopes j = (case dec_strings j of Some l \<Rightarrow> l | None \<Rightarrow> [])"

definition insert_key ::
  "CreateApiKeyRequest \<Rightarrow> string \<Rightarrow> string \<Rightarrow> string \<Rightarrow> (key_row, ApiKeyResponse) tb" where
  "insert_key req api_key key_hash key_prefix =
     bindE (expiry_of (cak_expires_in_days req)) (\<lambda>expires_at.
     bindE tb_client (\<lambda>_.
     bindE tb_statement (\<lambda>n.
     bindE (gets (\<lambda>s. (tb_uuids s n, tb_clock s n, tb_precision s, tb_rows s))) (\<lambda>(i, now, tm, rows).
     let scopes = (case cak_scopes req of Some l \<Rightarrow> l | None \<Rightarrow> []);
         row = \<lparr>ak_id = i, ak_key_hash = key_hash, ak_key_prefix = key_prefix, ak_name = cak_name req,
                ak_description = cak_description req, ak_scopes = enc_strings scopes, ak_is_active = True,
                ak_created_at = now, ak_expires_at = map_option tm expires_at, ak_last_used_at = None,
                ak_created_by = cak_created_by req\<rparr>
     in if \<not> key_constraints row rows then throw (DbError ''constraint violation'')
        else bindE (modify (tb_rows_update (\<lambda>rows. rows @ [row]))) (\<lambda>_.
          ret \<lparr>akr_api_key = api_key, akr_key =
            \<lparr>ak_id = i, ak_key_hash = key_hash, ak_key_prefix = key_prefix, ak_name = cak_name req,
             ak_description = cak_description req, ak_scopes = scopes, ak_is_active = True,
             ak_created_at = now, ak_expires_at = expires_at, ak_last_used_at = None,
             ak_created_by = cak_created_by req\<rparr>\<rparr>)))))"

definition create_api_key :: "bcrypt \<Rightarrow> CreateApiKeyRequest \<Rightarrow> (key_row, ApiKeyResponse) tb" where
  "create_api_key bc req =
     bindE (new_key bc) (\<lambda>(api_key, key_hash, key_prefix). insert_key req api_key key_hash key_prefix)"

definition redacted :: "key_row \<Rightarrow> api_key" where
  "redacted r =
     \<lparr>ak_id = ak_id r, ak_key_hash = ''[REDACTED]'', ak_key_prefix = ak_key_prefix r, ak_name = ak_name r,
      ak_description = ak_description r, ak_scopes = decode_scopes (ak_scopes r),
      ak_is_active = ak_is_active r, ak_created_at = ak_created_at r, ak_expires_at = ak_expires_at r,
      ak_last_used_at = ak_last_used_at r, ak_created_by = ak_created_by r\<rparr>"

definition list_api_keys :: "(key_row, api_key list) tb" where
  "list_api_keys =
     bindE tb_client (\<lambda>_.
     bindE (tb_query (\<lambda>_. True)) (\<lambda>rows.
     ret (map redacted (sort_key (\<lambda>r. - ak_created_at r) rows))))"

definition get_api_key :: "uuid \<Rightarrow> (key_row, api_key option) tb" where
  "get_api_key i =
     bindE tb_client (\<lambda>_.
     bindE (tb_query (\<lambda>r. ak_id r = i)) (\<lambda>rows. case rows of
       [] \<Rightarrow> ret None
     | [row] \<Rightarrow> ret (Some (redacted row))
     | _ \<Rightarrow> throw (DbError ''query returned an unexpected number of rows'')))"

definition delete_api_key :: "uuid \<Rightarrow> (key_row, bool) tb" where
  "delete_api_key i =
     bindE tb_client (\<lambda>_.
     bindE (tb_execute (\<lambda>_ r. ak_id r = i) (\<lambda>_. filter (\<lambda>r. ak_id r \<noteq> i))) (\<lambda>rows_affected.
     ret (0 < rows_affected)))"

definition replace_key ::
  "(uuid \<Rightarrow> string) \<Rightarrow> uuid \<Rightarrow> string \<Rightarrow> string \<Rightarrow> string \<Rightarrow> (key_row, ApiKeyResponse) tb" where
  "replace_key show_uuid i api_key key_hash key_prefix =
     bindE tb_client (\<lambda>_.
     bindE tb_statement (\<lambda>_.
     bindE (gets (\<lambda>s. (find (\<lambda>r. ak_id r = i) (tb_rows s),
                       key_hash \<in> ak_key_hash ` set (filter (\<lambda>r. ak_id r \<noteq> i) (tb_rows s))))) (\<lambda>(found, used).
     case found of
       None \<Rightarrow> throw (DbError (''API key not found: '' @ show_uuid i))
     | Some row \<Rightarrow>
         if used then throw (DbError ''constraint violation'')
         else bindE (modify (tb_rows_update (map (\<lambda>r.
             if ak_id r = i then r\<lparr>ak_key_hash := key_hash, ak_key_prefix := key_prefix\<rparr> else r)))) (\<lambda>_.
           ret \<lparr>akr_api_key = api_key, akr_key =
             \<lparr>ak_id = i, ak_key_hash = key_hash, ak_key_prefix = key_prefix, ak_name = ak_name row,
              ak_description = ak_description row, ak_scopes = decode_scopes (ak_scopes row),
              ak_is_active = ak_is_active row, ak_created_at = ak_created_at row,
              ak_expires_at = ak_expires_at row, ak_last_used_at = None,
              ak_created_by = ak_created_by row\<rparr>\<rparr>))))"

definition rotate_api_key :: "bcrypt \<Rightarrow> (uuid \<Rightarrow> string) \<Rightarrow> uuid \<Rightarrow> (key_row, ApiKeyResponse) tb" where
  "rotate_api_key bc show_uuid i =
     bindE (new_key bc) (\<lambda>(api_key, key_hash, key_prefix). replace_key show_uuid i api_key key_hash key_prefix)"

record 'w ApiKeyStore =
  aks_validate_api_key :: "string \<Rightarrow> ('w, db_error, uuid option) prog"
  aks_create_api_key :: "CreateApiKeyRequest \<Rightarrow> ('w, db_error, ApiKeyResponse) prog"
  aks_list_api_keys :: "('w, db_error, api_key list) prog"
  aks_get_api_key :: "uuid \<Rightarrow> ('w, db_error, api_key option) prog"
  aks_delete_api_key :: "uuid \<Rightarrow> ('w, db_error, bool) prog"
  aks_rotate_api_key :: "uuid \<Rightarrow> ('w, db_error, ApiKeyResponse) prog"

definition PostgresApiKeyStore :: "bcrypt \<Rightarrow> (uuid \<Rightarrow> string) \<Rightarrow> key_row table ApiKeyStore" where
  "PostgresApiKeyStore bc show_uuid =
     \<lparr>aks_validate_api_key = validate_api_key bc, aks_create_api_key = create_api_key bc,
      aks_list_api_keys = list_api_keys, aks_get_api_key = get_api_key,
      aks_delete_api_key = delete_api_key, aks_rotate_api_key = rotate_api_key bc show_uuid\<rparr>"

section \<open>Requests\<close>

text \<open>
  What the middleware looks at: path and query of the URI, the headers it reads as raw bytes,
  and the decrypted value of the session cookie, if the client sent one that decrypts.
\<close>

record http_request =
  rq_path :: string
  rq_query :: "string option"
  rq_upgrade :: "string option"
  rq_x_api_key :: "string option"
  rq_authorization :: "string option"
  rq_session_cookie :: "string option"

text \<open>\<open>HeaderValue::to_str\<close> succeeds on visible ASCII and tabs.\<close>

definition header_char :: "char \<Rightarrow> bool" where
  "header_char c \<longleftrightarrow> (32 \<le> (of_char c :: nat) \<and> (of_char c :: nat) < 127) \<or> (of_char c :: nat) = 9"

definition header_to_str :: "string \<Rightarrow> string option" where
  "header_to_str h = (if list_all header_char h then Some h else None)"

text \<open>The value of a query parameter: the text up to a second equals sign.\<close>

definition query_param :: "string \<Rightarrow> string \<Rightarrow> string option" where
  "query_param name q =
     find_map (\<lambda>pair. case split_on (CHR ''='') pair of
         k # v # _ \<Rightarrow> if k = name then Some v else None
       | _ \<Rightarrow> None) (split_on (CHR ''&'') q)"

section \<open>The authentication middleware\<close>

record 'w AuthState =
  au_config_api_key :: "string option"
  au_admin_api_key :: "string option"
  au_require_auth :: bool
  au_static_server_require_auth :: bool
  au_vnc_require_auth :: bool
  au_api_key_store :: "'w ApiKeyStore option"
  au_identity_to_json :: "ApiKeyIdentity \<Rightarrow> string"
  au_identity_from_json :: "string \<Rightarrow> ApiKeyIdentity option"

text \<open>The handler runs, with the identity left in the request's extensions, or a status is sent.\<close>

datatype auth_outcome = Handler "ApiKeyIdentity option" | Status nat

abbreviation privileged_identity :: ApiKeyIdentity where
  "privileged_identity \<equiv> \<lparr>ident_id = None, ident_key_type = Privileged\<rparr>"

definition database_identity :: "uuid \<Rightarrow> ApiKeyIdentity" where
  "database_identity i = \<lparr>ident_id = Some i, ident_key_type = Database\<rparr>"

definition open_path :: "string \<Rightarrow> bool" where
  "open_path path \<longleftrightarrow> path = ''/health'' \<or> starts_with path ''/ssh/authorize/'' \<or>
     path = ''/api/auth/login'' \<or> starts_with path ''/dashboard/''"

definition is_websocket :: "http_request \<Rightarrow> bool" where
  "is_websocket rq =
     (case rq_upgrade rq of
        None \<Rightarrow> False
      | Some h \<Rightarrow> (case header_to_str h of
           None \<Rightarrow> False
         | Some v \<Rightarrow> to_lowercase v = ''websocket''))"

definition cookie_identity :: "'w AuthState \<Rightarrow> http_request \<Rightarrow> ApiKeyIdentity option" where
  "cookie_identity st rq =
     (case rq_session_cookie rq of
        None \<Rightarrow> None
      | Some v \<Rightarrow> au_identity_from_json st v)"

text \<open>The key of the request, or \<open>Inl ()\<close> when the header is not text.\<close>

definition provided_key :: "http_request \<Rightarrow> unit + string option" where
  "provided_key rq =
     (case rq_x_api_key rq of
        Some h \<Rightarrow> (case header_to_str h of None \<Rightarrow> Inl () | Some s \<Rightarrow> Inr (Some s))
      | None \<Rightarrow> Inr (case rq_query rq of None \<Rightarrow> None | Some q \<Rightarrow> query_param ''api_key'' q))"

definition try_validate :: "'w AuthState \<Rightarrow> string \<Rightarrow> ('w, db_error, uuid option) prog" where
  "try_validate st key =
     (case au_api_key_store st of
        None \<Rightarrow> ret None
      | Some store \<Rightarrow>
          bindE (attempt (aks_validate_api_key store key)) (\<lambda>r. case r of
            Inr x \<Rightarrow> ret x
          | Inl (DbPanic m) \<Rightarrow> throw (DbPanic m)
          | Inl (DbError _) \<Rightarrow> ret None))"

definition key_identity :: "'w AuthState \<Rightarrow> string \<Rightarrow> ('w, db_error, ApiKeyIdentity option) prog" where
  "key_identity st key =
     (if au_admin_api_key st = Some key then ret (Some privileged_identity)
      else bindE (try_validate st key) (\<lambda>r. case r of
          Some i \<Rightarrow> ret (Some (database_identity i))
        | None \<Rightarrow>
            if au_config_api_key st = Some key then ret (Some privileged_identity) else ret None))"

definition auth_result :: "'w AuthState \<Rightarrow> string \<Rightarrow> ApiKeyIdentity option \<Rightarrow> auth_outcome" where
  "auth_result st path ident =
     (case ident of
        Some x \<Rightarrow> Handler (Some x)
      | None \<Rightarrow>
          if \<not> au_require_auth st then Handler (Some privileged_identity)
          else if starts_with path ''/vnc/'' then Handler None
          else if starts_with path ''/static/'' \<and> \<not> au_static_server_require_auth st then Handler None
          else Status 401)"

definition api_key_auth :: "'w AuthState \<Rightarrow> http_request \<Rightarrow> ('w, db_error, auth_outcome) prog" where
  "api_key_auth st rq =
     (if open_path (rq_path rq) then ret (Handler None)
      else if starts_with (rq_path rq) ''/vnc/'' \<and> \<not> is_websocket rq then ret (Status 400)
      else (case cookie_identity st rq of
          Some x \<Rightarrow> ret (auth_result st (rq_path rq) (Some x))
        | None \<Rightarrow>
            (case provided_key rq of
               Inl _ \<Rightarrow> ret (Status 401)
             | Inr None \<Rightarrow> ret (auth_result st (rq_path rq) None)
             | Inr (Some key) \<Rightarrow>
                 bindE (key_identity st key) (\<lambda>ident. ret (auth_result st (rq_path rq) ident)))))"

definition is_api_key_valid :: "string option \<Rightarrow> string option \<Rightarrow> bool" where
  "is_api_key_valid provided expected =
     (case (expected, provided) of
        (None, _) \<Rightarrow> True
      | (Some e, Some p) \<Rightarrow> p = e
      | (Some _, None) \<Rightarrow> False)"

section \<open>Login and administration\<close>

text \<open>A response: a status, the identity in its body, and the session cookie it sets.\<close>

definition login :: "'w AuthState \<Rightarrow> string \<Rightarrow> ('w, db_error, nat + ApiKeyIdentity \<times> string) prog" where
  "login st key =
     bindE (if au_admin_api_key st = Some key then ret (Inr (Some privileged_identity))
            else (case au_api_key_store st of
                None \<Rightarrow> ret (Inr None)
              | Some store \<Rightarrow>
                  bindE (attempt (aks_validate_api_key store key)) (\<lambda>r. case r of
                    Inr (Some i) \<Rightarrow> ret (Inr (Some (database_identity i)))
                  | Inr None \<Rightarrow> ret (Inr None)
                  | Inl (DbPanic m) \<Rightarrow> throw (DbPanic m)
                  | Inl (DbError _) \<Rightarrow> ret (Inl 500)))) (\<lambda>r.
     case r of
       Inl status \<Rightarrow> ret (Inl status)
     | Inr ident \<Rightarrow>
         (case (case ident of
                  Some x \<Rightarrow> Some x
                | None \<Rightarrow> if au_config_api_key st = Some key then Some privileged_identity else None) of
            Some x \<Rightarrow> ret (Inr (x, au_identity_to_json st x))
          | None \<Rightarrow> ret (Inl 401)))"

definition me :: "'w AuthState \<Rightarrow> http_request \<Rightarrow> nat + ApiKeyIdentity" where
  "me st rq =
     (case rq_session_cookie rq of
        Some v \<Rightarrow> (case au_identity_from_json st v of Some x \<Rightarrow> Inr x | None \<Rightarrow> Inl 401)
      | None \<Rightarrow> Inl 401)"

record 'w AdminState =
  ad_api_key_store :: "'w ApiKeyStore"
  ad_admin_api_key :: "string option"

text \<open>The guard of the administration routes: \<open>None\<close> lets the handler run.\<close>

definition admin_auth_middleware :: "'w AdminState \<Rightarrow> http_request \<Rightarrow> nat option" where
  "admin_auth_middleware st rq =
     (case rq_x_api_key rq of
        None \<Rightarrow> Some 401
      | Some h \<Rightarrow> (case header_to_str h of
           None \<Rightarrow> Some 401
         | Some key \<Rightarrow> if ad_admin_api_key st = Some key then None else Some 401))"

definition or_500 :: "('w, db_error, 'a) prog \<Rightarrow> ('a \<Rightarrow> nat + 'b) \<Rightarrow> ('w, db_error, nat + 'b) prog" where
  "or_500 m f =
     bindE (attempt m) (\<lambda>r. case r of
       Inr a \<Rightarrow> ret (f a)
     | Inl (DbError _) \<Rightarrow> ret (Inl 500)
     | Inl (DbPanic e) \<Rightarrow> throw (DbPanic e))"

datatype admin_request =
    AdminCreate CreateApiKeyRequest
  | AdminList
  | AdminGet uuid
  | AdminDelete uuid
  | AdminRotate uuid

datatype admin_response =
    KeyCreated ApiKeyResponse
  | KeyList "api_key list"
  | KeyFound api_key
  | NoContent
  | KeyRotated ApiKeyResponse

fun admin_handler :: "'w AdminState \<Rightarrow> admin_request \<Rightarrow> ('w, db_error, nat + admin_response) prog" where
  "admin_handler st (AdminCreate req) =
     or_500 (aks_create_api_key (ad_api_key_store st) req) (\<lambda>r. Inr (KeyCreated r))"
| "admin_handler st AdminList = or_500 (aks_list_api_keys (ad_api_key_store st)) (\<lambda>l. Inr (KeyList l))"
| "admin_handler st (AdminGet i) =
     or_500 (aks_get_api_key (ad_api_key_store st) i)
       (\<lambda>r. case r of Some key \<Rightarrow> Inr (KeyFound key) | None \<Rightarrow> Inl 404)"
| "admin_handler st (AdminDelete i) =
     or_500 (aks_delete_api_key (ad_api_key_store st) i) (\<lambda>d. if d then Inr NoContent else Inl 404)"
| "admin_handler st (AdminRotate i) =
     or_500 (aks_rotate_api_key (ad_api_key_store st) i) (\<lambda>r. Inr (KeyRotated r))"

text \<open>A request to an administration route passes both guards before the handler runs.\<close>

definition admin_route ::
  "'w AuthState \<Rightarrow> 'w AdminState \<Rightarrow> http_request \<Rightarrow> admin_request \<Rightarrow> ('w, db_error, nat + admin_response) prog" where
  "admin_route au ad rq areq =
     bindE (api_key_auth au rq) (\<lambda>outcome. case outcome of
       Status n \<Rightarrow> ret (Inl n)
     | Handler _ \<Rightarrow>
         (case admin_auth_middleware ad rq of
            Some n \<Rightarrow> ret (Inl n)
          | None \<Rightarrow> admin_handler ad areq))"

end
