(* ===== verification/AuthProps.thy ===== *)
theory AuthProps
  imports Auth
begin

text \<open>
  What authentication guarantees: which requests reach a handler and with which identity, and
  that the table of hashed keys implements a map from identifiers to keys.
\<close>

section \<open>The table as a map from identifiers to keys\<close>

text \<open>
  \<open>kf\<close> gives the key that was handed out for an identifier; the table holds only its hash and
  its first eight characters.
\<close>

definition key_table :: "bcrypt \<Rightarrow> (uuid \<Rightarrow> string) \<Rightarrow> key_row list \<Rightarrow> bool" where
  "key_table bc kf rows \<longleftrightarrow> distinct (map ak_id rows) \<and>
     (\<forall>r. r \<in> set rows \<longrightarrow> (\<exists>salt. bc_hash bc salt (kf (ak_id r)) = Inr (ak_key_hash r)) \<and>
        ak_key_prefix r = take 8 (kf (ak_id r)))"

lemma key_table_verify:
  assumes "bcrypt_ok bc" and "key_table bc kf rows" and "r \<in> set rows"
  shows "bc_verify bc key (ak_key_hash r) = Inr (key = kf (ak_id r))"
  using assms unfolding bcrypt_ok_def key_table_def by blast

lemma generated_key:
  "wpE generate_api_key (\<lambda>key t. length key = 39 \<and> take 7 key = ''dsb_pk_'' \<and> set key \<subseteq> set key_charset \<union> {CHR ''_''} \<and>
      (\<exists>n. t = s\<lparr>tb_draws := n\<rparr>)) E s"
proof -
  have len: "length key_charset = 62" by (simp add: key_charset_def)
  have "set ''dsb_pk_'' \<subseteq> set key_charset \<union> {CHR ''_''}" by (auto simp: key_charset_def)
  moreover have "key_charset ! (d mod length key_charset) \<in> set key_charset" for d
    by (rule nth_mem) (simp add: len)
  ultimately show ?thesis by (auto simp: generate_api_key_def wp)
qed

lemma charset_boundary: "set key \<subseteq> set key_charset \<union> {CHR ''_''} \<Longrightarrow> i < length key \<Longrightarrow> is_char_boundary key i"
proof -
  assume "set key \<subseteq> set key_charset \<union> {CHR ''_''}" and i: "i < length key"
  then have "key ! i \<in> set key_charset \<union> {CHR ''_''}" by (meson nth_mem subset_iff)
  moreover have "\<forall>c \<in> set key_charset \<union> {CHR ''_''}. (of_char c :: nat) < 128" by (simp add: key_charset_def)
  ultimately show ?thesis using i by (fastforce simp: is_char_boundary_def)
qed

lemma hash_key_wp:
  "wpE (hash_api_key bc key) (\<lambda>h t. (\<exists>salt. bc_hash bc salt key = Inr h) \<and> (\<exists>n. t = s\<lparr>tb_draws := n\<rparr>))
     (\<lambda>_ t. \<exists>n. t = s\<lparr>tb_draws := n\<rparr>) s"
  by (auto simp: hash_api_key_def wp split: sum.splits)

section \<open>Validation\<close>

lemma check_rows_frame:
  "wpE (check_rows bc key rows)
     (\<lambda>res t. tb_local_clock t = tb_local_clock s \<and> tb_ticks s \<le> tb_ticks t \<and>
        map ak_id (tb_rows t) = map ak_id (tb_rows s)) (\<lambda>_ _. True) s"
proof (induction rows arbitrary: s)
  case (Cons row rows)
  have upd: "map (ak_id \<circ> (\<lambda>r. if P r then ak_last_used_at_update f r else r)) l = map ak_id l" for P f and l :: "key_row list"
    by (simp add: o_def)
  have ind: "wpE (check_rows bc key rows)
     (\<lambda>res t. tb_local_clock t = tb_local_clock s \<and> tb_ticks s \<le> tb_ticks t \<and>
        map ak_id (tb_rows t) = map ak_id (tb_rows s)) (\<lambda>_ _. True) u"
    if "u = s \<or> u = s\<lparr>tb_ticks := Suc (tb_ticks s)\<rparr>" for u
    by (rule wpE_mono [OF Cons.IH [of u]]) (use that in auto)
  show ?case
    by (auto simp: wp Let_def upd intro: ind split: option.splits sum.splits bool.splits)
qed (simp add: wp)

lemma check_rows_exact:
  assumes ok: "bcrypt_ok bc" and "\<And>r. r \<in> set rows \<Longrightarrow> \<exists>salt. bc_hash bc salt (kf (ak_id r)) = Inr (ak_key_hash r)"
    and "tb_reliable s"
  shows "wpE (check_rows bc key rows)
    (\<lambda>res t. case res of
       Some i \<Rightarrow> (\<exists>r n. r \<in> set rows \<and> ak_id r = i \<and> kf i = key \<and> tb_ticks s \<le> n \<and>
          pred_option (\<lambda>e. tb_local_clock s n \<le> e) (ak_expires_at r))
     | None \<Rightarrow> (\<forall>r. r \<in> set rows \<longrightarrow> kf (ak_id r) = key \<longrightarrow>
          (\<exists>e n. ak_expires_at r = Some e \<and> tb_ticks s \<le> n \<and> e < tb_local_clock s n)))
    (\<lambda>_ _. False) s"
  using assms(2,3)
proof (induction rows arbitrary: s)
  case (Cons row rows)
  have verify: "bc_verify bc key (ak_key_hash row) = Inr (key = kf (ak_id row))"
    using ok Cons.prems(1) unfolding bcrypt_ok_def by (metis list.set_intros(1))
  have ind: "wpE (check_rows bc key rows)
    (\<lambda>res t. case res of
       Some i \<Rightarrow> (\<exists>r n. r \<in> set (row # rows) \<and> ak_id r = i \<and> kf i = key \<and> tb_ticks s \<le> n \<and>
          pred_option (\<lambda>e. tb_local_clock s n \<le> e) (ak_expires_at r))
     | None \<Rightarrow> (\<forall>r. r \<in> set (row # rows) \<longrightarrow> kf (ak_id r) = key \<longrightarrow>
          (\<exists>e n. ak_expires_at r = Some e \<and> tb_ticks s \<le> n \<and> e < tb_local_clock s n)))
    (\<lambda>_ _. False) u"
    if u: "u = s \<or> u = s\<lparr>tb_ticks := Suc (tb_ticks s)\<rparr>"
      and row: "kf (ak_id row) = key \<Longrightarrow> \<exists>e n. ak_expires_at row = Some e \<and> tb_ticks s \<le> n \<and> e < tb_local_clock s n" for u
    by (rule wpE_mono [OF Cons.IH [of u]])
      (use that Cons.prems in \<open>fastforce split: option.splits dest: Suc_leD\<close>)+
  show ?case
  proof (cases "ak_expires_at row")
    case None
    then show ?thesis
      using ind [of s] Cons.prems(2) by (auto simp: wp Let_def verify tb_reliable_up split: bool.splits intro!: exI)
  next
    case (Some e)
    then show ?thesis
      using ind [of "s\<lparr>tb_ticks := Suc (tb_ticks s)\<rparr>"] Cons.prems(2)
      by (auto simp: wp Let_def verify tb_reliable_up not_less split: bool.splits intro!: exI)
  qed
qed (simp add: wp)

lemma str_prefix_wp [wp]:
  "wpE (str_prefix x n) Q E s =
     (if is_char_boundary x n then Q (take n x) s else E (DbPanic ''byte index is not a char boundary'') s)"
  by (simp add: str_prefix_def wp)

lemma validate_exact:
  assumes ok: "bcrypt_ok bc" and kt: "key_table bc kf (tb_rows s)" and rel: "tb_reliable s"
    and "is_char_boundary key (min 8 (length key))"
  shows "wpE (validate_api_key bc key)
    (\<lambda>res t. case res of
       Some i \<Rightarrow> (\<exists>r n. r \<in> set (tb_rows s) \<and> ak_id r = i \<and> ak_is_active r \<and> kf i = key \<and>
          pred_option (\<lambda>e. tb_local_clock s n \<le> e) (ak_expires_at r))
     | None \<Rightarrow> (\<forall>r. r \<in> set (tb_rows s) \<longrightarrow> ak_is_active r \<longrightarrow> kf (ak_id r) = key \<longrightarrow>
          (\<exists>e n. ak_expires_at r = Some e \<and> e < tb_local_clock s n)))
    (\<lambda>_ _. False) s"
proof -
  let ?rows = "filter (\<lambda>r. ak_key_prefix r = take 8 key \<and> ak_is_active r) (tb_rows s)"
  have pre: "take (min 8 (length key)) key = take 8 key" by (simp add: min_def)
  have salt: "\<exists>salt. bc_hash bc salt (kf (ak_id r)) = Inr (ak_key_hash r)" if "r \<in> set ?rows" for r
    using kt that by (auto simp: key_table_def)
  have mem: "ak_key_prefix r = take 8 key" if "r \<in> set (tb_rows s)" "kf (ak_id r) = key" for r
    using kt that by (auto simp: key_table_def)
  have rows: "wpE (check_rows bc key ?rows)
    (\<lambda>res t. case res of
       Some i \<Rightarrow> (\<exists>r n. r \<in> set (tb_rows s) \<and> ak_id r = i \<and> ak_is_active r \<and> kf i = key \<and>
          pred_option (\<lambda>e. tb_local_clock s n \<le> e) (ak_expires_at r))
     | None \<Rightarrow> (\<forall>r. r \<in> set (tb_rows s) \<longrightarrow> ak_is_active r \<longrightarrow> kf (ak_id r) = key \<longrightarrow>
          (\<exists>e n. ak_expires_at r = Some e \<and> e < tb_local_clock s n)))
    (\<lambda>_ _. False) (s\<lparr>tb_calls := n\<rparr>)" for n
  proof (rule wpE_mono [OF check_rows_exact [OF ok salt]])
    show "tb_reliable (s\<lparr>tb_calls := n\<rparr>)" using rel by simp
  next
    fix res :: "uuid option" and v
    assume "case res of
       Some i \<Rightarrow> (\<exists>r m. r \<in> set ?rows \<and> ak_id r = i \<and> kf i = key \<and> tb_ticks (s\<lparr>tb_calls := n\<rparr>) \<le> m \<and>
          pred_option (\<lambda>e. tb_local_clock (s\<lparr>tb_calls := n\<rparr>) m \<le> e) (ak_expires_at r))
     | None \<Rightarrow> (\<forall>r. r \<in> set ?rows \<longrightarrow> kf (ak_id r) = key \<longrightarrow>
          (\<exists>e m. ak_expires_at r = Some e \<and> tb_ticks (s\<lparr>tb_calls := n\<rparr>) \<le> m \<and> e < tb_local_clock (s\<lparr>tb_calls := n\<rparr>) m))"
    then show "case res of
       Some i \<Rightarrow> (\<exists>r n. r \<in> set (tb_rows s) \<and> ak_id r = i \<and> ak_is_active r \<and> kf i = key \<and>
          pred_option (\<lambda>e. tb_local_clock s n \<le> e) (ak_expires_at r))
     | None \<Rightarrow> (\<forall>r. r \<in> set (tb_rows s) \<longrightarrow> ak_is_active r \<longrightarrow> kf (ak_id r) = key \<longrightarrow>
          (\<exists>e n. ak_expires_at r = Some e \<and> e < tb_local_clock s n))"
      using mem by (cases res) (simp; blast)+
  qed simp
  show ?thesis
    unfolding validate_api_key_def using assms(4) rows by (simp add: wp Let_def pre tb_reliable_up rel)
qed

section \<open>Creation, rotation and deletion\<close>

lemma key_table_append:
  assumes "key_table bc kf rows" and "bc_hash bc salt key = Inr h" and "i \<notin> ak_id ` set rows"
    and "ak_id r = i" and "ak_key_hash r = h" and "ak_key_prefix r = take 8 key"
  shows "key_table bc (kf(i := key)) (rows @ [r])"
  using assms by (auto simp: key_table_def image_iff)

definition rekey :: "uuid \<Rightarrow> string \<Rightarrow> string \<Rightarrow> key_row \<Rightarrow> key_row" where
  "rekey i h p r = (if ak_id r = i then r\<lparr>ak_key_hash := h, ak_key_prefix := p\<rparr> else r)"

lemma rekey_id [simp]: "ak_id (rekey i h p r) = ak_id r"
  by (simp add: rekey_def)

lemma key_table_replace:
  assumes "key_table bc kf rows" and "bc_hash bc salt key = Inr h"
  shows "key_table bc (kf(i := key)) (map (rekey i h (take 8 key)) rows)"
proof -
  have "(\<exists>salt. bc_hash bc salt ((kf(i := key)) (ak_id r)) = Inr (ak_key_hash (rekey i h (take 8 key) r))) \<and>
      ak_key_prefix (rekey i h (take 8 key) r) = take 8 ((kf(i := key)) (ak_id r))" if "r \<in> set rows" for r
    using assms that by (cases "ak_id r = i") (auto simp: key_table_def rekey_def)
  then show ?thesis
    using assms(1) by (auto simp: key_table_def o_def simp del: fun_upd_apply)
qed

lemma key_table_filter: "key_table bc kf rows \<Longrightarrow> key_table bc kf (filter p rows)"
  by (auto simp: key_table_def distinct_map_filter)

lemma expiry_wp:
  "wpE (expiry_of d) (\<lambda>_ t. tb_rows t = tb_rows s) (\<lambda>_ t. tb_rows t = tb_rows s) s"
  by (auto simp: expiry_of_def wp split: option.splits)

lemma new_key_wp:
  "wpE (new_key bc)
     (\<lambda>(key, h, p) t. (\<exists>salt. bc_hash bc salt key = Inr h) \<and> p = take 8 key \<and> (\<exists>n. t = s\<lparr>tb_draws := n\<rparr>))
     (\<lambda>e t. e \<noteq> DbPanic ''byte index is not a char boundary'' \<and> (\<exists>n. t = s\<lparr>tb_draws := n\<rparr>)) s"
  (is "wpE _ ?Q ?E s")
proof -
  have "wpE (bindE (hash_api_key bc key) (\<lambda>h. bindE (str_prefix key 8) (\<lambda>p. ret (key, h, p)))) ?Q ?E (s\<lparr>tb_draws := n\<rparr>)"
    if "length key = 39" "set key \<subseteq> set key_charset \<union> {CHR ''_''}" for key n
    using charset_boundary [OF that(2), of 8] that(1)
    by (auto simp: hash_api_key_def wp split: sum.splits)
  then show ?thesis
    unfolding new_key_def wpE_bindE [of generate_api_key]
    by (auto intro!: wpE_mono [OF generated_key [where E = ?E and s = s]])
qed

lemma create_key_wp:
  assumes "key_table bc kf (tb_rows s)"
  shows "wpE (create_api_key bc req)
    (\<lambda>resp t. let i = ak_id (akr_key resp)
       in i \<notin> ak_id ` set (tb_rows s) \<and> key_table bc (kf(i := akr_api_key resp)) (tb_rows t) \<and>
          ak_id ` set (tb_rows t) = insert i (ak_id ` set (tb_rows s)))
    (\<lambda>_ t. tb_rows t = tb_rows s) s"
proof -
  have "wpE (insert_key req key h (take 8 key))
    (\<lambda>resp t. let i = ak_id (akr_key resp)
       in i \<notin> ak_id ` set (tb_rows s) \<and> key_table bc (kf(i := akr_api_key resp)) (tb_rows t) \<and>
          ak_id ` set (tb_rows t) = insert i (ak_id ` set (tb_rows s)))
    (\<lambda>_ t. tb_rows t = tb_rows s) (s\<lparr>tb_draws := n\<rparr>)" if "bc_hash bc salt key = Inr h" for salt key h n
    unfolding insert_key_def wpE_bindE [of "expiry_of d" for d]
    by (rule wpE_mono [OF expiry_wp])
      (auto simp: wp Let_def key_constraints_def intro: key_table_append [OF assms that])
  then show ?thesis
    unfolding create_api_key_def wpE_bindE
    by (auto intro!: wpE_mono [OF new_key_wp [of bc s]])
qed

lemma find_Some_mem: "find p l = Some x \<Longrightarrow> x \<in> set l \<and> p x"
  by (auto simp: find_Some_iff)

lemma rotate_key_wp:
  assumes "key_table bc kf (tb_rows s)"
  shows "wpE (rotate_api_key bc show_uuid i)
    (\<lambda>resp t. i \<in> ak_id ` set (tb_rows s) \<and> key_table bc (kf(i := akr_api_key resp)) (tb_rows t) \<and>
       map ak_id (tb_rows t) = map ak_id (tb_rows s))
    (\<lambda>_ t. tb_rows t = tb_rows s) s"
proof -
  have "wpE (replace_key show_uuid i key h (take 8 key))
    (\<lambda>resp t. i \<in> ak_id ` set (tb_rows s) \<and> key_table bc (kf(i := akr_api_key resp)) (tb_rows t) \<and>
       map ak_id (tb_rows t) = map ak_id (tb_rows s))
    (\<lambda>_ t. tb_rows t = tb_rows s) (s\<lparr>tb_draws := n\<rparr>)" if "bc_hash bc salt key = Inr h" for salt key h n
    using key_table_replace [OF assms that, of i]
    by (auto simp: replace_key_def wp Let_def rekey_def [abs_def] image_iff
        dest: find_Some_mem split: option.splits)
  then show ?thesis
    unfolding rotate_api_key_def wpE_bindE
    by (auto intro!: wpE_mono [OF new_key_wp [of bc s]])
qed

section \<open>Examples\<close>

text \<open>A transparent hash, on which the library's law can be checked.\<close>

definition example_bcrypt :: bcrypt where
  "example_bcrypt = \<lparr>bc_hash = (\<lambda>salt key. Inr (show_nat salt @ ''$'' @ key)),
     bc_verify = (\<lambda>key h. Inr (key = drop 1 (dropWhile (\<lambda>c. c \<noteq> CHR ''$'') h)))\<rparr>"

lemma example_bcrypt_ok: "bcrypt_ok example_bcrypt"
proof -
  have no_dollar: "CHR ''$'' \<notin> set (show_nat n)" for n
    by (rule set_show_nat) (simp add: digit_val_def Let_def)
  have "dropWhile (\<lambda>c. c \<noteq> CHR ''$'') (show_nat n @ CHR ''$'' # key) = CHR ''$'' # key" for n key
    using no_dollar [of n] by (subst dropWhile_append2) auto
  then show ?thesis by (simp add: bcrypt_ok_def example_bcrypt_def)
qed

definition example_key :: key_row where
  "example_key = \<lparr>ak_id = 9, ak_key_hash = ''0$dsb_pk_abc'', ak_key_prefix = ''dsb_pk_a'', ak_name = ''ci'',
     ak_description = None, ak_scopes = JArray [], ak_is_active = True, ak_created_at = 0,
     ak_expires_at = None, ak_last_used_at = None, ak_created_by = None\<rparr>"

definition example_keys :: "key_row list \<Rightarrow> key_row table" where
  "example_keys rows = \<lparr>tb_rows = rows, tb_calls = 0, tb_up = (\<lambda>_. True), tb_clock = (\<lambda>n. int n * nanos_per_sec),
     tb_uuids = (\<lambda>n. of_nat n), tb_ticks = 0, tb_local_clock = (\<lambda>n. int n * nanos_per_sec), tb_draws = 0,
     tb_random = (\<lambda>n. n), tb_precision = (\<lambda>t. t)\<rparr>"

lemma example_keys_simps [simp]: "tb_rows (example_keys rows) = rows" "tb_reliable (example_keys rows)"
  by (simp_all add: example_keys_def tb_reliable_def)

lemma example_key_table: "key_table example_bcrypt (\<lambda>_. ''dsb_pk_abc'') [example_key]"
  by (auto simp: key_table_def example_key_def example_bcrypt_def intro!: exI [of _ 0])
    (simp add: show_nat.simps digit_char_def, code_simp)

section \<open>The middleware\<close>

lemma middleware_identity:
  assumes "au_require_auth st" and "\<not> open_path (rq_path rq)" and "\<not> starts_with (rq_path rq) ''/vnc/''"
    and "starts_with (rq_path rq) ''/static/'' \<Longrightarrow> au_static_server_require_auth st"
    and "api_key_auth st rq w = (Inr (Handler x), v)"
  shows "\<exists>ident. x = Some ident \<and>
    (cookie_identity st rq = Some ident \<or>
     (\<exists>key. provided_key rq = Inr (Some key) \<and>
        (ident = privileged_identity \<and> (au_admin_api_key st = Some key \<or> au_config_api_key st = Some key) \<or>
         (\<exists>store i. au_api_key_store st = Some store \<and> aks_validate_api_key store key w = (Inr (Some i), v) \<and>
            ident = database_identity i))))"
proof (cases "cookie_identity st rq")
  case (Some ident)
  with assms have "x = Some ident" by (simp add: api_key_auth_def auth_result_def ret_def)
  with Some show ?thesis by blast
next
  case None
  with assms obtain key where key: "provided_key rq = Inr (Some key)"
    and run: "bindE (key_identity st key) (\<lambda>ident. ret (auth_result st (rq_path rq) ident)) w = (Inr (Handler x), v)"
    by (auto simp: api_key_auth_def auth_result_def ret_def split: if_splits sum.splits option.splits)
  show ?thesis
    using run key assms(1-4)
    by (auto simp: key_identity_def try_validate_def bindE_def attempt_def ret_def throw_def auth_result_def
        split: if_splits option.splits sum.splits prod.splits db_error.splits)
qed

section \<open>Properties\<close>

text \<open>
  C9. Who reaches a handler: when authentication is required, a request to a path that is neither
  open nor left to its handler (\<open>/vnc/\<close>, and \<open>/static/\<close> without static authentication) reaches
  its handler only with an identity, and that identity comes from a session cookie, from the
  administration or configuration key, which make it privileged, or from a key that the store
  of API keys validated, which makes it the identity of that key.
\<close>

theorem auth_middleware_sound:
  assumes "au_require_auth st" and "\<not> open_path (rq_path rq)" and "\<not> starts_with (rq_path rq) ''/vnc/''"
    and "starts_with (rq_path rq) ''/static/'' \<Longrightarrow> au_static_server_require_auth st"
    and "api_key_auth st rq w = (Inr (Handler x), v)"
  shows "\<exists>ident. x = Some ident \<and>
    (cookie_identity st rq = Some ident \<or>
     (\<exists>key. provided_key rq = Inr (Some key) \<and>
        (ident = privileged_identity \<and> (au_admin_api_key st = Some key \<or> au_config_api_key st = Some key) \<or>
         (\<exists>store i. au_api_key_store st = Some store \<and> aks_validate_api_key store key w = (Inr (Some i), v) \<and>
            ident = database_identity i))))"
  using assms by (rule middleware_identity)

definition example_auth :: "key_row table AuthState" where
  "example_auth = \<lparr>au_config_api_key = None, au_admin_api_key = Some ''root'', au_require_auth = True,
     au_static_server_require_auth = True, au_vnc_require_auth = True,
     au_api_key_store = Some (PostgresApiKeyStore example_bcrypt (\<lambda>_. ''id'')),
     au_identity_to_json = (\<lambda>_. ''identity''), au_identity_from_json = (\<lambda>_. None)\<rparr>"

definition example_request :: http_request where
  "example_request = \<lparr>rq_path = ''/sandboxes'', rq_query = None, rq_upgrade = None,
     rq_x_api_key = Some ''dsb_pk_abc'', rq_authorization = None, rq_session_cookie = None\<rparr>"

theorem auth_middleware_sound_witness:
  "fst (api_key_auth example_auth example_request (example_keys [example_key])) =
     Inr (Handler (Some (database_identity 9))) \<and>
   au_require_auth example_auth \<and> \<not> open_path (rq_path example_request)"
proof -
  let ?w = "example_keys [example_key]"
  have run: "fst (api_key_auth example_auth example_request ?w) = Inr (Handler (Some (database_identity 9)))"
    by code_simp
  have "\<exists>ident. Some (database_identity 9) = Some ident \<and>
    (cookie_identity example_auth example_request = Some ident \<or>
     (\<exists>key. provided_key example_request = Inr (Some key) \<and>
        (ident = privileged_identity \<and> (au_admin_api_key example_auth = Some key \<or> au_config_api_key example_auth = Some key) \<or>
         (\<exists>store i. au_api_key_store example_auth = Some store \<and>
            aks_validate_api_key store key ?w = (Inr (Some i), snd (api_key_auth example_auth example_request ?w)) \<and>
            ident = database_identity i))))"
    by (rule auth_middleware_sound)
      (use run in \<open>auto simp: example_auth_def example_request_def open_path_def starts_with_def prod_eq_iff\<close>)
  with run show ?thesis by (simp add: example_auth_def example_request_def open_path_def starts_with_def)
qed

text \<open>
  C10. The store of keys implements a map from identifiers to keys: creation adds the new key under
  an unused identifier, rotation replaces the key of an identifier, deletion removes it and
  tells whether there was one, and an operation that fails leaves the table as it was.
\<close>

theorem api_key_store_refines:
  assumes "key_table bc kf (tb_rows s)"
  shows "(case create_api_key bc req s of
      (Inr resp, t) \<Rightarrow> ak_id (akr_key resp) \<notin> ak_id ` set (tb_rows s) \<and>
        key_table bc (kf(ak_id (akr_key resp) := akr_api_key resp)) (tb_rows t) \<and>
        ak_id ` set (tb_rows t) = insert (ak_id (akr_key resp)) (ak_id ` set (tb_rows s))
    | (Inl _, t) \<Rightarrow> tb_rows t = tb_rows s) \<and>
    (case rotate_api_key bc show_uuid i s of
      (Inr resp, t) \<Rightarrow> i \<in> ak_id ` set (tb_rows s) \<and> key_table bc (kf(i := akr_api_key resp)) (tb_rows t) \<and>
        map ak_id (tb_rows t) = map ak_id (tb_rows s)
    | (Inl _, t) \<Rightarrow> tb_rows t = tb_rows s) \<and>
    (case delete_api_key i s of
      (Inr deleted, t) \<Rightarrow> (deleted \<longleftrightarrow> i \<in> ak_id ` set (tb_rows s)) \<and> key_table bc kf (tb_rows t) \<and>
        ak_id ` set (tb_rows t) = ak_id ` set (tb_rows s) - {i}
    | (Inl _, t) \<Rightarrow> tb_rows t = tb_rows s)"
proof -
  have "wpE (delete_api_key i)
    (\<lambda>deleted t. (deleted \<longleftrightarrow> i \<in> ak_id ` set (tb_rows s)) \<and> key_table bc kf (tb_rows t) \<and>
        ak_id ` set (tb_rows t) = ak_id ` set (tb_rows s) - {i}) (\<lambda>_ t. tb_rows t = tb_rows s) s"
    using key_table_filter [OF assms]
    by (auto simp: delete_api_key_def wp Let_def filter_empty_conv image_iff)
  with create_key_wp [OF assms, of req] rotate_key_wp [OF assms, of show_uuid i] show ?thesis
    by (simp add: wpE_def Let_def split: prod.splits sum.splits)
qed

theorem api_key_store_refines_witness:
  "(case delete_api_key 9 (example_keys [example_key]) of
      (Inr deleted, t) \<Rightarrow> deleted \<and> ak_id ` set (tb_rows t) = {}
    | (Inl _, t) \<Rightarrow> tb_rows t = [example_key])"
  using api_key_store_refines [of example_bcrypt "\<lambda>_. ''dsb_pk_abc''" "example_keys [example_key]",
      where i = 9] example_key_table
  by (auto simp: example_key_def split: prod.splits sum.splits)



text \<open>
  A login can panic: with a connection at hand, a key whose eighth byte lies inside a character
  makes the store slice the string there.
\<close>

theorem login_can_panic:
  assumes "8 < length key" and "\<not> is_char_boundary key 8" and "tb_up s (tb_calls s)"
    and "au_api_key_store st = Some (PostgresApiKeyStore bc show_uuid)" and "au_admin_api_key st \<noteq> Some key"
  shows "\<exists>t. login st key s = (Inl (DbPanic ''byte index is not a char boundary''), t)"
  using assms
  by (simp add: login_def bindE_def attempt_def PostgresApiKeyStore_def validate_api_key_def tb_client_def
      tb_statement_def ret_def str_prefix_def throw_def min_def)

theorem login_can_panic_witness:
  "\<exists>t. login example_auth (replicate 9 (CHR 0x80)) (example_keys []) =
     (Inl (DbPanic ''byte index is not a char boundary''), t)"
  by (rule login_can_panic [of _ _ _ example_bcrypt "\<lambda>_. ''id''"])
    (simp_all add: is_char_boundary_def example_keys_def example_auth_def eval_nat_numeral)

end
