(* ===== verification/Gateway.thy ===== *)
theory Gateway
  imports AuthProps PgStore
begin

text \<open>
  Ways around the API that carry their own checks: session tokens (\<open>src/src/session_token.rs\<close>,
  \<open>src/src/db/session_token_store.rs\<close>, \<open>src/src/api/session_tokens.rs\<close>, \<open>src/src/tasks/mod.rs\<close>), the
  VNC proxy (\<open>src/src/vnc_proxy.rs\<close>) and the web terminal (\<open>src/src/web_terminal.rs\<close>), up to the
  point where the connection to the container is opened. Parsing an identifier is a parameter.
\<close>

section \<open>Session tokens\<close>

record SessionToken =
  st_token :: string
  st_sandbox_id :: string
  st_service :: string
  st_created_at :: time
  st_expires_at :: time

text \<open>The tables a request can reach: API keys, session tokens, and the sandboxes.\<close>

record ('j, 'b) portal =
  po_keys :: "key_row table"
  po_tokens :: "SessionToken table"
  po_world :: "('j pg, 'b) world"

type_synonym ('j, 'b, 'e, 'a) po = "(('j, 'b) portal, 'e, 'a) prog"

definition on_keys :: "(key_row table, 'e, 'a) prog \<Rightarrow> ('j, 'b, 'e, 'a) po" where
  "on_keys m p = (case m (po_keys p) of (r, t) \<Rightarrow> (r, p\<lparr>po_keys := t\<rparr>))"

definition on_tokens :: "(SessionToken table, 'e, 'a) prog \<Rightarrow> ('j, 'b, 'e, 'a) po" where
  "on_tokens m p = (case m (po_tokens p) of (r, t) \<Rightarrow> (r, p\<lparr>po_tokens := t\<rparr>))"

definition on_service :: "(('j pg, 'b) world, 'e, 'a) prog \<Rightarrow> ('j, 'b, 'e, 'a) po" where
  "on_service m p = (case m (po_world p) of (r, w) \<Rightarrow> (r, p\<lparr>po_world := w\<rparr>))"

definition on_sandboxes :: "('j pg, 'e, 'a) prog \<Rightarrow> ('j, 'b, 'e, 'a) po" where
  "on_sandboxes m = on_service (on_store m)"

text \<open>\<open>SessionToken::new\<close>: the sum of now and the lifetime may be out of the range of \<open>chrono\<close>.\<close>

definition session_token_new :: "string \<Rightarrow> string \<Rightarrow> string \<Rightarrow> i64 \<Rightarrow> (SessionToken, SessionToken) tb" where
  "session_token_new token sandbox_id service ttl_secs =
     bindE tb_utc_now (\<lambda>now. case add_seconds now (sint ttl_secs) of
       None \<Rightarrow> throw (DbPanic ''overflow in Duration or DateTime'')
     | Some t \<Rightarrow> ret \<lparr>st_token = token, st_sandbox_id = sandbox_id, st_service = service,
                     st_created_at = now, st_expires_at = t\<rparr>)"

definition is_expired :: "SessionToken \<Rightarrow> (SessionToken, bool) tb" where
  "is_expired st = bindE tb_utc_now (\<lambda>now. ret (st_expires_at st < now))"

definition session_token_validate :: "SessionToken \<Rightarrow> string \<Rightarrow> string \<Rightarrow> (SessionToken, bool) tb" where
  "session_token_validate st sandbox_id service =
     bindE (is_expired st) (\<lambda>expired.
     ret (\<not> expired \<and> st_sandbox_id st = sandbox_id \<and> st_service st = service))"

text \<open>The table: the token is the primary key and a token expires after its creation.\<close>

definition store_session_token :: "SessionToken \<Rightarrow> (SessionToken, unit) tb" where
  "store_session_token st =
     bindE tb_client (\<lambda>_.
     bindE tb_statement (\<lambda>_.
     bindE (gets (\<lambda>s. (st_token ` set (tb_rows s),
        st\<lparr>st_created_at := tb_precision s (st_created_at st), st_expires_at := tb_precision s (st_expires_at st)\<rparr>)))
       (\<lambda>(used, row).
     if st_token row \<in> used \<or> \<not> st_created_at row < st_expires_at row then throw (DbError ''constraint violation'')
     else modify (tb_rows_update (\<lambda>rows. rows @ [row])))))"

definition get_session_token :: "string \<Rightarrow> (SessionToken, SessionToken option) tb" where
  "get_session_token token =
     bindE tb_client (\<lambda>_.
     bindE (tb_query (\<lambda>r. st_token r = token)) (\<lambda>rows. case rows of
       [] \<Rightarrow> ret None
     | [row] \<Rightarrow> ret (Some row)
     | _ \<Rightarrow> throw (DbError ''query returned an unexpected number of rows'')))"

text \<open>
  The cleanup compares the expiry with the local time \<open>NOW() AT TIME ZONE 'UTC'\<close>, a time without
  zone, which the database reads in the zone of its session: \<open>zone\<close> is the offset of that zone
  to the east of Greenwich.
\<close>

definition delete_expired_tokens :: "int \<Rightarrow> (SessionToken, nat) tb" where
  "delete_expired_tokens zone =
     bindE tb_client (\<lambda>_.
     tb_execute (\<lambda>now r. st_expires_at r < now - zone) (\<lambda>now. filter (\<lambda>r. \<not> st_expires_at r < now - zone)))"

definition session_token_cleanup_tick :: "int \<Rightarrow> (SessionToken, unit) tb" where
  "session_token_cleanup_tick zone = bindE (attempt (delete_expired_tokens zone)) (\<lambda>_. ret ())"

record CreateSessionTokenRequest =
  cst_sandbox_id :: string
  cst_service :: string
  cst_ttl_secs :: u64

datatype api_failure = ApiFail ApiError | Panicked string

definition authorize_session_token_creation ::
  "(string \<Rightarrow> uuid option) \<Rightarrow> ('j pg, 'b) SandboxService \<Rightarrow> ApiKeyIdentity \<Rightarrow> string \<Rightarrow>
     (('j pg, 'b) world, ApiError, uuid) prog" where
  "authorize_session_token_creation parse_uuid svc ident sandbox_id =
     (case parse_uuid sandbox_id of
        None \<Rightarrow> throw (ApiValidation ''sandbox_id must be a valid UUID'' (Some ''sandbox_id'') EC_ValidationInvalidRequest)
      | Some i \<Rightarrow> bindE (check_sandbox_ownership svc ident i) (\<lambda>_. ret i))"

definition create_session_token ::
  "(string \<Rightarrow> uuid option) \<Rightarrow> ('j pg, 'b) SandboxService \<Rightarrow> ApiKeyIdentity \<Rightarrow> CreateSessionTokenRequest \<Rightarrow>
     ('j, 'b, api_failure, string \<times> time) po" where
  "create_session_token parse_uuid svc ident req =
     bindE (map_err ApiFail (on_service
       (authorize_session_token_creation parse_uuid svc ident (cst_sandbox_id req)))) (\<lambda>i.
     bindE (on_service new_v4) (\<lambda>fresh.
     bindE (gets (\<lambda>p. w_uuid_to_string (po_world p))) (\<lambda>show_uuid.
     bindE (map_err (\<lambda>e. Panicked ''overflow in Duration or DateTime'') (on_tokens
       (session_token_new (show_uuid fresh) (show_uuid i) (cst_service req) (cst_ttl_secs req)))) (\<lambda>token.
     bindE (map_err (\<lambda>e. ApiFail (ApiDatabase ''Failed to create session token'' EC_DatabaseQueryFailed
         (Some (case e of DbError m \<Rightarrow> m | DbPanic m \<Rightarrow> m))))
       (on_tokens (store_session_token token))) (\<lambda>_.
     ret (st_token token, st_expires_at token))))))"

text \<open>The response of the validation endpoint: whether the token is valid, and for what.\<close>

definition validate_session_token ::
  "string \<Rightarrow> ('j, 'b, nat, bool \<times> string option \<times> string option) po" where
  "validate_session_token token =
     bindE (attempt (on_tokens (get_session_token token))) (\<lambda>r. case r of
       Inr (Some st) \<Rightarrow>
         bindE (map_err (\<lambda>_. 500) (on_tokens (session_token_validate st (st_sandbox_id st) (st_service st)))) (\<lambda>valid.
         ret (valid, if valid then Some (st_sandbox_id st) else None, if valid then Some (st_service st) else None))
     | Inr None \<Rightarrow> ret (False, None, None)
     | Inl _ \<Rightarrow> throw 500)"

section \<open>Credentials of a proxy request\<close>

text \<open>A query parameter as the proxies read it: everything after the first equals sign.\<close>

definition query_param2 :: "string \<Rightarrow> string \<Rightarrow> string option" where
  "query_param2 name q =
     find_map (\<lambda>pair. case split_on (CHR ''='') pair of
         k # v # vs \<Rightarrow> if k = name then Some (join ''='' (v # vs)) else None
       | _ \<Rightarrow> None) (split_on (CHR ''&'') q)"

definition query_value :: "http_request \<Rightarrow> string \<Rightarrow> string option" where
  "query_value rq name = (case rq_query rq of None \<Rightarrow> None | Some q \<Rightarrow> query_param2 name q)"

definition optional_api_key :: "http_request \<Rightarrow> nat + string option" where
  "optional_api_key rq =
     (case rq_x_api_key rq of
        Some h \<Rightarrow> (case header_to_str h of None \<Rightarrow> Inl 401 | Some v \<Rightarrow> Inr (Some v))
      | None \<Rightarrow> Inr (query_value rq ''api_key''))"

definition optional_session_token :: "http_request \<Rightarrow> nat + string option" where
  "optional_session_token rq =
     (case rq_authorization rq of
        Some h \<Rightarrow>
          (case header_to_str h of
             None \<Rightarrow> Inl 401
           | Some tok \<Rightarrow>
               if starts_with tok ''Bearer '' then Inr (Some (drop 7 tok))
               else Inr (query_value rq ''token''))
      | None \<Rightarrow> Inr (query_value rq ''token''))"

text \<open>The check of the proxies' own keys; both proxies have the same function.\<close>

definition proxy_key_valid :: "string option \<Rightarrow> string option \<Rightarrow> string option \<Rightarrow> string + unit" where
  "proxy_key_valid api_key expected_key admin_key =
     (if expected_key \<noteq> None \<and> api_key = expected_key then Inr ()
      else if admin_key \<noteq> None \<and> api_key = admin_key then Inr ()
      else if expected_key = None \<and> admin_key = None then Inr ()
      else (case api_key of Some _ \<Rightarrow> Inl ''Invalid API key'' | None \<Rightarrow> Inl ''Missing API key''))"

section \<open>The proxies\<close>

record ProxyState =
  px_api_key :: "string option"
  px_admin_api_key :: "string option"
  px_vnc_require_auth :: bool
  px_db_pool :: bool
  px_database_url :: bool

definition container_query :: "ApiKeyIdentity option \<Rightarrow> uuid \<Rightarrow> 'j row \<Rightarrow> bool" where
  "container_query ident i r \<longleftrightarrow> r_id r = i \<and> r_deleted_at r = None \<and>
     (case ident of
        Some x \<Rightarrow> ident_key_type x = Database \<longrightarrow> r_api_key_id r = ident_id x
      | None \<Rightarrow> True)"

definition get_container_id ::
  "(string \<Rightarrow> uuid option) \<Rightarrow> ProxyState \<Rightarrow> string \<Rightarrow> ApiKeyIdentity option \<Rightarrow> ('j pg, string, string) prog" where
  "get_container_id parse_uuid px sandbox_id ident =
     (case parse_uuid sandbox_id of
        None \<Rightarrow> throw ''Invalid sandbox ID format''
      | Some i \<Rightarrow>
          if \<not> px_database_url px then throw ''Database URL not configured''
          else bindE pg_statement (\<lambda>_.
            if (case ident of Some x \<Rightarrow> ident_key_type x = Database \<and> ident_id x = None | None \<Rightarrow> False)
            then throw ''Database API key missing identity''
            else bindE pg_statement (\<lambda>_.
              bindE (gets (\<lambda>s. filter (container_query ident i) (pg_rows s))) (\<lambda>rows. case rows of
                [] \<Rightarrow> throw ''Sandbox not found''
              | [row] \<Rightarrow> (case r_container_id row of
                    None \<Rightarrow> throw ''Failed to get container_id''
                  | Some c \<Rightarrow> if c = [] then throw ''Sandbox has no container ID'' else ret c)
              | _ \<Rightarrow> throw ''Failed to query sandbox''))))"

definition open_container ::
  "(string \<Rightarrow> uuid option) \<Rightarrow> ProxyState \<Rightarrow> string \<Rightarrow> ApiKeyIdentity option \<Rightarrow> ('j, 'b, nat, string) po" where
  "open_container parse_uuid px sandbox_id ident =
     map_err (\<lambda>_. 404) (on_sandboxes (get_container_id parse_uuid px sandbox_id ident))"

text \<open>The answer of a proxy: a status, or the container to which the connection is opened.\<close>

definition vnc_websocket ::
  "(string \<Rightarrow> uuid option) \<Rightarrow> ProxyState \<Rightarrow> http_request \<Rightarrow> string \<Rightarrow> ApiKeyIdentity option \<Rightarrow>
     ('j, 'b, nat, string) po" where
  "vnc_websocket parse_uuid px rq sandbox_id ident =
     (case optional_api_key rq of
        Inl n \<Rightarrow> throw n
      | Inr api_key \<Rightarrow>
     (case optional_session_token rq of
        Inl n \<Rightarrow> throw n
      | Inr (Some token) \<Rightarrow>
          if \<not> px_db_pool px then throw 500
          else bindE (attempt (on_tokens (get_session_token token))) (\<lambda>r. case r of
              Inr (Some st) \<Rightarrow>
                bindE (map_err (\<lambda>_. 500) (on_tokens (session_token_validate st (st_sandbox_id st) ''vnc''))) (\<lambda>valid.
                if valid \<and> st_sandbox_id st = sandbox_id then open_container parse_uuid px sandbox_id ident
                else throw 401)
            | _ \<Rightarrow> throw 401)
      | Inr None \<Rightarrow>
          if px_vnc_require_auth px \<and> ident = None \<and>
             proxy_key_valid api_key (px_api_key px) (px_admin_api_key px) \<noteq> Inr ()
          then throw 401
          else open_container parse_uuid px sandbox_id ident))"

definition terminal_websocket ::
  "(string \<Rightarrow> uuid option) \<Rightarrow> ProxyState \<Rightarrow> http_request \<Rightarrow> string \<Rightarrow> ApiKeyIdentity option \<Rightarrow>
     ('j, 'b, nat, string) po" where
  "terminal_websocket parse_uuid px rq sandbox_id ident =
     (case optional_api_key rq of
        Inl n \<Rightarrow> throw n
      | Inr api_key \<Rightarrow>
          if ident = None \<and> proxy_key_valid api_key (px_api_key px) (px_admin_api_key px) \<noteq> Inr ()
          then throw 401
          else open_container parse_uuid px sandbox_id ident)"

text \<open>A request to \<open>/vnc/{sandbox_id}\<close> or \<open>/terminal/{sandbox_id}\<close> passes the middleware first.\<close>

definition proxy_route ::
  "key_row table AuthState \<Rightarrow> http_request \<Rightarrow> (ApiKeyIdentity option \<Rightarrow> ('j, 'b, nat, string) po) \<Rightarrow>
     ('j, 'b, nat, string) po" where
  "proxy_route au rq handler =
     bindE (map_err (\<lambda>_. 500) (on_keys (api_key_auth au rq))) (\<lambda>outcome. case outcome of
       Status n \<Rightarrow> throw n
     | Handler ident \<Rightarrow> handler ident)"

end
