(* ===== verification/GatewayProps.thy ===== *)
theory GatewayProps
  imports Gateway Jsonb
begin

text \<open>
  Who gets through the proxies, and what session tokens guarantee: a connection is opened only
  to the container of the requested, live sandbox; tokens are accepted until they expire.
\<close>

section \<open>Running a part of the portal\<close>

lemma wpE_on_tokens [wp]: "wpE (on_tokens m) Q E p = wpE m (\<lambda>a t. Q a (p\<lparr>po_tokens := t\<rparr>)) (\<lambda>e t. E e (p\<lparr>po_tokens := t\<rparr>)) (po_tokens p)"
  by (simp add: on_tokens_def wpE_def split: prod.splits sum.splits)

lemma wpE_on_keys [wp]: "wpE (on_keys m) Q E p = wpE m (\<lambda>a t. Q a (p\<lparr>po_keys := t\<rparr>)) (\<lambda>e t. E e (p\<lparr>po_keys := t\<rparr>)) (po_keys p)"
  by (simp add: on_keys_def wpE_def split: prod.splits sum.splits)

lemma wpE_on_service [wp]: "wpE (on_service m) Q E p = wpE m (\<lambda>a t. Q a (p\<lparr>po_world := t\<rparr>)) (\<lambda>e t. E e (p\<lparr>po_world := t\<rparr>)) (po_world p)"
  by (simp add: on_service_def wpE_def split: prod.splits sum.splits)

section \<open>The proxies\<close>

text \<open>What an opened connection leads to.\<close>

definition proxied :: "'j row list \<Rightarrow> uuid option \<Rightarrow> ApiKeyIdentity option \<Rightarrow> string \<Rightarrow> bool" where
  "proxied rows i ident c \<longleftrightarrow>
     (\<exists>r. r \<in> set rows \<and> Some (r_id r) = i \<and> r_deleted_at r = None \<and> r_container_id r = Some c \<and> c \<noteq> [] \<and>
        pred_option (\<lambda>x. ident_key_type x = Database \<longrightarrow> ident_id x \<noteq> None \<and> r_api_key_id r = ident_id x) ident)"

abbreviation portal_rows :: "('j, 'b) portal \<Rightarrow> 'j row list" where
  "portal_rows p \<equiv> pg_rows (w_store (po_world p))"

lemma starts_with_nth: "starts_with x p \<Longrightarrow> i < length p \<Longrightarrow> x ! i = p ! i"
  unfolding starts_with_def by (metis nth_take)

lemma filter_single_mem: "filter q xs = [x] \<Longrightarrow> x \<in> set xs \<and> q x"
  by (metis filter_eq_Cons_iff in_set_conv_decomp)

lemma get_container_id_wp:
  "wpE (get_container_id parse px sid ident) (\<lambda>c _. proxied (pg_rows s) (parse sid) ident c) (\<lambda>_ _. True) s"
  by (auto simp: get_container_id_def wp Let_def wpE_def [of pg_statement] pg_statement_def container_query_def
      proxied_def pred_option_def split: option.splits list.splits dest!: filter_single_mem)

lemma open_container_wp:
  "wpE (open_container parse px sid ident) (\<lambda>c _. proxied (portal_rows p) (parse sid) ident c) (\<lambda>_ _. True) p"
proof -
  have "wpE (on_store (get_container_id parse px sid ident))
      (\<lambda>c _. proxied (portal_rows p) (parse sid) ident c) (\<lambda>_ _. True) (po_world p)"
    using get_container_id_wp [of parse px sid ident "w_store (po_world p)"]
    by (auto simp: on_store_def wpE_def split: prod.splits sum.splits)
  then show ?thesis by (simp add: open_container_def on_sandboxes_def wp)
qed

lemma get_session_token_wp:
  "wpE (get_session_token token)
     (\<lambda>r t. (\<exists>n. t = s\<lparr>tb_calls := n\<rparr>) \<and> pred_option (\<lambda>st. st \<in> set (tb_rows s) \<and> st_token st = token) r)
     (\<lambda>_ t. \<exists>n. t = s\<lparr>tb_calls := n\<rparr>) s"
  by (auto simp: get_session_token_def wp Let_def split: list.splits dest!: filter_single_mem)

lemma session_token_validate_wp [wp]:
  "wpE (session_token_validate st sid service) Q E s =
     Q (tb_local_clock s (tb_ticks s) \<le> st_expires_at st \<and> st_sandbox_id st = sid \<and> st_service st = service)
       (s\<lparr>tb_ticks := Suc (tb_ticks s)\<rparr>)"
  by (simp add: session_token_validate_def is_expired_def wp not_less)

lemma filter_append_fresh: "st_token r \<notin> st_token ` set rows \<Longrightarrow> filter (\<lambda>x. st_token x = st_token r) (rows @ [r]) = [r]"
  by (auto simp: filter_empty_conv image_iff)

lemma validate_session_token_run:
  assumes "tb_reliable (po_tokens p)" and "filter (\<lambda>x. st_token x = tok) (tb_rows (po_tokens p)) = [st]"
  shows "fst (validate_session_token tok p) =
    Inr (if tb_local_clock (po_tokens p) (tb_ticks (po_tokens p)) \<le> st_expires_at st
         then (True, Some (st_sandbox_id st), Some (st_service st)) else (False, None, None))"
  using assms
  by (simp add: validate_session_token_def get_session_token_def tb_client_def tb_query_def tb_statement_def
      session_token_validate_def is_expired_def tb_utc_now_def on_tokens_def attempt_def map_err_def
      bindE_def ret_def gets_def tb_reliable_up not_less)

lemma store_session_token_wp:
  "wpE (store_session_token st)
     (\<lambda>_ t. \<exists>row. tb_rows t = tb_rows s @ [row] \<and> tb_reliable t = tb_reliable s \<and> st_token st \<notin> st_token ` set (tb_rows s) \<and>
        row = st\<lparr>st_created_at := tb_precision s (st_created_at st), st_expires_at := tb_precision s (st_expires_at st)\<rparr> \<and>
        st_created_at row < st_expires_at row) (\<lambda>_ _. True) s"
  by (simp add: store_session_token_def wp Let_def)

lemma session_token_new_wp:
  "wpE (session_token_new token sid service ttl)
     (\<lambda>st t. tb_rows t = tb_rows s \<and> tb_reliable t = tb_reliable s \<and> tb_precision t = tb_precision s \<and>
        st = \<lparr>st_token = token, st_sandbox_id = sid, st_service = service, st_created_at = tb_local_clock s (tb_ticks s),
              st_expires_at = tb_local_clock s (tb_ticks s) + sint ttl * nanos_per_sec\<rparr>) (\<lambda>_ _. True) s"
  by (auto simp: session_token_new_def wp add_seconds_def)

section \<open>An example\<close>

definition example_token :: SessionToken where
  "example_token = \<lparr>st_token = ''tok'', st_sandbox_id = ''sb'', st_service = ''vnc'', st_created_at = 0,
     st_expires_at = 300 * nanos_per_sec\<rparr>"

definition example_portal :: "SessionToken list \<Rightarrow> (json, example_containers) portal" where
  "example_portal l =
     \<lparr>po_keys = example_keys [example_key],
      po_tokens = \<lparr>tb_rows = l, tb_calls = 0, tb_up = (\<lambda>_. True), tb_clock = (\<lambda>n. int n * nanos_per_sec),
        tb_uuids = (\<lambda>n. of_nat n), tb_ticks = 0, tb_local_clock = (\<lambda>n. int n * nanos_per_sec), tb_draws = 0,
        tb_random = (\<lambda>n. n), tb_precision = (\<lambda>t. t)\<rparr>,
      po_world = \<lparr>w_store = example_pg [example_with_command], w_backend = [], w_activities = [], w_ticks = 0,
        w_uuids = 0, w_db_calls = 0, w_clock = (\<lambda>n. int n * nanos_per_sec), w_uuid_src = (\<lambda>n. of_nat n + 100),
        w_db_up = (\<lambda>_. True), w_uuid_to_string = (\<lambda>i. show_nat (unat i)),
        w_parse_label = (\<lambda>_. Inl ''no label'')\<rparr>\<rparr>"

definition example_proxy :: ProxyState where
  "example_proxy = \<lparr>px_api_key = None, px_admin_api_key = None, px_vnc_require_auth = True,
     px_db_pool = True, px_database_url = True\<rparr>"

definition example_parse :: "string \<Rightarrow> uuid option" where
  "example_parse x = (if x = ''sb'' then Some 7 else None)"

lemma example_portal_rows [simp]: "map r_id (portal_rows (example_portal l)) = [7]"
  by (simp add: example_portal_def example_pg_def insert_row_def example_with_command_def)

section \<open>Properties\<close>


definition example_vnc_request :: "string option \<Rightarrow> http_request" where
  "example_vnc_request q = \<lparr>rq_path = ''/vnc/sb'', rq_query = q, rq_upgrade = Some ''websocket'',
     rq_x_api_key = None, rq_authorization = None, rq_session_cookie = None\<rparr>"




text \<open>
  The VNC proxy without configured keys is open: when authentication is required both of the
  API and of VNC, but only keys of the database exist (neither the proxy's own key nor the
  administration key is set), a WebSocket request without any credential passes the middleware
  and the proxy's check and is connected, to any sandbox, like a privileged caller.
\<close>

theorem vnc_open_without_keys:
  assumes "au_require_auth au" and "px_vnc_require_auth px" and "px_api_key px = None" and "px_admin_api_key px = None"
    and "starts_with (rq_path rq) ''/vnc/''" and "is_websocket rq"
    and "rq_session_cookie rq = None" and "rq_x_api_key rq = None" and "rq_authorization rq = None" and "rq_query rq = None"
  shows "proxy_route au rq (vnc_websocket parse_uuid px rq sandbox_id) p = open_container parse_uuid px sandbox_id None p"
proof -
  have "\<not> open_path (rq_path rq)" 
    using starts_with_nth [OF assms(5), of 1] by (auto simp: open_path_def dest!: starts_with_nth [where i = 1])
  with assms have "api_key_auth au rq t = (Inr (Handler None), t)" for t
    by (simp add: api_key_auth_def cookie_identity_def provided_key_def auth_result_def ret_def)
  then show ?thesis
    using assms by (simp add: proxy_route_def on_keys_def bindE_def map_err_def vnc_websocket_def
        optional_api_key_def optional_session_token_def query_value_def proxy_key_valid_def)
qed

theorem vnc_open_without_keys_witness:
  "fst (proxy_route example_auth (example_vnc_request None)
      (vnc_websocket example_parse example_proxy (example_vnc_request None) ''sb'') (example_portal [])) = Inr ''c''"
proof -
  have ws: "is_websocket (example_vnc_request None)" by code_simp
  have "fst (open_container example_parse example_proxy ''sb'' None (example_portal [])) = Inr ''c''" by code_simp
  with vnc_open_without_keys [OF _ _ _ _ _ ws, of example_auth example_proxy example_parse "''sb''" "example_portal []"]
  show ?thesis by (simp add: example_auth_def example_proxy_def example_vnc_request_def starts_with_def)
qed

text \<open>
  The life of a session token: a token is handed out only to a caller who passes the ownership
  check of the sandbox, with a positive lifetime counted from now; from then on it validates,
  for that sandbox and service, exactly until its expiry.
\<close>

theorem session_token_lifetime:
  assumes "create_session_token parse_uuid svc ident req p = (Inr (tok, expires), v)" and "tb_reliable (po_tokens p)"
  shows "\<exists>i w. parse_uuid (cst_sandbox_id req) = Some i \<and>
    check_sandbox_ownership svc ident i (po_world p) = (Inr (), w) \<and>
    expires = tb_local_clock (po_tokens p) (tb_ticks (po_tokens p)) + sint (cst_ttl_secs req) * nanos_per_sec \<and>
    (\<forall>now. fst (validate_session_token tok (v\<lparr>po_tokens := (po_tokens v)\<lparr>tb_local_clock := (\<lambda>_. now)\<rparr>\<rparr>)) =
       Inr (if now \<le> tb_precision (po_tokens p) expires
            then (True, Some (w_uuid_to_string w i), Some (cst_service req)) else (False, None, None)))"
proof -
  obtain i w fresh w1 st t u where run: "authorize_session_token_creation parse_uuid svc ident (cst_sandbox_id req) (po_world p) = (Inr i, w)"
    and fresh: "new_v4 w = (Inr fresh :: api_failure + uuid, w1)"
    and tok: "session_token_new (w_uuid_to_string w1 fresh) (w_uuid_to_string w1 i) (cst_service req) (cst_ttl_secs req) (po_tokens p) = (Inr st, t)"
    and ins: "store_session_token st t = (Inr (), u)" and v: "v = p\<lparr>po_world := w1, po_tokens := u\<rparr>"
    and res: "tok = st_token st" "expires = st_expires_at st"
    using assms(1) by (auto simp: create_session_token_def on_tokens_def on_service_def bindE_def map_err_def ret_def gets_def
        split: prod.splits sum.splits)
  have own: "parse_uuid (cst_sandbox_id req) = Some i" "check_sandbox_ownership svc ident i (po_world p) = (Inr (), w)"
    using run by (auto simp: authorize_session_token_creation_def throw_def bindE_def ret_def split: option.splits prod.splits sum.splits)
  have w1: "w_uuid_to_string w1 = w_uuid_to_string w" using fresh by (auto simp: new_v4_def)
  note new = wpE_okD [OF session_token_new_wp tok] and row = wpE_okD [OF store_session_token_wp ins]
  then obtain row where row: "tb_rows u = tb_rows t @ [row]" "st_token st \<notin> st_token ` set (tb_rows t)"
    "row = st\<lparr>st_created_at := tb_precision t (st_created_at st), st_expires_at := tb_precision t (st_expires_at st)\<rparr>"
    "tb_reliable u" using assms(2) by auto
  have one: "filter (\<lambda>x. st_token x = tok) (tb_rows u) = [row]"
    using filter_append_fresh [of row "tb_rows t"] row by (simp add: res)
  have "fst (validate_session_token tok (v\<lparr>po_tokens := (po_tokens v)\<lparr>tb_local_clock := (\<lambda>_. now)\<rparr>\<rparr>)) =
       Inr (if now \<le> tb_precision (po_tokens p) expires
            then (True, Some (w_uuid_to_string w i), Some (cst_service req)) else (False, None, None))" for now
    by (subst validate_session_token_run [where st = row])
      (use one row new in \<open>simp_all add: v res w1 tb_reliable_def\<close>)
  with own new res show ?thesis by auto
qed

definition example_token_request :: CreateSessionTokenRequest where
  "example_token_request = \<lparr>cst_sandbox_id = ''sb'', cst_service = ''vnc'', cst_ttl_secs = 300\<rparr>"

abbreviation example_portal_service :: "(json pg, example_containers) SandboxService" where
  "example_portal_service \<equiv> service_new example_backend (PostgresStateStore (jsonb_codec id))"

theorem session_token_lifetime_witness:
  "fst (create_session_token example_parse example_portal_service privileged_identity example_token_request (example_portal [])) =
     Inr (''100'', 300 * nanos_per_sec) \<and>
   fst (validate_session_token ''100''
     (snd (create_session_token example_parse example_portal_service privileged_identity example_token_request (example_portal [])))) =
     Inr (True, Some ''7'', Some ''vnc'')"
proof -
  let ?c = "create_session_token example_parse example_portal_service privileged_identity example_token_request (example_portal [])"
  have run: "fst ?c = Inr (''100'', 300 * nanos_per_sec)" by code_simp
  then have "?c = (Inr (''100'', 300 * nanos_per_sec), snd ?c)" by (simp add: prod_eq_iff)
  from session_token_lifetime [OF this]
  have "\<exists>i. example_parse ''sb'' = Some i"
    by (auto simp: example_token_request_def example_portal_def tb_reliable_def)
  moreover have "fst (validate_session_token ''100'' (snd ?c)) = Inr (True, Some ''7'', Some ''vnc'')" by code_simp
  ultimately show ?thesis using run by blast
qed

text \<open>
  The cleanup of session tokens compares the expiry with a time without zone: it removes the
  tokens that expired before now less the offset of the database session's time zone. In UTC
  these are exactly the expired tokens; west of it (a negative offset) tokens are removed while
  they are still valid, east of it expired ones stay.
\<close>

theorem token_cleanup_zone:
  assumes "tb_reliable s"
  shows "tb_rows (snd (session_token_cleanup_tick zone s)) =
    filter (\<lambda>r. tb_clock s (Suc (tb_calls s)) \<le> st_expires_at r + zone) (tb_rows s)"
  using assms
  by (simp add: session_token_cleanup_tick_def delete_expired_tokens_def tb_client_def tb_execute_def tb_statement_def
      attempt_def bindE_def ret_def gets_def modify_def tb_reliable_up not_less diff_le_eq)

theorem token_cleanup_zone_witness:
  "tb_rows (snd (session_token_cleanup_tick (-5 * 3600 * nanos_per_sec) (po_tokens (example_portal [example_token])))) = [] \<and>
   tb_rows (snd (session_token_cleanup_tick 0 (po_tokens (example_portal [example_token])))) = [example_token] \<and>
   tb_clock (po_tokens (example_portal [example_token])) 1 < st_expires_at example_token"
  using token_cleanup_zone [of "po_tokens (example_portal [example_token])" "-5 * 3600 * nanos_per_sec"]
    token_cleanup_zone [of "po_tokens (example_portal [example_token])" 0]
  by (simp add: example_portal_def tb_reliable_def example_token_def nanos_per_sec_def)

end
