(* ===== verification/Paths.thy ===== *)
theory Paths
  imports Types
begin

text \<open>
  Paths that come from clients: the components of a path as \<open>std::path::Path\<close> iterates them on
  Unix, the normalisation the file endpoints apply (\<open>sanitize_path\<close> and \<open>extract_filename\<close> of
  \<open>src/src/api/handlers/sandbox.rs\<close>), the wrapping of commands for the shell, and the content
  type of a file name (\<open>src/src/utils/mime.rs\<close>).
\<close>

section \<open>Components\<close>

datatype Component = RootDir | CurDir | ParentDir | Normal string

definition is_absolute :: "string \<Rightarrow> bool" where
  "is_absolute p = starts_with p ''/''"

definition piece_component :: "string \<Rightarrow> Component" where
  "piece_component s = (if s = ''..'' then ParentDir else Normal s)"

text \<open>Empty pieces and dots are dropped, except for a dot at the start of a relative path.\<close>

definition path_components :: "string \<Rightarrow> Component list" where
  "path_components p =
     (if is_absolute p then [RootDir] else if hd (split_on (CHR ''/'') p) = ''.'' then [CurDir] else []) @
     map piece_component (filter (\<lambda>s. s \<noteq> [] \<and> s \<noteq> ''.'') (split_on (CHR ''/'') p))"

definition path_file_name :: "string \<Rightarrow> string option" where
  "path_file_name p =
     (case rev (path_components p) of
        Normal s # _ \<Rightarrow> Some s
      | _ \<Rightarrow> None)"

text \<open>The text after the last dot of the file name, unless that dot is its first character.\<close>

definition path_extension :: "string \<Rightarrow> string option" where
  "path_extension p =
     (case path_file_name p of
        None \<Rightarrow> None
      | Some name \<Rightarrow>
          (let ext = rev (takeWhile (\<lambda>c. c \<noteq> CHR ''.'') (rev name));
               stem = length name - length ext - 1
           in if CHR ''.'' \<in> set name \<and> 0 < stem then Some ext else None))"

section \<open>Normalisation of client paths\<close>

text \<open>
  \<open>char::is_control\<close> on the UTF-8 bytes: the C0 range and DEL are single bytes, the C1 range
  is the byte \<open>C2\<close> followed by a byte between \<open>80\<close> and \<open>9F\<close>.
\<close>

fun has_control :: "string \<Rightarrow> bool" where
  "has_control [] = False"
| "has_control (c # s) =
     ((of_char c :: nat) < 32 \<or> (of_char c :: nat) = 127 \<or>
      ((of_char c :: nat) = 194 \<and> s \<noteq> [] \<and> 128 \<le> (of_char (hd s) :: nat) \<and> (of_char (hd s) :: nat) < 160) \<or>
      has_control s)"

definition path_error :: "string \<Rightarrow> ApiError" where
  "path_error m = ApiValidation m (Some ''path'') EC_ValidationError"

fun collect_components :: "Component list \<Rightarrow> string list \<Rightarrow> bool \<Rightarrow> ApiError + string list \<times> bool" where
  "collect_components [] acc absolute = Inr (acc, absolute)"
| "collect_components (Normal s # cs) acc absolute = collect_components cs (acc @ [s]) absolute"
| "collect_components (ParentDir # cs) acc absolute = Inl (path_error ''Invalid path: contains directory traversal'')"
| "collect_components (RootDir # cs) acc absolute = collect_components cs acc True"
| "collect_components (CurDir # cs) acc absolute = collect_components cs acc absolute"

definition sanitize_path :: "string \<Rightarrow> ApiError + string" where
  "sanitize_path path =
     (if CHR 0x00 \<in> set path then Inl (path_error ''Invalid path: contains null bytes'')
      else if has_control path then Inl (path_error ''Invalid path: contains control characters'')
      else if CHR 0x5C \<in> set path then Inl (path_error ''Invalid path: contains backslashes'')
      else (case collect_components (path_components path) [] False of
          Inl e \<Rightarrow> Inl e
        | Inr (components, absolute) \<Rightarrow>
            (let normalized = (if absolute then ''/'' @ join ''/'' components else join ''/'' components)
             in if normalized = [] then Inl (path_error ''Invalid path: path is empty'')
                else Inr normalized)))"

definition extract_filename :: "string \<Rightarrow> string" where
  "extract_filename path = (case path_file_name path of Some s \<Rightarrow> s | None \<Rightarrow> ''uploaded_file'')"

definition wrap_shell_command :: "string list \<Rightarrow> string list" where
  "wrap_shell_command command =
     (if 2 \<le> length command \<and> command ! 0 = ''sh'' \<and> command ! 1 = ''-c'' then command
      else [''sh'', ''-c'', join '' '' command])"

section \<open>Content types\<close>

definition mime_table :: "(string list \<times> string) list" where
  "mime_table =
     [([''html'', ''htm''], ''text/html''), ([''css''], ''text/css''),
      ([''js'', ''mjs'', ''cjs''], ''application/javascript''), ([''json''], ''application/json''),
      ([''xml'', ''xsl'', ''xsd''], ''application/xml''), ([''png''], ''image/png''),
      ([''jpg'', ''jpeg'', ''jpe''], ''image/jpeg''), ([''gif''], ''image/gif''),
      ([''svg'', ''svgz''], ''image/svg+xml''), ([''ico''], ''image/x-icon''), ([''webp''], ''image/webp''),
      ([''bmp''], ''image/bmp''), ([''tiff'', ''tif''], ''image/tiff''), ([''woff''], ''font/woff''),
      ([''woff2''], ''font/woff2''), ([''ttf''], ''font/ttf''), ([''otf''], ''font/otf''),
      ([''eot''], ''application/vnd.ms-fontobject''), ([''txt''], ''text/plain''),
      ([''md'', ''markdown''], ''text/markdown''), ([''csv''], ''text/csv''), ([''pdf''], ''application/pdf''),
      ([''zip''], ''application/zip''), ([''tar''], ''application/x-tar''), ([''gz'', ''gzip''], ''application/gzip''),
      ([''rar''], ''application/vnd.rar''), ([''7z''], ''application/x-7z-compressed''),
      ([''wasm''], ''application/wasm''), ([''webmanifest''], ''application/manifest+json''),
      ([''mp3''], ''audio/mpeg''), ([''wav''], ''audio/wav''), ([''ogg''], ''audio/ogg''),
      ([''mp4''], ''video/mp4''), ([''webm''], ''video/webm''), ([''avi''], ''video/x-msvideo'')]"

definition detect_mime_type :: "string \<Rightarrow> string" where
  "detect_mime_type file_path =
     (case path_extension file_path of
        None \<Rightarrow> ''application/octet-stream''
      | Some ext \<Rightarrow>
          (case find (\<lambda>(exts, _). ext \<in> set exts) mime_table of
             Some (_, ty) \<Rightarrow> ty
           | None \<Rightarrow> ''application/octet-stream''))"

section \<open>What normalisation guarantees\<close>

lemma collect_components_normal:
  "collect_components (map piece_component ps) acc a =
     (if ''..'' \<in> set ps then Inl (path_error ''Invalid path: contains directory traversal'') else Inr (acc @ ps, a))"
  by (induction ps arbitrary: acc) (auto simp: piece_component_def)

definition pieces :: "string \<Rightarrow> string list" where
  "pieces p = filter (\<lambda>s. s \<noteq> [] \<and> s \<noteq> ''.'') (split_on (CHR ''/'') p)"

lemma collect_path:
  "collect_components (path_components p) [] False =
     (if ''..'' \<in> set (pieces p) then Inl (path_error ''Invalid path: contains directory traversal'')
      else Inr (pieces p, is_absolute p))"
  by (simp add: path_components_def pieces_def collect_components_normal)

definition rebuild :: "bool \<Rightarrow> string list \<Rightarrow> string" where
  "rebuild absolute ps = (if absolute then ''/'' @ join ''/'' ps else join ''/'' ps)"

lemma sanitize_path_Inr:
  "sanitize_path p = Inr q \<longleftrightarrow>
     \<not> has_control p \<and> CHR 0x5C \<notin> set p \<and> ''..'' \<notin> set (pieces p) \<and> q = rebuild (is_absolute p) (pieces p) \<and> q \<noteq> []"
proof -
  have "CHR 0x00 \<in> set p \<Longrightarrow> has_control p" by (induction p) auto
  then show ?thesis
    by (auto simp: sanitize_path_def collect_path rebuild_def Let_def)
qed

definition good_piece :: "string \<Rightarrow> bool" where
  "good_piece s \<longleftrightarrow> s \<noteq> [] \<and> s \<noteq> ''.'' \<and> CHR ''/'' \<notin> set s"

lemma pieces_good: "list_all good_piece (pieces p)"
  by (auto simp: list_all_iff pieces_def good_piece_def dest: split_on_pieces)

lemma split_on_join:
  "ps \<noteq> [] \<Longrightarrow> list_all (\<lambda>q. d \<notin> set q) ps \<Longrightarrow> split_on d (join [d] ps) = ps"
proof (induction ps)
  case (Cons q qs)
  then show ?case
    by (cases "qs = []") (simp_all add: join_Cons split_on_plain split_on_append)
qed simp

lemma filter_good: "list_all good_piece ps \<Longrightarrow> filter (\<lambda>s. s \<noteq> [] \<and> s \<noteq> ''.'') ps = ps"
  by (induction ps) (auto simp: good_piece_def)

lemma pieces_join: "list_all good_piece ps \<Longrightarrow> pieces (join ''/'' ps) = ps"
proof (cases "ps = []")
  case False
  assume good: "list_all good_piece ps"
  then have "list_all (\<lambda>q. CHR ''/'' \<notin> set q) ps" by (auto simp: list_all_iff good_piece_def)
  with False good show ?thesis by (simp add: pieces_def split_on_join filter_good)
qed (simp add: pieces_def)

lemma pieces_rebuild: "list_all good_piece ps \<Longrightarrow> pieces (rebuild a ps) = ps"
proof -
  assume good: "list_all good_piece ps"
  have "pieces (''/'' @ q) = pieces q" for q by (simp add: pieces_def)
  with pieces_join [OF good] show ?thesis by (simp add: rebuild_def)
qed

lemma is_absolute_rebuild: "list_all good_piece ps \<Longrightarrow> is_absolute (rebuild a ps) = a"
proof (cases ps)
  case (Cons q qs)
  assume "list_all good_piece ps"
  then obtain c r where "q = c # r" "c \<noteq> CHR ''/''" using Cons by (cases q) (auto simp: good_piece_def)
  with Cons show ?thesis
    by (cases "qs = []") (auto simp: is_absolute_def rebuild_def starts_with_def join_Cons)
qed (auto simp: is_absolute_def rebuild_def starts_with_def)

lemma rebuild_empty: "list_all good_piece ps \<Longrightarrow> rebuild a ps = [] \<longleftrightarrow> \<not> a \<and> ps = []"
  by (cases ps; cases "tl ps") (auto simp: rebuild_def good_piece_def)

lemma has_control_slash: "has_control (a @ CHR ''/'' # b) \<longleftrightarrow> has_control a \<or> has_control b"
proof (induction a)
  case (Cons c a)
  then show ?case by (cases a) auto
qed simp

lemma has_control_join: "has_control (join ''/'' ps) \<longleftrightarrow> list_ex has_control ps"
proof (induction ps)
  case (Cons q qs)
  then show ?case by (cases "qs = []") (auto simp: join_Cons has_control_slash)
qed simp

lemma has_control_split: "has_control p \<longleftrightarrow> list_ex has_control (split_on (CHR ''/'') p)"
  using has_control_join [of "split_on (CHR ''/'') p"] by (simp add: join_split_on)

lemma has_control_rebuild: "\<not> has_control p \<Longrightarrow> \<not> has_control (rebuild a (pieces p))"
  using has_control_slash [of "[]"]
  by (auto simp: rebuild_def has_control_join has_control_split [of p] list_ex_iff pieces_def)

lemma set_join: "set (join sep ps) \<subseteq> set sep \<union> \<Union> (set ` set ps)"
  by (induction sep ps rule: join.induct) auto

lemma set_split_on: "q \<in> set (split_on d s) \<Longrightarrow> set q \<subseteq> set s"
proof (induction s arbitrary: q)
  case (Cons c s)
  obtain r rs where "split_on d s = r # rs" by (cases "split_on d s") simp_all
  with Cons.IH [of r] Cons.IH [of q] Cons.prems show ?case by (auto split: if_splits)
qed simp

lemma set_rebuild: "set (rebuild a (pieces p)) \<subseteq> insert (CHR ''/'') (set p)"
proof -
  have "\<Union> (set ` set (pieces p)) \<subseteq> set p" using set_split_on [of _ "CHR ''/''" p] by (auto simp: pieces_def)
  then have "set (join ''/'' (pieces p)) \<subseteq> insert (CHR ''/'') (set p)" using set_join [of "''/''" "pieces p"] by fastforce
  then show ?thesis by (simp add: rebuild_def)
qed

lemma sanitize_idem:
  assumes "sanitize_path p = Inr q"
  shows "sanitize_path q = Inr q" and "pieces q = pieces p" and "is_absolute q = is_absolute p"
    and "\<not> has_control q" and "CHR 0x5C \<notin> set q"
proof -
  have ok: "\<not> has_control p" "CHR 0x5C \<notin> set p" "''..'' \<notin> set (pieces p)" "q = rebuild (is_absolute p) (pieces p)" "q \<noteq> []"
    using assms by (auto simp: sanitize_path_Inr)
  show q: "pieces q = pieces p" "is_absolute q = is_absolute p" "\<not> has_control q"
    using pieces_good [of p] by (simp_all add: ok pieces_rebuild is_absolute_rebuild has_control_rebuild)
  show slash: "CHR 0x5C \<notin> set q" using set_rebuild [of "is_absolute p" p] ok(2,4) by auto
  show "sanitize_path q = Inr q" using q slash ok by (simp add: sanitize_path_Inr)
qed


end
