(* ===== verification/Api.thy ===== *)
theory Api
  imports Tasks Paths
begin

text \<open>
  The HTTP handlers of sandboxes (\<open>src/src/api/handlers/sandbox.rs\<close>) and the conversion of
  errors to responses (\<open>src/src/api/errors.rs\<close>). A handler is a computation whose errors are
  early returns: both outcomes carry the response. What the web framework parses (the path,
  the query, the JSON body, the parts of a multipart body) is the handler's argument.
\<close>

section \<open>Responses\<close>

datatype response_body =
    NoBody
  | TextBody string
  | JsonBody json
  | ProblemBody ApiError
  | SandboxBody SandboxResponse
  | ExecBody string i32
  | StatsBody ContainerStats
  | UploadBody string string u64 time
  | FileBody string "(string \<times> string) list"
  | EventsBody "SandboxProgressEvent list"
  | StatsEventsBody "ContainerStats list"

record http_response =
  rs_status :: nat
  rs_body :: response_body

type_synonym ('s, 'b, 'a) api = "(('s, 'b) world, http_response, 'a) prog"

definition reply :: "nat \<Rightarrow> response_body \<Rightarrow> http_response" where
  "reply status body = \<lparr>rs_status = status, rs_body = body\<rparr>"

text \<open>The response that a handler sends, whichever way it ends.\<close>

definition serve :: "('s, 'b, http_response) api \<Rightarrow> ('s, 'b) world \<Rightarrow> http_response \<times> ('s, 'b) world" where
  "serve m w = (case m w of (Inl r, v) \<Rightarrow> (r, v) | (Inr r, v) \<Rightarrow> (r, v))"

definition into_response :: "ApiError \<Rightarrow> http_response" where
  "into_response e = reply (http_status (error_code e)) (ProblemBody e)"

definition json_error :: "string \<Rightarrow> response_body" where
  "json_error m = JsonBody (JObject [(''error'', JString m)])"

fun api_error_from_manager :: "ManagerError \<Rightarrow> ApiError" where
  "api_error_from_manager (ME_NotFound m) = ApiSandboxNotFound m"
| "api_error_from_manager (ME_Api m) =
     ApiBackend m ''manager_api'' EC_InternalError (Some (manager_error_display (ME_Api m)))"
| "api_error_from_manager (ME_OperationFailed m) =
     ApiBackend m ''manager_operation'' EC_InternalError (Some (manager_error_display (ME_OperationFailed m)))"
| "api_error_from_manager (ME_NotSupported m) =
     ApiValidation (''Operation not supported: '' @ m) None EC_InternalError"
| "api_error_from_manager (ME_Timeout m) =
     ApiBackend m ''timeout'' EC_RequestTimeout (Some (manager_error_display (ME_Timeout m)))"
| "api_error_from_manager (ME_Conflict m) =
     ApiBackend m ''conflict'' EC_SandboxAlreadyExists (Some (manager_error_display (ME_Conflict m)))"
| "api_error_from_manager (ME_Io m) =
     ApiBackend m ''io'' EC_InternalError (Some (manager_error_display (ME_Io m)))"

text \<open>The text of a boxed error, and its conversion, which forgets what kind of error it was.\<close>

fun svc_error_display :: "SvcError \<Rightarrow> string" where
  "svc_error_display (SvcText m) = m"
| "svc_error_display (SvcManager e) = manager_error_display e"
| "svc_error_display (SvcStore m) = m"

definition api_error_from_box :: "SvcError \<Rightarrow> ApiError" where
  "api_error_from_box e = ApiInternal (svc_error_display e)"

section \<open>Steps shared by the handlers\<close>

definition require_owner :: "('s, 'b) SandboxService \<Rightarrow> ApiKeyIdentity \<Rightarrow> uuid \<Rightarrow> bool \<Rightarrow> ('s, 'b, unit) api" where
  "require_owner svc ident i include_deleted =
     map_err into_response (check_sandbox_ownership_with_deleted svc ident i include_deleted)"

text \<open>A lookup of the store has no error of its own.\<close>

definition lookup :: "('s, 'b, 'a option) svc \<Rightarrow> ('s, 'b, 'a option) api" where
  "lookup m = bindE (attempt m) (\<lambda>r. ret (case r of Inr x \<Rightarrow> x | Inl _ \<Rightarrow> None))"

definition ignore :: "('s, 'b, 'a) svc \<Rightarrow> ('s, 'b, unit) api" where
  "ignore m = bindE (attempt m) (\<lambda>_. ret ())"

definition k8s_status :: "('s, 'b) SandboxService \<Rightarrow> uuid \<Rightarrow> ('s, 'b, KubernetesInfo option) api" where
  "k8s_status svc i =
     bindE (attempt (on_backend (mgr_get_sandbox_k8s_status (svc_backend svc) i))) (\<lambda>r.
     ret (case r of Inr x \<Rightarrow> x | Inl _ \<Rightarrow> None))"

definition sandbox_reply :: "('s, 'b) SandboxService \<Rightarrow> uuid \<Rightarrow> Sandbox \<Rightarrow> ('s, 'b, http_response) api" where
  "sandbox_reply svc i sandbox =
     bindE (k8s_status svc i) (\<lambda>kubernetes.
     ret (reply 200 (SandboxBody ((sandbox_response_from sandbox)\<lparr>sr_kubernetes := kubernetes\<rparr>))))"

section \<open>Creation\<close>

definition config_of_request :: "CreateSandboxRequest \<Rightarrow> SandboxConfig" where
  "config_of_request req =
     \<lparr>cfg_image = csr_image req, cfg_name = csr_name req,
      cfg_environment = (case csr_environment req of None \<Rightarrow> [] | Some e \<Rightarrow> e),
      cfg_port_mappings = (case csr_port_mappings req of None \<Rightarrow> [] | Some p \<Rightarrow> p),
      cfg_exposed_ports = [],
      cfg_resource_limits = (case csr_resource_limits req of
        None \<Rightarrow> \<lparr>rl_memory_mb = None, rl_cpu_quota = None, rl_cpu_period = None, rl_cpu_shares = None,
               rl_pids_limit = None, rl_ulimits = None\<rparr>
      | Some l \<Rightarrow> l),
      cfg_volumes = (case csr_volumes req of None \<Rightarrow> [] | Some v \<Rightarrow> v),
      cfg_command = csr_command req, cfg_inactivity_timeout_minutes = csr_inactivity_timeout_minutes req,
      cfg_pull_policy = csr_pull_policy req, cfg_features = csr_features req,
      cfg_enable_all_features = csr_enable_all_features req, cfg_vnc_resolution = csr_vnc_resolution req\<rparr>"

definition api_create_sandbox ::
  "('s, 'b) SandboxService \<Rightarrow> ApiKeyIdentity \<Rightarrow> CreateSandboxRequest \<Rightarrow> ('s, 'b, http_response) api" where
  "api_create_sandbox svc ident req =
     (case create_sandbox_request_validate req of
        Inl e \<Rightarrow> throw (into_response e)
      | Inr _ \<Rightarrow>
          bindE (attempt (create_sandbox svc (config_of_request req) (Some ident))) (\<lambda>result. case result of
            Inr sandbox \<Rightarrow> ret (reply 201 (SandboxBody (sandbox_response_from sandbox)))
          | Inl e \<Rightarrow> ret (into_response (api_error_from_box e))))"

text \<open>The streaming variant; \<open>None\<close> stands for a task that has used up its fuel.\<close>

definition api_create_sandbox_stream ::
  "nat \<Rightarrow> ('s, 'b) SandboxService \<Rightarrow> ApiKeyIdentity \<Rightarrow> CreateSandboxRequest \<Rightarrow> (nat \<Rightarrow> int) \<Rightarrow>
     ('s, 'b) world \<Rightarrow> (http_response \<times> ('s, 'b) world) option" where
  "api_create_sandbox_stream fuel svc ident req elapsed w =
     (case create_sandbox_request_validate req of
        Inl e \<Rightarrow> Some (into_response e, w)
      | Inr _ \<Rightarrow>
          (case create_sandbox_with_progress fuel svc (config_of_request req) (Some ident) elapsed w of
             None \<Rightarrow> None
           | Some (events, v) \<Rightarrow> Some (reply 200 (EventsBody events), v)))"

section \<open>Reading and listing\<close>

definition not_found_text :: http_response where
  "not_found_text = reply 404 (TextBody ''Sandbox not found'')"

definition api_get_sandbox ::
  "('s, 'b) SandboxService \<Rightarrow> ApiKeyIdentity \<Rightarrow> uuid \<Rightarrow> bool \<Rightarrow> ('s, 'b, http_response) api" where
  "api_get_sandbox svc ident i include_deleted =
     bindE (lookup (svc_get_sandbox_with_deleted svc i True)) (\<lambda>found.
     if found = None then throw not_found_text
     else
       bindE (require_owner svc ident i include_deleted) (\<lambda>_.
       bindE (lookup (svc_get_sandbox_with_deleted svc i include_deleted)) (\<lambda>found. case found of
         Some sandbox \<Rightarrow> sandbox_reply svc i sandbox
       | None \<Rightarrow> ret not_found_text)))"

record ListSandboxesQuery =
  lq_include_deleted :: bool
  lq_state :: "string option"
  lq_image :: "string option"
  lq_created_after :: "time option"
  lq_created_before :: "time option"
  lq_page :: "u64 option"
  lq_per_page :: "u64 option"

definition opt_retain :: "('q \<Rightarrow> 'a \<Rightarrow> bool) \<Rightarrow> 'q option \<Rightarrow> 'a list \<Rightarrow> 'a list" where
  "opt_retain p q l = (case q of None \<Rightarrow> l | Some x \<Rightarrow> filter (p x) l)"

definition apply_list_filters :: "ListSandboxesQuery \<Rightarrow> Sandbox list \<Rightarrow> Sandbox list" where
  "apply_list_filters q l =
     opt_retain (\<lambda>before s. sb_created_at s \<le> before) (lq_created_before q)
       (opt_retain (\<lambda>after s. after \<le> sb_created_at s) (lq_created_after q)
         (opt_retain (\<lambda>pat s. str_contains (cfg_image (sb_config s)) pat) (lq_image q)
           (opt_retain (\<lambda>txt s. case sandbox_state_from_str txt of Inr st \<Rightarrow> sb_state s = st | Inl _ \<Rightarrow> True) (lq_state q)
             (if lq_include_deleted q then l else filter (\<lambda>s. sb_deleted_at s = None) l))))"

text \<open>
  The page of a list. The offset is a product of machine words, which wraps in a release
  build. The number of pages is computed in floating point; for the lengths of lists in
  memory that is the quotient rounded up.
\<close>

record pagination =
  pg_page :: u64
  pg_per_page :: u64
  pg_total :: nat
  pg_total_pages :: nat
  pg_has_next :: bool
  pg_has_prev :: bool

definition page_of :: "ListSandboxesQuery \<Rightarrow> u64" where
  "page_of q = max 1 (case lq_page q of None \<Rightarrow> 1 | Some p \<Rightarrow> p)"

definition per_page_of :: "ListSandboxesQuery \<Rightarrow> u64" where
  "per_page_of q = min 200 (max 1 (case lq_per_page q of None \<Rightarrow> 50 | Some p \<Rightarrow> p))"

definition paginate :: "ListSandboxesQuery \<Rightarrow> 'a list \<Rightarrow> 'a list \<times> pagination" where
  "paginate q l =
     (let page = page_of q; per_page = per_page_of q; offset = (page - 1) * per_page;
          total_pages = (length l + unat per_page - 1) div unat per_page
      in (take (unat per_page) (drop (unat offset) l),
          \<lparr>pg_page = page, pg_per_page = per_page, pg_total = length l, pg_total_pages = total_pages,
           pg_has_next = (unat page < total_pages), pg_has_prev = (1 < page)\<rparr>))"

definition api_list_sandboxes ::
  "('s, 'b) SandboxService \<Rightarrow> ApiKeyIdentity \<Rightarrow> ListSandboxesQuery \<Rightarrow>
     ('s, 'b, SandboxResponse list \<times> pagination) svc" where
  "api_list_sandboxes svc ident q =
     bindE (if ident_key_type ident = Database
            then (case ident_id ident of
                Some key \<Rightarrow> svc_list_sandboxes_owned_by svc key (lq_include_deleted q)
              | None \<Rightarrow> ret [])
            else svc_list_sandboxes svc) (\<lambda>sandboxes.
     case paginate q (apply_list_filters q sandboxes) of
       (page, info) \<Rightarrow> ret (map sandbox_response_from page, info))"

section \<open>Changing the state of a sandbox\<close>

definition api_delete_sandbox ::
  "('s, 'b) SandboxService \<Rightarrow> ApiKeyIdentity \<Rightarrow> uuid \<Rightarrow> ('s, 'b, http_response) api" where
  "api_delete_sandbox svc ident i =
     bindE (lookup (svc_get_sandbox_with_deleted svc i True)) (\<lambda>found.
     if found = None then throw not_found_text
     else
       bindE (require_owner svc ident i True) (\<lambda>_.
       bindE (attempt (delete_sandbox svc i)) (\<lambda>r. case r of
         Inr _ \<Rightarrow> ret (reply 204 NoBody)
       | Inl e \<Rightarrow>
           if str_contains (svc_error_display e) ''not found'' then ret not_found_text
           else ret (reply 500 (TextBody ''Failed to delete sandbox'')))))"

definition api_restore_sandbox ::
  "('s, 'b) SandboxService \<Rightarrow> ApiKeyIdentity \<Rightarrow> uuid \<Rightarrow> ('s, 'b, http_response) api" where
  "api_restore_sandbox svc ident i =
     bindE (require_owner svc ident i True) (\<lambda>_.
     bindE (attempt (restore_sandbox svc i)) (\<lambda>r. case r of
       Inr _ \<Rightarrow>
         bindE (lookup (svc_get_sandbox_with_deleted svc i True)) (\<lambda>found. case found of
           Some sandbox \<Rightarrow> sandbox_reply svc i sandbox
         | None \<Rightarrow> ret (reply 404 (TextBody ''Sandbox not found after restore'')))
     | Inl e \<Rightarrow>
         (let error_msg = svc_error_display e; lower = to_lowercase error_msg
          in if str_contains lower ''not found'' then
               ret (reply 404 (json_error ''Sandbox not found or cannot be restored''))
             else if str_contains lower ''not deleted'' then
               ret (reply 400 (json_error ''Sandbox is not deleted and cannot be restored''))
             else ret (reply 500 (json_error (''Failed to restore sandbox: '' @ error_msg))))))"

definition api_stop_sandbox ::
  "('s, 'b) SandboxService \<Rightarrow> ApiKeyIdentity \<Rightarrow> uuid \<Rightarrow> ('s, 'b, http_response) api" where
  "api_stop_sandbox svc ident i =
     bindE (require_owner svc ident i False) (\<lambda>_.
     bindE (ignore (record_api_activity svc i)) (\<lambda>_.
     bindE (attempt (stop_sandbox svc i)) (\<lambda>r. case r of
       Inr _ \<Rightarrow>
         bindE (lookup (svc_get_sandbox svc i)) (\<lambda>found. case found of
           Some sandbox \<Rightarrow> sandbox_reply svc i sandbox
         | None \<Rightarrow> ret not_found_text)
     | Inl _ \<Rightarrow> ret (reply 500 (TextBody ''Failed to stop sandbox'')))))"

definition api_cleanup_sandbox ::
  "('s, 'b) SandboxService \<Rightarrow> ApiKeyIdentity \<Rightarrow> uuid \<Rightarrow> ('s, 'b, http_response) api" where
  "api_cleanup_sandbox svc ident i =
     bindE (require_owner svc ident i False) (\<lambda>_.
     bindE (attempt (cleanup_sandbox svc i)) (\<lambda>r. case r of
       Inr _ \<Rightarrow> ret (reply 204 NoBody)
     | Inl e \<Rightarrow> ret (reply 500 (json_error (''Failed to cleanup: '' @ svc_error_display e)))))"

section \<open>Running commands and tools\<close>

record ExecSandboxRequest =
  esr_command :: "string list"
  esr_stdin :: "string option"
  esr_working_dir :: "string option"
  esr_environment :: "(string \<times> string) list option"
  esr_timeout :: "u64 option"

definition api_exec_sandbox ::
  "('s, 'b) SandboxService \<Rightarrow> ApiKeyIdentity \<Rightarrow> uuid \<Rightarrow> ExecSandboxRequest \<Rightarrow> ('s, 'b, http_response) api" where
  "api_exec_sandbox svc ident i req =
     bindE (require_owner svc ident i False) (\<lambda>_.
     bindE (ignore (record_api_activity svc i)) (\<lambda>_.
     bindE (attempt (exec_sandbox_result_with_stdin svc i (wrap_shell_command (esr_command req))
       (esr_stdin req) (esr_timeout req))) (\<lambda>r. case r of
         Inr result \<Rightarrow> ret (reply 200 (ExecBody (ecr_output result) (ecr_exit_code result)))
       | Inl e \<Rightarrow> ret (reply 500 (JsonBody (JObject
           [(''message'', JString (''Failed to exec: '' @ svc_error_display e))]))))))"

record ToolExecutionRequest =
  ter_interpreter :: string
  ter_script_path :: string
  ter_action :: string
  ter_args :: "json option"
  ter_timeout :: "u64 option"
  ter_environment :: "(string \<times> string) list option"

text \<open>
  The error of a tool call is never a \<open>DockerError\<close>: the service boxes texts and backend
  errors, so the first branch of the handler, which looks for one, is not taken.
\<close>

definition tool_error_response :: "SvcError \<Rightarrow> http_response" where
  "tool_error_response e =
     (let error_str = svc_error_display e; code = takeWhile (\<lambda>c. c \<noteq> CHR '':'') error_str;
          msg = drop (length code + 1) error_str
      in if CHR '':'' \<in> set error_str then
           into_response
             (if code = ''VALIDATION_ERROR'' then ApiValidation msg None EC_ValidationError
              else if code = ''NOT_FOUND'' then ApiSandboxNotFound msg
              else if code = ''INVALID_STATE'' then ApiValidation msg None EC_SandboxInvalidState
              else ApiInternal msg)
         else reply 500 (JsonBody (JObject [(''error_message'', JString error_str)])))"

definition api_execute_tool ::
  "('s, 'b) SandboxService \<Rightarrow> ApiKeyIdentity \<Rightarrow> uuid \<Rightarrow> ToolExecutionRequest \<Rightarrow> ('s, 'b, http_response) api" where
  "api_execute_tool svc ident i req =
     bindE (require_owner svc ident i False) (\<lambda>_.
     bindE (ignore (record_api_activity svc i)) (\<lambda>_.
     bindE (attempt (exec_tool_http svc i
       \<lparr>etr_interpreter = ter_interpreter req, etr_script_path = ter_script_path req,
        etr_action = ter_action req, etr_args = (case ter_args req of Some a \<Rightarrow> a | None \<Rightarrow> JObject []),
        etr_timeout = ter_timeout req, etr_environment = ter_environment req\<rparr>)) (\<lambda>r. case r of
         Inr result \<Rightarrow> ret (reply 200 (JsonBody result))
       | Inl e \<Rightarrow> ret (tool_error_response e))))"

section \<open>Files\<close>

text \<open>One part of a multipart body: its name, its file name, and the results of reading it.\<close>

record multipart_field =
  mf_name :: "string option"
  mf_file_name :: "string option"
  mf_text :: "string + string"
  mf_bytes :: "string + string"

record upload_parts =
  up_path :: "string option"
  up_data :: "string option"
  up_file_name :: "string option"

text \<open>The loop over the parts; \<open>Inl\<close> in the list is a part that could not be read.\<close>

fun read_parts :: "u64 \<Rightarrow> (string + multipart_field) list \<Rightarrow> upload_parts \<Rightarrow> http_response + upload_parts" where
  "read_parts limit [] up = Inr up"
| "read_parts limit (Inl e # fs) up =
     Inl (reply 400 (json_error (''Failed to read multipart field: '' @ e)))"
| "read_parts limit (Inr f # fs) up =
     (if mf_name f = Some ''path'' then
        (case mf_text f of
           Inr t \<Rightarrow> read_parts limit fs (up\<lparr>up_path := Some t\<rparr>)
         | Inl e \<Rightarrow> Inl (reply 400 (json_error (''Failed to read path field: '' @ e))))
      else if mf_name f = Some ''file'' then
        (case mf_bytes f of
           Inl e \<Rightarrow> Inl (reply 400 (json_error (''Failed to read file field: '' @ e)))
         | Inr data \<Rightarrow>
             if unat limit < length data then
               Inl (reply 400 (JsonBody (JObject
                 [(''error'', JString (''File size exceeds limit of '' @ show_nat (unat limit) @ '' bytes'')),
                  (''max_size'', JNumber (uint limit))])))
             else read_parts limit fs (up\<lparr>up_file_name := mf_file_name f, up_data := Some data\<rparr>))
      else read_parts limit fs up)"

definition upload_error_response :: "SvcError \<Rightarrow> http_response" where
  "upload_error_response e =
     (let msg = svc_error_display e
      in if str_contains msg ''not found'' then reply 404 (json_error ''Sandbox not found'')
         else if str_contains msg ''not running'' then reply 409 (json_error ''Sandbox is not running'')
         else reply 500 (json_error (''Upload failed: '' @ msg)))"

definition api_upload_file ::
  "(string \<Rightarrow> string \<Rightarrow> string + string) \<Rightarrow> ('s, 'b) SandboxService \<Rightarrow> ApiKeyIdentity \<Rightarrow> uuid \<Rightarrow>
     (string + multipart_field) list \<Rightarrow> ('s, 'b, http_response) api" where
  "api_upload_file build_tar svc ident i parts =
     bindE (require_owner svc ident i False) (\<lambda>_.
     bindE (ignore (record_api_activity svc i)) (\<lambda>_.
     case read_parts (svc_max_file_size_bytes svc) parts \<lparr>up_path = None, up_data = None, up_file_name = None\<rparr> of
       Inl r \<Rightarrow> throw r
     | Inr up \<Rightarrow>
         (case up_path up of
            None \<Rightarrow> throw (reply 400 (json_error (''Missing '' @ [CHR 0x27] @ ''path'' @ [CHR 0x27] @ '' field'')))
          | Some dest_path \<Rightarrow>
         (case up_data up of
            None \<Rightarrow> throw (reply 400 (json_error (''Missing '' @ [CHR 0x27] @ ''file'' @ [CHR 0x27] @ '' field'')))
          | Some data \<Rightarrow>
         (case sanitize_path dest_path of
            Inl e \<Rightarrow> throw (into_response e)
          | Inr sanitized_path \<Rightarrow>
              (let filename = (case up_file_name up of Some n \<Rightarrow> n | None \<Rightarrow> extract_filename sanitized_path)
               in bindE (attempt (upload_file build_tar svc i sanitized_path data)) (\<lambda>r. case r of
                    Inr _ \<Rightarrow> bindE utc_now (\<lambda>now.
                      ret (reply 200 (UploadBody filename sanitized_path (of_nat (length data)) now)))
                  | Inl e \<Rightarrow> ret (upload_error_response e))))))))"

text \<open>\<open>valid_header\<close> is the check of the HTTP library for the bytes of a header value.\<close>

definition safe_header_value :: "(string \<Rightarrow> bool) \<Rightarrow> string \<Rightarrow> string \<Rightarrow> string" where
  "safe_header_value valid_header v fallback =
     (if valid_header v then v else if valid_header fallback then fallback else ''download'')"

definition download_response :: "(string \<Rightarrow> bool) \<Rightarrow> string \<Rightarrow> string option \<Rightarrow> string \<Rightarrow> http_response" where
  "download_response valid_header path disposition data =
     (let header = safe_header_value valid_header; filename = extract_filename path;
          kind = (if disposition = Some ''inline'' then ''inline'' else ''attachment'')
      in reply 200 (FileBody data
           [(''content-type'', header (detect_mime_type path) ''application/octet-stream''),
            (''content-disposition'', header (kind @ ''; filename='' @ [CHR 0x22] @ filename @ [CHR 0x22]) ''attachment''),
            (''x-file-name'', header filename ''download''),
            (''x-file-path'', header path ''/''),
            (''x-file-size'', header (show_nat (length data)) ''0'')]))"

definition download_error_response :: "SvcError \<Rightarrow> http_response" where
  "download_error_response e =
     (let msg = svc_error_display e
      in if str_contains msg ''File not found'' then reply 404 (json_error ''File not found in sandbox'')
         else if str_contains msg ''Sandbox not found'' then reply 404 (json_error ''Sandbox not found'')
         else if str_contains msg ''not running'' then reply 409 (json_error ''Sandbox is not running'')
         else if str_contains msg ''exceeds limit'' then
           reply 413 (JsonBody (JObject [(''error'', JString msg), (''max_size'', JString ''10MB'')]))
         else reply 500 (json_error (''Download failed: '' @ msg)))"

definition api_download_file ::
  "(string \<Rightarrow> string option) \<Rightarrow> (string \<Rightarrow> bool) \<Rightarrow> ('s, 'b) SandboxService \<Rightarrow> ApiKeyIdentity \<Rightarrow> uuid \<Rightarrow>
     string option \<Rightarrow> string option \<Rightarrow> ('s, 'b, http_response) api" where
  "api_download_file decode valid_header svc ident i path disposition =
     bindE (require_owner svc ident i False) (\<lambda>_.
     bindE (ignore (record_api_activity svc i)) (\<lambda>_.
     case path of
       None \<Rightarrow> throw (reply 400 (json_error (''Missing '' @ [CHR 0x27] @ ''path'' @ [CHR 0x27] @ '' query parameter'')))
     | Some src_path \<Rightarrow>
         (case sanitize_path src_path of
            Inl e \<Rightarrow> throw (into_response e)
          | Inr sanitized_path \<Rightarrow>
              bindE (attempt (download_file decode svc i sanitized_path)) (\<lambda>r. case r of
                Inr data \<Rightarrow> ret (download_response valid_header sanitized_path disposition data)
              | Inl e \<Rightarrow> ret (download_error_response e)))))"

section \<open>Statistics\<close>

definition api_get_sandbox_stats ::
  "('s, 'b) SandboxService \<Rightarrow> ApiKeyIdentity \<Rightarrow> uuid \<Rightarrow> ('s, 'b, http_response) api" where
  "api_get_sandbox_stats svc ident i =
     bindE (require_owner svc ident i False) (\<lambda>_.
     bindE (attempt (get_sandbox_stats svc i)) (\<lambda>r. case r of
       Inr stats \<Rightarrow> ret (reply 200 (StatsBody stats))
     | Inl e \<Rightarrow> ret (reply 500 (json_error (''Failed to get stats: '' @ svc_error_display e)))))"

definition api_stream_sandbox_stats ::
  "nat \<Rightarrow> ('s, 'b) SandboxService \<Rightarrow> ApiKeyIdentity \<Rightarrow> uuid \<Rightarrow> ('s, 'b, http_response) api" where
  "api_stream_sandbox_stats n svc ident i =
     bindE (require_owner svc ident i False) (\<lambda>_.
     bindE (attempt (stream_sandbox_stats n svc i)) (\<lambda>r. case r of
       Inr samples \<Rightarrow> ret (reply 200 (StatsEventsBody samples))
     | Inl e \<Rightarrow> ret (reply 500 (json_error (''Failed to stream stats: '' @ svc_error_display e)))))"

section \<open>The routes of one sandbox\<close>

datatype sandbox_request =
    ReqGet bool
  | ReqDelete
  | ReqRestore
  | ReqStop
  | ReqCleanup
  | ReqExec ExecSandboxRequest
  | ReqTool ToolExecutionRequest
  | ReqUpload "(string + multipart_field) list"
  | ReqDownload "string option" "string option"
  | ReqStats
  | ReqStatsStream nat

record libraries =
  lib_build_tar :: "string \<Rightarrow> string \<Rightarrow> string + string"
  lib_decode :: "string \<Rightarrow> string option"
  lib_valid_header :: "string \<Rightarrow> bool"

fun sandbox_route ::
  "libraries \<Rightarrow> ('s, 'b) SandboxService \<Rightarrow> ApiKeyIdentity \<Rightarrow> uuid \<Rightarrow> sandbox_request \<Rightarrow> ('s, 'b, http_response) api" where
  "sandbox_route lib svc ident i (ReqGet d) = api_get_sandbox svc ident i d"
| "sandbox_route lib svc ident i ReqDelete = api_delete_sandbox svc ident i"
| "sandbox_route lib svc ident i ReqRestore = api_restore_sandbox svc ident i"
| "sandbox_route lib svc ident i ReqStop = api_stop_sandbox svc ident i"
| "sandbox_route lib svc ident i ReqCleanup = api_cleanup_sandbox svc ident i"
| "sandbox_route lib svc ident i (ReqExec req) = api_exec_sandbox svc ident i req"
| "sandbox_route lib svc ident i (ReqTool req) = api_execute_tool svc ident i req"
| "sandbox_route lib svc ident i (ReqUpload parts) = api_upload_file (lib_build_tar lib) svc ident i parts"
| "sandbox_route lib svc ident i (ReqDownload path disposition) =
     api_download_file (lib_decode lib) (lib_valid_header lib) svc ident i path disposition"
| "sandbox_route lib svc ident i ReqStats = api_get_sandbox_stats svc ident i"
| "sandbox_route lib svc ident i (ReqStatsStream n) = api_stream_sandbox_stats n svc ident i"

end
