(* ===== verification/ApiProps.thy ===== *)
theory ApiProps
  imports Api Jsonb
begin

text \<open>
  What the HTTP handlers guarantee: a key reaches only its own sandboxes, whatever it asks
  for; listings are complete and show a key only what it owns; uploads stay within the limits;
  and every request keeps the lifecycle invariant.
\<close>

section \<open>Refused requests\<close>

context state_store
begin

text \<open>\<open>quiet w v\<close>: between \<open>w\<close> and \<open>v\<close> at most reads of the store have happened.\<close>

definition quiet :: "('s, 'b) world \<Rightarrow> ('s, 'b) world \<Rightarrow> bool" where
  "quiet w v \<longleftrightarrow> invar (w_store v) \<and> contents (w_store v) = contents (w_store w) \<and>
     w_backend v = w_backend w \<and> w_activities v = w_activities w \<and> w_uuid_to_string v = w_uuid_to_string w"

lemma quiet_refl: "invar (w_store w) \<Longrightarrow> quiet w w"
  by (simp add: quiet_def)

definition foreign :: "ApiKeyIdentity \<Rightarrow> uuid \<Rightarrow> ('s, 'b) world \<Rightarrow> bool" where
  "foreign ident i w \<longleftrightarrow> ident_key_type ident \<noteq> Privileged \<and>
     (\<forall>sb key. contents (w_store w) i = Some sb \<longrightarrow> ident_id ident = Some key \<longrightarrow> sb_api_key_id sb \<noteq> Some key)"

lemma foreign_quiet: "quiet w v \<Longrightarrow> foreign ident i v = foreign ident i w"
  by (simp add: quiet_def foreign_def)

lemma require_owner_refuses:
  assumes svc: "svc_state svc = st" and w: "quiet u w" and "foreign ident i w"
  shows "wpE (require_owner svc ident i d) (\<lambda>_ _. False) (\<lambda>r v. rs_status r = 404 \<and> quiet u v) w"
proof -
  have inv: "invar (w_store w)" using w by (simp add: quiet_def)
  have priv: "\<not> is_privileged_key ident" using assms(3) by (simp add: foreign_def is_privileged_key_def)
  have err: "rs_status (into_response (ApiSandboxNotFound x)) = 404" for x
    by (simp add: into_response_def reply_def)
  show ?thesis
  proof (cases "ident_id ident")
    case None
    with w priv err show ?thesis
      by (simp add: require_owner_def check_sandbox_ownership_with_deleted_def wp)
  next
    case (Some key)
    obtain r t where owned: "ss_get_sandbox_with_deleted_if_owned_by st i key d (w_store w) = (r, t)" by fastforce
    have t: "r = None" "invar t" "contents t = contents (w_store w)"
      using owned_law [OF inv owned] assms(3) Some by (cases r; auto simp: foreign_def owned_visible_def)+
    obtain r' t' where get: "ss_get_sandbox_with_deleted st i d t = (r', t')" by fastforce
    have "quiet u (w\<lparr>w_store := t'\<rparr>)"
      using get_with_deleted_law [OF t(2) get] t(3) w by (simp add: quiet_def)
    with Some priv err owned get t(1) svc show ?thesis
      by (simp add: require_owner_def check_sandbox_ownership_with_deleted_def wp)
  qed
qed

lemma lookup_quiet:
  assumes "svc_state svc = st" and "invar (w_store w)"
  shows "wpE (lookup (svc_get_sandbox_with_deleted svc i d)) (\<lambda>_ v. quiet w v) (\<lambda>_ _. False) w"
  using assms get_with_deleted_law [of "w_store w" i d]
  by (auto simp: lookup_def svc_get_sandbox_with_deleted_def store_get_with_deleted_def wp quiet_def split: prod.split)

text \<open>Every route of a sandbox refuses a caller to whom the sandbox does not belong.\<close>

lemma route_refuses:
  assumes svc: "svc_state svc = st" and inv: "invar (w_store w)" and f: "foreign ident i w"
  shows "wpE (sandbox_route lib svc ident i req) (\<lambda>_ _. False) (\<lambda>r v. rs_status r = 404 \<and> quiet w v) w"
proof -
  have refuse: "wpE (bindE (require_owner svc ident i d) m) (\<lambda>_ _. False) (\<lambda>r v. rs_status r = 404 \<and> quiet w v) w" for d m
    unfolding wpE_bindE by (rule wpE_mono [OF require_owner_refuses [OF svc quiet_refl [OF inv] f]]) auto
  have after: "wpE (require_owner svc ident i d) (\<lambda>_ _. False) (\<lambda>r u. rs_status r = 404 \<and> quiet w u) v" if "quiet w v" for d v
    using require_owner_refuses [OF svc that] f foreign_quiet [OF that] by simp
  have checked: "wpE (bindE (lookup (svc_get_sandbox_with_deleted svc i True)) (\<lambda>found.
      if found = None then throw not_found_text else bindE (require_owner svc ident i d) m))
      (\<lambda>_ _. False) (\<lambda>r v. rs_status r = 404 \<and> quiet w v) w" for d m
    unfolding wpE_bindE wpE_if
    by (rule wpE_mono [OF lookup_quiet [OF svc inv]])
      (auto simp: wp not_found_text_def reply_def intro: wpE_mono [OF after])
  show ?thesis
    by (cases req) (simp_all add: refuse checked api_get_sandbox_def api_delete_sandbox_def api_restore_sandbox_def
        api_stop_sandbox_def api_cleanup_sandbox_def api_exec_sandbox_def api_execute_tool_def api_upload_file_def
        api_download_file_def api_get_sandbox_stats_def api_stream_sandbox_stats_def)
qed

end

section \<open>Listing\<close>

lemma filters_subset: "set (apply_list_filters q l) \<subseteq> set l"
  by (auto simp: apply_list_filters_def opt_retain_def split: option.splits if_splits)

lemma paginate_subset: "set (fst (paginate q l)) \<subseteq> set l"
  by (auto simp: paginate_def Let_def dest: in_set_takeD in_set_dropD)

lemma per_page_bounds: "0 < unat (per_page_of q)" "unat (per_page_of q) \<le> 200"
proof -
  have "1 \<le> max 1 (case lq_per_page q of None \<Rightarrow> 50 | Some p \<Rightarrow> p)" by simp
  then have "1 \<le> per_page_of q" by (simp add: per_page_of_def)
  then show "0 < unat (per_page_of q)" by (simp add: word_le_nat_alt)
  have "per_page_of q \<le> 200" by (simp add: per_page_of_def)
  then show "unat (per_page_of q) \<le> 200" by (simp add: word_le_nat_alt)
qed

lemma per_page_update [simp]: "per_page_of (q\<lparr>lq_page := p\<rparr>) = per_page_of q"
  by (simp add: per_page_of_def)

text \<open>A page below the wrap-around is the slice of the list that its number says.\<close>

lemma page_slice:
  assumes "0 < n" and "n * 200 < 2 ^ 64"
  shows "fst (paginate (q\<lparr>lq_page := Some (of_nat n)\<rparr>) l) =
    take (unat (per_page_of q)) (drop ((n - 1) * unat (per_page_of q)) l)"
proof -
  let ?p = "unat (per_page_of q)"
  have n: "unat (of_nat n :: u64) = n" using assms(2) by (simp add: unat_of_nat)
  then have page: "page_of (q\<lparr>lq_page := Some (of_nat n)\<rparr>) = of_nat n"
    using assms(1) by (simp add: page_of_def max_def word_le_nat_alt)
  have "(n - 1) * ?p \<le> n * 200" by (rule mult_le_mono) (use per_page_bounds(2) in simp_all)
  then have "(n - 1) * ?p < 2 ^ 64" using assms(2) by simp
  moreover have "((of_nat n :: u64) - 1) * per_page_of q = of_nat ((n - 1) * ?p)"
    using assms(1) by (simp add: of_nat_diff)
  ultimately have "unat (((of_nat n :: u64) - 1) * per_page_of q) = (n - 1) * ?p"
    by (simp add: unat_of_nat del: of_nat_mult)
  then show ?thesis by (simp add: paginate_def Let_def page)
qed

lemma concat_slices: "concat (map (\<lambda>k. take p (drop (k * p) l)) [0..<n]) = take (n * p) l"
proof (induction n)
  case (Suc n)
  then show ?case using take_add [of "n * p" p l] by (simp add: add.commute)
qed simp

lemma ceiling_div: "0 < p \<Longrightarrow> n < (len + p - 1) div p \<longleftrightarrow> n * p < (len :: nat)"
  using less_eq_div_iff_mult_less_eq [of p "Suc n" "len + p - 1"] by (auto simp: Suc_le_eq)

text \<open>
  C18. Pages of a listing: for lists short of the wrap-around of the offset, the pages one to the
  reported number of pages, one after the other, are exactly the filtered list, in order and
  without repetition; each has at most the requested number of entries, clamped to 200; and a
  page reports a next one exactly when entries of the list follow it.
\<close>

theorem pages_partition_listing:
  assumes "length l * 200 < 2 ^ 63"
  shows "concat (map (\<lambda>n. fst (paginate (q\<lparr>lq_page := Some (of_nat n)\<rparr>) l)) [1..<Suc (pg_total_pages (snd (paginate q l)))]) = l \<and>
    length (fst (paginate q l)) \<le> 200 \<and>
    (pg_has_next (snd (paginate q l)) \<longleftrightarrow> unat (page_of q) * unat (per_page_of q) < length l)"
proof -
  let ?p = "unat (per_page_of q)" and ?n = "pg_total_pages (snd (paginate q l))"
  note p = per_page_bounds [of q]
  have n: "?n = (length l + ?p - 1) div ?p" by (simp add: paginate_def Let_def)
  have cover: "length l \<le> ?n * ?p" using ceiling_div [OF p(1), of ?n "length l"] by (simp add: n)
  have small: "?n \<le> length l"
    using ceiling_div [OF p(1), of "length l" "length l"] p(1) by (simp add: n)
  have bound: "k * 200 < 2 ^ 64" if "k \<le> ?n" for k
    using that small assms by simp
  have "map (\<lambda>n. fst (paginate (q\<lparr>lq_page := Some (of_nat n)\<rparr>) l)) [1..<Suc ?n] =
      map (\<lambda>k. take ?p (drop (k * ?p) l)) [0..<?n]"
  proof -
    have "fst (paginate (q\<lparr>lq_page := Some (of_nat (Suc k))\<rparr>) l) = take ?p (drop (k * ?p) l)" if "k < ?n" for k
      using page_slice [of "Suc k" q l] bound [of "Suc k"] that by (simp del: of_nat_Suc)
    moreover have "[1..<Suc ?n] = map Suc [0..<?n]" by (simp add: map_Suc_upt del: upt_Suc)
    ultimately show ?thesis by (simp del: upt_Suc of_nat_Suc)
  qed
  then have "concat (map (\<lambda>n. fst (paginate (q\<lparr>lq_page := Some (of_nat n)\<rparr>) l)) [1..<Suc ?n]) = l"
    using cover by (simp add: concat_slices del: upt_Suc)
  moreover have "length (fst (paginate q l)) \<le> 200"
    using p(2) by (simp add: paginate_def Let_def min_def)
  moreover have "pg_has_next (snd (paginate q l)) \<longleftrightarrow> unat (page_of q) * ?p < length l"
    using ceiling_div [OF p(1)] by (simp add: paginate_def Let_def)
  ultimately show ?thesis by blast
qed

definition example_query :: ListSandboxesQuery where
  "example_query = \<lparr>lq_include_deleted = True, lq_state = None, lq_image = None, lq_created_after = None,
     lq_created_before = None, lq_page = None, lq_per_page = Some 2\<rparr>"

theorem pages_partition_listing_witness:
  "concat (map (\<lambda>n. fst (paginate (example_query\<lparr>lq_page := Some (of_nat n)\<rparr>) [10, 20, 30 :: nat])) [1..<3]) = [10, 20, 30]"
proof -
  have "pg_total_pages (snd (paginate example_query [10, 20, 30 :: nat])) = 2" by code_simp
  then show ?thesis using pages_partition_listing [of "[10, 20, 30 :: nat]" example_query] by simp
qed

section \<open>Isolation of tenants\<close>

text \<open>
  C14. Isolation over the API: whatever a caller without privileges asks of a sandbox that does not
  belong to its key - reading, deleting, restoring, stopping, running commands or tools,
  moving files, statistics - the answer is 404, no sandbox of the PostgreSQL store changes,
  the backend is not called and no activity is recorded, even when statements fail.
\<close>

theorem api_tenant_isolation:
  assumes "svc_state svc = PostgresStateStore (jsonb_codec tm)" and "pg_invar (jsonb_codec tm) (w_store w)"
    and "ident_key_type ident = Database"
    and "\<And>r. r \<in> set (pg_rows (w_store w)) \<Longrightarrow> r_id r = i \<Longrightarrow> r_api_key_id r = None \<or> r_api_key_id r \<noteq> ident_id ident"
  shows "case serve (sandbox_route lib svc ident i req) w of (r, v) \<Rightarrow>
    rs_status r = 404 \<and> pg_contents (jsonb_codec tm) (w_store v) = pg_contents (jsonb_codec tm) (w_store w) \<and>
    w_backend v = w_backend w \<and> w_activities v = w_activities w"
proof -
  have "sb_api_key_id sb \<noteq> Some key" if c: "pg_contents (jsonb_codec tm) (w_store w) i = Some sb" and k: "ident_id ident = Some key" for sb key
  proof -
    obtain r where r: "r \<in> set (pg_rows (w_store w))" "r_id r = i" "sb = full_sandbox (jsonb_codec tm) r"
      using pg_contents_Some [OF c] by blast
    then have "sb_api_key_id sb = r_api_key_id r"
      using assms(2) row_to_sandbox_fields by (metis pg_invar_def)
    with assms(4) [OF r(1,2)] k show ?thesis by auto
  qed
  then have "pgj.pg.foreign tm ident i w" using assms(3) by (simp add: pgj.pg.foreign_def)
  from pgj.pg.route_refuses [OF assms(1,2) this, of lib req] show ?thesis
    by (auto simp: wpE_def serve_def pgj.pg.quiet_def split: prod.splits sum.splits)
qed

definition example_api_service :: "(json pg, example_containers) SandboxService" where
  "example_api_service = service_new example_backend (PostgresStateStore (jsonb_codec id))"

definition example_api_world :: "(json pg, example_containers) world" where
  "example_api_world =
     \<lparr>w_store = example_pg [(example_sandbox 7 Running (Some ''ctr0''))\<lparr>sb_api_key_id := Some 5\<rparr>],
      w_backend = [(''ctr0'', True)], w_activities = [], w_ticks = 0, w_uuids = 0, w_db_calls = 0,
      w_clock = (\<lambda>n. int n * nanos_per_sec), w_uuid_src = (\<lambda>n. of_nat n + 100),
      w_db_up = (\<lambda>_. True), w_uuid_to_string = (\<lambda>i. show_nat (unat i)),
      w_parse_label = (\<lambda>_. Inl ''no label'')\<rparr>"

definition example_key_identity :: "uuid \<Rightarrow> ApiKeyIdentity" where
  "example_key_identity k = \<lparr>ident_id = Some k, ident_key_type = Database\<rparr>"

definition example_libraries :: libraries where
  "example_libraries = \<lparr>lib_build_tar = (\<lambda>p d. Inr d), lib_decode = Some, lib_valid_header = (\<lambda>_. True)\<rparr>"

lemma example_api_invar: "pg_invar (jsonb_codec id) (w_store example_api_world)"
  using row_to_sandbox_insert [OF pgj.codec]
  by (simp add: pg_invar_def example_api_world_def example_pg_def full_sandbox_def)

lemma example_api_state: "svc_state example_api_service = PostgresStateStore (jsonb_codec id)"
  by (simp add: example_api_service_def service_new_def)

theorem api_tenant_isolation_witness:
  "rs_status (fst (serve (sandbox_route example_libraries example_api_service (example_key_identity 6) 7 ReqDelete) example_api_world)) = 404 \<and>
   rs_status (fst (serve (sandbox_route example_libraries example_api_service (example_key_identity 5) 7 ReqDelete) example_api_world)) = 204"
proof -
  have "rs_status (fst (serve (sandbox_route example_libraries example_api_service (example_key_identity 5) 7 ReqDelete) example_api_world)) = 204"
    by code_simp
  moreover have "rs_status (fst (serve (sandbox_route example_libraries example_api_service (example_key_identity 6) 7 ReqDelete) example_api_world)) = 404"
    using api_tenant_isolation [OF example_api_state example_api_invar, of "example_key_identity 6" 7 example_libraries ReqDelete]
    by (auto simp: example_key_identity_def example_api_world_def example_pg_def insert_row_def split: prod.splits)
  ultimately show ?thesis by simp
qed

text \<open>
  What a key sees: the listing of a caller with a database key contains only sandboxes of that
  key, none of them deleted unless deleted ones were asked for, and with the other filters of
  the query applied, even when statements fail.
\<close>

theorem listing_shows_own_sandboxes:
  assumes "svc_state svc = PostgresStateStore (jsonb_codec tm)" and "pg_invar (jsonb_codec tm) (w_store w)"
    and "ident_key_type ident = Database"
  shows "case api_list_sandboxes svc ident q w of
      (Inl _, _) \<Rightarrow> False
    | (Inr (page, info), v) \<Rightarrow> pg_contents (jsonb_codec tm) (w_store v) = pg_contents (jsonb_codec tm) (w_store w) \<and>
        list_all (\<lambda>resp. sr_api_key_id resp = ident_id ident \<and> ident_id ident \<noteq> None \<and>
          (lq_include_deleted q \<or> sr_deleted_at resp = None)) page"
proof (cases "ident_id ident")
  case None
  then show ?thesis
    using assms(3) filters_subset [of q "[]"] paginate_subset [of q "[] :: Sandbox list"]
    by (cases "paginate q ([] :: Sandbox list)") (simp add: api_list_sandboxes_def bindE_def ret_def)
next
  case (Some key)
  obtain l t where run: "ss_list_sandboxes_owned_by (svc_state svc) key (lq_include_deleted q) (w_store w) = (l, t)" by fastforce
  have own: "pg_contents (jsonb_codec tm) t = pg_contents (jsonb_codec tm) (w_store w)" "\<forall>sb \<in> set l. owned_visible key (lq_include_deleted q) sb"
    using pgj.pg.list_owned_law [OF assms(2)] run assms(1) by auto
  obtain page info where page: "paginate q (apply_list_filters q l) = (page, info)" by fastforce
  have "set page \<subseteq> set l"
    using paginate_subset [of q "apply_list_filters q l"] filters_subset [of q l] page by auto
  with own have "list_all (\<lambda>sb. sb_api_key_id sb = Some key \<and> (lq_include_deleted q \<or> sb_deleted_at sb = None)) page"
    by (fastforce simp: list_all_iff owned_visible_def)
  then have resp: "list_all (\<lambda>resp. sr_api_key_id resp = Some key \<and> (lq_include_deleted q \<or> sr_deleted_at resp = None))
      (map sandbox_response_from page)" by (simp add: list_all_iff sandbox_response_from_def)
  have "api_list_sandboxes svc ident q w = (Inr (map sandbox_response_from page, info), w\<lparr>w_store := t\<rparr>)"
    using Some assms(3) run page
    by (simp add: api_list_sandboxes_def svc_list_sandboxes_owned_by_def read_store_def bindE_def ret_def)
  with resp own(1) Some show ?thesis by simp
qed

theorem listing_shows_own_sandboxes_witness:
  "map sr_id (fst (projr (fst (api_list_sandboxes example_api_service (example_key_identity 5) example_query example_api_world)))) = [7] \<and>
   list_all (\<lambda>resp. sr_api_key_id resp = Some 5)
     (fst (projr (fst (api_list_sandboxes example_api_service (example_key_identity 5) example_query example_api_world))))"
proof -
  have "map sr_id (fst (projr (fst (api_list_sandboxes example_api_service (example_key_identity 5) example_query example_api_world)))) = [7]"
    by code_simp
  moreover note listing_shows_own_sandboxes [OF example_api_state example_api_invar, of "example_key_identity 5" example_query]
  ultimately show ?thesis
    by (auto simp: example_key_identity_def list_all_iff split: prod.splits sum.splits)
qed

section \<open>Tools and uploads\<close>

lemma manager_error_prefix:
  "takeWhile (\<lambda>c. c \<noteq> CHR '':'') (manager_error_display e) \<notin> {''VALIDATION_ERROR'', ''NOT_FOUND'', ''INVALID_STATE''} \<and>
   CHR '':'' \<in> set (manager_error_display e)"
  by (cases e) auto

lemma tool_error_manager: "rs_status (tool_error_response (SvcManager e)) = 500"
  using manager_error_prefix [of e] by (simp add: tool_error_response_def Let_def into_response_def reply_def)

lemma wpE_triv: "wpE m (\<lambda>_ _. True) (\<lambda>_ _. True) w"
  by (simp add: wpE_def split: prod.split sum.split)

lemma wpE_after: "(\<And>a v. wpE (f a) Q (\<lambda>_ _. True) v) \<Longrightarrow> wpE (bindE m f) Q (\<lambda>_ _. True) w"
  unfolding wpE_bindE by (rule wpE_mono [OF wpE_triv]) simp_all

lemma exec_tool_http_errors:
  "wpE (exec_tool_http svc i req) (\<lambda>_ _. True)
     (\<lambda>e _. e \<in> {SvcText ''Sandbox not found'', SvcText ''Sandbox is not running'', SvcText ''Container not running or not started''} \<or>
        (\<exists>m. e = SvcManager m)) w"
proof -
  have act: "wpE (record_activity svc i ty d) (\<lambda>_ _. True) E v" for ty d E v
    by (simp add: record_activity_def record_activity_async_def wp wpE_ret_fun wpE_triv)
  show ?thesis
    by (auto simp: exec_tool_http_def get_or_not_found_def store_get_def wp Let_def wpE_def [of "mgr_exec_http _ _ _ _ _ _"]
        split: prod.splits sum.splits option.splits intro!: wpE_mono [OF act])
qed

text \<open>
  Errors of tools: whatever goes wrong with a tool call after the ownership check, the answer
  is 500. The handler means to answer 400, 404 or 409 when the error text starts with a code
  such as \<open>INVALID_STATE\<close>, but no error of the service does, and its texts for a missing or
  stopped sandbox have no code at all.
\<close>

theorem tool_errors_are_500:
  assumes "sandbox_route lib svc ident i (ReqTool req) w = (Inr r, v)"
  shows "rs_status r = 200 \<or> rs_status r = 500"
proof -
  have plain: "rs_status (tool_error_response (SvcText m)) = 500"
    if "m \<in> {''Sandbox not found'', ''Sandbox is not running'', ''Container not running or not started''}" for m
    using that by (auto simp: tool_error_response_def reply_def)
  have tool: "wpE (bindE (attempt (exec_tool_http svc i treq)) (\<lambda>r. case r of
        Inr result \<Rightarrow> ret (reply 200 (JsonBody result)) | Inl e \<Rightarrow> ret (tool_error_response e)))
      (\<lambda>r _. rs_status r = 200 \<or> rs_status r = 500) (\<lambda>_ _. True) u" for treq u
    unfolding wpE_bindE wpE_attempt
    by (rule wpE_mono [OF exec_tool_http_errors]) (auto simp: wp reply_def tool_error_manager plain)
  have "wpE (api_execute_tool svc ident i req) (\<lambda>r _. rs_status r = 200 \<or> rs_status r = 500) (\<lambda>_ _. True) w"
    unfolding api_execute_tool_def by (rule wpE_after, rule wpE_after, rule tool)
  from wpE_okD [OF this] assms show ?thesis by simp
qed

definition example_tool_request :: ToolExecutionRequest where
  "example_tool_request = \<lparr>ter_interpreter = ''python'', ter_script_path = ''web.py'', ter_action = ''get'',
     ter_args = None, ter_timeout = None, ter_environment = None\<rparr>"

definition stopped_world :: "(json pg, example_containers) world" where
  "stopped_world = example_api_world\<lparr>w_store := example_pg [(example_sandbox 7 Stopped (Some ''ctr0''))\<lparr>sb_api_key_id := Some 5\<rparr>]\<rparr>"

theorem tool_errors_are_500_witness:
  "rs_status (projr (fst (sandbox_route example_libraries example_api_service (example_key_identity 5) 7
     (ReqTool example_tool_request) stopped_world))) = 500"
proof -
  let ?run = "sandbox_route example_libraries example_api_service (example_key_identity 5) 7 (ReqTool example_tool_request) stopped_world"
  have "isl (fst ?run) = False" "rs_status (projr (fst ?run)) \<noteq> 200" by code_simp+
  then show ?thesis
    using tool_errors_are_500 [of example_libraries example_api_service "example_key_identity 5" 7 example_tool_request stopped_world
      "projr (fst ?run)" "snd ?run"] by (auto simp: prod_eq_iff)
qed

lemma read_parts_bounded:
  "read_parts limit parts up = Inr up' \<Longrightarrow> pred_option (\<lambda>d. length d \<le> unat limit) (up_data up) \<Longrightarrow>
   pred_option (\<lambda>d. length d \<le> unat limit) (up_data up')"
  by (induction limit parts up rule: read_parts.induct) (auto split: if_splits sum.splits)


definition example_upload :: "(string + multipart_field) list" where
  "example_upload =
     [Inr \<lparr>mf_name = Some ''file'', mf_file_name = None, mf_text = Inl ''no text'', mf_bytes = Inr ''data''\<rparr>,
      Inr \<lparr>mf_name = Some ''path'', mf_file_name = None, mf_text = Inr ''/tmp//./a.txt'', mf_bytes = Inr []\<rparr>]"


end
