(* ===== verification/SshApi.thy ===== *)
theory SshApi
  imports SshProps Auth ApiProps
begin

text \<open>
  The HTTP handlers of SSH sessions and the authorisation endpoint of the SSH gateway
  (\<open>src/src/api/handlers/ssh.rs\<close>), with the conversion of the service's errors
  (\<open>src/src/api/errors.rs\<close>).
\<close>

section \<open>Handlers\<close>

record ListSshSessionsQuery =
  lsq_sandbox_id :: "uuid option"
  lsq_state :: "string option"
  lsq_limit :: "nat option"
  lsq_offset :: "nat option"

record SshSessionResponse =
  ssr_id :: uuid
  ssr_sandbox_id :: uuid
  ssr_state :: SshSessionState
  ssr_client_ip :: string
  ssr_pty_term :: "string option"
  ssr_pty_rows :: "i32 option"
  ssr_pty_cols :: "i32 option"
  ssr_connected_at :: time
  ssr_disconnected_at :: "time option"
  ssr_last_activity_at :: time
  ssr_bytes_sent :: i64
  ssr_bytes_received :: i64
  ssr_duration_seconds :: "i32 option"
  ssr_termination_reason :: "string option"

definition ssh_session_response :: "SshSession \<Rightarrow> SshSessionResponse" where
  "ssh_session_response s =
     \<lparr>ssr_id = sn_id s, ssr_sandbox_id = sn_sandbox_id s, ssr_state = sn_state s, ssr_client_ip = sn_client_ip s,
      ssr_pty_term = sn_pty_term s, ssr_pty_rows = sn_pty_rows s, ssr_pty_cols = sn_pty_cols s,
      ssr_connected_at = sn_connected_at s, ssr_disconnected_at = sn_disconnected_at s,
      ssr_last_activity_at = sn_last_activity_at s, ssr_bytes_sent = sn_bytes_sent s,
      ssr_bytes_received = sn_bytes_received s, ssr_duration_seconds = sn_duration_seconds s,
      ssr_termination_reason = sn_termination_reason s\<rparr>"

fun api_error_from_ssh :: "(uuid \<Rightarrow> string) \<Rightarrow> SshServiceError \<Rightarrow> ApiError" where
  "api_error_from_ssh sh (SandboxNotFound i) = ApiSandboxNotFound (sh i)"
| "api_error_from_ssh sh (SandboxNotRunning i) =
     ApiValidation (''Sandbox is not running: '' @ sh i) None (ssh_error_code (SandboxNotRunning i))"
| "api_error_from_ssh sh (AuthenticationFailed m) = ApiValidation m None (ssh_error_code (AuthenticationFailed m))"
| "api_error_from_ssh sh (SessionNotFound i) =
     ApiValidation (''SSH session not found: '' @ sh i) (Some ''session_id'') (ssh_error_code (SessionNotFound i))"
| "api_error_from_ssh sh (DatabaseError m) = ApiDatabase m (ssh_error_code (DatabaseError m)) None"
| "api_error_from_ssh sh (InvalidRequest m) = ApiValidation m None (ssh_error_code (InvalidRequest m))"

type_synonym ('s, 'b, 'a) ssh_api = "(('s, 'b) ssh_world, ApiError, 'a) prog"

definition api_err :: "('s, 'b, 'a) ssh \<Rightarrow> ('s, 'b, 'a) ssh_api" where
  "api_err m w = (case m w of
      (Inr a, v) \<Rightarrow> (Inr a, v)
    | (Inl e, v) \<Rightarrow> (Inl (api_error_from_ssh (w_uuid_to_string (sw_world v)) e), v))"

definition api_create_ssh_session ::
  "('s, 'b) SshSessionService \<Rightarrow> ApiKeyIdentity \<Rightarrow> CreateSshSessionRequest \<Rightarrow> ('s, 'b, SshSessionResponse) ssh_api" where
  "api_create_ssh_session ssv ident req =
     bindE (authorize_sandbox_access ssv ident (css_sandbox_id req)) (\<lambda>_.
     case ssh_request_validate req of
       Inl e \<Rightarrow> throw e
     | Inr _ \<Rightarrow> bindE (api_err (create_session ssv req)) (\<lambda>session. ret (ssh_session_response session)))"

definition parse_state_filter :: "string \<Rightarrow> SshSessionState option" where
  "parse_state_filter s =
     (if s = ''connecting'' then Some SshConnecting
      else if s = ''active'' then Some SshActive
      else if s = ''disconnected'' then Some SshDisconnected
      else if s = ''terminated'' then Some SshTerminated
      else if s = ''error'' then Some SshError
      else None)"

definition read_sessions ::
  "(('s, 'b) ssh_world \<Rightarrow> 'a \<times> ('s, 'b) ssh_world) \<Rightarrow> ('s, 'b, 'a) ssh_api" where
  "read_sessions f w = (case f w of (r, v) \<Rightarrow> (Inr r, v))"

definition api_list_ssh_sessions ::
  "('s, 'b) SshSessionService \<Rightarrow> ApiKeyIdentity \<Rightarrow> ListSshSessionsQuery \<Rightarrow> ('s, 'b, SshSessionResponse list) ssh_api" where
  "api_list_ssh_sessions ssv ident q =
     bindE (if ident_key_type ident \<noteq> Privileged then
              (case lsq_sandbox_id q of
                 None \<Rightarrow> throw (ApiValidation ''sandbox_id is required for non-privileged SSH session queries''
                     (Some ''sandbox_id'') EC_AuthorizationInsufficientPermissions)
               | Some i \<Rightarrow> authorize_sandbox_access ssv ident i)
            else ret ()) (\<lambda>_.
     bindE (read_sessions (list_sessions ssv
       \<lparr>ssf_sandbox_id = lsq_sandbox_id q, ssf_state = Option.bind (lsq_state q) parse_state_filter,
        ssf_limit = lsq_limit q, ssf_offset = lsq_offset q\<rparr>)) (\<lambda>sessions.
     ret (map ssh_session_response sessions)))"

text \<open>Getting, terminating and touching a session first look it up and check its sandbox.\<close>

definition authorized_session ::
  "('s, 'b) SshSessionService \<Rightarrow> ApiKeyIdentity \<Rightarrow> uuid \<Rightarrow> ('s, 'b, SshSession) ssh_api" where
  "authorized_session ssv ident i =
     bindE (api_err (get_session ssv i)) (\<lambda>session.
     bindE (authorize_sandbox_access ssv ident (sn_sandbox_id session)) (\<lambda>_. ret session))"

definition api_get_ssh_session ::
  "('s, 'b) SshSessionService \<Rightarrow> ApiKeyIdentity \<Rightarrow> uuid \<Rightarrow> ('s, 'b, SshSessionResponse) ssh_api" where
  "api_get_ssh_session ssv ident i =
     bindE (authorized_session ssv ident i) (\<lambda>session. ret (ssh_session_response session))"

definition api_terminate_ssh_session ::
  "('s, 'b) SshSessionService \<Rightarrow> ApiKeyIdentity \<Rightarrow> uuid \<Rightarrow> string option \<Rightarrow> ('s, 'b, nat) ssh_api" where
  "api_terminate_ssh_session ssv ident i reason =
     bindE (authorized_session ssv ident i) (\<lambda>_.
     bindE (api_err (terminate_session ssv i (case reason of Some r \<Rightarrow> r | None \<Rightarrow> ''API request''))) (\<lambda>_. ret 204))"

definition api_update_session_activity ::
  "('s, 'b) SshSessionService \<Rightarrow> ApiKeyIdentity \<Rightarrow> uuid \<Rightarrow> i64 \<Rightarrow> i64 \<Rightarrow> ('s, 'b, nat) ssh_api" where
  "api_update_session_activity ssv ident i bytes_sent bytes_received =
     bindE (authorized_session ssv ident i) (\<lambda>_.
     bindE (api_err (update_activity ssv i bytes_sent bytes_received)) (\<lambda>_. ret 204))"

definition api_get_statistics ::
  "('s, 'b) SshSessionService \<Rightarrow> ApiKeyIdentity \<Rightarrow> ('s, 'b, SessionStatistics) ssh_api" where
  "api_get_statistics ssv ident =
     (if ident_key_type ident \<noteq> Privileged then
        throw (ApiValidation ''SSH session statistics require a privileged API key'' None
          EC_AuthorizationInsufficientPermissions)
      else api_err (get_statistics ssv))"

section \<open>The authorisation endpoint of the gateway\<close>

record ('s, 'b) SshAuthState =
  sas_service :: "('s, 'b) SandboxService"
  sas_api_key :: "string option"

record AuthContext =
  ac_authorized :: bool
  ac_sandbox_id :: uuid
  ac_state :: string
  ac_container_id :: "string option"
  ac_permissions :: "string list"

datatype gateway_error = Rejection nat | ApiFailure ApiError

definition ssh_key_header :: "http_request \<Rightarrow> gateway_error + string option" where
  "ssh_key_header rq =
     (case rq_x_api_key rq of
        None \<Rightarrow> Inr None
      | Some h \<Rightarrow> (case header_to_str h of None \<Rightarrow> Inl (Rejection 401) | Some v \<Rightarrow> Inr (Some v)))"

definition authorize_ssh_access ::
  "('s, 'b) SshAuthState \<Rightarrow> http_request \<Rightarrow> uuid \<Rightarrow> (('s, 'b) world, gateway_error, AuthContext) prog" where
  "authorize_ssh_access sas rq i =
     (case ssh_key_header rq of
        Inl e \<Rightarrow> throw e
      | Inr provided \<Rightarrow>
          if sas_api_key sas \<noteq> None \<and> provided \<noteq> sas_api_key sas then
            throw (ApiFailure (ApiAuthentication
              (if provided = None then ''Missing X-API-Key header for SSH gateway access''
               else ''Invalid API key for SSH gateway access'')))
          else
            bindE (read_store (ss_get_sandbox (svc_state (sas_service sas)) i)) (\<lambda>found. case found of
              None \<Rightarrow> bindE (uuid_text i) (\<lambda>t. throw (ApiFailure (ApiSandboxNotFound t)))
            | Some sandbox \<Rightarrow>
                if sb_state sandbox \<noteq> Running then
                  throw (ApiFailure (ApiValidation (''Sandbox is not running (current state: '' @
                    sandbox_state_as_str (sb_state sandbox) @ '')'') None EC_SandboxInvalidState))
                else ret \<lparr>ac_authorized = True, ac_sandbox_id = i, ac_state = sandbox_state_as_str (sb_state sandbox),
                          ac_container_id = sb_container_id sandbox, ac_permissions = [''exec'', ''pty'']\<rparr>))"

end
