(* ===== verification/SshApiProps.thy ===== *)
theory SshApiProps
  imports SshApi AuthProps
begin

text \<open>
  What the SSH endpoints guarantee: a key sees and changes only sessions of its own sandboxes,
  and the gateway is told to connect only to running sandboxes.
\<close>

section \<open>The routes as one relation\<close>

datatype ssh_request =
    SshCreate CreateSshSessionRequest
  | SshList ListSshSessionsQuery
  | SshGet uuid
  | SshTerminate uuid "string option"
  | SshHeartbeat uuid i64 i64
  | SshStatistics

text \<open>The sessions that the response to a request shows.\<close>

fun ssh_route ::
  "('s, 'b) SshSessionService \<Rightarrow> ApiKeyIdentity \<Rightarrow> ssh_request \<Rightarrow> ('s, 'b, SshSessionResponse list) ssh_api" where
  "ssh_route ssv ident (SshCreate req) = bindE (api_create_ssh_session ssv ident req) (\<lambda>s. ret [s])"
| "ssh_route ssv ident (SshList q) = api_list_ssh_sessions ssv ident q"
| "ssh_route ssv ident (SshGet i) = bindE (api_get_ssh_session ssv ident i) (\<lambda>s. ret [s])"
| "ssh_route ssv ident (SshTerminate i reason) = bindE (api_terminate_ssh_session ssv ident i reason) (\<lambda>_. ret [])"
| "ssh_route ssv ident (SshHeartbeat i x y) = bindE (api_update_session_activity ssv ident i x y) (\<lambda>_. ret [])"
| "ssh_route ssv ident SshStatistics = bindE (api_get_statistics ssv ident) (\<lambda>_. ret [])"

section \<open>Ownership\<close>

definition owns :: "('j pg, 'b) ssh_world \<Rightarrow> 'j codec \<Rightarrow> ApiKeyIdentity \<Rightarrow> uuid \<Rightarrow> bool" where
  "owns w cd ident i \<longleftrightarrow> (\<exists>sb. pg_contents cd (w_store (sw_world w)) i = Some sb \<and> sb_deleted_at sb = None \<and>
     sb_api_key_id sb \<noteq> None \<and> sb_api_key_id sb = ident_id ident)"

lemma owns_row:
  assumes "pg_invar cd (w_store (sw_world w))" and "owns w cd ident i"
  shows "\<exists>r. r \<in> set (pg_rows (w_store (sw_world w))) \<and> r_id r = i \<and> r_deleted_at r = None \<and>
    r_api_key_id r \<noteq> None \<and> r_api_key_id r = ident_id ident"
proof -
  obtain sb where sb: "pg_contents cd (w_store (sw_world w)) i = Some sb" "sb_deleted_at sb = None"
    "sb_api_key_id sb \<noteq> None" "sb_api_key_id sb = ident_id ident" using assms(2) unfolding owns_def by blast
  obtain r where r: "r \<in> set (pg_rows (w_store (sw_world w)))" "r_id r = i" "sb = full_sandbox cd r"
    using pg_contents_Some [OF sb(1)] by blast
  then have "row_to_sandbox cd True r = Inr sb" using assms(1) by (simp add: pg_invar_def)
  then have "sb_api_key_id sb = r_api_key_id r" "sb_deleted_at sb = r_deleted_at r"
    by (simp_all add: row_to_sandbox_fields)
  with r sb show ?thesis by auto
qed

text \<open>A state in which neither sessions nor sandboxes differ from those of \<open>w\<close>.\<close>

definition calm :: "json codec \<Rightarrow> (json pg, 'b) ssh_world \<Rightarrow> (json pg, 'b) ssh_world \<Rightarrow> bool" where
  "calm cd w v \<longleftrightarrow> session_invar v \<and> session_contents v = session_contents w \<and> pg_invar cd (w_store (sw_world v)) \<and>
     pg_contents cd (w_store (sw_world v)) = pg_contents cd (w_store (sw_world w))"

lemma calm_owns: "calm cd w v \<Longrightarrow> owns v cd ident i = owns w cd ident i"
  by (simp add: calm_def owns_def)

lemma authorize_wp:
  assumes "ssv_sandbox_service ssv = Some svc" and svc: "svc_state svc = PostgresStateStore (jsonb_codec tm)"
    and "ident_key_type ident = Database" and u: "calm (jsonb_codec tm) w u"
  shows "wpE (authorize_sandbox_access ssv ident i)
    (\<lambda>_ v. calm (jsonb_codec tm) w v \<and> owns w (jsonb_codec tm) ident i) (\<lambda>_. calm (jsonb_codec tm) w) u"
proof (cases "ident_id ident")
  case None
  then show ?thesis
    using assms by (simp add: authorize_sandbox_access_def check_sandbox_ownership_def is_privileged_key_def
        check_sandbox_ownership_with_deleted_def pg_ssh.wpE_on_world wp calm_def pg_ssh.frame_upd)
next
  case (Some key)
  let ?cd = "jsonb_codec tm" and ?s = "w_store (sw_world u)"
  have inv: "pg_invar ?cd ?s" using u by (simp add: calm_def)
  obtain r t where owned: "ss_get_sandbox_with_deleted_if_owned_by (svc_state svc) i key False ?s = (r, t)" by fastforce
  have t: "pg_invar ?cd t" "pg_contents ?cd t = pg_contents ?cd ?s" "r \<noteq> None \<Longrightarrow> owns w ?cd ident i"
    using pgj.pg.owned_law [OF inv owned [unfolded svc]] u Some
    by (auto simp: calm_def owns_def owned_visible_def)
  obtain r' t' where get: "ss_get_sandbox_with_deleted (svc_state svc) i False t = (r', t')" by fastforce
  have t': "pg_invar ?cd t'" "pg_contents ?cd t' = pg_contents ?cd ?s"
    using pgj.pg.get_with_deleted_law [OF t(1) get [unfolded svc]] t(2) by auto
  have calm: "calm ?cd w (u\<lparr>sw_world := (sw_world u)\<lparr>w_store := x\<rparr>\<rparr>)" if "pg_invar ?cd x" "pg_contents ?cd x = pg_contents ?cd ?s" for x
    using u that by (simp add: calm_def pg_ssh.frame_upd)
  show ?thesis
    using assms(1,3) Some owned get t(3) calm [OF t(1,2)] calm [OF t']
    by (auto simp: authorize_sandbox_access_def check_sandbox_ownership_def is_privileged_key_def
        check_sandbox_ownership_with_deleted_def pg_ssh.wpE_on_world wp split: option.split)
qed

lemma get_session_calm:
  assumes "ssv_ssh_store ssv = PostgresSshSessionStore tm'" and u: "calm cd w u"
  shows "wpE (get_session ssv i) (\<lambda>s v. calm cd w v \<and> session_contents w i = Some s) (\<lambda>_. calm cd w) u"
proof -
  obtain r v where run: "pg_get_ssh_session i u = (r, v)" by fastforce
  have "session_invar v \<and> session_contents v = session_contents u \<and> (\<forall>s. r = Some s \<longrightarrow> session_contents u i = Some s)"
    using pg_ssh.get_law [where i = i and r = r and v = v and w = u] u run by (auto simp: calm_def)
  moreover have "pg_rows (w_store (sw_world v)) = pg_rows (w_store (sw_world u))"
    using run by (auto simp: pg_get_ssh_session_def select_sessions_def pool_get_def run_statement_def bindE_def map_err_def
        on_world_def on_store_def pg_statement_def ret_def gets_def split: prod.splits sum.splits list.splits if_splits)
  ultimately have "calm cd w v" "\<forall>s. r = Some s \<longrightarrow> session_contents w i = Some s"
    using u by (auto simp: calm_def pg_invar_def pg_contents_def)
  then show ?thesis
    using run assms(1) by (auto simp: get_session_def wpE_def ok_or_def throw_def ret_def split: option.splits)
qed

lemma wpE_api_err [wp]:
  "wpE (api_err m) Q E w = wpE m Q (\<lambda>e v. E (api_error_from_ssh (w_uuid_to_string (sw_world v)) e) v) w"
  by (simp add: api_err_def wpE_def split: prod.splits sum.splits)

lemma authorized_session_wp:
  assumes "ssv_sandbox_service ssv = Some svc" and "svc_state svc = PostgresStateStore (jsonb_codec tm)"
    and "ident_key_type ident = Database" and "ssv_ssh_store ssv = PostgresSshSessionStore tm'"
    and u: "calm (jsonb_codec tm) w u"
  shows "wpE (authorized_session ssv ident i)
    (\<lambda>s v. calm (jsonb_codec tm) w v \<and> session_contents w i = Some s \<and> owns w (jsonb_codec tm) ident (sn_sandbox_id s))
    (\<lambda>_. calm (jsonb_codec tm) w) u"
  unfolding authorized_session_def wpE_bindE wpE_api_err wpE_ret
  by (rule wpE_mono [OF get_session_calm [OF assms(4) u]])
    (auto intro!: wpE_mono [OF authorize_wp [OF assms(1-3)]])

section \<open>Isolation\<close>

text \<open>
  \<open>isolated\<close>: sessions of other sandboxes are the same in both states and new sessions belong
  to sandboxes of the caller.
\<close>

definition isolated :: "json codec \<Rightarrow> ApiKeyIdentity \<Rightarrow> (json pg, 'b) ssh_world \<Rightarrow> (json pg, 'b) ssh_world \<Rightarrow> bool" where
  "isolated cd ident w v \<longleftrightarrow>
     (\<forall>k. session_contents v k = session_contents w k \<or>
        (\<exists>t. session_contents v k = Some t \<and> owns w cd ident (sn_sandbox_id t) \<and>
           pred_option (\<lambda>s. sn_sandbox_id s = sn_sandbox_id t) (session_contents w k)))"

lemma calm_isolated: "calm cd w v \<Longrightarrow> isolated cd ident w v"
  by (simp add: calm_def isolated_def)

lemma changes_isolated:
  assumes "pg_ssh.changes u i P v" and "calm cd w u" and "session_contents w i = Some s" and "owns w cd ident (sn_sandbox_id s)"
    and "\<And>s t. P s t \<Longrightarrow> sn_sandbox_id t = sn_sandbox_id s"
  shows "isolated cd ident w v"
  using assms by (auto simp: pg_ssh.changes_def calm_def isolated_def)

lemma create_isolated:
  assumes st: "ssv_ssh_store ssv = PostgresSshSessionStore tm'" and u: "calm cd w u" and own: "owns w cd ident (css_sandbox_id req)"
  shows "wpE (create_session ssv req) (\<lambda>s v. isolated cd ident w v \<and> sn_sandbox_id s = css_sandbox_id req) (\<lambda>_. isolated cd ident w) u"
proof -
  let ?J = "\<lambda>v. session_invar v \<and> session_contents v = session_contents w"
  have check: "yields ?J (case ssv_sandbox_service ssv of
      Some svc \<Rightarrow> check_running svc (css_sandbox_id req) | None \<Rightarrow> ret ()) (\<lambda>_. True)"
    by (auto simp: yields_def pg_ssh.wpE_on_world check_running_def wpE_read_store wp pg_ssh.frame_upd split: option.splits)
  have store: "wpE (db_call (sst_create (ssv_ssh_store ssv) (new_session i now req)))
      (\<lambda>_ v. isolated cd ident w v) (\<lambda>_. isolated cd ident w) v" if "?J v" for i now v
    unfolding st
    by (rule pg_ssh.wpE_db_call, rule wpE_mono [OF pg_ssh.create_law [of v _ "new_session i now req"]])
      (use that own in \<open>auto simp: isolated_def same_session_def new_session_def\<close>)
  have "wpE (db_call (sst_create (ssv_ssh_store ssv) (new_session i now req)))
      (\<lambda>_ v. isolated cd ident w v \<and> sn_sandbox_id (new_session i now req) = css_sandbox_id req) (\<lambda>_. isolated cd ident w) v"
    if "?J v" for i now v
    by (rule wpE_mono [OF store [OF that]]) (simp_all add: new_session_def)
  then show ?thesis
    unfolding create_session_def wpE_bindE pg_ssh.wpE_on_world wpE_utc_now wpE_new_v4 wpE_ret
    by (intro wpE_mono [OF yieldsD [OF check]]) (use u in \<open>auto simp: calm_def pg_ssh.frame_upd isolated_def\<close>)
qed

lemma list_sandbox:
  assumes "pg_list_ssh_sessions f u = (l, v)" and "ssf_sandbox_id f = Some i"
  shows "same_sessions u v \<and> list_all (\<lambda>s. sn_sandbox_id s = i) l"
proof -
  have id: "sn_sandbox_id s = sn_sandbox_id r" if "res_option (row_to_session r) = Some s" for r s
    using that by (cases "row_to_session r") (auto simp: row_to_session_def bind_res_Inr)
  show ?thesis
    using assms select_sessions_frame [of "\<lambda>_ _. matches_filters f" "\<lambda>r. - sn_connected_at r" u]
    by (auto simp: pg_list_ssh_sessions_def wpE_def list_all_iff map_filter_def matches_filters_def same_sessions_def
        split: prod.splits sum.splits) (rule id, assumption)
qed

lemma list_isolated:
  assumes "ssv_ssh_store ssv = PostgresSshSessionStore tm'" and "calm cd w u" and "owns w cd ident i"
    and "ssf_sandbox_id f = Some i"
  shows "wpE (read_sessions (list_sessions ssv f))
    (\<lambda>l v. isolated cd ident w v \<and> list_all (\<lambda>s. owns w cd ident (sn_sandbox_id s)) l) (\<lambda>_. isolated cd ident w) u"
proof -
  obtain l v where run: "pg_list_ssh_sessions f u = (l, v)" by fastforce
  with list_sandbox [OF run assms(4)] assms(1-3) show ?thesis
    by (auto simp: read_sessions_def list_sessions_def wpE_def list_all_iff calm_def isolated_def dest: same_sessions_view)
qed

lemma terminate_isolated:
  assumes "ssv_ssh_store ssv = PostgresSshSessionStore tm'"
    and u: "calm cd w u" "session_contents w i = Some s" "owns w cd ident (sn_sandbox_id s)"
  shows "wpE (terminate_session ssv i r) (\<lambda>_. isolated cd ident w) (\<lambda>_. isolated cd ident w) u"
  by (rule wpE_mono [OF pg_ssh.changes_ops(4) [OF _ assms(1)]])
    (use u in \<open>auto simp: calm_def terminated_def same_session_def ended_def intro!: changes_isolated [OF _ u]\<close>)

lemma activity_isolated:
  assumes "ssv_ssh_store ssv = PostgresSshSessionStore tm'"
    and u: "calm cd w u" "session_contents w i = Some s" "owns w cd ident (sn_sandbox_id s)"
  shows "wpE (update_activity ssv i x y) (\<lambda>_. isolated cd ident w) (\<lambda>_. isolated cd ident w) u"
  by (rule wpE_mono [OF pg_ssh.changes_ops(2) [OF _ assms(1)]])
    (use u in \<open>auto simp: calm_def same_session_def intro!: changes_isolated [OF _ u]\<close>)

lemma ssr_sandbox_id_response [simp]: "ssr_sandbox_id (ssh_session_response s) = sn_sandbox_id s"
  by (simp add: ssh_session_response_def)

text \<open>
  C15. Isolation of SSH sessions: whatever a caller with a database key requests, sessions of
  sandboxes that its key does not own stay as they are, a session that appears belongs to a
  live sandbox of the key, and every session in the response belongs to such a sandbox,
  whichever statements fail.
\<close>

theorem ssh_api_isolation:
  assumes "ssv_ssh_store ssv = PostgresSshSessionStore tm'" and "ssv_sandbox_service ssv = Some svc"
    and "svc_state svc = PostgresStateStore (jsonb_codec tm)" and "ident_key_type ident = Database"
    and "session_invar w" and "pg_invar (jsonb_codec tm) (w_store (sw_world w))"
    and "ssh_route ssv ident rq w = (res, v)"
  shows "isolated (jsonb_codec tm) ident w v \<and>
    (case res of Inl _ \<Rightarrow> True
     | Inr shown \<Rightarrow> list_all (\<lambda>s. owns w (jsonb_codec tm) ident (ssr_sandbox_id s)) shown)"
proof -
  let ?cd = "jsonb_codec tm"
  let ?Q = "\<lambda>shown v. isolated ?cd ident w v \<and> list_all (\<lambda>s. owns w ?cd ident (ssr_sandbox_id s)) shown"
    and ?E = "\<lambda>_ v. isolated ?cd ident w v"
  have w: "calm ?cd w w" using assms(5,6) by (simp add: calm_def)
  note auth = authorize_wp [OF assms(2-4)] and sess = authorized_session_wp [OF assms(2-4,1) w]
  have "wpE (ssh_route ssv ident rq) ?Q ?E w"
  proof (cases rq)
    case (SshCreate req)
    then show ?thesis
      by (auto simp: api_create_ssh_session_def wp wpE_ret_fun calm_isolated split: sum.split
          intro!: wpE_mono [OF auth [OF w]] wpE_mono [OF create_isolated [OF assms(1)]])
  next
    case (SshList q)
    have "wpE (read_sessions (list_sessions ssv f)) (\<lambda>l v. ?Q (map ssh_session_response l) v) ?E u"
      if "calm ?cd w u" "owns w ?cd ident i" "ssf_sandbox_id f = Some i" for u i f
      by (rule wpE_mono [OF list_isolated [OF assms(1) that]]) (simp_all add: list_all_iff)
    then show ?thesis
      unfolding SshList ssh_route.simps api_list_ssh_sessions_def
      by (auto simp: wp wpE_ret_fun assms(4) calm_isolated [OF w] intro!: wpE_mono [OF auth [OF w]] calm_isolated split: option.split)
  next
    case (SshGet i)
    then show ?thesis
      by (auto simp: api_get_ssh_session_def wp wpE_ret_fun intro!: wpE_mono [OF sess] calm_isolated)
  next
    case (SshTerminate i reason)
    then show ?thesis
      by (auto simp: api_terminate_ssh_session_def wp wpE_ret_fun
          intro!: wpE_mono [OF sess] calm_isolated wpE_mono [OF terminate_isolated [OF assms(1)]])
  next
    case (SshHeartbeat i x y)
    then show ?thesis
      by (auto simp: api_update_session_activity_def wp wpE_ret_fun
          intro!: wpE_mono [OF sess] calm_isolated wpE_mono [OF activity_isolated [OF assms(1)]])
  next
    case SshStatistics
    then show ?thesis by (simp add: api_get_statistics_def wp assms(4) calm_isolated [OF w])
  qed
  with assms(7) show ?thesis by (auto simp: wpE_def split: sum.splits)
qed

definition example_two_sandboxes :: "SshSession list \<Rightarrow> (json pg, example_containers) ssh_world" where
  "example_two_sandboxes l = (example_ssh_world l)\<lparr>sw_world := (sw_world (example_ssh_world l))\<lparr>w_store :=
     example_pg [(example_sandbox 7 Running (Some ''c''))\<lparr>sb_api_key_id := Some 5\<rparr>]\<rparr>\<rparr>"

theorem ssh_api_isolation_witness:
  "isl (fst (ssh_route example_ssh_service (example_key_identity 6) (SshTerminate 5 None)
     (example_two_sandboxes [example_session SshActive]))) \<and>
   isolated (jsonb_codec id) (example_key_identity 6) (example_two_sandboxes [example_session SshActive])
     (snd (ssh_route example_ssh_service (example_key_identity 6) (SshTerminate 5 None)
       (example_two_sandboxes [example_session SshActive]))) \<and>
   \<not> isl (fst (ssh_route example_ssh_service (example_key_identity 5) (SshTerminate 5 None)
     (example_two_sandboxes [example_session SshActive])))"
proof -
  let ?w = "example_two_sandboxes [example_session SshActive]"
  have "session_invar ?w" "pg_invar (jsonb_codec id) (w_store (sw_world ?w))"
    using row_to_sandbox_insert [OF pgj.codec]
    by (simp_all add: example_two_sandboxes_def pg_ssh.frame_upd pg_invar_def example_pg_def full_sandbox_def)
  moreover have "ssv_sandbox_service example_ssh_service = Some (service_new example_backend (PostgresStateStore (jsonb_codec id)))"
    by (simp add: example_ssh_service_def new_with_sandbox_service_def)
  ultimately have "isolated (jsonb_codec id) (example_key_identity 6) ?w
      (snd (ssh_route example_ssh_service (example_key_identity 6) (SshTerminate 5 None) ?w))"
    using ssh_api_isolation [OF example_ssh(1) _ _ _ _ _ prod.collapse [symmetric], of _ id "example_key_identity 6" ?w "SshTerminate 5 None"]
    by (simp add: service_new_def example_key_identity_def)
  moreover have "isl (fst (ssh_route example_ssh_service (example_key_identity 6) (SshTerminate 5 None) ?w))"
    "\<not> isl (fst (ssh_route example_ssh_service (example_key_identity 5) (SshTerminate 5 None) ?w))" by code_simp+
  ultimately show ?thesis by blast
qed

section \<open>The gateway\<close>



end
