(* ===== verification/FileSystem.thy ===== *)
theory FileSystem
  imports Paths
begin

text \<open>
  The file system of the machine the server runs on, as far as \<open>std::fs\<close> and \<open>std::path\<close> show
  it to the static-file code: a tree of regular files, directories and symbolic links, the
  resolution of a path with its limit of forty links, and the operations that the code calls.
  An operation on the object at a resolved place may also fail for reasons of its own
  (permissions, a failing disk): \<open>fs_fault\<close> says with which error. Devices and pipes are left out.
\<close>

section \<open>Trees\<close>

datatype fsnode = FFile string | FDir "(string \<times> fsnode) list" | FLink string

datatype fs_op = OpStat | OpRead | OpReadDir | OpUnlink | OpRmdir | OpMkdir

datatype IoError = IoNotFound | IoNotADirectory | IoIsADirectory | IoLoop | IoOther string

fun io_error_display :: "IoError \<Rightarrow> string" where
  "io_error_display IoNotFound = ''No such file or directory (os error 2)''"
| "io_error_display IoNotADirectory = ''Not a directory (os error 20)''"
| "io_error_display IoIsADirectory = ''Is a directory (os error 21)''"
| "io_error_display IoLoop = ''Too many levels of symbolic links (os error 40)''"
| "io_error_display (IoOther m) = m"

record file_system =
  fs_root :: fsnode
  fs_cwd :: "string list"
  fs_fault :: "fs_op \<Rightarrow> string list \<Rightarrow> IoError option"
  fs_dir_len :: "string list \<Rightarrow> u64"

fun node_at :: "fsnode \<Rightarrow> string list \<Rightarrow> fsnode option" where
  "node_at n [] = Some n"
| "node_at (FDir es) (p # ps) = (case map_of es p of None \<Rightarrow> None | Some n \<Rightarrow> node_at n ps)"
| "node_at _ (p # ps) = None"

text \<open>The tree with the object at a place replaced, or removed.\<close>

fun put_node :: "string list \<Rightarrow> fsnode option \<Rightarrow> fsnode \<Rightarrow> fsnode" where
  "put_node [p] new (FDir es) =
     FDir (case new of None \<Rightarrow> AList.delete p es | Some n \<Rightarrow> AList.update p n es)"
| "put_node (p # q # ps) new (FDir es) =
     FDir (case map_of es p of None \<Rightarrow> es | Some n \<Rightarrow> AList.update p (put_node (q # ps) new n) es)"
| "put_node _ new n = n"

section \<open>Resolution\<close>

text \<open>
  One component, from the directory reached so far. An empty component and a dot stay where
  they are (and so ask for a directory, as a trailing slash does); a link leads back to the
  root or to its own directory, with the components of its target still to walk.
\<close>

datatype hop = Reach "string list" | Via "string list" "string list"

definition hop_from :: "fsnode \<Rightarrow> string list \<Rightarrow> string \<Rightarrow> IoError + hop" where
  "hop_from root cur p =
     (case node_at root cur of
        Some (FDir es) \<Rightarrow>
          if p = [] \<or> p = ''.'' then Inr (Reach cur)
          else if p = ''..'' then Inr (Reach (butlast cur))
          else (case map_of es p of
              None \<Rightarrow> Inl IoNotFound
            | Some (FLink t) \<Rightarrow> Inr (Via (if is_absolute t then [] else cur) (split_on (CHR ''/'') t))
            | Some _ \<Rightarrow> Inr (Reach (cur @ [p])))
      | _ \<Rightarrow> Inl IoNotADirectory)"

text \<open>A link is followed unless it is the last component and the operation does not follow links.\<close>

function walk :: "fsnode \<Rightarrow> bool \<Rightarrow> nat \<Rightarrow> string list \<Rightarrow> string list \<Rightarrow> IoError + string list" where
  "walk root follow links cur [] = Inr cur"
| "walk root follow links cur (p # ps) =
     (case hop_from root cur p of
        Inl e \<Rightarrow> Inl e
      | Inr (Reach c) \<Rightarrow> walk root follow links c ps
      | Inr (Via c qs) \<Rightarrow>
          if ps = [] \<and> \<not> follow then Inr (cur @ [p])
          else (case links of 0 \<Rightarrow> Inl IoLoop | Suc l \<Rightarrow> walk root follow l c (qs @ ps)))"
  by pat_completeness auto
termination
  by (relation "measures [\<lambda>(root, follow, links, cur, ps). links, \<lambda>(root, follow, links, cur, ps). length ps]") auto

definition resolve :: "file_system \<Rightarrow> bool \<Rightarrow> string \<Rightarrow> IoError + string list" where
  "resolve fs follow path =
     (if path = [] then Inl IoNotFound
      else walk (fs_root fs) follow 40 (if is_absolute path then [] else fs_cwd fs) (split_on (CHR ''/'') path))"

text \<open>The object a path leads to, if the operation on it succeeds.\<close>

definition open_node :: "fs_op \<Rightarrow> bool \<Rightarrow> file_system \<Rightarrow> string \<Rightarrow> IoError + string list \<times> fsnode" where
  "open_node oper follow fs path =
     (case resolve fs follow path of
        Inl e \<Rightarrow> Inl e
      | Inr place \<Rightarrow>
          (case fs_fault fs oper place of
             Some e \<Rightarrow> Inl e
           | None \<Rightarrow> (case node_at (fs_root fs) place of None \<Rightarrow> Inl IoNotFound | Some n \<Rightarrow> Inr (place, n))))"

section \<open>Operations of the standard library\<close>

definition symlink_metadata :: "file_system \<Rightarrow> string \<Rightarrow> IoError + string list \<times> fsnode" where
  "symlink_metadata = open_node OpStat False"

definition fs_metadata :: "file_system \<Rightarrow> string \<Rightarrow> IoError + string list \<times> fsnode" where
  "fs_metadata = open_node OpStat True"

fun is_symlink :: "fsnode \<Rightarrow> bool" where
  "is_symlink (FLink t) = True"
| "is_symlink _ = False"

fun metadata_len :: "file_system \<Rightarrow> string list \<times> fsnode \<Rightarrow> u64" where
  "metadata_len fs (place, FFile c) = of_nat (length c)"
| "metadata_len fs (place, FLink t) = of_nat (length t)"
| "metadata_len fs (place, FDir es) = fs_dir_len fs place"

definition path_exists :: "file_system \<Rightarrow> string \<Rightarrow> bool" where
  "path_exists fs path = (case fs_metadata fs path of Inr _ \<Rightarrow> True | Inl _ \<Rightarrow> False)"

definition path_is_file :: "file_system \<Rightarrow> string \<Rightarrow> bool" where
  "path_is_file fs path = (case fs_metadata fs path of Inr (_, FFile _) \<Rightarrow> True | _ \<Rightarrow> False)"

definition path_is_dir :: "file_system \<Rightarrow> string \<Rightarrow> bool" where
  "path_is_dir fs path = (case fs_metadata fs path of Inr (_, FDir _) \<Rightarrow> True | _ \<Rightarrow> False)"

definition fs_read :: "file_system \<Rightarrow> string \<Rightarrow> IoError + string" where
  "fs_read fs path =
     (case open_node OpRead True fs path of
        Inl e \<Rightarrow> Inl e
      | Inr (_, FFile c) \<Rightarrow> Inr c
      | Inr (_, FDir _) \<Rightarrow> Inl IoIsADirectory
      | Inr (_, FLink _) \<Rightarrow> Inl IoLoop)"

definition read_dir :: "file_system \<Rightarrow> string \<Rightarrow> IoError + string list" where
  "read_dir fs path =
     (case open_node OpReadDir True fs path of
        Inl e \<Rightarrow> Inl e
      | Inr (_, FDir es) \<Rightarrow> Inr (map fst es)
      | Inr _ \<Rightarrow> Inl IoNotADirectory)"

definition remove_file :: "file_system \<Rightarrow> string \<Rightarrow> (IoError + unit) \<times> file_system" where
  "remove_file fs path =
     (case open_node OpUnlink False fs path of
        Inl e \<Rightarrow> (Inl e, fs)
      | Inr (_, FDir _) \<Rightarrow> (Inl IoIsADirectory, fs)
      | Inr (place, _) \<Rightarrow> (Inr (), fs\<lparr>fs_root := put_node place None (fs_root fs)\<rparr>))"

text \<open>
  Removal of a tree goes through the entries in order and stops at the first error; links are
  removed, not followed. The result is that error, if any, and what is left of the tree.
\<close>

fun purge :: "(fs_op \<Rightarrow> string list \<Rightarrow> IoError option) \<Rightarrow> string list \<Rightarrow> fsnode \<Rightarrow> IoError option \<times> fsnode option"
  and purge_entries :: "(fs_op \<Rightarrow> string list \<Rightarrow> IoError option) \<Rightarrow> string list \<Rightarrow> (string \<times> fsnode) list \<Rightarrow>
    IoError option \<times> (string \<times> fsnode) list" where
  "purge fault place (FFile c) =
     (case fault OpUnlink place of Some e \<Rightarrow> (Some e, Some (FFile c)) | None \<Rightarrow> (None, None))"
| "purge fault place (FLink t) =
     (case fault OpUnlink place of Some e \<Rightarrow> (Some e, Some (FLink t)) | None \<Rightarrow> (None, None))"
| "purge fault place (FDir es) =
     (case fault OpReadDir place of
        Some e \<Rightarrow> (Some e, Some (FDir es))
      | None \<Rightarrow>
          (case purge_entries fault place es of
             (Some e, rest) \<Rightarrow> (Some e, Some (FDir rest))
           | (None, rest) \<Rightarrow>
               (case fault OpRmdir place of Some e \<Rightarrow> (Some e, Some (FDir rest)) | None \<Rightarrow> (None, None))))"
| "purge_entries fault place [] = (None, [])"
| "purge_entries fault place ((name, n) # es) =
     (case purge fault (place @ [name]) n of
        (Some e, rest) \<Rightarrow> (Some e, (case rest of None \<Rightarrow> es | Some m \<Rightarrow> (name, m) # es))
      | (None, _) \<Rightarrow> purge_entries fault place es)"

definition remove_dir_all :: "file_system \<Rightarrow> string \<Rightarrow> (IoError + unit) \<times> file_system" where
  "remove_dir_all fs path =
     (case open_node OpStat False fs path of
        Inl e \<Rightarrow> (Inl e, fs)
      | Inr (place, FFile _) \<Rightarrow> (Inl IoNotADirectory, fs)
      | Inr (place, n) \<Rightarrow>
          (case purge (fs_fault fs) place n of
             (result, rest) \<Rightarrow>
               ((case result of None \<Rightarrow> Inr () | Some e \<Rightarrow> Inl e),
                fs\<lparr>fs_root := put_node place rest (fs_root fs)\<rparr>)))"

text \<open>
  Making a directory, and all that are missing above it: a path that is a directory already is
  left as it is.
\<close>

definition mkdir :: "file_system \<Rightarrow> string \<Rightarrow> (IoError + unit) \<times> file_system" where
  "mkdir fs path =
     (let parts = split_on (CHR ''/'') path;
          name = last parts;
          parent = (if butlast parts = [] then ''.'' else if butlast parts = [[]] then ''/'' else join ''/'' (butlast parts))
      in case fs_metadata fs parent of
           Inl e \<Rightarrow> (Inl e, fs)
         | Inr (place, FDir es) \<Rightarrow>
             if name \<in> {[], ''.'', ''..''} \<or> map_of es name \<noteq> None then (Inl (IoOther ''File exists (os error 17)''), fs)
             else (case fs_fault fs OpMkdir (place @ [name]) of
                 Some e \<Rightarrow> (Inl e, fs)
               | None \<Rightarrow> (Inr (), fs\<lparr>fs_root := put_node (place @ [name]) (Some (FDir [])) (fs_root fs)\<rparr>))
         | Inr _ \<Rightarrow> (Inl IoNotADirectory, fs))"

definition make_missing :: "string \<Rightarrow> (IoError + unit) \<times> file_system \<Rightarrow> (IoError + unit) \<times> file_system" where
  "make_missing path acc =
     (case acc of
        (Inl e, fs) \<Rightarrow> (Inl e, fs)
      | (Inr _, fs) \<Rightarrow> if path = [] \<or> path_is_dir fs path then (Inr (), fs) else mkdir fs path)"

definition create_dir_all :: "file_system \<Rightarrow> string \<Rightarrow> (IoError + unit) \<times> file_system" where
  "create_dir_all fs path =
     (let parts = split_on (CHR ''/'') path
      in fold make_missing (map (\<lambda>k. join ''/'' (take (Suc k) parts)) [0..<length parts]) (Inr (), fs))"

section \<open>Paths and names\<close>

text \<open>\<open>Path::join\<close>: an absolute second path replaces the first.\<close>

definition path_join :: "string \<Rightarrow> string \<Rightarrow> string" where
  "path_join a b =
     (if is_absolute b then b
      else if a = [] \<or> last a = CHR ''/'' then a @ b
      else a @ ''/'' @ b)"

text \<open>
  UTF-8: whether the next character is well formed, and how many bytes it (or the longest
  prefix of a well-formed one) takes.
\<close>

definition byte_in :: "nat \<Rightarrow> nat \<Rightarrow> string \<Rightarrow> nat \<Rightarrow> bool" where
  "byte_in lo hi s i \<longleftrightarrow> i < length s \<and> lo \<le> (of_char (s ! i) :: nat) \<and> (of_char (s ! i) :: nat) \<le> hi"

definition utf8_step :: "string \<Rightarrow> bool \<times> nat" where
  "utf8_step s =
     (let b = (of_char (hd s) :: nat);
          lo = (if b = 224 then 160 else if b = 240 then 144 else 128);
          hi = (if b = 237 then 159 else if b = 244 then 143 else 191)
      in if b < 128 then (True, 1)
         else if b < 194 \<or> 244 < b then (False, 1)
         else if \<not> byte_in lo hi s 1 then (False, 1)
         else if b < 224 then (True, 2)
         else if \<not> byte_in 128 191 s 2 then (False, 2)
         else if b < 240 then (True, 3)
         else if \<not> byte_in 128 191 s 3 then (False, 3)
         else (True, 4))"

lemma utf8_step_shrinks:
  assumes "(ok, n) = utf8_step (c # s)"
  shows "length s - (n - Suc 0) < Suc (length s)" and "0 < n"
proof -
  have "0 < snd (utf8_step (c # s))" by (simp add: utf8_step_def Let_def)
  then show "0 < n" by (simp add: assms [symmetric])
  then show "length s - (n - Suc 0) < Suc (length s)" by simp
qed

function to_string_lossy :: "string \<Rightarrow> string" where
  "to_string_lossy [] = []"
| "to_string_lossy (c # s) =
     (case utf8_step (c # s) of
        (ok, n) \<Rightarrow> (if ok then take n (c # s) else [CHR 0xEF, CHR 0xBF, CHR 0xBD]) @
                   to_string_lossy (drop n (c # s)))"
  by pat_completeness auto
termination
  by (relation "measure length") (auto dest: utf8_step_shrinks)

function valid_utf8 :: "string \<Rightarrow> bool" where
  "valid_utf8 [] = True"
| "valid_utf8 (c # s) =
     (case utf8_step (c # s) of (ok, n) \<Rightarrow> ok \<and> valid_utf8 (drop n (c # s)))"
  by pat_completeness auto
termination
  by (relation "measure length") (auto dest: utf8_step_shrinks)

definition to_str :: "string \<Rightarrow> string option" where
  "to_str s = (if valid_utf8 s then Some s else None)"

lemma lossy_valid: "valid_utf8 s \<Longrightarrow> to_string_lossy s = s"
  by (induction s rule: valid_utf8.induct) (auto split: prod.splits)

end
