(* ===== verification/Config.thy ===== *)
theory Config
  imports FileSystem Service
begin

text \<open>
  The configuration (\<open>src/src/config/types.rs\<close>), its loader (\<open>loader.rs\<close>) and its validation
  (\<open>validator.rs\<close>). The parser of \<open>.env\<close> files and the \<open>config\<close> crate, which reads YAML and
  \<open>DSB_*\<close> variables into a value and decodes it, are library code: the record \<open>config_crate\<close>.
\<close>

section \<open>Structure and defaults\<close>

record ServerConfig =
  srv_port :: u16
  srv_host :: string
  srv_api_key :: "string option"
  srv_web_terminal_api_key :: "string option"
  srv_ssh_gateway_api_key :: "string option"
  srv_vnc_api_key :: "string option"
  srv_vnc_require_auth :: bool
  srv_vnc_token_ttl_secs :: u64
  srv_require_auth :: bool
  srv_admin_api_key :: "string option"
  srv_session_token_ttl_secs :: u64
  srv_cookie_secret :: "string option"

record DatabaseConfig =
  dbc_url :: "string option"
  dbc_host :: string
  dbc_port :: u16
  dbc_name :: string
  dbc_user :: string
  dbc_password :: "string option"
  dbc_pool_max_size :: "u64 option"

record HttpClientTimeoutConfig =
  hct_connect_timeout_secs :: u64
  hct_read_timeout_secs :: u64
  hct_pool_idle_timeout_secs :: u64

record DockerConfig =
  dkc_registry :: string
  dkc_host :: "string option"
  dkc_default_image :: string
  dkc_test_image :: string
  dkc_network :: "string option"
  dkc_home_dir :: "string option"
  dkc_http_client :: HttpClientTimeoutConfig
  dkc_proxy_env :: "(string \<times> string) list"

datatype BackendType = BackendDocker | BackendKubernetes

record KubernetesResourceDefaults =
  krd_cpu_request :: string
  krd_memory_request :: string
  krd_cpu_limit :: string
  krd_memory_limit :: string

record GpuConfig =
  gpu_node_selector :: "(string \<times> string) list"
  gpu_tolerations :: "json list"
  gpu_resource_request :: string

record KubernetesConfig =
  kc_namespace :: string
  kc_image_pull_secrets :: "string list"
  kc_tolerations :: "json list"
  kc_node_selector :: "(string \<times> string) list"
  kc_resource_defaults :: KubernetesResourceDefaults
  kc_pvc_storage_class :: string
  kc_pvc_access_mode :: string
  kc_pvc_name :: string
  kc_pod_ready_timeout_secs :: u64
  kc_gpu :: GpuConfig

record SandboxSettings =
  sbc_backend :: BackendType
  sbc_default_inactivity_timeout :: u64
  sbc_cleanup_dry_run :: bool
  sbc_state_monitor_interval :: u64
  sbc_deleted_sandbox_retention_days :: u64
  sbc_default_vnc_resolution :: string
  sbc_vnc_port :: u16
  sbc_max_browser_tabs :: u32
  sbc_tool_timeouts :: ToolTimeoutConfig
  sbc_default_resource_limits :: DefaultResourceLimits
  sbc_kubernetes :: KubernetesConfig

record SshConfig =
  sshc_port :: u16
  sshc_api_url :: string
  sshc_api_key :: "string option"
  sshc_host_key_path :: "string option"
  sshc_cleanup_check_interval :: u64
  sshc_session_timeout :: u64
  sshc_termination_timeout :: u64
  sshc_backend :: string
  sshc_kubernetes_namespace :: string

record LoggingConfig =
  log_level :: string
  log_format :: string
  log_file :: "string option"
  log_max_file_size_mb :: u64
  log_max_files :: u64
  log_ansi :: bool
  log_filters :: "string option"

record StaticServerConfig =
  ssc_base_path :: string
  ssc_host_path :: "string option"
  ssc_api_key :: "string option"
  ssc_max_file_size_mb :: u64
  ssc_sandbox_upload_max_file_size_mb :: u64
  ssc_enable_directory_browsing :: bool
  ssc_cache_control :: string
  ssc_cache_control_by_type :: "(string \<times> string) list"
  ssc_require_auth :: bool
  ssc_enable_zip_download :: bool
  ssc_max_zip_size_mb :: u64
  ssc_zip_download_file_prefix :: string

record Config =
  conf_server :: ServerConfig
  conf_database :: DatabaseConfig
  conf_docker :: DockerConfig
  conf_sandbox :: SandboxSettings
  conf_ssh :: SshConfig
  conf_logging :: LoggingConfig
  conf_static_server :: StaticServerConfig

definition server_default :: ServerConfig where
  "server_default =
     \<lparr>srv_port = 8080, srv_host = ''0.0.0.0'', srv_api_key = None, srv_web_terminal_api_key = None,
      srv_ssh_gateway_api_key = None, srv_vnc_api_key = None, srv_vnc_require_auth = False,
      srv_vnc_token_ttl_secs = 3600, srv_require_auth = False, srv_admin_api_key = None,
      srv_session_token_ttl_secs = 300, srv_cookie_secret = None\<rparr>"

definition database_default :: DatabaseConfig where
  "database_default =
     \<lparr>dbc_url = None, dbc_host = ''localhost'', dbc_port = 5432, dbc_name = ''dsb'', dbc_user = ''postgres'',
      dbc_password = None, dbc_pool_max_size = Some 10\<rparr>"

definition http_client_default :: HttpClientTimeoutConfig where
  "http_client_default =
     \<lparr>hct_connect_timeout_secs = 10, hct_read_timeout_secs = 300, hct_pool_idle_timeout_secs = 90\<rparr>"

definition default_docker_registry :: string where
  "default_docker_registry = ''docker.io''"

definition docker_default :: DockerConfig where
  "docker_default =
     \<lparr>dkc_registry = default_docker_registry, dkc_host = None, dkc_default_image = ''docker.io/dsb/sandbox:latest'',
      dkc_test_image = ''python:3.12'', dkc_network = None, dkc_home_dir = None,
      dkc_http_client = http_client_default, dkc_proxy_env = []\<rparr>"

definition kubernetes_default :: KubernetesConfig where
  "kubernetes_default =
     \<lparr>kc_namespace = ''dsb-sandboxes'', kc_image_pull_secrets = [], kc_tolerations = [], kc_node_selector = [],
      kc_resource_defaults = \<lparr>krd_cpu_request = ''500m'', krd_memory_request = ''1Gi'', krd_cpu_limit = ''2000m'',
        krd_memory_limit = ''4Gi''\<rparr>,
      kc_pvc_storage_class = [], kc_pvc_access_mode = ''ReadWriteMany'', kc_pvc_name = ''dsb-static-files-shared'',
      kc_pod_ready_timeout_secs = 120,
      kc_gpu = \<lparr>gpu_node_selector = [], gpu_tolerations = [], gpu_resource_request = ''1''\<rparr>\<rparr>"

definition sandbox_settings_default :: SandboxSettings where
  "sandbox_settings_default =
     \<lparr>sbc_backend = BackendDocker, sbc_default_inactivity_timeout = 30, sbc_cleanup_dry_run = False,
      sbc_state_monitor_interval = 60, sbc_deleted_sandbox_retention_days = 15,
      sbc_default_vnc_resolution = ''2560x1440'', sbc_vnc_port = 5901, sbc_max_browser_tabs = 20,
      sbc_tool_timeouts = default_tool_timeouts, sbc_default_resource_limits = default_resource_limits,
      sbc_kubernetes = kubernetes_default\<rparr>"

definition ssh_default :: SshConfig where
  "ssh_default =
     \<lparr>sshc_port = 2222, sshc_api_url = ''http://localhost:8080'', sshc_api_key = None, sshc_host_key_path = None,
      sshc_cleanup_check_interval = 30, sshc_session_timeout = 300, sshc_termination_timeout = 60,
      sshc_backend = ''docker'', sshc_kubernetes_namespace = ''dsb-sandboxes''\<rparr>"

definition logging_default :: LoggingConfig where
  "logging_default =
     \<lparr>log_level = ''info'', log_format = ''pretty'', log_file = None, log_max_file_size_mb = 100,
      log_max_files = 10, log_ansi = True, log_filters = None\<rparr>"

definition static_server_default :: StaticServerConfig where
  "static_server_default =
     \<lparr>ssc_base_path = ''/var/lib/dsb/static-files'', ssc_host_path = None, ssc_api_key = None,
      ssc_max_file_size_mb = 100, ssc_sandbox_upload_max_file_size_mb = 10, ssc_enable_directory_browsing = False,
      ssc_cache_control = ''public, max-age=3600'', ssc_cache_control_by_type = [], ssc_require_auth = False,
      ssc_enable_zip_download = True, ssc_max_zip_size_mb = 500, ssc_zip_download_file_prefix = ''sandbox-''\<rparr>"

definition config_default :: Config where
  "config_default =
     \<lparr>conf_server = server_default, conf_database = database_default, conf_docker = docker_default,
      conf_sandbox = sandbox_settings_default, conf_ssh = ssh_default, conf_logging = logging_default,
      conf_static_server = static_server_default\<rparr>"

definition get_url :: "DatabaseConfig \<Rightarrow> string option" where
  "get_url db =
     (case dbc_url db of
        Some url \<Rightarrow> Some url
      | None \<Rightarrow> map_option (\<lambda>password. ''postgresql://'' @ dbc_user db @ '':'' @ password @ ''@'' @ dbc_host db @
          '':'' @ show_nat (unat (dbc_port db)) @ ''/'' @ dbc_name db) (dbc_password db))"

section \<open>Errors\<close>

datatype ConfigError =
    FileLoadError string string
  | ValidationError string
  | MissingValue string
  | InvalidValue string string string
  | ParseError string

section \<open>Validation\<close>

definition strip_prefix :: "string \<Rightarrow> string \<Rightarrow> string option" where
  "strip_prefix p s = (if starts_with s p then Some (drop (length p) s) else None)"

definition plain_directives :: "string list" where
  "plain_directives = [''public'', ''private'', ''no-cache'', ''no-store'', ''no-transform'', ''must-revalidate'',
     ''proxy-revalidate'']"

definition directive_ok :: "string \<Rightarrow> bool" where
  "directive_ok d =
     (if d \<in> set plain_directives then True
      else (case strip_prefix ''max-age='' d of
          Some rest \<Rightarrow> parse_uint 64 rest \<noteq> None
        | None \<Rightarrow>
            (case strip_prefix ''s-maxage='' d of
               Some rest \<Rightarrow> parse_uint 64 rest \<noteq> None
             | None \<Rightarrow> False)))"

definition is_valid_cache_control :: "string \<Rightarrow> bool" where
  "is_valid_cache_control v \<longleftrightarrow> trim v \<noteq> [] \<and> list_all (\<lambda>d. directive_ok (trim d)) (split_on (CHR '','') v)"

definition check :: "bool \<Rightarrow> ConfigError \<Rightarrow> ConfigError + unit" where
  "check ok e = (if ok then Inr () else Inl e)"

definition and_then :: "'e + unit \<Rightarrow> 'e + 'a \<Rightarrow> 'e + 'a" where
  "and_then a b = (case a of Inl e \<Rightarrow> Inl e | Inr _ \<Rightarrow> b)"

definition validate_server :: "Config \<Rightarrow> ConfigError + unit" where
  "validate_server config =
     check (srv_port (conf_server config) \<noteq> 0)
       (InvalidValue ''server.port'' (show_nat (unat (srv_port (conf_server config)))) ''port must be between 1 and 65535'')"

definition validate_database :: "Config \<Rightarrow> ConfigError + unit" where
  "validate_database config =
     (let db = conf_database config;
          has_db_config = (dbc_url db \<noteq> None \<or> dbc_password db \<noteq> None)
      in if \<not> has_db_config then Inr ()
         else if dbc_url db = None then
           and_then (check (dbc_password db \<noteq> None) (MissingValue ''database.password''))
           (and_then (check (dbc_host db \<noteq> []) (InvalidValue ''database.host'' (dbc_host db) ''host cannot be empty''))
           (and_then (check (dbc_name db \<noteq> []) (InvalidValue ''database.name'' (dbc_name db) ''name cannot be empty''))
           (check (dbc_user db \<noteq> []) (InvalidValue ''database.user'' (dbc_user db) ''user cannot be empty''))))
         else Inr ())"

definition validate_docker :: "Config \<Rightarrow> ConfigError + unit" where
  "validate_docker config =
     check (dkc_registry (conf_docker config) \<noteq> [])
       (InvalidValue ''docker.registry'' (dkc_registry (conf_docker config)) ''registry cannot be empty'')"

definition validate_ssh :: "Config \<Rightarrow> ConfigError + unit" where
  "validate_ssh config =
     (let ssh = conf_ssh config in
      and_then (check (sshc_port ssh \<noteq> 0)
        (InvalidValue ''ssh.port'' (show_nat (unat (sshc_port ssh))) ''port must be between 1 and 65535''))
      (check (starts_with (sshc_api_url ssh) ''http://'' \<or> starts_with (sshc_api_url ssh) ''https://'')
        (InvalidValue ''ssh.api_url'' (sshc_api_url ssh) ''must start with http:// or https://'')))"

definition validate_sandbox :: "Config \<Rightarrow> ConfigError + unit" where
  "validate_sandbox config =
     (let sb = conf_sandbox config in
      and_then (check (sbc_default_inactivity_timeout sb \<noteq> 0)
        (InvalidValue ''sandbox.default_inactivity_timeout''
          (show_nat (unat (sbc_default_inactivity_timeout sb))) ''must be greater than 0''))
      (check (sbc_state_monitor_interval sb \<noteq> 0)
        (InvalidValue ''sandbox.state_monitor_interval''
          (show_nat (unat (sbc_state_monitor_interval sb))) ''must be greater than 0'')))"

definition valid_levels :: "string list" where
  "valid_levels = [''trace'', ''debug'', ''info'', ''warn'', ''error'']"

definition validate_logging :: "Config \<Rightarrow> ConfigError + unit" where
  "validate_logging config =
     check (log_level (conf_logging config) \<in> set valid_levels)
       (InvalidValue ''logging.level'' (log_level (conf_logging config)) (''must be one of: '' @ join '', '' valid_levels))"

fun validate_types :: "(string \<times> string) list \<Rightarrow> ConfigError + unit" where
  "validate_types [] = Inr ()"
| "validate_types ((mime_type, cache_control) # rest) =
     and_then (check (CHR ''/'' \<in> set mime_type)
       (InvalidValue (''static_server.cache_control_by_type.'' @ mime_type) mime_type
         (''invalid MIME type format (must contain '' @ [CHR 0x27, CHR ''/'', CHR 0x27] @ '')'')))
     (and_then (check (is_valid_cache_control cache_control)
       (InvalidValue (''static_server.cache_control_by_type.'' @ mime_type) cache_control ''invalid cache-control directives''))
     (validate_types rest))"

definition validate_static_server :: "Config \<Rightarrow> ConfigError + unit" where
  "validate_static_server config =
     (let ss = conf_static_server config in
      and_then (check (is_valid_cache_control (ssc_cache_control ss))
        (InvalidValue ''static_server.cache_control'' (ssc_cache_control ss) ''invalid cache-control directives''))
      (validate_types (ssc_cache_control_by_type ss)))"

definition validate :: "Config \<Rightarrow> ConfigError + unit" where
  "validate config =
     and_then (validate_server config)
     (and_then (validate_database config)
     (and_then (validate_docker config)
     (and_then (validate_ssh config)
     (and_then (validate_sandbox config)
     (and_then (validate_logging config)
     (validate_static_server config))))))"

section \<open>Command-line overrides\<close>

definition parse_bool :: "string \<Rightarrow> bool option" where
  "parse_bool s = (if s = ''true'' then Some True else if s = ''false'' then Some False else None)"

definition with_server :: "(ServerConfig \<Rightarrow> ServerConfig) \<Rightarrow> Config \<Rightarrow> Config" where
  "with_server f c = c\<lparr>conf_server := f (conf_server c)\<rparr>"

definition with_docker :: "(DockerConfig \<Rightarrow> DockerConfig) \<Rightarrow> Config \<Rightarrow> Config" where
  "with_docker f c = c\<lparr>conf_docker := f (conf_docker c)\<rparr>"

definition with_ssh :: "(SshConfig \<Rightarrow> SshConfig) \<Rightarrow> Config \<Rightarrow> Config" where
  "with_ssh f c = c\<lparr>conf_ssh := f (conf_ssh c)\<rparr>"

definition with_sandbox :: "(SandboxSettings \<Rightarrow> SandboxSettings) \<Rightarrow> Config \<Rightarrow> Config" where
  "with_sandbox f c = c\<lparr>conf_sandbox := f (conf_sandbox c)\<rparr>"

definition cli_override :: "Config \<Rightarrow> string \<times> string \<Rightarrow> Config" where
  "cli_override c kv =
     (case kv of (key, value) \<Rightarrow>
      if key = ''server.port'' then
        (case parse_uint 16 value of Some n \<Rightarrow> with_server (srv_port_update (\<lambda>_. of_nat n)) c | None \<Rightarrow> c)
      else if key = ''server.host'' then with_server (srv_host_update (\<lambda>_. value)) c
      else if key = ''server.api_key'' then with_server (srv_api_key_update (\<lambda>_. Some value)) c
      else if key = ''database.url'' then c\<lparr>conf_database := (conf_database c)\<lparr>dbc_url := Some value\<rparr>\<rparr>
      else if key = ''docker.registry'' then with_docker (dkc_registry_update (\<lambda>_. value)) c
      else if key = ''docker.host'' then with_docker (dkc_host_update (\<lambda>_. Some value)) c
      else if key = ''log.level'' \<or> key = ''logging.level'' then c\<lparr>conf_logging := (conf_logging c)\<lparr>log_level := value\<rparr>\<rparr>
      else if key = ''ssh.port'' then
        (case parse_uint 16 value of Some n \<Rightarrow> with_ssh (sshc_port_update (\<lambda>_. of_nat n)) c | None \<Rightarrow> c)
      else if key = ''ssh.api_url'' then with_ssh (sshc_api_url_update (\<lambda>_. value)) c
      else if key = ''sandbox.default_inactivity_timeout'' then
        (case parse_uint 64 value of
           Some n \<Rightarrow> with_sandbox (sbc_default_inactivity_timeout_update (\<lambda>_. of_nat n)) c | None \<Rightarrow> c)
      else if key = ''sandbox.cleanup_dry_run'' then
        (case parse_bool value of Some b \<Rightarrow> with_sandbox (sbc_cleanup_dry_run_update (\<lambda>_. b)) c | None \<Rightarrow> c)
      else c)"

definition merge_cli_args :: "Config \<Rightarrow> (string \<times> string) list \<Rightarrow> Config" where
  "merge_cli_args config cli_args = foldl cli_override config cli_args"

section \<open>Files and environment\<close>

text \<open>
  The process: its file system, its environment, and whether the current directory can be read.
  A directory is known by its components; \<open>ancestors().nth(k)\<close> drops the last \<open>k\<close> of them.
\<close>

record process =
  pr_files :: file_system
  pr_env :: "(string \<times> string) list"
  pr_cwd_known :: bool

definition dir_path :: "string list \<Rightarrow> string" where
  "dir_path ps = ''/'' @ join ''/'' ps"

fun find_from :: "file_system \<Rightarrow> string \<Rightarrow> nat list \<Rightarrow> string option" where
  "find_from fs filename [] = None"
| "find_from fs filename (level # levels) =
     (if length (fs_cwd fs) < level then None
      else (let path = path_join (dir_path (take (length (fs_cwd fs) - level) (fs_cwd fs))) filename
            in if path_exists fs path then Some path else find_from fs filename levels))"

definition find_file :: "process \<Rightarrow> string \<Rightarrow> nat \<Rightarrow> string option" where
  "find_file pr filename max_levels =
     (if pr_cwd_known pr then find_from (pr_files pr) filename [0 ..< Suc max_levels] else None)"

definition find_env_file :: "process \<Rightarrow> string option" where
  "find_env_file pr = find_file pr ''.env'' 3"

definition or_else :: "'a option \<Rightarrow> 'a option \<Rightarrow> 'a option" where
  "or_else a b = (case a of Some x \<Rightarrow> Some x | None \<Rightarrow> b)"

definition find_config_file :: "process \<Rightarrow> string option" where
  "find_config_file pr = or_else (find_file pr ''dsb.yaml'' 3) (find_file pr ''dsb.yml'' 3)"

definition find_test_env_file :: "process \<Rightarrow> string option" where
  "find_test_env_file pr = find_file pr ''.env.test'' 3"

definition find_test_config_file :: "process \<Rightarrow> string option" where
  "find_test_config_file pr = or_else (find_file pr ''dsb.test.yaml'' 3) (find_file pr ''dsb.test.yml'' 3)"

definition proxy_env_vars :: "string list" where
  "proxy_env_vars = [''HTTP_PROXY'', ''HTTPS_PROXY'', ''http_proxy'', ''https_proxy'', ''ALL_PROXY'', ''all_proxy'',
     ''NO_PROXY'', ''no_proxy'', ''AWS_DEFAULT_REGION'']"

definition read_proxy_env :: "(string \<times> string) list \<Rightarrow> (string \<times> string) list" where
  "read_proxy_env env =
     foldl (\<lambda>acc var_name. case map_of env var_name of
         Some v \<Rightarrow> if v \<noteq> [] then hm_insert acc var_name v else acc
       | None \<Rightarrow> acc) [] proxy_env_vars"

definition merge_docker_proxy_env :: "(string \<times> string) list \<Rightarrow> (string \<times> string) list \<Rightarrow> (string \<times> string) list" where
  "merge_docker_proxy_env env from_config = hm_extend from_config (read_proxy_env env)"

section \<open>Loading\<close>

text \<open>
  The crates: \<open>cc_dotenv\<close> reads a \<open>.env\<close> file into the environment, \<open>cc_build\<close> merges the YAML
  file, if one is given, with the variables, and \<open>cc_deserialize\<close> decodes the result.
\<close>

record 'v config_crate =
  cc_dotenv :: "file_system \<Rightarrow> string \<Rightarrow> (string \<times> string) list \<Rightarrow> string + (string \<times> string) list"
  cc_build :: "file_system \<Rightarrow> string option \<Rightarrow> (string \<times> string) list \<Rightarrow> string + 'v"
  cc_deserialize :: "'v \<Rightarrow> string + Config"

definition load_dotenv :: "'v config_crate \<Rightarrow> string option \<Rightarrow> (process, ConfigError, unit) prog" where
  "load_dotenv crate path pr =
     (case path of
        None \<Rightarrow> (Inr (), pr)
      | Some p \<Rightarrow>
          (case cc_dotenv crate (pr_files pr) p (pr_env pr) of
             Inl e \<Rightarrow> (Inl (FileLoadError p e), pr)
           | Inr env \<Rightarrow> (Inr (), pr\<lparr>pr_env := env\<rparr>)))"

definition finish_config :: "(string \<times> string) list option \<Rightarrow> (string \<times> string) list \<Rightarrow> Config \<Rightarrow> Config" where
  "finish_config cli_args env config0 =
     (let config1 =
        (if srv_api_key (conf_server config0) = None
         then (case map_of env ''DSB_API_KEY'' of
                 Some k \<Rightarrow> with_server (srv_api_key_update (\<lambda>_. Some k)) config0
               | None \<Rightarrow> config0)
         else config0);
          config2 = with_docker (dkc_proxy_env_update (merge_docker_proxy_env env)) config1
      in case cli_args of None \<Rightarrow> config2 | Some args \<Rightarrow> merge_cli_args config2 args)"

definition deserialize_and_validate ::
  "'v config_crate \<Rightarrow> (string \<times> string) list option \<Rightarrow> 'v \<Rightarrow> (process, ConfigError, Config) prog" where
  "deserialize_and_validate crate cli_args settings pr =
     (case cc_deserialize crate settings of
        Inl e \<Rightarrow> (Inl (ParseError e), pr)
      | Inr config0 \<Rightarrow>
          (let config = finish_config cli_args (pr_env pr) config0
           in (and_then (validate config) (Inr config), pr)))"

definition load_with_cli_args_and_files ::
  "'v config_crate \<Rightarrow> (string \<times> string) list option \<Rightarrow> string option \<Rightarrow> string option \<Rightarrow> (process, ConfigError, Config) prog" where
  "load_with_cli_args_and_files crate cli_args env_file config_file =
     bindE (\<lambda>pr. case env_file of
         Some p \<Rightarrow>
           if path_exists (pr_files pr) p then
             (case resolve (pr_files pr) True p of
                Inl e \<Rightarrow> (Inl (FileLoadError p (io_error_display e)), pr)
              | Inr place \<Rightarrow> load_dotenv crate (Some (dir_path place)) pr)
           else (Inr (), pr)
       | None \<Rightarrow> load_dotenv crate (find_env_file pr) pr) (\<lambda>_ pr.
     (let yaml = (case config_file of
            Some p \<Rightarrow> if path_exists (pr_files pr) p then Some p else None
          | None \<Rightarrow> find_config_file pr)
      in case cc_build crate (pr_files pr) yaml (pr_env pr) of
           Inl e \<Rightarrow> (Inl (ParseError e), pr)
         | Inr settings \<Rightarrow> deserialize_and_validate crate cli_args settings pr))"

definition load_with_files ::
  "'v config_crate \<Rightarrow> string option \<Rightarrow> string option \<Rightarrow> (process, ConfigError, Config) prog" where
  "load_with_files crate env_file config_file = load_with_cli_args_and_files crate None env_file config_file"

text \<open>A YAML file that cannot be read is dropped, and the variables alone are used.\<close>

definition load_with_cli_args ::
  "'v config_crate \<Rightarrow> (string \<times> string) list option \<Rightarrow> (process, ConfigError, Config) prog" where
  "load_with_cli_args crate cli_args =
     bindE (\<lambda>pr. load_dotenv crate (find_env_file pr) pr) (\<lambda>_ pr.
     (case cc_build crate (pr_files pr) (find_config_file pr) (pr_env pr) of
        Inr settings \<Rightarrow> deserialize_and_validate crate cli_args settings pr
      | Inl e \<Rightarrow>
          if find_config_file pr \<noteq> None then
            (case cc_build crate (pr_files pr) None (pr_env pr) of
               Inl e2 \<Rightarrow> (Inl (ParseError e2), pr)
             | Inr settings \<Rightarrow> deserialize_and_validate crate cli_args settings pr)
          else (Inl (ParseError e), pr)))"

definition load :: "'v config_crate \<Rightarrow> (process, ConfigError, Config) prog" where
  "load crate = load_with_cli_args crate None"

definition load_for_tests :: "'v config_crate \<Rightarrow> (process, ConfigError, Config) prog" where
  "load_for_tests crate =
     bindE (\<lambda>pr. load_dotenv crate (find_test_env_file pr) pr) (\<lambda>_ pr.
     (case cc_build crate (pr_files pr) (find_test_config_file pr) (pr_env pr) of
        Inl e \<Rightarrow> (Inl (ParseError e), pr)
      | Inr settings \<Rightarrow>
          (case cc_deserialize crate settings of
             Inl e \<Rightarrow> (Inl (ParseError e), pr)
           | Inr config \<Rightarrow> (and_then (validate config) (Inr config), pr))))"

end
