(* ===== verification/ConfigProps.thy ===== *)
theory ConfigProps
  imports Config
begin

text \<open>
  What the loader promises: a configuration that is returned satisfies every documented
  constraint, and command-line values win over all other sources.
\<close>

section \<open>Validation\<close>

text \<open>The constraints, written down apart from the code that checks them.\<close>

definition cache_control_ok :: "string \<Rightarrow> bool" where
  "cache_control_ok v \<longleftrightarrow> trim v \<noteq> [] \<and>
     (\<forall>d \<in> set (split_on (CHR '','') v). trim d \<in> set plain_directives \<or>
        (\<exists>n s. parse_uint 64 s = Some n \<and> (trim d = ''max-age='' @ s \<or> trim d = ''s-maxage='' @ s)))"

definition config_ok :: "Config \<Rightarrow> bool" where
  "config_ok c \<longleftrightarrow>
     srv_port (conf_server c) \<noteq> 0 \<and>
     (dbc_url (conf_database c) = None \<and> dbc_password (conf_database c) \<noteq> None \<longrightarrow>
        dbc_host (conf_database c) \<noteq> [] \<and> dbc_name (conf_database c) \<noteq> [] \<and> dbc_user (conf_database c) \<noteq> []) \<and>
     dkc_registry (conf_docker c) \<noteq> [] \<and>
     sshc_port (conf_ssh c) \<noteq> 0 \<and>
     (\<exists>host. sshc_api_url (conf_ssh c) = ''http://'' @ host \<or> sshc_api_url (conf_ssh c) = ''https://'' @ host) \<and>
     0 < sbc_default_inactivity_timeout (conf_sandbox c) \<and> 0 < sbc_state_monitor_interval (conf_sandbox c) \<and>
     log_level (conf_logging c) \<in> {''trace'', ''debug'', ''info'', ''warn'', ''error''} \<and>
     cache_control_ok (ssc_cache_control (conf_static_server c)) \<and>
     (\<forall>(mime, v) \<in> set (ssc_cache_control_by_type (conf_static_server c)). CHR ''/'' \<in> set mime \<and> cache_control_ok v)"

lemma check_and_then [simp]:
  "check b e = Inr u \<longleftrightarrow> b" "and_then a r = Inr x \<longleftrightarrow> a = Inr () \<and> r = Inr x"
  by (auto simp: check_def and_then_def split: sum.splits)

lemma starts_with_append: "starts_with s p \<longleftrightarrow> (\<exists>r. s = p @ r)"
  by (auto simp: starts_with_prefix prefix_def)

lemma strip_prefix_Some: "strip_prefix p s = Some r \<longleftrightarrow> s = p @ r"
  by (auto simp: strip_prefix_def starts_with_append)

lemma strip_prefix_None: "strip_prefix p s = None \<longleftrightarrow> (\<forall>r. s \<noteq> p @ r)"
  by (auto simp: strip_prefix_def starts_with_append)

lemma strip_prefix_self [simp]: "strip_prefix p (p @ r) = Some r"
  by (simp add: strip_prefix_Some)

lemma directive_ok_iff:
  "directive_ok d \<longleftrightarrow> d \<in> set plain_directives \<or>
     (\<exists>n s. parse_uint 64 s = Some n \<and> (d = ''max-age='' @ s \<or> d = ''s-maxage='' @ s))"
proof (cases "strip_prefix ''max-age='' d")
  case (Some r)
  then have "d = ''max-age='' @ r" by (simp add: strip_prefix_Some)
  then show ?thesis by (auto simp: directive_ok_def strip_prefix_Some strip_prefix_def starts_with_def)
next
  case None
  then have no: "d \<noteq> ''max-age='' @ s" for s by (simp add: strip_prefix_None)
  show ?thesis
  proof (cases "strip_prefix ''s-maxage='' d")
    case (Some r)
    with None no show ?thesis by (auto simp: directive_ok_def strip_prefix_Some simp del: append_Cons)
  next
    case none: None
    then have "d \<noteq> ''s-maxage='' @ s" for s by (simp add: strip_prefix_None)
    with None none no show ?thesis by (auto simp: directive_ok_def simp del: append_Cons)
  qed
qed

lemma cache_control_iff: "is_valid_cache_control v \<longleftrightarrow> cache_control_ok v"
  by (simp add: is_valid_cache_control_def cache_control_ok_def list_all_iff directive_ok_iff)

lemma validate_types_iff:
  "validate_types ts = Inr () \<longleftrightarrow> (\<forall>(mime, v) \<in> set ts. CHR ''/'' \<in> set mime \<and> cache_control_ok v)"
  by (induction ts) (auto simp: cache_control_iff)

lemma validate_iff: "validate c = Inr () \<longleftrightarrow> config_ok c"
proof -
  have "validate_database c = Inr () \<longleftrightarrow>
      (dbc_url (conf_database c) = None \<and> dbc_password (conf_database c) \<noteq> None \<longrightarrow>
        dbc_host (conf_database c) \<noteq> [] \<and> dbc_name (conf_database c) \<noteq> [] \<and> dbc_user (conf_database c) \<noteq> [])"
    by (auto simp: validate_database_def Let_def)
  moreover have "validate_ssh c = Inr () \<longleftrightarrow> sshc_port (conf_ssh c) \<noteq> 0 \<and>
      (\<exists>host. sshc_api_url (conf_ssh c) = ''http://'' @ host \<or> sshc_api_url (conf_ssh c) = ''https://'' @ host)"
    by (auto simp: validate_ssh_def Let_def starts_with_append)
  moreover have "validate_sandbox c = Inr () \<longleftrightarrow>
      0 < sbc_default_inactivity_timeout (conf_sandbox c) \<and> 0 < sbc_state_monitor_interval (conf_sandbox c)"
    by (simp add: validate_sandbox_def Let_def word_gt_0)
  moreover have "validate_logging c = Inr () \<longleftrightarrow>
      log_level (conf_logging c) \<in> {''trace'', ''debug'', ''info'', ''warn'', ''error''}"
    by (simp add: validate_logging_def valid_levels_def)
  moreover have "validate_static_server c = Inr () \<longleftrightarrow> cache_control_ok (ssc_cache_control (conf_static_server c)) \<and>
     (\<forall>(mime, v) \<in> set (ssc_cache_control_by_type (conf_static_server c)). CHR ''/'' \<in> set mime \<and> cache_control_ok v)"
    by (simp add: validate_static_server_def Let_def validate_types_iff cache_control_iff)
  ultimately show ?thesis
    by (simp add: validate_def config_ok_def validate_server_def validate_docker_def del: append_Cons)
qed

lemma default_cache_control: "cache_control_ok ''public, max-age=3600''"
proof -
  have "parse_uint 64 ''3600'' = Some 3600" by (simp add: parse_uint_def digit_val_def)
  then have "directive_ok ''max-age=3600''" by (auto simp: directive_ok_iff)
  moreover have "split_on (CHR '','') ''public, max-age=3600'' = [''public'', '' max-age=3600'']"
      "trim '' max-age=3600'' = ''max-age=3600''" "trim ''public'' = ''public''"
      "trim ''public, max-age=3600'' = ''public, max-age=3600''" "directive_ok ''public''"
    by code_simp+
  ultimately show ?thesis by (simp add: cache_control_iff [symmetric] is_valid_cache_control_def)
qed

lemma deserialized_ok: "fst (deserialize_and_validate crate cli s pr) = Inr c \<Longrightarrow> config_ok c"
  by (auto simp: deserialize_and_validate_def Let_def validate_iff split: sum.splits)

text \<open>
  C37. Every configuration that a loader returns is well-formed, whatever the files, the
  environment and the command line say and however the parsers behave: ports and intervals are
  not zero, a database that is configured by its parts has all of them, the log level and every
  cache-control value belong to the documented grammar. Exactly these configurations pass the
  validation, and the built-in defaults are one of them.
\<close>

theorem loaded_config_valid:
  "(\<forall>c. validate c = Inr () \<longleftrightarrow> config_ok c) \<and> config_ok config_default \<and>
   (case fst (load_with_cli_args crate cli pr) of Inr c \<Rightarrow> config_ok c | Inl _ \<Rightarrow> True) \<and>
   (case fst (load_with_cli_args_and_files crate cli env_file config_file pr) of Inr c \<Rightarrow> config_ok c | Inl _ \<Rightarrow> True) \<and>
   (case fst (load_for_tests crate pr) of Inr c \<Rightarrow> config_ok c | Inl _ \<Rightarrow> True)"
proof (intro conjI allI)
  show "config_ok config_default"
    by (simp add: config_ok_def config_default_def server_default_def database_default_def docker_default_def
        default_docker_registry_def ssh_default_def sandbox_settings_default_def logging_default_def
        static_server_default_def default_cache_control)
  show "case fst (load_with_cli_args crate cli pr) of Inr c \<Rightarrow> config_ok c | Inl _ \<Rightarrow> True"
    by (auto simp: load_with_cli_args_def bindE_def dest: deserialized_ok split: prod.splits sum.splits)
  show "case fst (load_with_cli_args_and_files crate cli env_file config_file pr) of Inr c \<Rightarrow> config_ok c | Inl _ \<Rightarrow> True"
    by (auto simp: load_with_cli_args_and_files_def bindE_def Let_def dest: deserialized_ok split: prod.splits sum.splits)
  show "case fst (load_for_tests crate pr) of Inr c \<Rightarrow> config_ok c | Inl _ \<Rightarrow> True"
    by (auto simp: load_for_tests_def bindE_def validate_iff split: prod.splits sum.splits)
qed (rule validate_iff)

section \<open>Command-line values\<close>

lemmas cli_defs = cli_override_def with_server_def with_docker_def with_ssh_def with_sandbox_def

definition parse_u16 :: "string \<Rightarrow> u16 option" where
  "parse_u16 s = map_option of_nat (parse_uint 16 s)"

definition parse_u64 :: "string \<Rightarrow> u64 option" where
  "parse_u64 s = map_option of_nat (parse_uint 64 s)"

text \<open>The value of an argument, when it is given and can be read; otherwise the value it had.\<close>

definition given :: "(string \<times> string) list \<Rightarrow> string \<Rightarrow> (string \<Rightarrow> 'a option) \<Rightarrow> 'a \<Rightarrow> 'a" where
  "given args key parse old = (case Option.bind (map_of args key) parse of Some x \<Rightarrow> x | None \<Rightarrow> old)"

definition cli_applied :: "(string \<times> string) list \<Rightarrow> Config \<Rightarrow> Config" where
  "cli_applied args c =
     c\<lparr>conf_server := (conf_server c)\<lparr>
         srv_port := given args ''server.port'' parse_u16 (srv_port (conf_server c)),
         srv_host := given args ''server.host'' Some (srv_host (conf_server c)),
         srv_api_key := given args ''server.api_key'' (Some \<circ> Some) (srv_api_key (conf_server c))\<rparr>,
       conf_database := (conf_database c)\<lparr>
         dbc_url := given args ''database.url'' (Some \<circ> Some) (dbc_url (conf_database c))\<rparr>,
       conf_docker := (conf_docker c)\<lparr>
         dkc_registry := given args ''docker.registry'' Some (dkc_registry (conf_docker c)),
         dkc_host := given args ''docker.host'' (Some \<circ> Some) (dkc_host (conf_docker c))\<rparr>,
       conf_sandbox := (conf_sandbox c)\<lparr>
         sbc_default_inactivity_timeout :=
           given args ''sandbox.default_inactivity_timeout'' parse_u64 (sbc_default_inactivity_timeout (conf_sandbox c)),
         sbc_cleanup_dry_run :=
           given args ''sandbox.cleanup_dry_run'' parse_bool (sbc_cleanup_dry_run (conf_sandbox c))\<rparr>,
       conf_ssh := (conf_ssh c)\<lparr>
         sshc_port := given args ''ssh.port'' parse_u16 (sshc_port (conf_ssh c)),
         sshc_api_url := given args ''ssh.api_url'' Some (sshc_api_url (conf_ssh c))\<rparr>,
       conf_logging := (conf_logging c)\<lparr>
         log_level := given args ''log.level'' Some (given args ''logging.level'' Some (log_level (conf_logging c)))\<rparr>\<rparr>"

definition no_level_clash :: "(string \<times> string) list \<Rightarrow> bool" where
  "no_level_clash args \<longleftrightarrow> distinct (map fst args) \<and> (map_of args ''log.level'' = None \<or> map_of args ''logging.level'' = None)"

definition cli_keys :: "string list" where
  "cli_keys = [''server.port'', ''server.host'', ''server.api_key'', ''database.url'', ''docker.registry'', ''docker.host'',
     ''log.level'', ''logging.level'', ''ssh.port'', ''ssh.api_url'', ''sandbox.default_inactivity_timeout'',
     ''sandbox.cleanup_dry_run'']"

lemma given_Cons [simp]:
  "given ((k, v) # args) key parse old = (if k = key then (case parse v of Some x \<Rightarrow> x | None \<Rightarrow> old) else given args key parse old)"
  by (simp add: given_def)

lemma given_absent: "map_of args key = None \<Longrightarrow> given args key parse old = old"
  by (simp add: given_def)

lemma applied_other:
  assumes "k \<notin> set cli_keys"
  shows "cli_override c (k, v) = c" and "cli_applied ((k, v) # args) c = cli_applied args c"
  using assms by (simp_all add: cli_keys_def cli_override_def cli_applied_def)

lemma applied_keys:
  "list_all (\<lambda>k. map_of args k = None \<longrightarrow> (k = ''log.level'' \<longrightarrow> map_of args ''logging.level'' = None) \<longrightarrow>
       (k = ''logging.level'' \<longrightarrow> map_of args ''log.level'' = None) \<longrightarrow>
     cli_applied args (cli_override c (k, v)) = cli_applied ((k, v) # args) c) cli_keys"
  unfolding cli_keys_def list.pred_inject
  by (intro conjI impI)
    (simp_all add: cli_defs cli_applied_def given_absent parse_u16_def parse_u64_def split: option.split)

lemma applied_Cons:
  assumes "map_of args k = None" and "no_level_clash ((k, v) # args)"
  shows "cli_applied args (cli_override c (k, v)) = cli_applied ((k, v) # args) c"
proof (cases "k \<in> set cli_keys")
  case True
  have "k = ''log.level'' \<longrightarrow> map_of args ''logging.level'' = None" "k = ''logging.level'' \<longrightarrow> map_of args ''log.level'' = None"
    using assms(2) by (auto simp: no_level_clash_def)
  with True assms(1) applied_keys [of args c v] show ?thesis unfolding list_all_iff by blast
next
  case False
  then show ?thesis by (simp add: applied_other)
qed

lemma merge_applied: "no_level_clash args \<Longrightarrow> merge_cli_args c args = cli_applied args c"
proof (induction args arbitrary: c)
  case Nil
  then show ?case by (simp add: merge_cli_args_def cli_applied_def given_def)
next
  case (Cons kv args)
  obtain k v where kv: "kv = (k, v)" by (cases kv)
  have "map_of args k = None" "no_level_clash args"
    using Cons.prems by (auto simp: kv no_level_clash_def map_of_eq_None_iff split: if_splits)
  with Cons.IH [of "cli_override c kv"] Cons.prems applied_Cons [of args k v c]
  show ?case by (simp add: merge_cli_args_def kv)
qed

text \<open>
  Command-line values win: a configuration loaded with arguments is the one that the files
  and the environment give, with exactly the fields of the given arguments replaced by their
  values; an argument that cannot be read as a number or a truth value is ignored.
\<close>

theorem cli_values_win:
  assumes "load_with_cli_args crate (Some args) pr = (Inr c, pr')" and "no_level_clash args"
  shows "\<exists>settings base. cc_deserialize crate settings = Inr base \<and>
    c = cli_applied args (finish_config None (pr_env pr') base)"
proof -
  have "\<exists>settings. deserialize_and_validate crate (Some args) settings pr' = (Inr c, pr')"
  proof -
    have same: "snd (deserialize_and_validate crate (Some args) s p) = p" for s p
      by (simp add: deserialize_and_validate_def Let_def split: sum.splits)
    then show ?thesis
      using assms(1) by (auto simp: load_with_cli_args_def bindE_def split: prod.splits sum.splits if_splits)
        (metis snd_conv same)+
  qed
  then obtain settings where s: "deserialize_and_validate crate (Some args) settings pr' = (Inr c, pr')" by blast
  then obtain base where "cc_deserialize crate settings = Inr base" "c = finish_config (Some args) (pr_env pr') base"
    by (auto simp: deserialize_and_validate_def Let_def and_then_def split: sum.splits)
  moreover have "finish_config (Some args) env base = merge_cli_args (finish_config None env base) args" for env
    by (simp add: finish_config_def Let_def)
  ultimately show ?thesis using merge_applied [OF assms(2)] by auto
qed

text \<open>Crates that read nothing: the defaults, with the arguments applied.\<close>

definition example_crate :: "unit config_crate" where
  "example_crate = \<lparr>cc_dotenv = (\<lambda>_ _ env. Inr env), cc_build = (\<lambda>_ yaml _. case yaml of None \<Rightarrow> Inr () | Some _ \<Rightarrow> Inl ''bad YAML''),
     cc_deserialize = (\<lambda>_. Inr config_default)\<rparr>"

definition example_process :: process where
  "example_process = \<lparr>pr_files = \<lparr>fs_root = FDir [], fs_cwd = [], fs_fault = (\<lambda>_ _. None), fs_dir_len = (\<lambda>_. 0)\<rparr>,
     pr_env = [(''DSB_API_KEY'', ''k'')], pr_cwd_known = False\<rparr>"

definition example_args :: "(string \<times> string) list" where
  "example_args = [(''server.port'', ''9000''), (''ssh.port'', ''many''), (''sandbox.cleanup_dry_run'', ''true'')]"

theorem cli_values_win_witness:
  "\<exists>c. fst (load_with_cli_args example_crate (Some example_args) example_process) = Inr c \<and>
     (\<exists>settings base. cc_deserialize example_crate settings = Inr base \<and>
        c = cli_applied example_args (finish_config None (pr_env example_process) base))"
proof -
  have nums: "parse_uint 16 ''9000'' = Some 9000" "parse_uint 16 ''many'' = None"
    by (simp_all add: parse_uint_def digit_val_def)
  have clash: "no_level_clash example_args" by (simp add: no_level_clash_def example_args_def)
  define c where "c = finish_config (Some example_args) (pr_env example_process) config_default"
  have "config_ok c"
    by (simp add: c_def finish_config_def Let_def merge_cli_args_def example_args_def cli_defs nums config_ok_def
        parse_bool_def example_process_def config_default_def server_default_def database_default_def docker_default_def
        default_docker_registry_def ssh_default_def sandbox_settings_default_def logging_default_def
        static_server_default_def default_cache_control)
  then have "validate c = Inr ()" by (simp add: validate_iff)
  then have "load_with_cli_args example_crate (Some example_args) example_process = (Inr c, example_process)"
    by (simp add: load_with_cli_args_def bindE_def load_dotenv_def find_env_file_def find_config_file_def find_file_def
        or_else_def example_process_def [THEN arg_cong [of _ _ pr_cwd_known]] example_crate_def deserialize_and_validate_def
        Let_def c_def [symmetric] and_then_def)
  with cli_values_win [OF this clash] show ?thesis by simp
qed

end
