(* ===== verification/StaticFiles.thy ===== *)
theory StaticFiles
  imports Config Tasks "HOL-Library.Product_Lexorder"
begin

text \<open>
  The files that sandboxes publish (\<open>src/src/core/static_files.rs\<close>) and their HTTP handlers
  (\<open>src/src/api/handlers/static_files.rs\<close>). The service works on a directory of its own machine,
  or, when it is given the sandbox service, through shell commands run in the container. The
  base64 decoder, the ZIP writer and the test of header values are library code: parameters.
\<close>

section \<open>State and errors\<close>

record ('s, 'b) file_world =
  fw_world :: "('s, 'b) world"
  fw_files :: file_system

definition on_files_service :: "(('s, 'b) world, 'e, 'a) prog \<Rightarrow> (('s, 'b) file_world, 'e, 'a) prog" where
  "on_files_service m w = (case m (fw_world w) of (r, v) \<Rightarrow> (r, w\<lparr>fw_world := v\<rparr>))"

datatype StaticError = StText string | StManager ManagerError | StIo IoError | StSymlink

fun static_error_display :: "StaticError \<Rightarrow> string" where
  "static_error_display (StText m) = m"
| "static_error_display (StManager e) = manager_error_display e"
| "static_error_display (StIo e) = io_error_display e"
| "static_error_display StSymlink = ''Validation error: Symlinks are not allowed''"

definition on_files :: "(file_system \<Rightarrow> (IoError + 'a) \<times> file_system) \<Rightarrow>
    (('s, 'b) file_world, StaticError, 'a) prog" where
  "on_files m w = (case m (fw_files w) of (r, fs) \<Rightarrow> (map_sum StIo id r, w\<lparr>fw_files := fs\<rparr>))"

record ('s, 'b) StaticFileService =
  sfs_config :: StaticServerConfig
  sfs_sandbox_service :: "('s, 'b) SandboxService option"

type_synonym ('s, 'b, 'a) static = "(('s, 'b) file_world, StaticError, 'a) prog"

definition static_new :: "StaticServerConfig \<Rightarrow> ('s, 'b) StaticFileService" where
  "static_new config = \<lparr>sfs_config = config, sfs_sandbox_service = None\<rparr>"

definition static_new_with_backend ::
  "StaticServerConfig \<Rightarrow> ('s, 'b) SandboxService \<Rightarrow> ('s, 'b) StaticFileService" where
  "static_new_with_backend config svc = \<lparr>sfs_config = config, sfs_sandbox_service = Some svc\<rparr>"

definition sandbox_dir :: "('s, 'b) StaticFileService \<Rightarrow> uuid \<Rightarrow> (('s, 'b) file_world, 'e, string) prog" where
  "sandbox_dir sfs i =
     bindE (on_files_service (uuid_text i)) (\<lambda>t. ret (path_join (ssc_base_path (sfs_config sfs)) t))"

section \<open>Commands in the container\<close>

definition k8s_exec :: "('s, 'b) SandboxService option \<Rightarrow> uuid \<Rightarrow> string list \<Rightarrow> ('s, 'b, string) static" where
  "k8s_exec service i cmd =
     bindE (ok_or (StText ''No sandbox service configured'') service) (\<lambda>svc.
     bindE (on_files_service (map_err (\<lambda>e. StText []) (svc_get_sandbox svc i))) (\<lambda>found.
     bindE (on_files_service (uuid_text i)) (\<lambda>t.
     bindE (ok_or (StText (''Sandbox '' @ t @ '' not found'')) found) (\<lambda>sandbox.
     bindE (ok_or (StText (''Sandbox '' @ t @ '' has no container'')) (sb_container_id sandbox)) (\<lambda>cid.
     on_files_service (map_err StManager (on_backend (mgr_exec (svc_backend svc) cid cmd))))))))"

definition sh :: "string \<Rightarrow> string list" where
  "sh script = [''sh'', ''-c'', script]"

definition public_path :: "string \<Rightarrow> string" where
  "public_path file_path = shell_quote (''/public/'' @ file_path)"

definition sq :: "string \<Rightarrow> string" where
  "sq s = [CHR 0x27] @ s @ [CHR 0x27]"

definition symlink_script :: "string \<Rightarrow> string" where
  "symlink_script file_path =
     ''if sudo test -L '' @ public_path file_path @ ''; then echo '' @ sq ''SYMLINK'' @ ''; fi''"

definition k8s_check_not_symlink :: "('s, 'b) SandboxService option \<Rightarrow> uuid \<Rightarrow> string \<Rightarrow> ('s, 'b, unit) static" where
  "k8s_check_not_symlink service i file_path =
     bindE (k8s_exec service i (sh (symlink_script file_path))) (\<lambda>output.
     if trim output = ''SYMLINK'' then throw StSymlink else ret ())"

definition parse_u64_or_0 :: "string \<Rightarrow> u64" where
  "parse_u64_or_0 s = (case parse_uint 64 (trim s) of None \<Rightarrow> 0 | Some n \<Rightarrow> of_nat n)"

section \<open>Single files\<close>

text \<open>The test of the file itself, not of the directories on the way to it.\<close>

definition not_symlink :: "file_system \<Rightarrow> string \<Rightarrow> StaticError + unit" where
  "not_symlink fs path =
     (case symlink_metadata fs path of
        Inr (_, n) \<Rightarrow> if is_symlink n then Inl StSymlink else Inr ()
      | Inl e \<Rightarrow> Inl (StIo e))"

definition local_file_size :: "file_system \<Rightarrow> string \<Rightarrow> StaticError + u64 option" where
  "local_file_size fs path =
     (case not_symlink fs path of
        Inl (StIo IoNotFound) \<Rightarrow> Inr None
      | Inl e \<Rightarrow> Inl e
      | Inr _ \<Rightarrow>
          (case fs_metadata fs path of
             Inr m \<Rightarrow> Inr (Some (metadata_len fs m))
           | Inl IoNotFound \<Rightarrow> Inr None
           | Inl e \<Rightarrow> Inl (StIo e)))"

definition size_script :: "string \<Rightarrow> string" where
  "size_script file_path = ''sudo wc -c < '' @ public_path file_path @ '' 2>/dev/null || echo '' @ sq ''0''"

definition get_file_size :: "('s, 'b) StaticFileService \<Rightarrow> uuid \<Rightarrow> string \<Rightarrow> ('s, 'b, u64 option) static" where
  "get_file_size sfs i file_path =
     (if sfs_sandbox_service sfs \<noteq> None then
        bindE (k8s_check_not_symlink (sfs_sandbox_service sfs) i file_path) (\<lambda>_.
        bindE (k8s_exec (sfs_sandbox_service sfs) i (sh (size_script file_path))) (\<lambda>output.
        let size = parse_u64_or_0 output in ret (if 0 < size then Some size else None)))
      else
        bindE (sandbox_dir sfs i) (\<lambda>dir.
        bindE (gets fw_files) (\<lambda>fs. lift_res (local_file_size fs (path_join dir file_path)))))"

definition local_file_exists :: "file_system \<Rightarrow> string \<Rightarrow> StaticError + bool" where
  "local_file_exists fs path =
     (case not_symlink fs path of
        Inl (StIo IoNotFound) \<Rightarrow> Inr False
      | Inl e \<Rightarrow> Inl e
      | Inr _ \<Rightarrow> Inr (path_exists fs path))"

definition exists_script :: "string \<Rightarrow> string" where
  "exists_script file_path =
     ''sudo test -f '' @ public_path file_path @ '' && echo '' @ sq ''yes'' @ '' || echo '' @ sq ''no''"

definition file_exists :: "('s, 'b) StaticFileService \<Rightarrow> uuid \<Rightarrow> string \<Rightarrow> ('s, 'b, bool) static" where
  "file_exists sfs i file_path =
     (if sfs_sandbox_service sfs \<noteq> None then
        bindE (k8s_check_not_symlink (sfs_sandbox_service sfs) i file_path) (\<lambda>_.
        bindE (k8s_exec (sfs_sandbox_service sfs) i (sh (exists_script file_path))) (\<lambda>output.
        ret (trim output = ''yes'')))
      else
        bindE (sandbox_dir sfs i) (\<lambda>dir.
        bindE (gets fw_files) (\<lambda>fs. lift_res (local_file_exists fs (path_join dir file_path)))))"

definition local_read_file :: "file_system \<Rightarrow> string \<Rightarrow> StaticError + string" where
  "local_read_file fs path =
     (case not_symlink fs path of
        Inl e \<Rightarrow> Inl e
      | Inr _ \<Rightarrow> map_sum StIo id (fs_read fs path))"

definition read_script :: "string \<Rightarrow> string" where
  "read_script file_path = ''sudo base64 -w0 '' @ public_path file_path"

definition read_file ::
  "(string \<Rightarrow> string + string) \<Rightarrow> ('s, 'b) StaticFileService \<Rightarrow> uuid \<Rightarrow> string \<Rightarrow> ('s, 'b, string) static" where
  "read_file decode sfs i file_path =
     (if sfs_sandbox_service sfs \<noteq> None then
        bindE (k8s_check_not_symlink (sfs_sandbox_service sfs) i file_path) (\<lambda>_.
        bindE (k8s_exec (sfs_sandbox_service sfs) i (sh (read_script file_path))) (\<lambda>encoded.
        map_err (\<lambda>e. StText (''Failed to decode base64: '' @ e)) (lift_res (decode (trim encoded)))))
      else
        bindE (sandbox_dir sfs i) (\<lambda>dir.
        bindE (gets fw_files) (\<lambda>fs. lift_res (local_read_file fs (path_join dir file_path)))))"

definition local_delete_file :: "string \<Rightarrow> file_system \<Rightarrow> (StaticError + bool) \<times> file_system" where
  "local_delete_file path fs =
     (case not_symlink fs path of
        Inl (StIo IoNotFound) \<Rightarrow> (Inr False, fs)
      | Inl e \<Rightarrow> (Inl e, fs)
      | Inr _ \<Rightarrow>
          if \<not> path_exists fs path then (Inr False, fs)
          else (case remove_file fs path of (r, fs') \<Rightarrow> (map_sum StIo (\<lambda>_. True) r, fs')))"

definition delete_script :: "string \<Rightarrow> string" where
  "delete_script file_path =
     ''sudo test -f '' @ public_path file_path @ '' && sudo rm -f '' @ public_path file_path @
     '' && echo '' @ sq ''deleted'' @ '' || echo '' @ sq ''notfound''"

definition delete_file :: "('s, 'b) StaticFileService \<Rightarrow> uuid \<Rightarrow> string \<Rightarrow> ('s, 'b, bool) static" where
  "delete_file sfs i file_path =
     (if sfs_sandbox_service sfs \<noteq> None then
        bindE (k8s_check_not_symlink (sfs_sandbox_service sfs) i file_path) (\<lambda>_.
        bindE (k8s_exec (sfs_sandbox_service sfs) i (sh (delete_script file_path))) (\<lambda>output.
        ret (trim output = ''deleted'')))
      else
        bindE (sandbox_dir sfs i) (\<lambda>dir w.
          (case local_delete_file (path_join dir file_path) (fw_files w) of
             (r, fs) \<Rightarrow> (r, w\<lparr>fw_files := fs\<rparr>))))"

section \<open>All files of a sandbox\<close>

definition delete_all_script :: string where
  "delete_all_script =
     ''count=$(sudo find /public -type f 2>/dev/null | wc -l); sudo find /public -mindepth 1 -delete 2>/dev/null; echo '' @
     [CHR 0x22] @ ''$count'' @ [CHR 0x22]"

text \<open>Only the files directly in the directory are counted.\<close>

definition local_delete_all :: "string \<Rightarrow> file_system \<Rightarrow> (StaticError + u64) \<times> file_system" where
  "local_delete_all dir fs =
     (if \<not> path_exists fs dir then (Inr 0, fs)
      else (case read_dir fs dir of
          Inl e \<Rightarrow> (Inl (StIo e), fs)
        | Inr names \<Rightarrow>
            (let count = of_nat (length (filter (\<lambda>n. path_is_file fs (path_join dir n)) names))
             in case remove_dir_all fs dir of (r, fs') \<Rightarrow> (map_sum StIo (\<lambda>_. count) r, fs'))))"

definition delete_sandbox_files :: "('s, 'b) StaticFileService \<Rightarrow> uuid \<Rightarrow> ('s, 'b, u64) static" where
  "delete_sandbox_files sfs i =
     (if sfs_sandbox_service sfs \<noteq> None then
        bindE (k8s_exec (sfs_sandbox_service sfs) i (sh delete_all_script)) (\<lambda>output.
        ret (parse_u64_or_0 output))
      else
        bindE (sandbox_dir sfs i) (\<lambda>dir w.
          (case local_delete_all dir (fw_files w) of (r, fs) \<Rightarrow> (r, w\<lparr>fw_files := fs\<rparr>))))"

definition relative_name :: "string \<Rightarrow> string \<Rightarrow> string" where
  "relative_name relative_path name = (if relative_path = [] then name else relative_path @ ''/'' @ name)"

text \<open>One directory of the walk: the files found, and the directories pushed on the stack.\<close>

fun visit :: "file_system \<Rightarrow> string \<Rightarrow> string \<Rightarrow> string list \<Rightarrow> (string \<times> string) list \<times> string list \<Rightarrow>
    (string \<times> string) list \<times> string list" where
  "visit fs dir rel [] (dirs, files) = (dirs, files)"
| "visit fs dir rel (entry # entries) (dirs, files) =
     (let path = path_join dir entry
      in visit fs dir rel entries
           (if path_is_file fs path then
              (case to_str entry of
                 Some name \<Rightarrow> (dirs, files @ [relative_name rel name])
               | None \<Rightarrow> (dirs, files))
            else if path_is_dir fs path then
              (case to_str entry of
                 Some name \<Rightarrow> ((path, relative_name rel name) # dirs, files)
               | None \<Rightarrow> (dirs, files))
            else (dirs, files)))"

fun list_loop :: "nat \<Rightarrow> file_system \<Rightarrow> (string \<times> string) list \<Rightarrow> string list \<Rightarrow> (IoError + string list) option" where
  "list_loop 0 fs dirs files = None"
| "list_loop (Suc fuel) fs [] files = Some (Inr files)"
| "list_loop (Suc fuel) fs ((dir, rel) # dirs) files =
     (case read_dir fs dir of
        Inl e \<Rightarrow> Some (Inl e)
      | Inr entries \<Rightarrow>
          (case visit fs dir rel entries (dirs, files) of
             (dirs', files') \<Rightarrow> list_loop fuel fs dirs' files'))"

definition local_list_files :: "nat \<Rightarrow> file_system \<Rightarrow> string \<Rightarrow> (IoError + string list) option" where
  "local_list_files fuel fs dir =
     (if \<not> path_exists fs dir then Some (Inr [])
      else map_option (map_sum id sort) (list_loop fuel fs [(dir, [])] []))"

definition list_script :: string where
  "list_script = ''sudo find /public -type f | sed '' @ sq ''s|^/public/||'' @ '' | sort''"

text \<open>\<open>str::lines\<close>: a carriage return before the end of a line and the empty rest after the last end are dropped.\<close>

definition str_lines :: "string \<Rightarrow> string list" where
  "str_lines s =
     (let ls = split_on (CHR 0x0A) s;
          ls = (if last ls = [] then butlast ls else ls);
          terminated = (if last (split_on (CHR 0x0A) s) = [] then length ls else length ls - 1)
      in map (\<lambda>(k, l). if k < terminated \<and> l \<noteq> [] \<and> last l = CHR 0x0D then butlast l else l)
           (enumerate 0 ls))"

definition list_files ::
  "nat \<Rightarrow> ('s, 'b) StaticFileService \<Rightarrow> uuid \<Rightarrow> ('s, 'b) file_world \<Rightarrow>
     ((StaticError + string list) \<times> ('s, 'b) file_world) option" where
  "list_files fuel sfs i w =
     (if sfs_sandbox_service sfs \<noteq> None then
        Some (bindE (k8s_exec (sfs_sandbox_service sfs) i (sh list_script)) (\<lambda>output.
          ret (filter (\<lambda>s. s \<noteq> []) (str_lines output))) w)
      else
        map_option (\<lambda>r. (map_sum StIo id r, w))
          (local_list_files fuel (fw_files w)
             (path_join (ssc_base_path (sfs_config sfs)) (w_uuid_to_string (fw_world w) i))))"

definition total_size_script :: string where
  "total_size_script =
     ''sudo find /public -type f -exec stat -c '' @ sq ''%s'' @ '' {} + 2>/dev/null | awk '' @
     sq ''{s+=$1} END {print s+0}''"

definition local_total_size :: "file_system \<Rightarrow> string \<Rightarrow> StaticError + u64" where
  "local_total_size fs dir =
     (if \<not> path_exists fs dir then Inr 0
      else (case read_dir fs dir of
          Inl e \<Rightarrow> Inl (StIo e)
        | Inr names \<Rightarrow> Inr (foldl (\<lambda>total name.
            if path_is_file fs (path_join dir name)
            then (case symlink_metadata fs (path_join dir name) of
                    Inr m \<Rightarrow> total + metadata_len fs m
                  | Inl _ \<Rightarrow> total)
            else total) 0 names)))"

definition get_total_size :: "('s, 'b) StaticFileService \<Rightarrow> uuid \<Rightarrow> ('s, 'b, u64) static" where
  "get_total_size sfs i =
     (if sfs_sandbox_service sfs \<noteq> None then
        bindE (k8s_exec (sfs_sandbox_service sfs) i (sh total_size_script)) (\<lambda>output.
        ret (parse_u64_or_0 output))
      else
        bindE (sandbox_dir sfs i) (\<lambda>dir.
        bindE (gets fw_files) (\<lambda>fs. lift_res (local_total_size fs dir))))"

section \<open>Directory trees\<close>

datatype FileNode =
  FileNode (fn_name: string) (fn_path: string) (fn_is_dir: bool) (fn_size: "u64 option")
    (fn_children: "FileNode list option")

definition children_or_none :: "FileNode list \<Rightarrow> FileNode list option" where
  "children_or_none ns = (if ns = [] then None else Some ns)"

text \<open>The comparison of the two sorts: directories first, then by name.\<close>

definition sort_nodes :: "FileNode list \<Rightarrow> FileNode list" where
  "sort_nodes = sort_key (\<lambda>n. (\<not> fn_is_dir n, fn_name n))"

text \<open>
  The tree built from a list of paths. A \<open>BTreeMap\<close> is the list of its entries in the order of
  the keys; \<open>entry(k).or_default()\<close> adds a missing key at its place.
\<close>

datatype TreeNode = TreeNode (tn_is_dir: bool) (tn_children: "(string \<times> TreeNode) list")

fun bt_entry :: "string \<Rightarrow> (TreeNode \<Rightarrow> TreeNode) \<Rightarrow> (string \<times> TreeNode) list \<Rightarrow> (string \<times> TreeNode) list" where
  "bt_entry k f [] = [(k, f (TreeNode False []))]"
| "bt_entry k f ((k', t) # m) =
     (if k = k' then (k, f t) # m
      else if k < k' then (k, f (TreeNode False [])) # (k', t) # m
      else (k', t) # bt_entry k f m)"

fun insert_parts :: "string list \<Rightarrow> TreeNode \<Rightarrow> TreeNode" where
  "insert_parts [] t = t"
| "insert_parts (part # parts) (TreeNode d m) =
     TreeNode d (bt_entry part (\<lambda>c. insert_parts parts (TreeNode (parts \<noteq> []) (tn_children c))) m)"

fun convert :: "TreeNode \<Rightarrow> string \<Rightarrow> FileNode list"
  and convert_entries :: "(string \<times> TreeNode) list \<Rightarrow> string \<Rightarrow> FileNode list" where
  "convert (TreeNode d m) path = sort_nodes (convert_entries m path)"
| "convert_entries [] path = []"
| "convert_entries ((name, child) # m) path =
     (let child_path = relative_name path name
      in (if tn_is_dir child
          then FileNode name child_path True None (children_or_none (convert child child_path))
          else FileNode name child_path False None None) # convert_entries m path)"

definition build_tree_from_paths :: "string list \<Rightarrow> FileNode list" where
  "build_tree_from_paths files =
     convert (foldl (\<lambda>root file. insert_parts (split_on (CHR ''/'') file) root) (TreeNode False []) files) []"

text \<open>The tree read from the directory itself: files in a first pass, directories in a second.\<close>

definition tree_files :: "file_system \<Rightarrow> string \<Rightarrow> string \<Rightarrow> string list \<Rightarrow> FileNode list" where
  "tree_files fs dir rel entries =
     concat (map (\<lambda>entry.
       let path = path_join dir entry; name = to_string_lossy entry
       in if \<not> path_is_dir fs path \<and> path_is_file fs path
          then [FileNode name (relative_name rel name) False
                  (case symlink_metadata fs path of Inr m \<Rightarrow> Some (metadata_len fs m) | Inl _ \<Rightarrow> None) None]
          else []) entries)"

definition tree_dirs :: "file_system \<Rightarrow> string \<Rightarrow> string \<Rightarrow> string list \<Rightarrow> (string \<times> string \<times> string) list" where
  "tree_dirs fs dir rel entries =
     concat (map (\<lambda>entry.
       let path = path_join dir entry; name = to_string_lossy entry
       in if path_is_dir fs path then [(name, path, relative_name rel name)] else []) entries)"

function build_tree_helper :: "nat \<Rightarrow> file_system \<Rightarrow> string \<Rightarrow> string \<Rightarrow> FileNode list option"
  and build_subtrees :: "nat \<Rightarrow> file_system \<Rightarrow> (string \<times> string \<times> string) list \<Rightarrow> FileNode list \<Rightarrow>
    FileNode list option" where
  "build_tree_helper 0 fs dir rel = None"
| "build_tree_helper (Suc fuel) fs dir rel =
     (case read_dir fs dir of
        Inl _ \<Rightarrow> Some []
      | Inr entries \<Rightarrow>
          map_option sort_nodes
            (build_subtrees fuel fs (tree_dirs fs dir rel entries) (tree_files fs dir rel entries)))"
| "build_subtrees fuel fs [] nodes = Some nodes"
| "build_subtrees fuel fs ((name, path, rel) # dirs) nodes =
     (case build_tree_helper fuel fs path rel of
        None \<Rightarrow> None
      | Some children \<Rightarrow>
          build_subtrees fuel fs dirs (nodes @ [FileNode name rel True None (children_or_none children)]))"
  by pat_completeness auto
termination
  by (relation "measures [case_sum (\<lambda>(n, _). n) (\<lambda>(n, _). n), case_sum (\<lambda>_. 0) (\<lambda>(_, _, ds, _). length ds + 1)]") auto

definition build_directory_tree ::
  "nat \<Rightarrow> ('s, 'b) StaticFileService \<Rightarrow> uuid \<Rightarrow> ('s, 'b) file_world \<Rightarrow>
     ((StaticError + FileNode list) \<times> ('s, 'b) file_world) option" where
  "build_directory_tree fuel sfs i w =
     (if sfs_sandbox_service sfs \<noteq> None then
        map_option (\<lambda>(r, v).
          (map_sum id (\<lambda>files. if files = [] then [] else build_tree_from_paths files) r, v))
          (list_files fuel sfs i w)
      else
        (let dir = path_join (ssc_base_path (sfs_config sfs)) (w_uuid_to_string (fw_world w) i)
         in if \<not> path_exists (fw_files w) dir then Some (Inr [], w)
            else map_option (\<lambda>nodes. (Inr nodes, w)) (build_tree_helper fuel (fw_files w) dir [])))"

end
