(* ===== verification/StaticApi.thy ===== *)
theory StaticApi
  imports StaticFiles
begin

text \<open>
  The HTTP handlers of published files (\<open>src/src/api/handlers/static_files.rs\<close>). A handler
  receives the sandbox id and the path the router decoded, and no identity. The parameters
  \<open>decode\<close>, \<open>header_ok\<close> and \<open>finish\<close> are the base64 decoder, the test of header values and the
  ZIP writer, given the entries in the order in which they were written.
\<close>

section \<open>Responses\<close>

record FileInfo =
  fi_file_name :: string
  fi_file_path :: string
  fi_file_size_bytes :: u64
  fi_content_type :: string

datatype static_body =
    StErrorBody string "string option"
  | StFileBody string string string
  | StListBody uuid "FileInfo list" nat u64
  | StDeletedBody uuid string
  | StDeletedAllBody uuid u64
  | StTreeBody uuid "FileNode list"
  | StZipBody string string

record static_response =
  st_status :: nat
  st_body :: static_body

datatype static_failure = StFail static_response | StPanic string

type_synonym ('s, 'b) static_handler = "(('s, 'b) file_world, static_failure, static_response) prog"

definition st_reply :: "nat \<Rightarrow> static_body \<Rightarrow> static_response" where
  "st_reply status body = \<lparr>st_status = status, st_body = body\<rparr>"

definition st_error :: "nat \<Rightarrow> string \<Rightarrow> string option \<Rightarrow> static_failure" where
  "st_error status m hint = StFail (st_reply status (StErrorBody m hint))"

definition traversal_error :: static_failure where
  "traversal_error = st_error 400 ''Invalid file path''
     (Some (''Path cannot contain '' @ sq ''..''))"

section \<open>Serving\<close>

definition get_cache_control_for_file :: "StaticServerConfig \<Rightarrow> string \<Rightarrow> string" where
  "get_cache_control_for_file config content_type =
     (case map_of (ssc_cache_control_by_type config) content_type of
        Some cache_control \<Rightarrow> cache_control
      | None \<Rightarrow>
          (let wildcard_pattern = hd (split_on (CHR ''/'') content_type) @ ''/''
           in case find (\<lambda>(mime_pattern, _). starts_with mime_pattern wildcard_pattern \<and>
                  suffix ''/*'' mime_pattern) (ssc_cache_control_by_type config) of
                Some (_, cache_control) \<Rightarrow> cache_control
              | None \<Rightarrow> ssc_cache_control config))"

definition serve_static_file ::
  "(string \<Rightarrow> string + string) \<Rightarrow> (string \<Rightarrow> bool) \<Rightarrow> ('s, 'b) StaticFileService \<Rightarrow> uuid \<Rightarrow> string \<Rightarrow>
     ('s, 'b) static_handler" where
  "serve_static_file decode header_ok sfs i path =
     (let file_path = trim_start_matches (CHR ''/'') path in
      if str_contains file_path ''..'' then throw traversal_error
      else
        bindE (attempt (file_exists sfs i file_path)) (\<lambda>r. case r of
          Inl _ \<Rightarrow> throw (st_error 500 ''Failed to access file'' None)
        | Inr False \<Rightarrow> throw (st_error 404 ''File not found'' (Some ''Check the sandbox_id and file_path''))
        | Inr True \<Rightarrow>
            bindE (attempt (read_file decode sfs i file_path)) (\<lambda>r. case r of
              Inl _ \<Rightarrow> throw (st_error 500 ''Failed to read file'' None)
            | Inr content \<Rightarrow>
                (let content_type = detect_mime_type file_path;
                     cache_control = get_cache_control_for_file (sfs_config sfs) content_type
                 in ret (st_reply 200 (StFileBody content
                      (if header_ok content_type then content_type else ''application/octet-stream'')
                      (if header_ok cache_control then cache_control else ''public, max-age=3600'')))))))"

section \<open>Listing\<close>

text \<open>A file whose size cannot be read, or is not there, is left out of the listing.\<close>

definition list_step ::
  "('s, 'b) StaticFileService \<Rightarrow> uuid \<Rightarrow> string \<Rightarrow> FileInfo list \<times> u64 \<Rightarrow>
     (('s, 'b) file_world, static_failure, FileInfo list \<times> u64) prog" where
  "list_step sfs i file_name acc =
     bindE (attempt (get_file_size sfs i file_name)) (\<lambda>r. ret (case r of
       Inr (Some sz) \<Rightarrow>
         (fst acc @ [\<lparr>fi_file_name = file_name, fi_file_path = file_name, fi_file_size_bytes = sz,
            fi_content_type = detect_mime_type file_name\<rparr>], snd acc + sz)
     | _ \<Rightarrow> acc))"

definition listing_failure :: "string \<Rightarrow> StaticError \<Rightarrow> static_failure" where
  "listing_failure m e =
     st_error (if str_contains (static_error_display e) ''not running'' then 409 else 500) m None"

definition list_static_files ::
  "nat \<Rightarrow> ('s, 'b) StaticFileService \<Rightarrow> uuid \<Rightarrow> ('s, 'b) file_world \<Rightarrow>
     ((static_failure + static_response) \<times> ('s, 'b) file_world) option" where
  "list_static_files fuel sfs i w =
     (case list_files fuel sfs i w of
        None \<Rightarrow> None
      | Some (Inl e, v) \<Rightarrow> Some (throw (listing_failure ''Failed to list files'' e) v)
      | Some (Inr file_names, v) \<Rightarrow>
          Some (bindE (foldE (list_step sfs i) file_names ([], 0)) (\<lambda>(files, total_size).
            ret (st_reply 200 (StListBody i files (length files) total_size))) v))"

definition list_sandbox_directory_tree ::
  "nat \<Rightarrow> ('s, 'b) StaticFileService \<Rightarrow> uuid \<Rightarrow> ('s, 'b) file_world \<Rightarrow>
     ((static_failure + static_response) \<times> ('s, 'b) file_world) option" where
  "list_sandbox_directory_tree fuel sfs i w =
     (case build_directory_tree fuel sfs i w of
        None \<Rightarrow> None
      | Some (Inl e, v) \<Rightarrow> Some (throw (listing_failure ''Failed to list directory'' e) v)
      | Some (Inr tree, v) \<Rightarrow> Some (ret (st_reply 200 (StTreeBody i tree)) v))"

section \<open>Deletion\<close>

definition delete_static_file ::
  "('s, 'b) StaticFileService \<Rightarrow> ('s, 'b) SandboxService \<Rightarrow> uuid \<Rightarrow> string \<Rightarrow> ('s, 'b) static_handler" where
  "delete_static_file sfs svc i path =
     (let file_path = trim_start_matches (CHR ''/'') path in
      if str_contains file_path ''..'' then throw traversal_error
      else
        bindE (attempt (delete_file sfs i file_path)) (\<lambda>r. case r of
          Inl _ \<Rightarrow> throw (st_error 500 ''Failed to delete file'' None)
        | Inr False \<Rightarrow> throw (st_error 404 ''File not found'' None)
        | Inr True \<Rightarrow>
            bindE (attempt (on_files_service (record_api_activity svc i))) (\<lambda>_.
            ret (st_reply 200 (StDeletedBody i file_path)))))"

definition delete_sandbox_static_files ::
  "('s, 'b) StaticFileService \<Rightarrow> ('s, 'b) SandboxService \<Rightarrow> uuid \<Rightarrow> ('s, 'b) static_handler" where
  "delete_sandbox_static_files sfs svc i =
     bindE (attempt (delete_sandbox_files sfs i)) (\<lambda>r. case r of
       Inl _ \<Rightarrow> throw (st_error 500 ''Failed to delete files'' None)
     | Inr count \<Rightarrow>
         bindE (attempt (on_files_service (record_api_activity svc i))) (\<lambda>_.
         ret (st_reply 200 (StDeletedAllBody i count))))"

section \<open>Archives\<close>

function add_dir_to_zip :: "nat \<Rightarrow> file_system \<Rightarrow> string \<Rightarrow> string \<Rightarrow> (string \<times> string) list \<Rightarrow>
    (IoError + (string \<times> string) list) option"
  and add_entries :: "nat \<Rightarrow> file_system \<Rightarrow> string \<Rightarrow> string \<Rightarrow> string list \<Rightarrow> (string \<times> string) list \<Rightarrow>
    (IoError + (string \<times> string) list) option" where
  "add_dir_to_zip 0 fs dir base acc = None"
| "add_dir_to_zip (Suc fuel) fs dir base acc =
     (case read_dir fs dir of
        Inl e \<Rightarrow> Some (Inl e)
      | Inr entries \<Rightarrow> add_entries fuel fs dir base entries acc)"
| "add_entries fuel fs dir base [] acc = Some (Inr acc)"
| "add_entries fuel fs dir base (entry # entries) acc =
     (let path = path_join dir entry; relative_path = relative_name base (to_string_lossy entry) in
      if path_is_file fs path then
        (case fs_read fs path of
           Inl e \<Rightarrow> Some (Inl e)
         | Inr content \<Rightarrow> add_entries fuel fs dir base entries (acc @ [(relative_path, content)]))
      else if path_is_dir fs path then
        (case add_dir_to_zip fuel fs path relative_path acc of
           None \<Rightarrow> None
         | Some (Inl e) \<Rightarrow> Some (Inl e)
         | Some (Inr acc') \<Rightarrow> add_entries fuel fs dir base entries acc')
      else add_entries fuel fs dir base entries acc)"
  by pat_completeness auto
termination
  by (relation "measures [case_sum (\<lambda>(n, _). n) (\<lambda>(n, _). n), case_sum (\<lambda>_. 0) (\<lambda>(_, _, _, _, es, _). length es + 1)]") auto

definition zip_disposition :: "StaticServerConfig \<Rightarrow> string \<Rightarrow> string" where
  "zip_disposition config id_text =
     ''attachment; filename='' @ [CHR 0x22] @ ssc_zip_download_file_prefix config @ id_text @ ''.zip'' @ [CHR 0x22]"

definition zip_response ::
  "(string \<Rightarrow> bool) \<Rightarrow> StaticServerConfig \<Rightarrow> string \<Rightarrow> string \<Rightarrow> static_failure + static_response" where
  "zip_response header_ok config id_text buffer =
     (let max_size_bytes = ssc_max_zip_size_mb config * 1024 * 1024;
          size = length buffer
      in if unat max_size_bytes < size then
           Inl (st_error 413 ''ZIP archive too large'' (Some (''Total size '' @ show_nat size @
             '' bytes exceeds maximum allowed size of '' @ show_nat (unat (ssc_max_zip_size_mb config)) @
             '' MB. Configure static_server.max_zip_size_mb to increase the limit.'')))
         else if \<not> header_ok (zip_disposition config id_text) then Inl (StPanic ''invalid header value'')
         else Inr (st_reply 200 (StZipBody buffer (zip_disposition config id_text))))"

definition download_sandbox_files_as_zip ::
  "nat \<Rightarrow> ((string \<times> string) list \<Rightarrow> string + string) \<Rightarrow> (string \<Rightarrow> bool) \<Rightarrow> ('s, 'b) StaticFileService \<Rightarrow> uuid \<Rightarrow>
     ('s, 'b) file_world \<Rightarrow> ((static_failure + static_response) \<times> ('s, 'b) file_world) option" where
  "download_sandbox_files_as_zip fuel finish header_ok sfs i w =
     (let config = sfs_config sfs;
          id_text = w_uuid_to_string (fw_world w) i;
          dir = path_join (ssc_base_path config) id_text
      in if \<not> ssc_enable_zip_download config then
           Some (Inl (st_error 403 ''ZIP download is disabled''
             (Some ''Enable zip_download in configuration to use this feature'')), w)
         else if \<not> path_exists (fw_files w) dir then
           Some (Inl (st_error 404 ''Sandbox directory not found''
             (Some ''No files have been published for this sandbox'')), w)
         else (case add_dir_to_zip fuel (fw_files w) dir [] [] of
             None \<Rightarrow> None
           | Some (Inl _) \<Rightarrow> Some (Inl (st_error 500 ''Failed to create zip archive'' None), w)
           | Some (Inr entries) \<Rightarrow>
               (case finish entries of
                  Inl _ \<Rightarrow> Some (Inl (st_error 500 ''Failed to create zip archive'' None), w)
                | Inr buffer \<Rightarrow> Some (zip_response header_ok config id_text buffer, w))))"

end
