(* ===== verification/StaticWalk.thy ===== *)
theory StaticWalk
  imports StaticApi "HOL-Library.Multiset"
begin

text \<open>
  How paths below a directory resolve, and why every walk over a directory ends although it
  follows links: each step either goes down in the tree or uses up one of the forty links that
  the resolution of a path may follow.
\<close>

section \<open>Resolution, with the links that are left\<close>

function walk_left :: "fsnode \<Rightarrow> nat \<Rightarrow> string list \<Rightarrow> string list \<Rightarrow> IoError + nat \<times> string list" where
  "walk_left root links cur [] = Inr (links, cur)"
| "walk_left root links cur (p # ps) =
     (case hop_from root cur p of
        Inl e \<Rightarrow> Inl e
      | Inr (Reach c) \<Rightarrow> walk_left root links c ps
      | Inr (Via c qs) \<Rightarrow> (case links of 0 \<Rightarrow> Inl IoLoop | Suc l \<Rightarrow> walk_left root l c (qs @ ps)))"
  by pat_completeness auto
termination
  by (relation "measures [\<lambda>(root, links, cur, ps). links, \<lambda>(root, links, cur, ps). length ps]") auto

lemmas walk_splits = sum.splits hop.splits nat.splits

definition then_walk :: "fsnode \<Rightarrow> IoError + nat \<times> string list \<Rightarrow> string list \<Rightarrow> IoError + nat \<times> string list" where
  "then_walk root r ps = (case r of Inl e \<Rightarrow> Inl e | Inr (l, c) \<Rightarrow> walk_left root l c ps)"

lemma then_walk_simps [simp]:
  "then_walk root (Inl e) ps = Inl e" "then_walk root (Inr (l, c)) ps = walk_left root l c ps"
  by (simp_all add: then_walk_def)

lemma walk_left_follow: "walk root True l cur ps = map_sum id snd (walk_left root l cur ps)"
  by (induction root l cur ps rule: walk_left.induct) (auto split: walk_splits)

lemma walk_left_append: "walk_left root l cur (ps @ qs) = then_walk root (walk_left root l cur ps) qs"
  by (induction root l cur ps rule: walk_left.induct) (auto split: walk_splits)

lemma walk_left_le: "walk_left root l cur ps = Inr (l', c) \<Longrightarrow> l' \<le> l"
  by (induction root l cur ps rule: walk_left.induct) (fastforce split: walk_splits)+

lemma walk_left_empty: "walk_left root l cur ([] # p # ps) = walk_left root l cur (p # ps)"
  by (simp add: hop_from_def split: option.splits fsnode.splits)

lemma walk_last:
  "walk_left root l cur ps = Inr (l', c) \<Longrightarrow> hop_from root c p = Inr (Reach d) \<Longrightarrow>
     walk root follow l cur (ps @ [p]) = Inr d"
  by (induction root l cur ps rule: walk_left.induct) (auto split: walk_splits)

section \<open>Well-formed trees\<close>

definition good_name :: "string \<Rightarrow> bool" where
  "good_name p \<longleftrightarrow> CHR ''/'' \<notin> set p \<and> p \<notin> {[], ''.'', ''..''}"

fun wf_node :: "fsnode \<Rightarrow> bool"
  and wf_entries :: "(string \<times> fsnode) list \<Rightarrow> bool" where
  "wf_node (FFile c) = True"
| "wf_node (FLink t) = True"
| "wf_node (FDir es) = (distinct (map fst es) \<and> wf_entries es)"
| "wf_entries [] = True"
| "wf_entries ((p, n) # es) = (good_name p \<and> wf_node n \<and> wf_entries es)"

lemma wf_entries_iff: "wf_entries es \<longleftrightarrow> (\<forall>(p, n) \<in> set es. good_name p \<and> wf_node n)"
  by (induction es) auto

lemma entry_size: "(p, n) \<in> set es \<Longrightarrow> size n < size (FDir es)"
  by (induction es) auto

lemma wf_node_at: "node_at root c = Some n \<Longrightarrow> wf_node root \<Longrightarrow> wf_node n"
proof (induction root c rule: node_at.induct)
  case (2 es p ps)
  then show ?case by (auto simp: wf_entries_iff split: option.splits dest: map_of_SomeD)
qed auto

lemma node_at_append: "node_at root c = Some n \<Longrightarrow> node_at root (c @ ps) = node_at n ps"
  by (induction root c rule: node_at.induct) (auto split: option.splits)

section \<open>Paths of entries\<close>

definition path_walk :: "file_system \<Rightarrow> string \<Rightarrow> IoError + nat \<times> string list" where
  "path_walk fs path =
     walk_left (fs_root fs) 40 (if is_absolute path then [] else fs_cwd fs) (split_on (CHR ''/'') path)"

lemma resolve_follow: "resolve fs True path = (if path = [] then Inl IoNotFound else map_sum id snd (path_walk fs path))"
  by (simp add: resolve_def path_walk_def walk_left_follow)

lemma split_on_two: "split_on d (a @ d # b) = split_on d a @ split_on d b"
proof (induction a)
  case (Cons c a)
  obtain r rs where "split_on d a = r # rs" by (cases "split_on d a") simp_all
  with Cons show ?case by simp
qed simp

lemma join_pieces:
  assumes "walk_left root l cur (split_on (CHR ''/'') d) = Inr r" and "good_name p" and "d \<noteq> []"
  obtains ps where "split_on (CHR ''/'') (path_join d p) = ps @ [p]" and "walk_left root l cur ps = Inr r"
proof (cases "last d = CHR ''/''")
  case True
  have rel: "\<not> is_absolute p" using assms(2) by (cases p) (auto simp: good_name_def is_absolute_def starts_with_def)
  define a where "a = butlast d"
  have d: "d = a @ [CHR ''/'']" using True assms(3) by (metis a_def append_butlast_last_id)
  have "split_on (CHR ''/'') (path_join d p) = split_on (CHR ''/'') a @ [p]"
    using assms(2) by (simp add: path_join_def rel d split_on_two split_on_plain good_name_def)
  moreover have "walk_left root l cur (split_on (CHR ''/'') a) = Inr r"
  proof -
    have "then_walk root (walk_left root l cur (split_on (CHR ''/'') a)) [[]] = Inr r"
      using assms(1) by (simp add: d split_on_two walk_left_append)
    then show ?thesis
      by (cases "walk_left root l cur (split_on (CHR ''/'') a)")
        (auto simp: hop_from_def split: option.splits fsnode.splits)
  qed
  ultimately show ?thesis using that by blast
next
  case False
  have rel: "\<not> is_absolute p" using assms(2) by (cases p) (auto simp: good_name_def is_absolute_def starts_with_def)
  then have "split_on (CHR ''/'') (path_join d p) = split_on (CHR ''/'') d @ [p]"
    using False assms(2,3) by (simp add: path_join_def split_on_two split_on_plain good_name_def)
  then show ?thesis using that assms(1) by blast
qed

lemma absolute_join:
  assumes "d \<noteq> []" and "good_name p"
  shows "is_absolute (path_join d p) = is_absolute d" and "path_join d p \<noteq> []"
  using assms by (cases d; cases p; auto simp: path_join_def is_absolute_def starts_with_def good_name_def)+

lemma entry_walk:
  assumes "path_walk fs d = Inr (l, c)" and "d \<noteq> []" and "good_name p"
  shows "path_walk fs (path_join d p) = walk_left (fs_root fs) l c [p]"
    and "hop_from (fs_root fs) c p = Inr (Reach e) \<Longrightarrow> resolve fs follow (path_join d p) = Inr e"
proof -
  obtain ps where ps: "split_on (CHR ''/'') (path_join d p) = ps @ [p]"
      "walk_left (fs_root fs) 40 (if is_absolute d then [] else fs_cwd fs) ps = Inr (l, c)"
    using assms by (auto simp: path_walk_def elim: join_pieces)
  then show "path_walk fs (path_join d p) = walk_left (fs_root fs) l c [p]"
    using assms by (simp add: path_walk_def absolute_join walk_left_append del: walk_left.simps)
  show "resolve fs follow (path_join d p) = Inr e" if "hop_from (fs_root fs) c p = Inr (Reach e)"
    using walk_last [OF ps(2) that] assms ps(1) by (simp add: resolve_def absolute_join)
qed

lemma read_dirD:
  assumes "read_dir fs d = Inr names"
  obtains l c es where "d \<noteq> []" and "path_walk fs d = Inr (l, c)" and "node_at (fs_root fs) c = Some (FDir es)"
    and "names = map fst es"
proof -
  obtain c es where c: "resolve fs True d = Inr c" "node_at (fs_root fs) c = Some (FDir es)" "names = map fst es"
    using assms by (auto simp: read_dir_def open_node_def split: sum.splits option.splits fsnode.splits)
  from c(1) have "d \<noteq> []" by (auto simp: resolve_def)
  moreover obtain l where "path_walk fs d = Inr (l, c)"
    using c(1) \<open>d \<noteq> []\<close> by (cases "path_walk fs d") (auto simp: resolve_follow)
  ultimately show ?thesis using c that by blast
qed

section \<open>The rank of a directory\<close>

definition node_size :: "fsnode option \<Rightarrow> nat" where
  "node_size n = (case n of None \<Rightarrow> 0 | Some n \<Rightarrow> size n)"

definition rank :: "file_system \<Rightarrow> string \<Rightarrow> nat \<times> nat" where
  "rank fs d = (case path_walk fs d of Inl _ \<Rightarrow> (0, 0) | Inr (l, c) \<Rightarrow> (l, node_size (node_at (fs_root fs) c)))"

definition below :: "((nat \<times> nat) \<times> (nat \<times> nat)) set" where
  "below = less_than <*lex*> less_than"

lemma wf_below: "wf below"
  by (simp add: below_def wf_lex_prod)

lemma rank_entry:
  assumes "wf_node (fs_root fs)" and "read_dir fs d = Inr names" and "p \<in> set names"
    and "path_is_dir fs (path_join d p)"
  shows "(rank fs (path_join d p), rank fs d) \<in> below"
proof -
  obtain l c es where d: "d \<noteq> []" "path_walk fs d = Inr (l, c)" "node_at (fs_root fs) c = Some (FDir es)"
      "names = map fst es"
    using assms(2) by (rule read_dirD)
  then have "wf_node (FDir es)" using wf_node_at assms(1) by blast
  then have dist: "distinct (map fst es)" and es: "wf_entries es" by simp_all
  obtain n where n: "(p, n) \<in> set es" using assms(3) d(4) by auto
  with es have p: "good_name p" "wf_node n" by (auto simp: wf_entries_iff)
  have map: "map_of es p = Some n" using dist n by simp
  note walk = entry_walk(1) [OF d(2,1) p(1)]
  obtain l' c' where w': "path_walk fs (path_join d p) = Inr (l', c')"
    using assms(4) by (cases "path_walk fs (path_join d p)")
      (auto simp: path_is_dir_def fs_metadata_def open_node_def resolve_follow split: if_splits)
  show ?thesis
  proof (cases "is_symlink n")
    case True
    then obtain t where t: "n = FLink t" by (cases n) auto
    have "l' < l"
      using w' p(1) d(3) map walk_left_le
      by (fastforce simp: walk t hop_from_def good_name_def split: nat.splits)
    then show ?thesis using w' d(2) by (simp add: rank_def below_def)
  next
    case False
    then have "walk_left (fs_root fs) l c [p] = Inr (l, c @ [p])"
      using p(1) d(3) map by (cases n) (auto simp: hop_from_def good_name_def)
    with w' walk have "l' = l" "c' = c @ [p]" by simp_all
    moreover have "node_at (fs_root fs) (c @ [p]) = Some n" using node_at_append [OF d(3), of "[p]"] map by simp
    ultimately show ?thesis using w' d(2,3) entry_size [OF n] by (simp add: rank_def below_def node_size_def)
  qed
qed

end
