(* ===== verification/StaticTree.thy ===== *)
theory StaticTree
  imports StaticWalk
begin

text \<open>
  The directory tree that is built from a list of paths: its leaves are the given paths, and
  every level is sorted with the directories first.
\<close>

section \<open>Leaves\<close>

fun leaf_paths :: "FileNode \<Rightarrow> string list" where
  "leaf_paths (FileNode n p d s ch) =
     (if d then (case ch of None \<Rightarrow> [] | Some ns \<Rightarrow> concat (map leaf_paths ns)) else [p])"

fun level_sorted :: "FileNode \<Rightarrow> bool" where
  "level_sorted (FileNode n p d s ch) =
     (case ch of None \<Rightarrow> True
      | Some ns \<Rightarrow> sorted_wrt (\<lambda>a b. (\<not> fn_is_dir a, fn_name a) \<le> (\<not> fn_is_dir b, fn_name b)) ns \<and>
          list_all level_sorted ns)"

fun tree_leaves :: "TreeNode \<Rightarrow> string list list"
  and entry_leaves :: "(string \<times> TreeNode) list \<Rightarrow> string list list" where
  "tree_leaves (TreeNode d m) = entry_leaves m"
| "entry_leaves [] = []"
| "entry_leaves ((name, child) # m) =
     (if tn_is_dir child then map ((#) name) (tree_leaves child) else [[name]]) @ entry_leaves m"

definition child_leaves :: "string \<Rightarrow> TreeNode \<Rightarrow> string list set" where
  "child_leaves name child = (if tn_is_dir child then (#) name ` set (tree_leaves child) else {[name]})"

lemma set_entry_leaves: "set (entry_leaves m) = (\<Union>(name, child) \<in> set m. child_leaves name child)"
  by (induction m) (auto simp: child_leaves_def)

lemma no_empty_leaf: "[] \<notin> set (tree_leaves t)"
  by (cases t) (auto simp: set_entry_leaves child_leaves_def split: if_splits)

lemma set_bt_entry:
  "(\<exists>c. (k, c) \<in> set m \<and> (\<exists>rest. set m = insert (k, c) rest \<and> set (bt_entry k f m) = insert (k, f c) rest)) \<or>
   set (bt_entry k f m) = insert (k, f (TreeNode False [])) (set m)"
proof (induction m)
  case (Cons x m)
  obtain k' t where x: "x = (k', t)" by (cases x)
  consider "k = k'" | "k \<noteq> k'" "k < k'" | "k \<noteq> k'" "\<not> k < k'" by blast
  then show ?case
  proof cases
    case 1
    then show ?thesis by (auto simp: x)
  next
    case 2
    then show ?thesis by (auto simp: x)
  next
    case 3
    from Cons show ?thesis
    proof
      assume "\<exists>c. (k, c) \<in> set m \<and> (\<exists>rest. set m = insert (k, c) rest \<and> set (bt_entry k f m) = insert (k, f c) rest)"
      then obtain c rest where "(k, c) \<in> set m" "set m = insert (k, c) rest" "set (bt_entry k f m) = insert (k, f c) rest"
        by blast
      then show ?thesis using 3 by (intro disjI1 exI [of _ c] conjI exI [of _ "insert x rest"]) (auto simp: x)
    qed (use 3 in \<open>auto simp: x\<close>)
  qed
qed simp

definition apart :: "string list \<Rightarrow> string list set \<Rightarrow> bool" where
  "apart ps L \<longleftrightarrow> (\<forall>q \<in> L. q = ps \<or> \<not> prefix q ps \<and> \<not> prefix ps q)"

lemma insert_parts_leaves:
  "ps \<noteq> [] \<Longrightarrow> apart ps (set (tree_leaves t)) \<Longrightarrow>
     set (tree_leaves (insert_parts ps t)) = insert ps (set (tree_leaves t))"
proof (induction ps arbitrary: t)
  case (Cons p ps)
  obtain d m where t: "t = TreeNode d m" by (cases t)
  define f where "f c = insert_parts ps (TreeNode (ps \<noteq> []) (tn_children c))" for c
  have f_abs: "(\<lambda>c. insert_parts ps (TreeNode (ps \<noteq> []) (tn_children c))) = f" by (simp add: f_def [abs_def])
  have f_dir: "tn_is_dir (f c) = (ps \<noteq> [])" for c by (cases ps) (simp_all add: f_def)
  have f_leaves: "child_leaves p (f c) = insert (p # ps) (if tn_is_dir c then child_leaves p c else {})"
    if "tn_is_dir c \<Longrightarrow> child_leaves p c \<subseteq> set (tree_leaves t)" and "\<not> tn_is_dir c \<Longrightarrow> tn_children c = [] \<or> ps = []" for c
  proof (cases "ps = []")
    case True
    have "child_leaves p c = {}" if dir: "tn_is_dir c"
    proof -
      have "q = []" if "q \<in> set (tree_leaves c)" for q
        using \<open>tn_is_dir c \<Longrightarrow> child_leaves p c \<subseteq> set (tree_leaves t)\<close> [OF dir] Cons.prems(2) True dir that
        by (fastforce simp: apart_def child_leaves_def)
      then show ?thesis using no_empty_leaf [of c] dir by (cases "tree_leaves c") (auto simp: child_leaves_def)
    qed
    then show ?thesis using True by (auto simp: f_def child_leaves_def)
  next
    case False
    have "apart ps (set (tree_leaves (TreeNode True (tn_children c))))"
    proof (cases "tn_is_dir c")
      case True
      have "apart (p # ps) (child_leaves p c)" using that(1) [OF True] Cons.prems(2) by (auto simp: apart_def)
      then show ?thesis using True by (cases c) (auto simp: apart_def child_leaves_def)
    next
      case False
      then show ?thesis using that(2) \<open>ps \<noteq> []\<close> by (simp add: apart_def)
    qed
    from Cons.IH [OF \<open>ps \<noteq> []\<close> this]
    have "set (tree_leaves (f c)) = insert ps (set (tree_leaves (TreeNode True (tn_children c))))"
      using False by (simp add: f_def)
    then show ?thesis using False f_dir [of c] that(2) by (cases c) (auto simp: child_leaves_def)
  qed
  show ?case
    using set_bt_entry [of p m f]
  proof
    assume "set (bt_entry p f m) = insert (p, f (TreeNode False [])) (set m)"
    then show ?thesis
      using f_leaves [of "TreeNode False []"] by (simp add: t f_abs set_entry_leaves)
  next
    assume "\<exists>c. (p, c) \<in> set m \<and> (\<exists>rest. set m = insert (p, c) rest \<and> set (bt_entry p f m) = insert (p, f c) rest)"
    then obtain c rest where c: "(p, c) \<in> set m" "set m = insert (p, c) rest" "set (bt_entry p f m) = insert (p, f c) rest"
      by blast
    have sub: "child_leaves p c \<subseteq> set (tree_leaves t)" using c(1) by (auto simp: t set_entry_leaves)
    have "ps = []" if "\<not> tn_is_dir c"
      using sub that Cons.prems(2) by (cases ps) (auto simp: child_leaves_def apart_def)
    with f_leaves [of c] sub have "child_leaves p (f c) = insert (p # ps) (child_leaves p c)"
      by (auto simp: child_leaves_def split: if_splits)
    then show ?thesis using c(2,3) by (simp add: t f_abs set_entry_leaves)
  qed
qed simp

section \<open>Conversion\<close>

lemma join_snoc: "join sep (xs @ [y]) = (if xs = [] then y else join sep xs @ sep @ y)"
  by (induction xs rule: induct_list012) (auto simp: join_Cons)

lemma relative_join:
  assumes "[] \<notin> set pre"
  shows "relative_name (join ''/'' pre) name = join ''/'' (pre @ [name])"
proof -
  have "join ''/'' pre = [] \<longleftrightarrow> pre = []" using assms by (cases pre; cases "tl pre") auto
  then show ?thesis by (simp add: relative_name_def join_snoc)
qed

lemma set_sort_nodes [simp]: "set (sort_nodes ns) = set ns"
  by (simp add: sort_nodes_def)

lemma children_leaves [simp]:
  "(case children_or_none ns of None \<Rightarrow> [] | Some ms \<Rightarrow> concat (map leaf_paths ms)) = concat (map leaf_paths ns)"
  by (simp add: children_or_none_def)

lemma convert_no_leaves:
  "tree_leaves t = [] \<Longrightarrow> set (concat (map leaf_paths (convert t path))) = {}"
  "entry_leaves m = [] \<Longrightarrow> set (concat (map leaf_paths (convert_entries m path))) = {}"
  by (induction t path and m path rule: convert_convert_entries.induct) (auto simp: Let_def split: if_splits)

lemma convert_leaves:
  "[] \<notin> set pre \<Longrightarrow> \<forall>q \<in> set (tree_leaves t). [] \<notin> set q \<Longrightarrow>
     set (concat (map leaf_paths (convert t (join ''/'' pre)))) = (\<lambda>q. join ''/'' (pre @ q)) ` set (tree_leaves t)"
  "[] \<notin> set pre \<Longrightarrow> \<forall>q \<in> set (entry_leaves m). [] \<notin> set q \<Longrightarrow>
     set (concat (map leaf_paths (convert_entries m (join ''/'' pre)))) = (\<lambda>q. join ''/'' (pre @ q)) ` set (entry_leaves m)"
proof (induction t and m arbitrary: pre and pre rule: tree_leaves_entry_leaves.induct)
  case (3 name child m)
  have rest: "set (concat (map leaf_paths (convert_entries m (join ''/'' pre)))) =
      (\<lambda>q. join ''/'' (pre @ q)) ` set (entry_leaves m)"
    using 3(3,4) by (intro 3(2)) (auto simp: ball_Un)
  show ?case
  proof (cases "tn_is_dir child \<and> tree_leaves child \<noteq> []")
    case True
    then obtain q where "q \<in> set (tree_leaves child)" by (cases "tree_leaves child") auto
    then have "name # q \<in> set (entry_leaves ((name, child) # m))" using True by simp
    then have "name \<noteq> []" using 3(4) by (metis list.set_intros(1))
    then have "set (concat (map leaf_paths (convert child (join ''/'' (pre @ [name]))))) =
        (\<lambda>q. join ''/'' ((pre @ [name]) @ q)) ` set (tree_leaves child)"
      using 3(3,4) True by (intro 3(1)) (auto simp: ball_Un)
    then show ?thesis
      using rest 3(3) True by (simp add: Let_def relative_join image_Un image_image)
  next
    case False
    then show ?thesis
      using rest 3(3) convert_no_leaves(1) [of child "join ''/'' (pre @ [name])"]
      by (simp add: Let_def relative_join)
  qed
qed auto

lemma convert_sorted:
  "list_all level_sorted (convert t path) \<and>
     sorted_wrt (\<lambda>a b. (\<not> fn_is_dir a, fn_name a) \<le> (\<not> fn_is_dir b, fn_name b)) (convert t path)"
  "list_all level_sorted (convert_entries m path)"
proof (induction t path and m path rule: convert_convert_entries.induct)
  case (1 d m path)
  have "sorted (map (\<lambda>n. (\<not> fn_is_dir n, fn_name n)) (convert (TreeNode d m) path))"
    by (simp add: sort_nodes_def)
  then show ?case using 1 by (simp add: list_all_iff sorted_map)
qed (simp_all add: Let_def children_or_none_def)

definition prefix_free :: "string list \<Rightarrow> bool" where
  "prefix_free files \<longleftrightarrow>
     list_all (\<lambda>a. list_all (\<lambda>b. a = b \<or> \<not> prefix (split_on (CHR ''/'') a) (split_on (CHR ''/'') b)) files) files"

lemma inserted_leaves:
  assumes "prefix_free files"
  shows "prefix seen files \<Longrightarrow>
    set (tree_leaves (foldl (\<lambda>root file. insert_parts (split_on (CHR ''/'') file) root) (TreeNode False []) seen)) =
      split_on (CHR ''/'') ` set seen"
proof (induction "seen" rule: rev_induct)
  case (snoc f fs)
  have mem: "f \<in> set files" "set fs \<subseteq> set files" using set_mono_prefix [OF snoc.prems] by auto
  define t where "t = foldl (\<lambda>root file. insert_parts (split_on (CHR ''/'') file) root) (TreeNode False []) fs"
  have t: "set (tree_leaves t) = split_on (CHR ''/'') ` set fs"
    using snoc append_prefixD by (auto simp: t_def)
  have "apart (split_on (CHR ''/'') f) (set (tree_leaves t))"
    unfolding t apart_def
  proof
    fix q assume "q \<in> split_on (CHR ''/'') ` set fs"
    then obtain g where g: "q = split_on (CHR ''/'') g" "g \<in> set files" using mem(2) by auto
    have "\<forall>a \<in> set files. \<forall>b \<in> set files. a = b \<or> \<not> prefix (split_on (CHR ''/'') a) (split_on (CHR ''/'') b)"
      using assms by (simp add: prefix_free_def list_all_iff)
    from this [rule_format, OF g(2) mem(1)] this [rule_format, OF mem(1) g(2)]
    have "g = f \<or> \<not> prefix q (split_on (CHR ''/'') f) \<and> \<not> prefix (split_on (CHR ''/'') f) q"
      by (auto simp: g(1))
    with g(1) show "q = split_on (CHR ''/'') f \<or> \<not> prefix q (split_on (CHR ''/'') f) \<and> \<not> prefix (split_on (CHR ''/'') f) q"
      by auto
  qed
  then show ?case
    using insert_parts_leaves [of "split_on (CHR ''/'') f" t] t by (simp add: t_def)
qed simp

text \<open>
  The directory tree of a list of files, as the container prints it: when no file is at the
  place of a directory of another and no component is empty, the leaves of the tree carry exactly
  the listed paths; at every level the directories come first, and both groups are in
  alphabetical order.
\<close>

theorem directory_tree_leaves:
  assumes "prefix_free files" and "list_all (\<lambda>f. [] \<notin> set (split_on (CHR ''/'') f)) files"
  shows "set (concat (map leaf_paths (build_tree_from_paths files))) = set files \<and>
    sorted_wrt (\<lambda>a b. (\<not> fn_is_dir a, fn_name a) \<le> (\<not> fn_is_dir b, fn_name b)) (build_tree_from_paths files) \<and>
    list_all level_sorted (build_tree_from_paths files)"
proof -
  define t where "t = foldl (\<lambda>root file. insert_parts (split_on (CHR ''/'') file) root) (TreeNode False []) files"
  have t: "set (tree_leaves t) = split_on (CHR ''/'') ` set files"
    using inserted_leaves [OF assms(1), of files] by (simp add: t_def)
  then have "set (concat (map leaf_paths (convert t (join ''/'' [])))) = (\<lambda>q. join ''/'' ([] @ q)) ` set (tree_leaves t)"
    using assms(2) by (intro convert_leaves(1)) (auto simp: list_all_iff)
  then have "set (concat (map leaf_paths (build_tree_from_paths files))) = set files"
    by (simp add: build_tree_from_paths_def t_def [symmetric] t image_image join_split_on)
  then show ?thesis using convert_sorted(1) [of t "[]"] by (simp add: build_tree_from_paths_def t_def [symmetric])
qed

theorem directory_tree_leaves_witness:
  "set (concat (map leaf_paths (build_tree_from_paths [''a.txt'', ''src/lib.rs'', ''src/main.rs'']))) =
     {''a.txt'', ''src/lib.rs'', ''src/main.rs''}"
  using directory_tree_leaves [of "[''a.txt'', ''src/lib.rs'', ''src/main.rs'']"]
  by (simp add: prefix_free_def)

end
