(* ===== verification/StaticProps.thy ===== *)
theory StaticProps
  imports StaticTree
begin

text \<open>
  What the published-file code guarantees: its walks over a directory end, the archive of a
  directory without links holds exactly its files, a link leads the archive out of the
  directory, the exec mode serves what the container holds, and the tree built from a list of
  paths has exactly these paths as its leaves.
\<close>

section \<open>A concrete file system\<close>

definition example_static_config :: StaticServerConfig where
  "example_static_config =
     static_server_default\<lparr>ssc_base_path := ''/s'', ssc_cache_control := ''no-cache'',
       ssc_cache_control_by_type := [(''image/*'', ''public'')], ssc_max_zip_size_mb := 1\<rparr>"

definition example_files :: "(string \<times> fsnode) list \<Rightarrow> file_system" where
  "example_files published =
     \<lparr>fs_root = FDir [(''s'', FDir [(''1'', FDir published), (''2'', FDir [(''secret'', FFile ''key'')])])],
      fs_cwd = [], fs_fault = (\<lambda>_ _. None), fs_dir_len = (\<lambda>_. 64)\<rparr>"

definition example_file_world :: "(string \<times> fsnode) list \<Rightarrow> (mem_store, example_containers) file_world" where
  "example_file_world published = \<lparr>fw_world = example_world [] [], fw_files = example_files published\<rparr>"

definition example_zip :: "(string \<times> string) list \<Rightarrow> string + string" where
  "example_zip entries = Inr (concat (map (\<lambda>(n, c). n @ ''='' @ c @ '';'') entries))"

lemmas example_static =
  example_static_config_def static_server_default_def example_files_def example_file_world_def example_zip_def static_new_def example_world_def

lemma show_one: "show_nat (Suc 0) = ''1''"
  by code_simp

lemma example_dir [simp]:
  "path_join (ssc_base_path example_static_config) ''1'' = ''/s/1''"
  "w_uuid_to_string (fw_world (example_file_world p)) 1 = ''1''"
  "resolve (fw_files (example_file_world p)) True ''/s/1'' = Inr [''s'', ''1'']"
  "sfs_config (static_new example_static_config) = example_static_config"
  by (simp_all add: example_static path_join_def is_absolute_def starts_with_def show_one resolve_def
      hop_from_def)

lemma example_config [simp]:
  "fs_fault (fw_files (example_file_world p)) = (\<lambda>_ _. None)"
  "ssc_enable_zip_download example_static_config" "ssc_max_zip_size_mb example_static_config = 1"
  by (simp_all add: example_static)

section \<open>Termination\<close>

lemma visit_pushes:
  "\<exists>new. fst (visit fs dir rel es (dirs, files)) = new @ dirs \<and>
     list_all (\<lambda>(p, r). \<exists>e \<in> set es. p = path_join dir e \<and> path_is_dir fs p) new"
proof (induction es arbitrary: dirs files)
  case (Cons e es)
  define p where "p = path_join dir e"
  have "\<exists>ds fs'. visit fs dir rel (e # es) (dirs, files) = visit fs dir rel es (ds, fs') \<and>
      (ds = dirs \<or> (\<exists>r. ds = (p, r) # dirs \<and> path_is_dir fs p))"
    by (cases "path_is_file fs p"; cases "path_is_dir fs p"; cases "to_str e")
      (simp_all add: Let_def p_def, blast+)
  then obtain ds fs' where step: "visit fs dir rel (e # es) (dirs, files) = visit fs dir rel es (ds, fs')"
    and ds: "ds = dirs \<or> (\<exists>r. ds = (p, r) # dirs \<and> path_is_dir fs p)" by blast
  obtain new where new: "fst (visit fs dir rel es (ds, fs')) = new @ ds"
      "list_all (\<lambda>(p, r). \<exists>e \<in> set es. p = path_join dir e \<and> path_is_dir fs p) new"
    using Cons.IH by blast
  have old: "list_all (\<lambda>(p, r). \<exists>e' \<in> set (e # es). p = path_join dir e' \<and> path_is_dir fs p) new"
    using new(2) by (auto simp: list_all_iff)
  from ds show ?case
  proof
    assume "ds = dirs"
    with new old show ?thesis by (auto simp: step simp del: visit.simps)
  next
    assume "\<exists>r. ds = (p, r) # dirs \<and> path_is_dir fs p"
    then obtain r where "ds = (p, r) # dirs" "path_is_dir fs p" by blast
    with new old show ?thesis
      by (intro exI [of _ "new @ [(p, r)]"]) (auto simp: step p_def simp del: visit.simps)
  qed
qed auto

definition stack_rank :: "file_system \<Rightarrow> (string \<times> string) list \<Rightarrow> (nat \<times> nat) multiset" where
  "stack_rank fs dirs = mset (map (\<lambda>(d, r). rank fs d) dirs)"

lemma list_loop_ends:
  assumes "wf_node (fs_root fs)"
  shows "\<exists>fuel r. list_loop fuel fs dirs files = Some r"
proof -
  have "wf (inv_image (mult below) (stack_rank fs))" by (intro wf_inv_image wf_mult wf_below)
  then show ?thesis
  proof (induction dirs arbitrary: files)
    case (less dirs)
    show ?case
    proof (cases dirs)
      case Nil
      then show ?thesis by (metis list_loop.simps(2))
    next
      case (Cons x rest)
      obtain d rel where x: "x = (d, rel)" by (cases x)
      show ?thesis
      proof (cases "read_dir fs d")
        case (Inl e)
        then have "list_loop (Suc 0) fs dirs files = Some (Inl e)" by (simp add: Cons x)
        then show ?thesis by blast
      next
        case (Inr names)
        obtain dirs' files' where v: "visit fs d rel names (rest, files) = (dirs', files')"
          by (cases "visit fs d rel names (rest, files)")
        obtain new where new: "dirs' = new @ rest"
            "list_all (\<lambda>(p, r). \<exists>e \<in> set names. p = path_join d e \<and> path_is_dir fs p) new"
          using visit_pushes [of fs d rel names rest files] v by auto
        have "\<forall>k \<in># stack_rank fs new. (k, rank fs d) \<in> below"
          using new(2) rank_entry [OF assms Inr] by (auto simp: stack_rank_def list_all_iff)
        then have "(stack_rank fs dirs', stack_rank fs dirs) \<in> mult below"
          using one_step_implies_mult [of "{# rank fs d #}" "stack_rank fs new" below "stack_rank fs rest"]
          by (simp add: stack_rank_def new(1) Cons x add.commute)
        then obtain fuel r where "list_loop fuel fs dirs' files' = Some r"
          using less by (fastforce simp: in_inv_image)
        then have "list_loop (Suc fuel) fs dirs files = Some r" by (simp add: Cons x Inr v)
        then show ?thesis by blast
      qed
    qed
  qed
qed

text \<open>More fuel changes nothing.\<close>

lemma add_entries_mono:
  assumes "\<And>d b acc r. add_dir_to_zip m fs d b acc = Some r \<Longrightarrow> add_dir_to_zip n fs d b acc = Some r"
  shows "add_entries m fs d b es acc = Some r \<Longrightarrow> add_entries n fs d b es acc = Some r"
  by (induction es arbitrary: acc) (auto simp: Let_def assms split: if_splits sum.splits option.splits)

lemma add_dir_Suc: "add_dir_to_zip n fs d b acc = Some r \<Longrightarrow> add_dir_to_zip (Suc n) fs d b acc = Some r"
proof (induction n arbitrary: d b acc r)
  case (Suc n)
  note mono = add_entries_mono [OF Suc.IH]
  show ?case
  proof (cases "read_dir fs d")
    case (Inr es)
    then have "add_entries n fs d b es acc = Some r" using Suc.prems by simp
    then show ?thesis using Inr by (subst add_dir_to_zip.simps) (simp add: mono del: add_dir_to_zip.simps)
  qed (use Suc.prems in simp)
qed simp

lemma add_dir_more: "m \<le> n \<Longrightarrow> add_dir_to_zip m fs d b acc = Some r \<Longrightarrow> add_dir_to_zip n fs d b acc = Some r"
  by (induction n rule: dec_induct) (simp_all add: add_dir_Suc del: add_dir_to_zip.simps)

lemma add_entries_more: "m \<le> n \<Longrightarrow> add_entries m fs d b es acc = Some r \<Longrightarrow> add_entries n fs d b es acc = Some r"
  by (rule add_entries_mono) (rule add_dir_more)

lemma add_entries_ends:
  assumes "\<And>p acc b. p \<in> set es \<Longrightarrow> path_is_dir fs (path_join d p) \<Longrightarrow>
      \<exists>fuel r. add_dir_to_zip fuel fs (path_join d p) b acc = Some r"
  shows "\<exists>fuel r. add_entries fuel fs d base es acc = Some r"
  using assms
proof (induction es arbitrary: acc)
  case (Cons e es)
  have rest: "\<exists>fuel r. add_entries fuel fs d base es acc = Some r" for acc
    using Cons.prems by (intro Cons.IH) auto
  show ?case
  proof (cases "\<not> path_is_file fs (path_join d e) \<and> path_is_dir fs (path_join d e)")
    case True
    then obtain m r where m: "add_dir_to_zip m fs (path_join d e) (relative_name base (to_string_lossy e)) acc = Some r"
      using Cons.prems by (metis list.set_intros(1))
    show ?thesis
    proof (cases r)
      case (Inl x)
      with True m show ?thesis by (intro exI [of _ m]) (simp add: Let_def)
    next
      case (Inr acc')
      then obtain k q where "add_entries k fs d base es acc' = Some q" using rest by blast
      then have "add_entries (max m k) fs d base es acc' = Some q" by (rule add_entries_more [rotated]) simp
      with True Inr add_dir_more [OF _ m, of "max m k"]
      show ?thesis by (intro exI [of _ "max m k"]) (simp add: Let_def)
    qed
  next
    case False
    then show ?thesis
      using rest by (cases "fs_read fs (path_join d e)"; cases "path_is_file fs (path_join d e)") (auto simp: Let_def)
  qed
qed auto

lemma add_dir_ends:
  assumes "wf_node (fs_root fs)"
  shows "\<exists>fuel r. add_dir_to_zip fuel fs d base acc = Some r"
proof -
  have "wf (inv_image below (rank fs))" by (intro wf_inv_image wf_below)
  then show ?thesis
  proof (induction d arbitrary: base acc)
    case (less d)
    show ?case
    proof (cases "read_dir fs d")
      case (Inl e)
      then have "add_dir_to_zip (Suc 0) fs d base acc = Some (Inl e)" by simp
      then show ?thesis by blast
    next
      case (Inr names)
      have "\<exists>fuel r. add_entries fuel fs d base names acc = Some r"
        using less rank_entry [OF assms Inr] by (intro add_entries_ends) (auto simp: in_inv_image)
      then obtain fuel r where "add_dir_to_zip (Suc fuel) fs d base acc = Some r" by (auto simp: Inr)
      then show ?thesis by blast
    qed
  qed
qed

lemma build_subtrees_mono:
  assumes "\<And>d rel t. build_tree_helper m fs d rel = Some t \<Longrightarrow> build_tree_helper n fs d rel = Some t"
  shows "build_subtrees m fs ds ns = Some t \<Longrightarrow> build_subtrees n fs ds ns = Some t"
  by (induction ds arbitrary: ns) (auto simp: assms split: option.splits)

lemma build_tree_Suc: "build_tree_helper n fs d rel = Some t \<Longrightarrow> build_tree_helper (Suc n) fs d rel = Some t"
proof (induction n arbitrary: d rel t)
  case (Suc n)
  note mono = build_subtrees_mono [OF Suc.IH]
  show ?case
  proof (cases "read_dir fs d")
    case (Inr es)
    then obtain u where "build_subtrees n fs (tree_dirs fs d rel es) (tree_files fs d rel es) = Some u" "t = sort_nodes u"
      using Suc.prems by auto
    then show ?thesis using Inr by (subst build_tree_helper.simps) (simp add: mono del: build_tree_helper.simps)
  qed (use Suc.prems in simp)
qed simp

lemma build_tree_more: "m \<le> n \<Longrightarrow> build_tree_helper m fs d rel = Some t \<Longrightarrow> build_tree_helper n fs d rel = Some t"
  by (induction n rule: dec_induct) (simp_all add: build_tree_Suc del: build_tree_helper.simps)

lemma build_subtrees_more: "m \<le> n \<Longrightarrow> build_subtrees m fs ds ns = Some t \<Longrightarrow> build_subtrees n fs ds ns = Some t"
  by (rule build_subtrees_mono) (rule build_tree_more)

lemma build_subtrees_ends:
  assumes "\<And>n p r. (n, p, r) \<in> set ds \<Longrightarrow> \<exists>fuel t. build_tree_helper fuel fs p r = Some t"
  shows "\<exists>fuel t. build_subtrees fuel fs ds nodes = Some t"
  using assms
proof (induction ds arbitrary: nodes)
  case (Cons x ds)
  obtain n p r where x: "x = (n, p, r)" by (cases x)
  obtain m t where m: "build_tree_helper m fs p r = Some t" using Cons.prems x by fastforce
  have "\<exists>fuel q. build_subtrees fuel fs ds (nodes @ [FileNode n r True None (children_or_none t)]) = Some q"
    by (rule Cons.IH) (use Cons.prems in \<open>meson list.set_intros(2)\<close>)
  then obtain k q where "build_subtrees k fs ds (nodes @ [FileNode n r True None (children_or_none t)]) = Some q"
    by blast
  then have "build_subtrees (max m k) fs ds (nodes @ [FileNode n r True None (children_or_none t)]) = Some q"
    by (rule build_subtrees_more [rotated]) simp
  with build_tree_more [OF _ m, of "max m k"] show ?case by (intro exI [of _ "max m k"]) (simp add: x)
qed auto

lemma build_tree_ends:
  assumes "wf_node (fs_root fs)"
  shows "\<exists>fuel t. build_tree_helper fuel fs d rel = Some t"
proof -
  have "wf (inv_image below (rank fs))" by (intro wf_inv_image wf_below)
  then show ?thesis
  proof (induction d arbitrary: rel)
    case (less d)
    show ?case
    proof (cases "read_dir fs d")
      case (Inl e)
      then have "build_tree_helper (Suc 0) fs d rel = Some []" by simp
      then show ?thesis by blast
    next
      case (Inr names)
      have "\<exists>fuel t. build_subtrees fuel fs (tree_dirs fs d rel names) (tree_files fs d rel names) = Some t"
        using less rank_entry [OF assms Inr]
        by (intro build_subtrees_ends) (auto simp: in_inv_image tree_dirs_def Let_def split: if_splits)
      then obtain fuel t where "build_tree_helper (Suc fuel) fs d rel = Some t" by (auto simp: Inr)
      then show ?thesis by blast
    qed
  qed
qed

text \<open>
  C24. Every listing, directory tree and archive of published files is produced after finitely
  many steps, also when links in the directory form cycles.
\<close>

theorem static_walks_end:
  assumes "wf_node (fs_root (fw_files w))"
  shows "(\<exists>fuel r. list_static_files fuel sfs i w = Some r) \<and>
    (\<exists>fuel r. list_sandbox_directory_tree fuel sfs i w = Some r) \<and>
    (\<exists>fuel r. download_sandbox_files_as_zip fuel finish header_ok sfs i w = Some r)"
proof -
  define dir where "dir = path_join (ssc_base_path (sfs_config sfs)) (w_uuid_to_string (fw_world w) i)"
  obtain f1 r1 where f1: "list_loop f1 (fw_files w) [(dir, [])] [] = Some r1" using list_loop_ends [OF assms] by blast
  obtain f2 r2 where f2: "build_tree_helper f2 (fw_files w) dir [] = Some r2" using build_tree_ends [OF assms] by blast
  obtain f3 r3 where f3: "add_dir_to_zip f3 (fw_files w) dir [] [] = Some r3" using add_dir_ends [OF assms] by blast
  have "\<exists>q. list_files f1 sfs i w = Some q"
    using f1 by (cases "sfs_sandbox_service sfs = None"; cases "path_exists (fw_files w) dir")
      (auto simp: list_files_def local_list_files_def dir_def [symmetric])
  then obtain r v where l: "list_files f1 sfs i w = Some (r, v)" by auto
  then have "\<exists>q. list_static_files f1 sfs i w = Some q" by (cases r) (simp_all add: list_static_files_def)
  moreover have "\<exists>fuel r v. build_directory_tree fuel sfs i w = Some (r, v)"
  proof (cases "sfs_sandbox_service sfs = None")
    case True
    then show ?thesis using f2 by (intro exI [of _ f2]) (simp add: build_directory_tree_def dir_def [symmetric])
  next
    case False
    then show ?thesis using l by (intro exI [of _ f1]) (simp add: build_directory_tree_def)
  qed
  then obtain f r v where "build_directory_tree f sfs i w = Some (r, v)" by blast
  then have "\<exists>q. list_sandbox_directory_tree f sfs i w = Some q"
    by (cases r) (simp_all add: list_sandbox_directory_tree_def)
  moreover have "\<exists>q. download_sandbox_files_as_zip f3 finish header_ok sfs i w = Some q"
    using f3 by (cases r3) (simp_all add: download_sandbox_files_as_zip_def Let_def dir_def [symmetric] split: sum.splits)
  ultimately show ?thesis by blast
qed

theorem static_walks_end_witness:
  "\<exists>fuel r. list_static_files fuel (static_new example_static_config) 1
     (example_file_world [(''d'', FDir [(''up'', FLink ''..''), (''loop'', FLink ''.'')])]) = Some r"
  using static_walks_end [of "example_file_world [(''d'', FDir [(''up'', FLink ''..''), (''loop'', FLink ''.'')])]"
      "static_new example_static_config" 1]
  by (simp add: example_static good_name_def)

section \<open>Archives\<close>

text \<open>Directories without links, with names that are valid UTF-8, and the files below them.\<close>

fun plain_node :: "fsnode \<Rightarrow> bool"
  and plain_entries :: "(string \<times> fsnode) list \<Rightarrow> bool" where
  "plain_node (FFile c) = True"
| "plain_node (FLink t) = False"
| "plain_node (FDir es) = plain_entries es"
| "plain_entries [] = True"
| "plain_entries ((p, n) # es) = (valid_utf8 p \<and> plain_node n \<and> plain_entries es)"

lemma plain_entries_iff: "plain_entries es \<longleftrightarrow> (\<forall>(p, n) \<in> set es. valid_utf8 p \<and> plain_node n)"
  by (induction es) auto

fun files_below :: "string \<Rightarrow> fsnode \<Rightarrow> (string \<times> string) list"
  and files_of_entries :: "string \<Rightarrow> (string \<times> fsnode) list \<Rightarrow> (string \<times> string) list" where
  "files_below rel (FFile c) = [(rel, c)]"
| "files_below rel (FLink t) = []"
| "files_below rel (FDir es) = files_of_entries rel es"
| "files_of_entries rel [] = []"
| "files_of_entries rel ((p, n) # es) = files_below (relative_name rel p) n @ files_of_entries rel es"

lemma entry_open:
  assumes "path_walk fs d = Inr (l, c)" and "d \<noteq> []" and "node_at (fs_root fs) c = Some (FDir es)"
    and "map_of es p = Some n" and "good_name p" and "\<not> is_symlink n"
  shows "path_walk fs (path_join d p) = Inr (l, c @ [p])" and "path_join d p \<noteq> []"
    and "node_at (fs_root fs) (c @ [p]) = Some n"
    and "open_node oper follow fs (path_join d p) =
      (case fs_fault fs oper (c @ [p]) of Some e \<Rightarrow> Inl e | None \<Rightarrow> Inr (c @ [p], n))"
proof -
  have hop: "hop_from (fs_root fs) c p = Inr (Reach (c @ [p]))"
    using assms(3-) by (cases n) (auto simp: hop_from_def good_name_def)
  show "path_walk fs (path_join d p) = Inr (l, c @ [p])"
    using entry_walk(1) [OF assms(1,2,5)] by (simp add: hop)
  show "path_join d p \<noteq> []" using absolute_join(2) [OF assms(2,5)] .
  show node: "node_at (fs_root fs) (c @ [p]) = Some n"
    using node_at_append [OF assms(3), of "[p]"] assms(4) by simp
  show "open_node oper follow fs (path_join d p) =
      (case fs_fault fs oper (c @ [p]) of Some e \<Rightarrow> Inl e | None \<Rightarrow> Inr (c @ [p], n))"
    using entry_walk(2) [OF assms(1,2,5) hop, of follow] node by (simp add: open_node_def split: option.splits)
qed

lemma add_dir_exact:
  assumes "fs_fault fs = (\<lambda>_ _. None)"
  shows "path_walk fs d = Inr (l, c) \<Longrightarrow> d \<noteq> [] \<Longrightarrow> node_at (fs_root fs) c = Some (FDir es) \<Longrightarrow>
    wf_node (FDir es) \<Longrightarrow> plain_node (FDir es) \<Longrightarrow> size (FDir es) \<le> fuel \<Longrightarrow>
    add_dir_to_zip fuel fs d base acc = Some (Inr (acc @ files_below base (FDir es)))"
proof (induction fuel arbitrary: d l c es base acc)
  case (Suc fuel)
  note here = Suc.prems
  have "add_entries fuel fs d base (map fst ds) acc = Some (Inr (acc @ files_of_entries base ds))"
    if "set ds \<subseteq> set es" for ds acc
    using that
  proof (induction ds arbitrary: acc)
    case (Cons x ds)
    obtain p n where x: "x = (p, n)" by (cases x)
    have n: "good_name p" "wf_node n" "valid_utf8 p" "plain_node n" "map_of es p = Some n" "size n \<le> fuel"
      using Cons.prems here(4-) entry_size [of p n es]
      by (auto simp: x wf_entries_iff plain_entries_iff)
    have "\<not> is_symlink n" using n(4) by (cases n) auto
    note open_n = entry_open [OF here(1-3) n(5,1) this]
    show ?case
    proof (cases n)
      case (FFile s)
      with open_n show ?thesis
        using Cons by (simp add: x assms path_is_file_def fs_metadata_def fs_read_def lossy_valid n(3) Let_def)
    next
      case (FDir fs')
      with Suc.IH [OF open_n(1,2), of fs'] open_n n show ?thesis
        using Cons by (simp add: x assms path_is_file_def path_is_dir_def fs_metadata_def lossy_valid Let_def)
    next
      case (FLink t)
      then show ?thesis using n(4) by simp
    qed
  qed simp
  moreover have "read_dir fs d = Inr (map fst es)"
    using here(1-3) by (simp add: read_dir_def open_node_def resolve_follow assms)
  ultimately show ?case by simp
qed simp

text \<open>
  The archive of a sandbox whose directory holds no links: with the file system at hand, the
  entries given to the ZIP writer are exactly the regular files below the directory, each once,
  under its path relative to the directory and with its content, and the archive is answered
  unless it exceeds the configured size.
\<close>

theorem zip_holds_published_files:
  assumes "ssc_enable_zip_download (sfs_config sfs)"
    and "fs_fault (fw_files w) = (\<lambda>_ _. None)" and "wf_node (fs_root (fw_files w))"
    and "resolve (fw_files w) True (path_join (ssc_base_path (sfs_config sfs)) (w_uuid_to_string (fw_world w) i)) = Inr place"
    and "node_at (fs_root (fw_files w)) place = Some (FDir es)" and "plain_node (FDir es)"
    and "size (FDir es) \<le> fuel" and "finish (files_below [] (FDir es)) = Inr buffer"
    and "length buffer \<le> unat (ssc_max_zip_size_mb (sfs_config sfs) * 1024 * 1024)" 
    and "header_ok (zip_disposition (sfs_config sfs) (w_uuid_to_string (fw_world w) i))"
  shows "download_sandbox_files_as_zip fuel finish header_ok sfs i w =
    Some (Inr (st_reply 200 (StZipBody buffer (zip_disposition (sfs_config sfs) (w_uuid_to_string (fw_world w) i)))), w)"
proof -
  define dir where "dir = path_join (ssc_base_path (sfs_config sfs)) (w_uuid_to_string (fw_world w) i)"
  have "dir \<noteq> []" using assms(4) by (auto simp: resolve_def dir_def)
  moreover obtain l where "path_walk (fw_files w) dir = Inr (l, place)"
    using assms(4) \<open>dir \<noteq> []\<close> by (cases "path_walk (fw_files w) dir") (auto simp: resolve_follow dir_def)
  ultimately have "add_dir_to_zip fuel (fw_files w) dir [] [] = Some (Inr (files_below [] (FDir es)))"
    using add_dir_exact [OF assms(2), of dir l place es fuel "[]" "[]"] assms(5-7) wf_node_at [OF assms(5,3)] by simp
  moreover have "path_exists (fw_files w) dir"
    using assms(2,4,5) by (simp add: path_exists_def fs_metadata_def open_node_def dir_def)
  ultimately show ?thesis
    using assms(1,8-10) by (simp add: download_sandbox_files_as_zip_def Let_def dir_def [symmetric] zip_response_def)
qed

theorem zip_holds_published_files_witness:
  "download_sandbox_files_as_zip 100 example_zip (\<lambda>_. True) (static_new example_static_config) 1
     (example_file_world [(''a'', FFile ''x''), (''d'', FDir [(''b'', FFile ''yz'')])]) =
   Some (Inr (st_reply 200 (StZipBody ''a=x;d/b=yz;'' (zip_disposition example_static_config ''1''))),
     example_file_world [(''a'', FFile ''x''), (''d'', FDir [(''b'', FFile ''yz'')])])"
proof -
  let ?es = "[(''a'', FFile ''x''), (''d'', FDir [(''b'', FFile ''yz'')])]"
  have "example_zip (files_below [] (FDir ?es)) = Inr ''a=x;d/b=yz;''"
    by (simp add: example_zip_def relative_name_def)
  moreover have "plain_node (FDir ?es)" by (simp add: utf8_step_def Let_def)
  moreover have "wf_node (fs_root (fw_files (example_file_world ?es)))"
      "node_at (fs_root (fw_files (example_file_world ?es))) [''s'', ''1''] = Some (FDir ?es)"
    by (simp_all add: example_static good_name_def)
  ultimately show ?thesis
    using zip_holds_published_files [of "static_new example_static_config" "example_file_world ?es" 1 "[''s'', ''1'']"
        ?es 100 example_zip "''a=x;d/b=yz;''" "\<lambda>_. True", unfolded example_dir]
    by simp
qed

text \<open>Links: the archive holds what they lead to.\<close>

lemma add_keeps:
  "add_dir_to_zip n fs d b acc = Some (Inr r) \<Longrightarrow> set acc \<subseteq> set r"
  "add_entries n fs d b es acc = Some (Inr r) \<Longrightarrow> set acc \<subseteq> set r"
proof (induction n fs d b acc and n fs d b es acc arbitrary: r and r rule: add_dir_to_zip_add_entries.induct)
  case (4 fuel fs dir base entry entries acc)
  show ?case
  proof (cases "path_is_file fs (path_join dir entry)")
    case True
    then show ?thesis using 4(1) [OF refl refl True] 4(5) by (auto simp: Let_def split: sum.splits)
  next
    case other: False
    show ?thesis
    proof (cases "path_is_dir fs (path_join dir entry)")
      case True
      then show ?thesis
        using 4(2) [OF refl refl other True] 4(3) [OF refl refl other True] 4(5) other
        by (fastforce simp: Let_def split: sum.splits option.splits)
    next
      case False
      then show ?thesis using 4(4) [OF refl refl other False] 4(5) other by (simp add: Let_def)
    qed
  qed
qed (auto split: sum.splits)

lemma add_entries_file:
  assumes "path_is_file fs (path_join d e)" and "fs_read fs (path_join d e) = Inr c"
  shows "add_entries n fs d b es acc = Some (Inr r) \<Longrightarrow> e \<in> set es \<Longrightarrow>
    (relative_name b (to_string_lossy e), c) \<in> set r"
proof (induction es arbitrary: acc)
  case (Cons x es)
  show ?case
  proof (cases "x = e")
    case True
    with Cons.prems assms have "add_entries n fs d b es (acc @ [(relative_name b (to_string_lossy e), c)]) = Some (Inr r)"
      by (simp add: Let_def)
    from add_keeps(2) [OF this] show ?thesis by simp
  next
    case False
    with Cons.prems have "e \<in> set es" by simp
    moreover obtain acc' where "add_entries n fs d b es acc' = Some (Inr r)"
      using Cons.prems(1) by (auto simp: Let_def split: if_splits sum.splits option.splits)
    ultimately show ?thesis using Cons.IH by blast
  qed
qed simp



section \<open>Files served from the container\<close>

text \<open>
  What the shell of a container answers to the scripts of the service, given what lies under
  \<open>/public\<close>: the documented behaviour of \<open>test\<close>, \<open>wc\<close>, \<open>base64\<close> and \<open>echo\<close>. The commands do not
  change the backend.
\<close>

definition newline :: string where
  "newline = [CHR 0x0A]"

definition public_shell ::
  "(string list \<Rightarrow> 'b \<Rightarrow> (ManagerError + string) \<times> 'b) \<Rightarrow> (string \<Rightarrow> string) \<Rightarrow> (string \<Rightarrow> fsnode option) \<Rightarrow> 'b \<Rightarrow> string \<Rightarrow> bool" where
  "public_shell run encode files b p \<longleftrightarrow>
     (case files p of
        Some (FLink _) \<Rightarrow> run (sh (symlink_script p)) b = (Inr (''SYMLINK'' @ newline), b)
      | Some (FFile c) \<Rightarrow>
          run (sh (symlink_script p)) b = (Inr [], b) \<and> run (sh (exists_script p)) b = (Inr (''yes'' @ newline), b) \<and>
          run (sh (size_script p)) b = (Inr (show_nat (length c) @ newline), b) \<and>
          run (sh (read_script p)) b = (Inr (encode c), b)
      | _ \<Rightarrow> run (sh (symlink_script p)) b = (Inr [], b) \<and> run (sh (exists_script p)) b = (Inr (''no'' @ newline), b))"

text \<open>A sandbox with a container, in a store whose lookups change nothing.\<close>

definition running_in :: "('s, 'b) SandboxService \<Rightarrow> uuid \<Rightarrow> string \<Rightarrow> ('s, 'b) file_world \<Rightarrow> bool" where
  "running_in svc i cid w \<longleftrightarrow>
     (case ss_get_sandbox (svc_state svc) i (w_store (fw_world w)) of
        (Some sb, s) \<Rightarrow> s = w_store (fw_world w) \<and> sb_container_id sb = Some cid
      | (None, _) \<Rightarrow> False)"

lemma k8s_exec_running:
  assumes "running_in svc i cid w" and "mgr_exec (svc_backend svc) cid cmd (w_backend (fw_world w)) = (Inr out, w_backend (fw_world w))"
  shows "k8s_exec (Some svc) i cmd w = (Inr out, w)"
  using assms
  by (auto simp: running_in_def k8s_exec_def bindE_def ok_or_def ret_def on_files_service_def map_err_def svc_get_sandbox_def
      store_get_def read_store_def uuid_text_def on_backend_def split: prod.splits option.splits)

lemma trim_newline [simp]: "trim (''SYMLINK'' @ newline) = ''SYMLINK''" "trim (''yes'' @ newline) = ''yes''"
    "trim (''no'' @ newline) = ''no''" "trim [] = []"
  by (simp_all add: trim_def trim_start_def trim_end_def newline_def is_ascii_ws_def)

lemma lift_res_run [simp]: "lift_res (Inr x) w = (Inr x, w)" "lift_res (Inl e) w = (Inl e, w)"
  by (simp_all add: lift_res_def ret_def throw_def)

lemmas run_simps = bindE_def attempt_def ret_def throw_def map_err_def

text \<open>The single-file operations, in the terms of what the container holds.\<close>

lemma check_not_symlink_shell:
  assumes "running_in svc i cid w" and "public_shell (mgr_exec (svc_backend svc) cid) encode files (w_backend (fw_world w)) p"
  shows "k8s_check_not_symlink (Some svc) i p w =
    (case files p of Some (FLink _) \<Rightarrow> (Inl StSymlink, w) | _ \<Rightarrow> (Inr (), w))"
proof (cases "\<exists>t. files p = Some (FLink t)")
  case True
  with assms(2) have "k8s_exec (Some svc) i (sh (symlink_script p)) w = (Inr (''SYMLINK'' @ newline), w)"
    by (intro k8s_exec_running [OF assms(1)]) (auto simp: public_shell_def)
  with True show ?thesis by (auto simp: k8s_check_not_symlink_def run_simps simp del: append_Cons)
next
  case False
  with assms(2) have "k8s_exec (Some svc) i (sh (symlink_script p)) w = (Inr [], w)"
    by (intro k8s_exec_running [OF assms(1)]) (auto simp: public_shell_def split: option.splits fsnode.splits)
  with False show ?thesis by (auto simp: k8s_check_not_symlink_def run_simps split: option.splits fsnode.splits)
qed

lemma file_exists_shell:
  assumes "running_in svc i cid w" and "public_shell (mgr_exec (svc_backend svc) cid) encode files (w_backend (fw_world w)) p"
  shows "file_exists (static_new_with_backend config svc) i p w =
    (case files p of Some (FLink _) \<Rightarrow> (Inl StSymlink, w) | Some (FFile _) \<Rightarrow> (Inr True, w) | _ \<Rightarrow> (Inr False, w))"
proof (cases "\<exists>t. files p = Some (FLink t)")
  case True
  then show ?thesis
    using check_not_symlink_shell [OF assms] by (auto simp: file_exists_def static_new_with_backend_def run_simps)
next
  case False
  define out where "out = (case files p of Some (FFile _) \<Rightarrow> ''yes'' @ newline | _ \<Rightarrow> ''no'' @ newline)"
  have "k8s_exec (Some svc) i (sh (exists_script p)) w = (Inr out, w)"
    using False assms(2) by (intro k8s_exec_running [OF assms(1)])
      (auto simp: public_shell_def out_def split: option.splits fsnode.splits)
  moreover have "k8s_check_not_symlink (Some svc) i p w = (Inr (), w)"
    using False check_not_symlink_shell [OF assms] by (auto split: option.splits fsnode.splits)
  moreover have "(trim out = ''yes'') = (case files p of Some (FFile _) \<Rightarrow> True | _ \<Rightarrow> False)"
    by (simp add: out_def split: option.split fsnode.split del: append_Cons)
  ultimately show ?thesis
    using False by (auto simp: file_exists_def static_new_with_backend_def run_simps split: option.splits fsnode.splits)
qed

lemma read_file_shell:
  assumes "running_in svc i cid w" and "public_shell (mgr_exec (svc_backend svc) cid) encode files (w_backend (fw_world w)) p"
    and "files p = Some (FFile c)" and "decode (trim (encode c)) = Inr c"
  shows "read_file decode (static_new_with_backend config svc) i p w = (Inr c, w)"
proof -
  have "k8s_exec (Some svc) i (sh (read_script p)) w = (Inr (encode c), w)"
    using assms(2,3) by (intro k8s_exec_running [OF assms(1)]) (simp add: public_shell_def)
  then show ?thesis
    using check_not_symlink_shell [OF assms(1,2)] assms(3,4)
    by (simp add: read_file_def static_new_with_backend_def run_simps)
qed


text \<open>A backend whose shell knows one published file.\<close>

definition example_shell :: "string \<Rightarrow> (string \<times> string) list \<Rightarrow> string list \<Rightarrow> example_containers \<Rightarrow>
    (ManagerError + string) \<times> example_containers" where
  "example_shell content cmds cmd b =
     (let script = cmd ! 2
      in (Inr (if starts_with script ''if sudo'' then []
               else if starts_with script ''sudo test'' then ''yes'' @ newline
               else if starts_with script ''sudo wc'' then show_nat (length content) @ newline
               else if starts_with script ''sudo base64'' then ''x'' @ content @ ''x''
               else ''a.png'' @ newline), b))"

definition example_static_backend :: "string \<Rightarrow> example_containers SandboxManager" where
  "example_static_backend content = example_backend\<lparr>mgr_exec := (\<lambda>c. example_shell content [])\<rparr>"

definition example_static_service :: "string \<Rightarrow> (mem_store, example_containers) SandboxService" where
  "example_static_service content = service_new (example_static_backend content) StateStore"

definition example_static_world :: "(mem_store, example_containers) file_world" where
  "example_static_world =
     \<lparr>fw_world = example_world [(7, example_sandbox 7 Running (Some ''c''))] [], fw_files = example_files []\<rparr>"

lemma example_running: "running_in (example_static_service c) 7 ''c'' example_static_world"
  by (simp add: running_in_def example_static_service_def service_new_def example_static_world_def StateStore_def
      mem_get_sandbox_def)

lemma example_public_shell:
  "public_shell (mgr_exec (svc_backend (example_static_service content)) ''c'') (\<lambda>c. ''x'' @ c @ ''x'')
     (\<lambda>p. Some (FFile content)) (w_backend (fw_world example_static_world)) p"
  by (simp add: public_shell_def example_static_service_def service_new_def example_static_backend_def example_shell_def
      sh_def symlink_script_def exists_script_def size_script_def read_script_def starts_with_def Let_def)


section \<open>Listings from the container\<close>

lemma trim_line:
  assumes "list_all (\<lambda>d. \<not> is_ascii_ws d) s"
  shows "trim (s @ newline) = s"
proof -
  have keep: "dropWhile is_ascii_ws r = r" if "list_all (\<lambda>d. \<not> is_ascii_ws d) r" for r
    using that by (cases r) simp_all
  show ?thesis
  proof (cases s)
    case (Cons c r)
    with assms keep [of "rev s"] show ?thesis
      by (simp add: trim_def trim_start_def trim_end_def newline_def is_ascii_ws_def [of "CHR 0x0A"])
  qed (simp add: trim_def trim_start_def trim_end_def newline_def is_ascii_ws_def)
qed

lemma get_file_size_shell:
  assumes "running_in svc i cid w" and "public_shell (mgr_exec (svc_backend svc) cid) encode files (w_backend (fw_world w)) p"
    and "files p = Some (FFile c)" and "length c < 2 ^ 64"
  shows "get_file_size (static_new_with_backend config svc) i p w = (Inr (if c = [] then None else Some (of_nat (length c))), w)"
proof -
  have "k8s_exec (Some svc) i (sh (size_script p)) w = (Inr (show_nat (length c) @ newline), w)"
    using assms(2,3) by (intro k8s_exec_running [OF assms(1)]) (simp add: public_shell_def)
  moreover have "parse_u64_or_0 (show_nat (length c) @ newline) = of_nat (length c)"
  proof -
    have "list_all (\<lambda>d. \<not> is_ascii_ws d) (show_nat (length c))"
      using set_show_nat [of _ "length c"] by (fastforce simp: list_all_iff is_ascii_ws_def digit_val_def)
    then have "trim (show_nat (length c) @ newline) = show_nat (length c)" by (simp add: trim_line)
    then show ?thesis using parse_uint_show [OF assms(4)] by (simp add: parse_u64_or_0_def)
  qed
  moreover have "(of_nat (length c) :: u64) = 0 \<longleftrightarrow> c = []"
  proof -
    have "unat (of_nat (length c) :: u64) = length c" using assms(4) by (simp add: unat_of_nat)
    then show ?thesis using unat_eq_zero [of "of_nat (length c) :: u64"] by simp
  qed
  ultimately show ?thesis
    using check_not_symlink_shell [OF assms(1,2)] assms(3)
    by (simp add: get_file_size_def static_new_with_backend_def run_simps Let_def word_gt_0)
qed

lemma split_lines:
  "list_all (\<lambda>n. CHR 0x0A \<notin> set n) names \<Longrightarrow> split_on (CHR 0x0A) (concat (map (\<lambda>n. n @ newline) names)) = names @ [[]]"
  by (induction names) (simp_all add: newline_def split_on_two split_on_plain)

lemma str_lines_printed:
  assumes "list_all (\<lambda>n. CHR 0x0A \<notin> set n \<and> n \<noteq> [] \<and> last n \<noteq> CHR 0x0D) names"
  shows "str_lines (concat (map (\<lambda>n. n @ newline) names)) = names"
proof -
  have "split_on (CHR 0x0A) (concat (map (\<lambda>n. n @ newline) names)) = names @ [[]]"
    using assms by (intro split_lines) (auto simp: list_all_iff)
  moreover have "map (\<lambda>(k, l). if k < n \<and> l \<noteq> [] \<and> last l = CHR 0x0D then butlast l else l) (enumerate m names) = names" for n m
    using assms by (induction names arbitrary: m) auto
  ultimately show ?thesis by (simp add: str_lines_def Let_def)
qed

definition info_of :: "string \<Rightarrow> string \<Rightarrow> FileInfo" where
  "info_of name content =
     \<lparr>fi_file_name = name, fi_file_path = name, fi_file_size_bytes = of_nat (length content),
      fi_content_type = detect_mime_type name\<rparr>"

lemma list_steps_shell:
  assumes "running_in svc i cid w" and "list_all (\<lambda>p. length (contents p) < 2 ^ 64) names"
    and "list_all (public_shell (mgr_exec (svc_backend svc) cid) encode (\<lambda>p. Some (FFile (contents p))) (w_backend (fw_world w))) names"
  shows "foldE (list_step (static_new_with_backend config svc) i) names (infos, sofar) w =
    (Inr (infos @ map (\<lambda>n. info_of n (contents n)) (filter (\<lambda>n. contents n \<noteq> []) names),
      sofar + sum_list (map (\<lambda>n. of_nat (length (contents n))) names)), w)"
  using assms(2,3)
proof (induction names arbitrary: infos sofar)
  case (Cons n names)
  have "get_file_size (static_new_with_backend config svc) i n w =
      (Inr (if contents n = [] then None else Some (of_nat (length (contents n)))), w)"
    using Cons.prems by (intro get_file_size_shell [where encode = encode, OF assms(1)]) simp_all
  then have "list_step (static_new_with_backend config svc) i n (infos, sofar) w =
      (Inr (if contents n = [] then (infos, sofar) else (infos @ [info_of n (contents n)], sofar + of_nat (length (contents n)))), w)"
    by (simp add: list_step_def run_simps info_of_def)
  then show ?case using Cons by (simp add: bindE_def add.assoc)
qed (simp add: ret_def)

text \<open>
  The listing of published files, taken from the container: the answer lists, in the printed
  order, exactly the files that are not empty, each with its size and content type, and its total
  is the sum of the sizes. An empty file never appears.
\<close>

theorem published_listing:
  assumes "running_in svc i cid w"
    and "mgr_exec (svc_backend svc) cid (sh list_script) (w_backend (fw_world w)) =
      (Inr (concat (map (\<lambda>n. n @ newline) names)), w_backend (fw_world w))"
    and "list_all (\<lambda>n. CHR 0x0A \<notin> set n \<and> n \<noteq> [] \<and> last n \<noteq> CHR 0x0D) names"
    and "list_all (\<lambda>p. length (contents p) < 2 ^ 64) names"
    and "list_all (public_shell (mgr_exec (svc_backend svc) cid) encode (\<lambda>p. Some (FFile (contents p))) (w_backend (fw_world w))) names"
  shows "list_static_files fuel (static_new_with_backend config svc) i w =
    (let shown = filter (\<lambda>n. contents n \<noteq> []) names
     in Some (Inr (st_reply 200 (StListBody i (map (\<lambda>n. info_of n (contents n)) shown) (length shown)
          (sum_list (map (\<lambda>n. of_nat (length (contents n))) names)))), w))"
proof -
  have "filter (\<lambda>s. s \<noteq> []) names = names" using assms(3) by (induction names) auto
  then have "list_files fuel (static_new_with_backend config svc) i w = Some (Inr names, w)"
    using k8s_exec_running [OF assms(1,2)] str_lines_printed [OF assms(3)]
    by (simp add: list_files_def static_new_with_backend_def run_simps)
  then show ?thesis
    using list_steps_shell [OF assms(1,4,5), of config "[]" 0]
    by (simp add: list_static_files_def bindE_def ret_def Let_def)
qed

theorem published_listing_witness:
  "list_static_files 0 (static_new_with_backend example_static_config (example_static_service [])) 7 example_static_world =
   Some (Inr (st_reply 200 (StListBody 7 [] 0 0)), example_static_world)"
proof -
  have "list_all (public_shell (mgr_exec (svc_backend (example_static_service [])) ''c'') (\<lambda>c. ''x'' @ c @ ''x'')
      (\<lambda>p. Some (FFile [])) (w_backend (fw_world example_static_world))) [''a.png'']"
    using example_public_shell [of "[]" "''a.png''"] by simp
  moreover have "mgr_exec (svc_backend (example_static_service [])) ''c'' (sh list_script) (w_backend (fw_world example_static_world)) =
      (Inr (concat (map (\<lambda>n. n @ newline) [''a.png''])), w_backend (fw_world example_static_world))"
    by (simp add: example_static_service_def service_new_def example_static_backend_def example_shell_def sh_def
        list_script_def starts_with_def Let_def)
  ultimately show ?thesis
    using published_listing [OF example_running [of "[]"], where names = "[''a.png'']" and contents = "\<lambda>_. []"
        and encode = "\<lambda>c. ''x'' @ c @ ''x''" and config = example_static_config and fuel = 0]
    by simp
qed

end
