(* ===== verification/K8sTypes.thy ===== *)
theory K8sTypes
  imports Config
begin

text \<open>
  The objects of the Kubernetes backend and how they are built: the custom resource
  (\<open>src/src/k8s/crd.rs\<close>), names, ports and labels (\<open>types.rs\<close>), the helpers
  (\<open>manager/helpers.rs\<close>) and the builders of specifications, pods and services
  (\<open>manager/builders.rs\<close>). Of the API's own types only the fields that the code sets or reads
  are kept; a \<open>BTreeMap\<close> is an association list with distinct keys.
\<close>

section \<open>The custom resource\<close>

record PortSpec =
  ps_container_port :: u16
  ps_protocol :: string
  ps_service_port :: "u16 option"

record VolumeSpec =
  vs_name :: string
  vs_mount_path :: string
  vs_volume_type :: string
  vs_source_name :: "string option"
  vs_read_only :: bool

record ResourceSpec =
  rs_cpu_request :: "string option"
  rs_memory_request :: "string option"
  rs_cpu_limit :: "string option"
  rs_memory_limit :: "string option"

record SandboxSpec =
  spec_image :: string
  spec_env :: "(string \<times> string) list"
  spec_ports :: "PortSpec list"
  spec_volumes :: "VolumeSpec list"
  spec_resources :: "ResourceSpec option"
  spec_command :: "string list option"
  spec_args :: "string list option"
  spec_labels :: "(string \<times> string) list"
  spec_gpu :: bool
  spec_inactivity_timeout_minutes :: "u64 option"
  spec_sandbox_id :: string
  spec_api_key_hash :: "string option"
  spec_has_dsb_features :: bool

record SandboxStatus =
  sst_phase :: "string option"
  sst_pod_name :: "string option"
  sst_service_name :: "string option"
  sst_container_id :: "string option"
  sst_node_name :: "string option"
  sst_pod_ip :: "string option"
  sst_message :: "string option"

record SandboxCrd =
  crd_name :: string
  crd_uid :: "string option"
  crd_spec :: SandboxSpec
  crd_status :: "SandboxStatus option"

section \<open>Names, ports and labels\<close>

definition tool_proxy_port :: u16 where "tool_proxy_port = 8080"
definition vnc_port :: u16 where "vnc_port = 5901"
definition novnc_port :: u16 where "novnc_port = 6080"
definition agent_browser_port :: u16 where "agent_browser_port = 3000"

definition label_managed_by :: string where "label_managed_by = ''dsb.io/managed-by''"
definition label_sandbox_id :: string where "label_sandbox_id = ''dsb.io/sandbox-id''"
definition label_component :: string where "label_component = ''dsb.io/component''"

text \<open>The first characters of a string in UTF-8: continuation bytes belong to the character before them.\<close>

fun take_chars :: "nat \<Rightarrow> string \<Rightarrow> string" where
  "take_chars n [] = []"
| "take_chars n (c # s) =
     (if 128 \<le> (of_char c :: nat) \<and> (of_char c :: nat) < 192 then c # take_chars n s
      else (case n of 0 \<Rightarrow> [] | Suc m \<Rightarrow> c # take_chars m s))"

definition sandbox_resource_name :: "string \<Rightarrow> string" where
  "sandbox_resource_name sandbox_id = to_lowercase (take_chars 63 (''dsb-sb-'' @ sandbox_id))"

definition sandbox_service_name :: "string \<Rightarrow> string" where
  "sandbox_service_name sandbox_id = to_lowercase (take_chars 63 (''dsb-svc-'' @ sandbox_id))"

section \<open>Objects of the API\<close>

record ContainerPort =
  cp_container_port :: i32
  cp_name :: "string option"
  cp_protocol :: "string option"

record ResourceRequirements =
  rr_requests :: "(string \<times> string) list"
  rr_limits :: "(string \<times> string) list"

record Probe =
  pb_path :: string
  pb_port :: i32
  pb_initial_delay_seconds :: i32
  pb_period_seconds :: i32
  pb_timeout_seconds :: i32
  pb_failure_threshold :: i32

record MountSpec =
  mt_name :: string
  mt_mount_path :: string
  mt_read_only :: bool

datatype VolumeSource = PvcSource string bool | ConfigMapSource string | SecretSource string | EmptyDirSource

record Container =
  ct_name :: string
  ct_image :: string
  ct_image_pull_policy :: string
  ct_command :: "string list option"
  ct_args :: "string list option"
  ct_ports :: "ContainerPort list"
  ct_env :: "(string \<times> string) list"
  ct_resources :: ResourceRequirements
  ct_readiness_probe :: "Probe option"
  ct_volume_mounts :: "MountSpec list option"

record Toleration =
  tol_key :: "string option"
  tol_operator :: "string option"
  tol_value :: "string option"
  tol_effect :: "string option"
  tol_seconds :: "i64 option"

record OwnerReference =
  or_api_version :: string
  or_kind :: string
  or_name :: string
  or_uid :: string
  or_controller :: bool
  or_block_owner_deletion :: bool

text \<open>
  The status of a pod as the code reads it: the phase, the address, the conditions, and the
  containers with their states (reason and message of a wait; exit code and reason of an end).
\<close>

datatype ContainerState =
    CsRunning
  | CsWaiting "string option" "string option"
  | CsTerminated i32 "string option"

record PodCondition =
  pc_type :: string
  pc_status :: string
  pc_reason :: "string option"
  pc_message :: "string option"

record PodStatus =
  pst_phase :: "string option"
  pst_pod_ip :: "string option"
  pst_conditions :: "PodCondition list option"
  pst_containers :: "(string \<times> ContainerState option) list option"

record PodSpec =
  pd_container :: Container
  pd_restart_policy :: string
  pd_fs_group :: i64
  pd_volumes :: "(string \<times> VolumeSource) list option"
  pd_node_selector :: "(string \<times> string) list option"
  pd_tolerations :: "Toleration list option"
  pd_gpu_affinity :: "(string \<times> string) list option"
  pd_node_name :: "string option"

record Pod =
  pod_name :: string
  pod_namespace :: string
  pod_labels :: "(string \<times> string) list"
  pod_owners :: "OwnerReference list"
  pod_spec :: PodSpec
  pod_status :: "PodStatus option"
  pod_terminating :: bool
  pod_created :: "i64 option"

record ServicePort =
  sp_name :: string
  sp_port :: i32
  sp_target_port :: i32
  sp_protocol :: string

record K8sService =
  sv_name :: string
  sv_namespace :: string
  sv_owners :: "OwnerReference list"
  sv_selector :: "(string \<times> string) list"
  sv_ports :: "ServicePort list"

section \<open>Helpers\<close>

definition merge_sandbox_environment :: "SandboxConfig \<Rightarrow> (string \<times> string) list \<Rightarrow> (string \<times> string) list" where
  "merge_sandbox_environment config proxy_env = hm_extend proxy_env (cfg_environment config)"

definition cluster_local_bypass :: string where
  "cluster_local_bypass = ''localhost,127.0.0.1,127.0.0.0/8,::1,.svc.cluster.local,.cluster.local''"

definition augment_key :: "(string \<times> string) list \<Rightarrow> string \<Rightarrow> (string \<times> string) list" where
  "augment_key env key =
     (case map_of env key of
        Some existing \<Rightarrow>
          if str_contains existing ''.svc.cluster.local'' then env
          else hm_insert env key
            (if trim existing = [] then cluster_local_bypass else existing @ '','' @ cluster_local_bypass)
      | None \<Rightarrow> hm_insert env key cluster_local_bypass)"

definition proxy_keys :: "string list" where
  "proxy_keys = [''HTTP_PROXY'', ''http_proxy'', ''HTTPS_PROXY'', ''https_proxy'', ''ALL_PROXY'', ''all_proxy'']"

definition augment_no_proxy_for_kubernetes_cluster :: "(string \<times> string) list \<Rightarrow> (string \<times> string) list" where
  "augment_no_proxy_for_kubernetes_cluster env =
     (if list_ex (\<lambda>k. map_of env k \<noteq> None) proxy_keys
      then foldl augment_key env [''NO_PROXY'', ''no_proxy''] else env)"

definition as_i32 :: "u16 \<Rightarrow> i32" where
  "as_i32 p = ucast p"

definition make_service_port :: "string \<Rightarrow> u16 \<Rightarrow> ServicePort" where
  "make_service_port name port =
     \<lparr>sp_name = name, sp_port = as_i32 port, sp_target_port = as_i32 port, sp_protocol = ''TCP''\<rparr>"

definition phase_to_state :: "string \<Rightarrow> string" where
  "phase_to_state phase =
     (if phase = ''Pending'' then ''created''
      else if phase = ''Running'' then ''running''
      else if phase = ''Succeeded'' then ''exited''
      else if phase = ''Failed'' then ''exited''
      else ''unknown'')"

section \<open>Builders\<close>

record KubernetesManager =
  km_config :: Config
  km_namespace :: string

definition kubernetes_manager_new :: "Config \<Rightarrow> KubernetesManager" where
  "kubernetes_manager_new config =
     \<lparr>km_config = config, km_namespace = kc_namespace (sbc_kubernetes (conf_sandbox config))\<rparr>"

definition km_kubernetes :: "KubernetesManager \<Rightarrow> KubernetesConfig" where
  "km_kubernetes m = sbc_kubernetes (conf_sandbox (km_config m))"

definition show_i64 :: "int \<Rightarrow> string" where
  "show_i64 n = (if n < 0 then ''-'' @ show_nat (nat (- n)) else show_nat (nat n))"

definition port_spec :: "PortMapping \<Rightarrow> PortSpec" where
  "port_spec pm =
     \<lparr>ps_container_port = pm_container_port pm,
      ps_protocol = (case pm_protocol pm of Tcp \<Rightarrow> ''TCP'' | Udp \<Rightarrow> ''UDP''),
      ps_service_port = Some (pm_host_port pm)\<rparr>"

definition resource_spec :: "ResourceLimits \<Rightarrow> ResourceSpec option" where
  "resource_spec rl =
     (if rl_memory_mb rl \<noteq> None \<or> rl_cpu_quota rl \<noteq> None \<or> rl_cpu_shares rl \<noteq> None then
        Some \<lparr>rs_cpu_request = map_option (\<lambda>_. ''500m'') (rl_cpu_shares rl),
          rs_memory_request = map_option (\<lambda>m. show_nat (unat m) @ ''Mi'') (rl_memory_mb rl),
          rs_cpu_limit = map_option (\<lambda>q. show_i64 (trunc_div (sint q) 100) @ ''m'') (rl_cpu_quota rl),
          rs_memory_limit = map_option (\<lambda>m. show_nat (unat m) @ ''Mi'') (rl_memory_mb rl)\<rparr>
      else None)"

definition dsb_feature_names :: "string list" where
  "dsb_feature_names = [''browser'', ''web'', ''databend'', ''vnc'', ''ssh'']"

definition build_sandbox_spec :: "KubernetesManager \<Rightarrow> string \<Rightarrow> SandboxConfig \<Rightarrow> SandboxSpec" where
  "build_sandbox_spec m sandbox_id config =
     \<lparr>spec_image = cfg_image config,
      spec_env = augment_no_proxy_for_kubernetes_cluster
        (merge_sandbox_environment config (dkc_proxy_env (conf_docker (km_config m)))),
      spec_ports = map port_spec (cfg_port_mappings config),
      spec_volumes =
        (if kc_pvc_name (km_kubernetes m) \<noteq> []
         then [\<lparr>vs_name = ''static-files'', vs_mount_path = ''/public'', vs_volume_type = ''pvc'',
                 vs_source_name = Some (kc_pvc_name (km_kubernetes m)), vs_read_only = False\<rparr>]
         else []),
      spec_resources = resource_spec (cfg_resource_limits config),
      spec_command = cfg_command config, spec_args = None, spec_labels = [], spec_gpu = False,
      spec_inactivity_timeout_minutes = cfg_inactivity_timeout_minutes config,
      spec_sandbox_id = sandbox_id, spec_api_key_hash = None,
      spec_has_dsb_features = (cfg_enable_all_features config \<or>
        list_ex (\<lambda>f. f \<in> set dsb_feature_names) (cfg_features config))\<rparr>"

definition build_resource_requirements :: "KubernetesManager \<Rightarrow> SandboxSpec \<Rightarrow> ResourceRequirements" where
  "build_resource_requirements m spec =
     (let d = kc_resource_defaults (km_kubernetes m);
          pick = (\<lambda>f dflt. case Option.bind (spec_resources spec) f of Some q \<Rightarrow> q | None \<Rightarrow> dflt)
      in \<lparr>rr_requests = [(''cpu'', pick rs_cpu_request (krd_cpu_request d)),
            (''memory'', pick rs_memory_request (krd_memory_request d))],
          rr_limits = [(''cpu'', pick rs_cpu_limit (krd_cpu_limit d)),
            (''memory'', pick rs_memory_limit (krd_memory_limit d))]\<rparr>)"

definition standard_ports :: "ContainerPort list" where
  "standard_ports =
     map (\<lambda>(p, n). \<lparr>cp_container_port = as_i32 p, cp_name = Some n, cp_protocol = None\<rparr>)
       [(tool_proxy_port, ''tool-proxy''), (vnc_port, ''vnc''), (novnc_port, ''novnc''), (agent_browser_port, ''agent-browser'')]"

definition custom_port :: "PortSpec \<Rightarrow> ContainerPort" where
  "custom_port p = \<lparr>cp_container_port = as_i32 (ps_container_port p), cp_name = None, cp_protocol = Some (ps_protocol p)\<rparr>"

definition pod_base_labels :: "string \<Rightarrow> (string \<times> string) list" where
  "pod_base_labels sandbox_id =
     [(label_managed_by, ''dsb''), (label_sandbox_id, sandbox_id), (label_component, ''sandbox-pod'')]"

definition owner_reference :: "string \<Rightarrow> string \<Rightarrow> OwnerReference" where
  "owner_reference name uid =
     \<lparr>or_api_version = ''dsb.io/v1'', or_kind = ''Sandbox'', or_name = name, or_uid = uid, or_controller = True,
      or_block_owner_deletion = True\<rparr>"

definition custom_entrypoint :: "SandboxSpec \<Rightarrow> bool" where
  "custom_entrypoint spec = (case spec_command spec of Some c \<Rightarrow> c \<noteq> [] | None \<Rightarrow> False)"

definition is_dsb_image :: "KubernetesManager \<Rightarrow> SandboxSpec \<Rightarrow> bool" where
  "is_dsb_image m spec = (spec_has_dsb_features spec \<or> spec_image spec = dkc_default_image (conf_docker (km_config m)))"

definition readiness_probe :: Probe where
  "readiness_probe =
     \<lparr>pb_path = ''/health'', pb_port = as_i32 tool_proxy_port, pb_initial_delay_seconds = 3, pb_period_seconds = 2,
      pb_timeout_seconds = 2, pb_failure_threshold = 30\<rparr>"

definition build_container :: "KubernetesManager \<Rightarrow> SandboxSpec \<Rightarrow> Container" where
  "build_container m spec =
     \<lparr>ct_name = ''sandbox'', ct_image = spec_image spec, ct_image_pull_policy = ''Always'',
      ct_command = (if custom_entrypoint spec then spec_command spec
        else if is_dsb_image m spec then None else Some [''sleep'', ''infinity'']),
      ct_args = spec_args spec, ct_ports = standard_ports @ map custom_port (spec_ports spec),
      ct_env = spec_env spec, ct_resources = build_resource_requirements m spec,
      ct_readiness_probe = (if \<not> custom_entrypoint spec \<and> is_dsb_image m spec then Some readiness_probe else None),
      ct_volume_mounts = None\<rparr>"

definition volume_source :: "VolumeSpec \<Rightarrow> VolumeSource option" where
  "volume_source vol =
     (let source_name = (case vs_source_name vol of Some s \<Rightarrow> s | None \<Rightarrow> vs_name vol)
      in if vs_volume_type vol = ''pvc'' then Some (PvcSource source_name (vs_read_only vol))
         else if vs_volume_type vol = ''configmap'' then Some (ConfigMapSource source_name)
         else if vs_volume_type vol = ''secret'' then Some (SecretSource source_name)
         else if vs_volume_type vol = ''emptydir'' then Some EmptyDirSource
         else None)"

definition mounted_volumes :: "VolumeSpec list \<Rightarrow> (VolumeSpec \<times> VolumeSource) list" where
  "mounted_volumes vols = List.map_filter (\<lambda>v. map_option (Pair v) (volume_source v)) vols"

definition with_volumes :: "VolumeSpec list \<Rightarrow> PodSpec \<Rightarrow> PodSpec" where
  "with_volumes vols ps =
     (case mounted_volumes vols of
        [] \<Rightarrow> ps
      | vs \<Rightarrow>
          ps\<lparr>pd_volumes := Some (map (\<lambda>(v, src). (vs_name v, src)) vs),
             pd_container := (pd_container ps)\<lparr>ct_volume_mounts := Some (map (\<lambda>(v, src).
               \<lparr>mt_name = vs_name v, mt_mount_path = vs_mount_path v, mt_read_only = vs_read_only v\<rparr>) vs)\<rparr>\<rparr>)"

definition parse_tolerations :: "(json \<Rightarrow> Toleration option) \<Rightarrow> json list \<Rightarrow> Toleration list" where
  "parse_tolerations from_value js = List.map_filter from_value js"

definition default_gpu_toleration :: Toleration where
  "default_gpu_toleration =
     \<lparr>tol_key = Some ''nvidia.com/gpu'', tol_operator = Some ''Exists'', tol_value = None,
      tol_effect = Some ''NoSchedule'', tol_seconds = None\<rparr>"

text \<open>
  The pod specification has no affinity before this step, so that the code's merge with an
  existing one never applies; the preference of weight 100 is kept as its requirements.
\<close>

definition with_gpu :: "(json \<Rightarrow> Toleration option) \<Rightarrow> GpuConfig \<Rightarrow> PodSpec \<Rightarrow> PodSpec" where
  "with_gpu from_value gpu ps =
     (let qty = gpu_resource_request gpu;
          res = ct_resources (pd_container ps);
          tols = default_gpu_toleration # parse_tolerations from_value (gpu_tolerations gpu)
      in ps\<lparr>pd_container := (pd_container ps)\<lparr>ct_resources := res\<lparr>
               rr_requests := hm_insert (rr_requests res) ''nvidia.com/gpu'' qty,
               rr_limits := hm_insert (rr_limits res) ''nvidia.com/gpu'' qty\<rparr>\<rparr>,
            pd_tolerations := Some ((case pd_tolerations ps of Some ts \<Rightarrow> ts | None \<Rightarrow> []) @ tols),
            pd_gpu_affinity := (if gpu_node_selector gpu \<noteq> [] then Some (gpu_node_selector gpu) else None)\<rparr>)"

definition build_pod_spec :: "(json \<Rightarrow> Toleration option) \<Rightarrow> KubernetesManager \<Rightarrow> SandboxSpec \<Rightarrow> PodSpec" where
  "build_pod_spec from_value m spec =
     (let k = km_kubernetes m;
          ps0 = \<lparr>pd_container = build_container m spec, pd_restart_policy = ''Never'', pd_fs_group = 1000,
            pd_volumes = None, pd_node_selector = None, pd_tolerations = None, pd_gpu_affinity = None, pd_node_name = None\<rparr>;
          ps1 = with_volumes (spec_volumes spec) ps0;
          ps2 = (if kc_node_selector k \<noteq> [] then ps1\<lparr>pd_node_selector := Some (kc_node_selector k)\<rparr> else ps1);
          ps3 = (if kc_tolerations k \<noteq> []
                 then ps2\<lparr>pd_tolerations := Some (parse_tolerations from_value (kc_tolerations k))\<rparr> else ps2)
      in if spec_gpu spec then with_gpu from_value (kc_gpu k) ps3 else ps3)"

definition build_pod :: "(json \<Rightarrow> Toleration option) \<Rightarrow> KubernetesManager \<Rightarrow> string \<Rightarrow> string \<Rightarrow> SandboxSpec \<Rightarrow> Pod" where
  "build_pod from_value m name uid spec =
     \<lparr>pod_name = name, pod_namespace = km_namespace m,
      pod_labels = hm_extend (pod_base_labels (spec_sandbox_id spec)) (spec_labels spec),
      pod_owners = [owner_reference name uid], pod_spec = build_pod_spec from_value m spec, pod_status = None,
      pod_terminating = False, pod_created = None\<rparr>"

definition build_service :: "KubernetesManager \<Rightarrow> string \<Rightarrow> string \<Rightarrow> SandboxSpec \<Rightarrow> K8sService" where
  "build_service m name uid spec =
     \<lparr>sv_name = sandbox_service_name (spec_sandbox_id spec), sv_namespace = km_namespace m,
      sv_owners = [owner_reference name uid], sv_selector = pod_base_labels (spec_sandbox_id spec),
      sv_ports = [make_service_port ''tool-proxy'' tool_proxy_port, make_service_port ''vnc'' vnc_port,
        make_service_port ''novnc'' novnc_port, make_service_port ''agent-browser'' agent_browser_port]\<rparr>"

end
