(* ===== verification/K8sBackend.thy ===== *)
theory K8sBackend
  imports K8sTypes
begin

text \<open>
  The Kubernetes backend (\<open>src/src/k8s/manager/mod.rs\<close>, \<open>exec.rs\<close>, \<open>builders.rs\<close>) and the operator
  (\<open>src/src/k8s/operator.rs\<close>) on a model of the API server. The server keeps the objects by name:
  a creation fails with 409 when the name is taken, reads and deletions with 404 when it is not,
  a deleted pod stays, marked as terminating, until its node has stopped it. Before each call the
  rest of the cluster may change the objects (\<open>k_env\<close>), each call takes time, and each may fail,
  after or before it has taken effect (\<open>k_fail\<close>).
\<close>

section \<open>The API server\<close>

datatype KubeError = KubeApi nat string | KubeOther string

record objects =
  o_crds :: "(string \<times> SandboxCrd) list"
  o_pods :: "(string \<times> Pod) list"
  o_services :: "(string \<times> K8sService) list"
  o_pvcs :: "string list"

text \<open>How a command ran in a pod, and how an HTTP request ended.\<close>

record exec_run =
  er_stdin_error :: "string option"
  er_stdout :: string
  er_stderr :: string
  er_join_ok :: bool
  er_join_nanos :: int

datatype exec_outcome = ExecRefused string | ExecRan exec_run

datatype http_outcome = HttpFailed string | HttpAnswered nat "string + string"

record cluster =
  k_objects :: objects
  k_now :: time
  k_ticks :: nat
  k_env :: "nat \<Rightarrow> objects \<Rightarrow> objects"
  k_latency :: "nat \<Rightarrow> nat"
  k_fail :: "nat \<Rightarrow> (KubeError \<times> bool) option"
  k_uids :: "nat \<Rightarrow> string"
  k_uuids :: "nat \<Rightarrow> uuid"
  k_utc :: "nat \<Rightarrow> time"
  k_exec :: "nat \<Rightarrow> string \<Rightarrow> string list \<Rightarrow> string option \<Rightarrow> exec_outcome"
  k_http_client :: "string option"
  k_http :: "nat \<Rightarrow> string \<Rightarrow> string \<Rightarrow> json option \<Rightarrow> http_outcome"

text \<open>Library code that the backend calls: decoding, texts of errors, and arithmetic on floats.\<close>

record kube_lib =
  kl_toleration :: "json \<Rightarrow> Toleration option"
  kl_from_str :: "string \<Rightarrow> string + json"
  kl_error_text :: "KubeError \<Rightarrow> string"
  kl_debug :: "string option \<Rightarrow> string"
  kl_percent :: "u64 \<Rightarrow> u64 \<Rightarrow> f64"
  kl_status_text :: "nat \<Rightarrow> string"
  kl_uuid_text :: "uuid \<Rightarrow> string"

definition tick :: "nat \<Rightarrow> cluster \<Rightarrow> cluster" where
  "tick nanos c =
     c\<lparr>k_objects := k_env c (k_ticks c) (k_objects c),
       k_now := k_now c + int nanos + int (k_latency c (k_ticks c)),
       k_ticks := Suc (k_ticks c)\<rparr>"

definition kube_call :: "(objects \<Rightarrow> (KubeError + 'a) \<times> objects) \<Rightarrow> (cluster, KubeError, 'a) prog" where
  "kube_call oper c =
     (let c1 = tick 0 c
      in case oper (k_objects c1) of
           (r, objs) \<Rightarrow>
             (case k_fail c (k_ticks c) of
                None \<Rightarrow> (r, c1\<lparr>k_objects := objs\<rparr>)
              | Some (e, applied) \<Rightarrow> (Inl e, if applied then c1\<lparr>k_objects := objs\<rparr> else c1)))"

definition sleep :: "nat \<Rightarrow> (cluster, 'e, unit) prog" where
  "sleep nanos c = (Inr (), tick nanos c)"

definition not_found :: "string \<Rightarrow> KubeError + 'a" where
  "not_found name = Inl (KubeApi 404 (name @ '' not found''))"

definition conflict :: "string \<Rightarrow> KubeError + 'a" where
  "conflict name = Inl (KubeApi 409 (name @ '' already exists''))"

definition get_crd :: "string \<Rightarrow> (cluster, KubeError, SandboxCrd) prog" where
  "get_crd name = kube_call (\<lambda>ob.
     (case map_of (o_crds ob) name of Some x \<Rightarrow> Inr x | None \<Rightarrow> not_found name, ob))"

definition create_crd :: "SandboxCrd \<Rightarrow> (cluster, KubeError, unit) prog" where
  "create_crd x c = kube_call (\<lambda>ob.
     if map_of (o_crds ob) (crd_name x) \<noteq> None then (conflict (crd_name x), ob)
     else (Inr (), ob\<lparr>o_crds := o_crds ob @ [(crd_name x, x\<lparr>crd_uid := Some (k_uids c (k_ticks c))\<rparr>)]\<rparr>)) c"

definition patch_crd_status :: "string \<Rightarrow> SandboxStatus \<Rightarrow> (cluster, KubeError, unit) prog" where
  "patch_crd_status name st = kube_call (\<lambda>ob.
     case map_of (o_crds ob) name of
       None \<Rightarrow> (not_found name, ob)
     | Some x \<Rightarrow> (Inr (), ob\<lparr>o_crds := AList.update name (x\<lparr>crd_status := Some st\<rparr>) (o_crds ob)\<rparr>))"

definition delete_crd :: "string \<Rightarrow> (cluster, KubeError, unit) prog" where
  "delete_crd name = kube_call (\<lambda>ob.
     if map_of (o_crds ob) name = None then (not_found name, ob)
     else (Inr (), ob\<lparr>o_crds := AList.delete name (o_crds ob)\<rparr>))"

definition get_pod :: "string \<Rightarrow> (cluster, KubeError, Pod) prog" where
  "get_pod name = kube_call (\<lambda>ob.
     (case map_of (o_pods ob) name of Some x \<Rightarrow> Inr x | None \<Rightarrow> not_found name, ob))"

definition create_pod :: "Pod \<Rightarrow> (cluster, KubeError, unit) prog" where
  "create_pod x = kube_call (\<lambda>ob.
     if map_of (o_pods ob) (pod_name x) \<noteq> None then (conflict (pod_name x), ob)
     else (Inr (), ob\<lparr>o_pods := o_pods ob @ [(pod_name x, x)]\<rparr>))"

definition delete_pod :: "string \<Rightarrow> (cluster, KubeError, unit) prog" where
  "delete_pod name = kube_call (\<lambda>ob.
     case map_of (o_pods ob) name of
       None \<Rightarrow> (not_found name, ob)
     | Some x \<Rightarrow> (Inr (), ob\<lparr>o_pods := AList.update name (x\<lparr>pod_terminating := True\<rparr>) (o_pods ob)\<rparr>))"

definition list_pods :: "string \<Rightarrow> string \<Rightarrow> (cluster, KubeError, Pod list) prog" where
  "list_pods key val = kube_call (\<lambda>ob.
     (Inr (filter (\<lambda>p. map_of (pod_labels p) key = Some val) (map snd (o_pods ob))), ob))"

definition create_service :: "K8sService \<Rightarrow> (cluster, KubeError, unit) prog" where
  "create_service x = kube_call (\<lambda>ob.
     if map_of (o_services ob) (sv_name x) \<noteq> None then (conflict (sv_name x), ob)
     else (Inr (), ob\<lparr>o_services := o_services ob @ [(sv_name x, x)]\<rparr>))"

definition delete_service :: "string \<Rightarrow> (cluster, KubeError, unit) prog" where
  "delete_service name = kube_call (\<lambda>ob.
     if map_of (o_services ob) name = None then (not_found name, ob)
     else (Inr (), ob\<lparr>o_services := AList.delete name (o_services ob)\<rparr>))"

definition delete_pvc :: "string \<Rightarrow> (cluster, KubeError, unit) prog" where
  "delete_pvc name = kube_call (\<lambda>ob.
     if name \<notin> set (o_pvcs ob) then (not_found name, ob)
     else (Inr (), ob\<lparr>o_pvcs := filter (\<lambda>n. n \<noteq> name) (o_pvcs ob)\<rparr>))"

section \<open>Errors and status\<close>

fun map_kube_error :: "kube_lib \<Rightarrow> string \<Rightarrow> KubeError \<Rightarrow> ManagerError" where
  "map_kube_error lib ctx (KubeApi code m) =
     (if code = 404 then ME_NotFound (ctx @ '': resource not found - '' @ m)
      else if code = 409 then ME_Conflict (ctx @ '': resource already exists - '' @ m)
      else if code = 408 \<or> code = 429 then ME_Timeout (ctx @ '': request timeout/rate limited - '' @ m)
      else ME_Api (ctx @ '': K8s API error ('' @ show_nat code @ ''): '' @ m))"
| "map_kube_error lib ctx (KubeOther m) = ME_Api (ctx @ '': '' @ kl_error_text lib (KubeOther m))"

fun is_not_found :: "KubeError \<Rightarrow> bool" where
  "is_not_found (KubeApi code m) = (code = 404)"
| "is_not_found (KubeOther m) = False"

fun is_conflict :: "KubeError \<Rightarrow> bool" where
  "is_conflict (KubeApi code m) = (code = 409)"
| "is_conflict (KubeOther m) = False"

definition strip_crd_prefix :: "string \<Rightarrow> string" where
  "strip_crd_prefix name = (case strip_prefix ''dsb-sb-'' name of Some i \<Rightarrow> i | None \<Rightarrow> name)"

definition sandbox_status :: "string \<Rightarrow> string \<Rightarrow> string option \<Rightarrow> string option \<Rightarrow> SandboxStatus" where
  "sandbox_status name phase node ip =
     \<lparr>sst_phase = Some phase, sst_pod_name = Some (sandbox_resource_name (strip_crd_prefix name)),
      sst_service_name = Some (sandbox_service_name (strip_crd_prefix name)), sst_container_id = None,
      sst_node_name = node, sst_pod_ip = ip, sst_message = None\<rparr>"

definition update_status :: "kube_lib \<Rightarrow> string \<Rightarrow> string \<Rightarrow> (cluster, ManagerError, unit) prog" where
  "update_status lib name phase =
     map_err (\<lambda>e. ME_Api (''Failed to update status: '' @ kl_error_text lib e))
       (patch_crd_status name (sandbox_status name phase None None))"

section \<open>The operator\<close>

definition update_crd_status :: "string \<Rightarrow> string \<Rightarrow> string option \<Rightarrow> string option \<Rightarrow> (cluster, KubeError, unit) prog" where
  "update_crd_status name phase node ip = patch_crd_status name (sandbox_status name phase node ip)"

definition skip_conflict :: "(cluster, KubeError, unit) prog \<Rightarrow> (cluster, KubeError, unit) prog" where
  "skip_conflict p =
     bindE (attempt p) (\<lambda>r. case r of Inr _ \<Rightarrow> ret () | Inl e \<Rightarrow> if is_conflict e then ret () else throw e)"

definition create_resources_from_crd :: "kube_lib \<Rightarrow> KubernetesManager \<Rightarrow> SandboxCrd \<Rightarrow> (cluster, KubeError, unit) prog" where
  "create_resources_from_crd lib m sandbox =
     bindE (ok_or (KubeApi 500 (''Sandbox CRD '' @ [CHR 0x27] @ crd_name sandbox @ [CHR 0x27] @
         '' is missing UID required for owner references'')) (crd_uid sandbox)) (\<lambda>uid.
     bindE (skip_conflict (create_pod (build_pod (kl_toleration lib) m (crd_name sandbox) uid (crd_spec sandbox)))) (\<lambda>_.
     skip_conflict (create_service (build_service m (crd_name sandbox) uid (crd_spec sandbox)))))"

definition phase_in :: "SandboxCrd \<Rightarrow> string list \<Rightarrow> bool" where
  "phase_in sandbox phases =
     (case Option.bind (crd_status sandbox) sst_phase of Some p \<Rightarrow> p \<in> set phases | None \<Rightarrow> False)"

definition pod_phase :: "Pod \<Rightarrow> string" where
  "pod_phase pod = (case Option.bind (pod_status pod) pst_phase of Some p \<Rightarrow> p | None \<Rightarrow> ''Unknown'')"

text \<open>The result is the number of seconds after which the object is looked at again.\<close>

definition reconcile :: "kube_lib \<Rightarrow> KubernetesManager \<Rightarrow> SandboxCrd \<Rightarrow> (cluster, KubeError, nat) prog" where
  "reconcile lib m sandbox =
     bindE (attempt (get_pod (sandbox_resource_name (spec_sandbox_id (crd_spec sandbox))))) (\<lambda>r. case r of
       Inr pod \<Rightarrow>
         bindE (update_crd_status (crd_name sandbox) (pod_phase pod) (pd_node_name (pod_spec pod))
           (Option.bind (pod_status pod) pst_pod_ip)) (\<lambda>_. ret 30)
     | Inl e \<Rightarrow>
         if is_not_found e then
           bindE (if crd_status sandbox = None then create_resources_from_crd lib m sandbox
                  else if phase_in sandbox [''Running'', ''Pending''] then create_resources_from_crd lib m sandbox
                  else if phase_in sandbox [''Stopped'', ''Succeeded'', ''Failed''] then ret ()
                  else create_resources_from_crd lib m sandbox) (\<lambda>_. ret 60)
         else throw e)"

definition error_policy :: nat where
  "error_policy = 5"

section \<open>Waiting\<close>

definition format_pod_scheduling_diagnostic :: "kube_lib \<Rightarrow> Pod \<Rightarrow> string" where
  "format_pod_scheduling_diagnostic lib pod =
     (let parts = (case pod_status pod of
          None \<Rightarrow> []
        | Some st \<Rightarrow>
            (case pst_phase st of Some p \<Rightarrow> [''phase='' @ p] | None \<Rightarrow> []) @
            map (\<lambda>c. ''cond '' @ pc_type c @ ''='' @ pc_status c @ '' reason='' @ kl_debug lib (pc_reason c) @
                '' msg='' @ kl_debug lib (pc_message c)) (case pst_conditions st of Some cs \<Rightarrow> cs | None \<Rightarrow> []) @
            concat (map (\<lambda>(n, s). case s of
                Some (CsWaiting r msg) \<Rightarrow> [''container '' @ n @ '' waiting '' @ kl_debug lib r @ '': '' @ kl_debug lib msg]
              | _ \<Rightarrow> []) (case pst_containers st of Some cs \<Rightarrow> cs | None \<Rightarrow> [])))
      in if parts = [] then ''(no pod.status yet)'' else join ''; '' parts)"

text \<open>What a look at the pod says: it has failed, it is ready (or has ended well), or neither.\<close>

datatype readiness = PodFailed string | PodReady | PodPending

definition failing_reasons :: "string list" where
  "failing_reasons = [''ImagePullBackOff'', ''ErrImagePull'', ''CrashLoopBackOff'']"

definition pod_ready_condition :: "PodStatus \<Rightarrow> bool" where
  "pod_ready_condition st =
     list_ex (\<lambda>c. pc_type c = ''Ready'' \<and> pc_status c = ''True'') (case pst_conditions st of Some cs \<Rightarrow> cs | None \<Rightarrow> [])"

definition pod_readiness :: "string \<Rightarrow> Pod \<Rightarrow> readiness" where
  "pod_readiness name pod =
     (case pod_status pod of
        None \<Rightarrow> PodPending
      | Some st \<Rightarrow>
          (let otherwise = (if pod_ready_condition st then PodReady else PodPending)
           in case pst_containers st of
                Some ((_, Some (CsWaiting reason msg)) # _) \<Rightarrow>
                  (let r = (case reason of Some r \<Rightarrow> r | None \<Rightarrow> ''Unknown'')
                   in if r \<in> set failing_reasons
                      then PodFailed (''Pod '' @ name @ '' failed: '' @ r @ '' - '' @
                        (case msg of Some t \<Rightarrow> t | None \<Rightarrow> ''no message''))
                      else otherwise)
              | Some ((_, Some (CsTerminated code reason)) # _) \<Rightarrow>
                  if code \<noteq> 0 then PodFailed (''Pod '' @ name @ '' terminated with exit code '' @ show_i64 (sint code))
                  else PodReady
              | _ \<Rightarrow> otherwise))"

definition nanos_of_secs :: "u64 \<Rightarrow> int" where
  "nanos_of_secs secs = int (unat secs) * nanos_per_sec"

lemma tick_later [simp]: "k_now (tick n c) = k_now c + int n + int (k_latency c (k_ticks c))"
  by (simp add: tick_def)

lemma kube_call_now: "k_now (snd (kube_call oper c)) = k_now c + int (k_latency c (k_ticks c))"
  by (auto simp: kube_call_def Let_def tick_def split: prod.splits option.splits)

definition after_poll :: "string \<Rightarrow> cluster \<Rightarrow> cluster" where
  "after_poll name c = tick 2000000000 (snd (get_pod name c))"

lemma after_poll_now: "k_now c + 2000000000 \<le> k_now (after_poll name c)"
  by (simp add: after_poll_def get_pod_def kube_call_now)

lemma poll_decreases:
  "\<not> t < k_now c - s \<Longrightarrow> nat (t + 1 - (k_now (after_poll name c) - s)) < nat (t + 1 - (k_now c - s))"
  using after_poll_now [of c name] by simp

function wait_pod_loop ::
  "kube_lib \<Rightarrow> KubernetesManager \<Rightarrow> string \<Rightarrow> time \<Rightarrow> cluster \<Rightarrow> (ManagerError + unit) \<times> cluster" where
  "wait_pod_loop lib m name start c =
     (let timeout_secs = kc_pod_ready_timeout_secs (km_kubernetes m)
      in if nanos_of_secs timeout_secs < k_now c - start then
           (case get_pod name c of
              (r, c') \<Rightarrow>
                (Inl (ME_Timeout (''Pod '' @ name @ '' not ready within '' @ show_nat (unat timeout_secs) @ '' seconds. '' @
                   (case r of Inr pod \<Rightarrow> format_pod_scheduling_diagnostic lib pod
                    | Inl e \<Rightarrow> ''(could not re-fetch pod: '' @ kl_error_text lib e @ '')''))), c'))
         else
           (case get_pod name c of
              (Inl e, c') \<Rightarrow>
                if is_not_found e then wait_pod_loop lib m name start (after_poll name c)
                else (Inl (ME_Api (''Failed to get pod status: '' @ kl_error_text lib e)), c')
            | (Inr pod, c') \<Rightarrow>
                (case pod_readiness name pod of
                   PodFailed t \<Rightarrow> (Inl (ME_OperationFailed t), c')
                 | PodReady \<Rightarrow> (Inr (), c')
                 | PodPending \<Rightarrow> wait_pod_loop lib m name start (after_poll name c))))"
  by pat_completeness auto
termination
  by (relation "measure (\<lambda>(lib, m, name, start, c).
      nat (nanos_of_secs (kc_pod_ready_timeout_secs (km_kubernetes m)) + 1 - (k_now c - start)))")
    (simp_all only: in_measure wf_measure prod.case, (rule poll_decreases, assumption)+)

declare wait_pod_loop.simps [simp del]

definition wait_for_pod_ready :: "kube_lib \<Rightarrow> KubernetesManager \<Rightarrow> string \<Rightarrow> (cluster, ManagerError, unit) prog" where
  "wait_for_pod_ready lib m name c = wait_pod_loop lib m name (k_now c) c"

definition max_tool_proxy_attempts :: nat where
  "max_tool_proxy_attempts = 30"

definition next_http :: "string \<Rightarrow> string \<Rightarrow> json option \<Rightarrow> (cluster, 'e, http_outcome) prog" where
  "next_http meth url body c = (Inr (k_http c (k_ticks c) meth url body), tick 0 c)"

definition http_success :: "nat \<Rightarrow> bool" where
  "http_success status \<longleftrightarrow> 200 \<le> status \<and> status < 300"

definition answers_healthy :: "kube_lib \<Rightarrow> http_outcome \<Rightarrow> bool" where
  "answers_healthy lib r =
     (case r of
        HttpAnswered status (Inr text) \<Rightarrow>
          http_success status \<and>
          (case kl_from_str lib text of Inr body \<Rightarrow> json_get body ''status'' = Some (JString ''healthy'') | Inl _ \<Rightarrow> False)
      | _ \<Rightarrow> False)"

fun tool_proxy_loop :: "kube_lib \<Rightarrow> string \<Rightarrow> string \<Rightarrow> nat \<Rightarrow> (cluster, ManagerError, unit) prog" where
  "tool_proxy_loop lib sandbox_id url 0 = throw (ME_Timeout (''Sandbox '' @ sandbox_id @
     '' tool_proxy did not respond healthy on GET /health within '' @ show_nat max_tool_proxy_attempts @
     '' attempts (~'' @ show_nat (max_tool_proxy_attempts * 500) @ '' ms)''))"
| "tool_proxy_loop lib sandbox_id url (Suc left) =
     bindE (next_http ''GET'' url None) (\<lambda>r.
     if answers_healthy lib r then ret ()
     else if left = 0 then tool_proxy_loop lib sandbox_id url 0
     else bindE (sleep 500000000) (\<lambda>_. tool_proxy_loop lib sandbox_id url left))"

definition http_client :: "(cluster, ManagerError, unit) prog" where
  "http_client c =
     (case k_http_client c of
        Some e \<Rightarrow> (Inl (ME_Api (''Failed to create HTTP client: '' @ e)), c)
      | None \<Rightarrow> (Inr (), c))"

definition service_host :: "KubernetesManager \<Rightarrow> string \<Rightarrow> string" where
  "service_host m i = sandbox_service_name i @ ''.'' @ km_namespace m @ ''.svc.cluster.local:''"

definition wait_for_sandbox_tool_proxy ::
  "kube_lib \<Rightarrow> KubernetesManager \<Rightarrow> string \<Rightarrow> (cluster, ManagerError, unit) prog" where
  "wait_for_sandbox_tool_proxy lib m i =
     bindE http_client (\<lambda>_.
     tool_proxy_loop lib i (''http://'' @ service_host m i @ show_nat (unat tool_proxy_port) @ ''/health'')
       max_tool_proxy_attempts)"

section \<open>Lifecycle operations\<close>

definition k8s_create :: "kube_lib \<Rightarrow> KubernetesManager \<Rightarrow> uuid option \<Rightarrow> SandboxConfig \<Rightarrow> (cluster, ManagerError, string) prog" where
  "k8s_create lib m sandbox_id config c =
     (let i = kl_uuid_text lib (case sandbox_id of Some u \<Rightarrow> u | None \<Rightarrow> k_uuids c (k_ticks c));
          sandbox = \<lparr>crd_name = sandbox_resource_name i, crd_uid = None, crd_spec = build_sandbox_spec m i config,
            crd_status = None\<rparr>
      in bindE (map_err (map_kube_error lib ''create_crd'') (create_crd sandbox)) (\<lambda>_. ret i) c)"

definition has_custom_command :: "SandboxSpec \<Rightarrow> bool" where
  "has_custom_command spec = (case spec_command spec of Some c \<Rightarrow> c \<noteq> [] | None \<Rightarrow> False)"

definition k8s_start :: "kube_lib \<Rightarrow> KubernetesManager \<Rightarrow> string \<Rightarrow> (cluster, ManagerError, unit) prog" where
  "k8s_start lib m i =
     (let name = sandbox_resource_name i in
      bindE (wait_for_pod_ready lib m name) (\<lambda>_.
      bindE (map_err (\<lambda>e. ME_Api (''Failed to get CRD '' @ name @ '' for tool_proxy check: '' @ kl_error_text lib e))
        (get_crd name)) (\<lambda>sandbox.
      bindE (if \<not> has_custom_command (crd_spec sandbox) \<and> is_dsb_image m (crd_spec sandbox)
             then wait_for_sandbox_tool_proxy lib m i else ret ()) (\<lambda>_.
      update_status lib name ''Running''))))"

definition k8s_stop :: "kube_lib \<Rightarrow> string \<Rightarrow> (cluster, ManagerError, unit) prog" where
  "k8s_stop lib i =
     bindE (update_status lib (sandbox_resource_name i) ''Stopped'') (\<lambda>_.
     bindE (attempt (delete_pod (sandbox_resource_name i))) (\<lambda>_.
     bindE (attempt (delete_service (sandbox_service_name i))) (\<lambda>_. ret ())))"

definition k8s_delete :: "kube_lib \<Rightarrow> string \<Rightarrow> (cluster, ManagerError, unit) prog" where
  "k8s_delete lib i =
     bindE (attempt (delete_pod (sandbox_resource_name i))) (\<lambda>_.
     bindE (attempt (delete_service (sandbox_service_name i))) (\<lambda>_.
     map_err (map_kube_error lib ''delete_crd'') (delete_crd (sandbox_resource_name i))))"

section \<open>Commands\<close>

definition running_pod :: "kube_lib \<Rightarrow> string \<Rightarrow> (cluster, ManagerError, unit) prog" where
  "running_pod lib name =
     bindE (map_err (\<lambda>e. if is_not_found e then ME_NotFound (''Pod: '' @ name)
         else ME_Api (''Failed to get pod: '' @ kl_error_text lib e)) (get_pod name)) (\<lambda>pod.
     if Option.bind (pod_status pod) pst_phase = Some ''Running'' then ret ()
     else throw (ME_OperationFailed (''Pod '' @ name @ '' is not running'')))"

text \<open>
  The output is read to its end before the clock of the timeout starts: only the wait for the
  final status is limited.
\<close>

definition exec_in_pod ::
  "kube_lib \<Rightarrow> string \<Rightarrow> string list \<Rightarrow> string option \<Rightarrow> u64 option \<Rightarrow> (cluster, ManagerError, ExecCommandResult) prog" where
  "exec_in_pod lib name cmd stdin timeout_secs =
     bindE (running_pod lib name) (\<lambda>_.
     bindE (\<lambda>c. (Inr (k_exec c (k_ticks c) name cmd stdin), tick 0 c)) (\<lambda>outcome.
     case outcome of
       ExecRefused e \<Rightarrow> throw (ME_OperationFailed (''Exec failed: '' @ e))
     | ExecRan run \<Rightarrow>
         (case (stdin, er_stdin_error run) of
            (Some _, Some e) \<Rightarrow> throw (ME_OperationFailed e)
          | _ \<Rightarrow>
              let output = to_string_lossy (er_stdout run) @ to_string_lossy (er_stderr run);
                  result = \<lparr>ecr_output = output, ecr_exit_code = (if er_join_ok run then 0 else 1)\<rparr>
              in (case timeout_secs of
                    Some secs \<Rightarrow>
                      if nanos_of_secs secs < er_join_nanos run
                      then throw (ME_Timeout (''Command timed out after '' @ show_nat (unat secs) @ '' seconds''))
                      else ret result
                  | None \<Rightarrow> ret result))))"

definition k8s_exec_cmd :: "kube_lib \<Rightarrow> string \<Rightarrow> string list \<Rightarrow> (cluster, ManagerError, string) prog" where
  "k8s_exec_cmd lib i cmd =
     bindE (exec_in_pod lib (sandbox_resource_name i) cmd None None) (\<lambda>r. ret (ecr_output r))"

definition k8s_exec_with_stdin ::
  "kube_lib \<Rightarrow> string \<Rightarrow> string list \<Rightarrow> string option \<Rightarrow> u64 option \<Rightarrow> (cluster, ManagerError, string) prog" where
  "k8s_exec_with_stdin lib i cmd stdin timeout_secs =
     bindE (exec_in_pod lib (sandbox_resource_name i) cmd stdin timeout_secs) (\<lambda>r. ret (ecr_output r))"

definition k8s_exec_with_stdin_result ::
  "kube_lib \<Rightarrow> string \<Rightarrow> string list \<Rightarrow> string option \<Rightarrow> u64 option \<Rightarrow> (cluster, ManagerError, ExecCommandResult) prog" where
  "k8s_exec_with_stdin_result lib i cmd stdin timeout_secs =
     exec_in_pod lib (sandbox_resource_name i) cmd stdin timeout_secs"

definition k8s_upload_archive :: "kube_lib \<Rightarrow> string \<Rightarrow> string \<Rightarrow> string \<Rightarrow> (cluster, ManagerError, unit) prog" where
  "k8s_upload_archive lib i path tar_data =
     (if str_contains path ''..'' \<or> CHR '';'' \<in> set path \<or> CHR ''&'' \<in> set path \<or> CHR ''|'' \<in> set path
      then throw (ME_OperationFailed ''Invalid path: contains forbidden characters'')
      else
        (let name = sandbox_resource_name i;
             cmd = [''sh'', ''-c'', ''sudo tar -xf - -C '' @ [CHR 0x27] @ path @ [CHR 0x27]]
         in bindE (exec_in_pod lib name cmd (Some tar_data) (Some 120)) (\<lambda>result.
            if ecr_exit_code result \<noteq> 0
            then throw (ME_OperationFailed (''Failed to extract tar archive in pod '' @ name @ '': exit code '' @
              show_i64 (sint (ecr_exit_code result)) @ '', output: '' @ ecr_output result))
            else ret ())))"

definition memory_script :: "string \<Rightarrow> string \<Rightarrow> string list" where
  "memory_script v2 v1 =
     [''sh'', ''-c'', ''cat /sys/fs/cgroup/'' @ v2 @ '' 2>/dev/null || cat /sys/fs/cgroup/memory/'' @ v1 @
       '' 2>/dev/null || echo 0'']"

definition parse_bytes :: "string \<Rightarrow> u64" where
  "parse_bytes s = (case parse_uint 64 (trim_end_matches (CHR 0x0A) (trim s)) of Some n \<Rightarrow> of_nat n | None \<Rightarrow> 0)"

definition k8s_stats :: "kube_lib \<Rightarrow> string \<Rightarrow> (cluster, ManagerError, ContainerStats) prog" where
  "k8s_stats lib i =
     bindE (attempt (k8s_exec_cmd lib i (memory_script ''memory.current'' ''memory.usage_in_bytes''))) (\<lambda>u.
     bindE (attempt (k8s_exec_cmd lib i (memory_script ''memory.max'' ''memory.limit_in_bytes''))) (\<lambda>l.
     bindE (\<lambda>c. (Inr (k_utc c (k_ticks c)), c)) (\<lambda>now.
     let usage_text = (case u of Inr t \<Rightarrow> t | Inl _ \<Rightarrow> ''0'');
         limit_text = (case l of Inr t \<Rightarrow> t | Inl _ \<Rightarrow> ''0'');
         usage = parse_bytes usage_text;
         limit = (if trim limit_text = ''max'' then 0 else parse_bytes limit_text)
     in ret \<lparr>cs_cpu_percent = 0, cs_memory_usage_mb = usage div (1024 * 1024),
          cs_memory_limit_mb = (if 0 < limit then limit div (1024 * 1024) else 0),
          cs_memory_percent = (if 0 < limit \<and> 0 < usage then kl_percent lib usage limit else 0),
          cs_network_rx_bytes = 0, cs_network_tx_bytes = 0, cs_block_read_bytes = 0, cs_block_write_bytes = 0,
          cs_timestamp = now\<rparr>)))"

section \<open>Tool calls over HTTP\<close>

definition is_transient_sandbox_http_error :: "string \<Rightarrow> bool" where
  "is_transient_sandbox_http_error msg =
     list_ex (str_contains (to_lowercase msg))
       [''error sending request'', ''connection refused'', ''connection reset'', ''broken pipe'', ''timed out'',
        ''timeout'', ''dns'', ''hyper::'']"

definition max_http_attempts :: nat where
  "max_http_attempts = 12"

definition backoff_ms :: "nat \<Rightarrow> nat" where
  "backoff_ms k = min (100 * 2 ^ min (k - 1) 5) 2000"

fun http_attempts ::
  "kube_lib \<Rightarrow> string \<Rightarrow> string \<Rightarrow> json option \<Rightarrow> nat \<Rightarrow> nat \<Rightarrow> (cluster, ManagerError, json) prog" where
  "http_attempts lib url meth body k 0 = throw (ME_Api ''unreachable'')"
| "http_attempts lib url meth body k (Suc left) =
     bindE (next_http meth url body) (\<lambda>r. case r of
       HttpFailed msg \<Rightarrow>
         if left \<noteq> 0 \<and> is_transient_sandbox_http_error msg
         then bindE (sleep (backoff_ms k * 1000000)) (\<lambda>_. http_attempts lib url meth body (Suc k) left)
         else throw (ME_Api (''HTTP request to sandbox failed: '' @ msg))
     | HttpAnswered status (Inl e) \<Rightarrow> throw (ME_Api (''Failed to read sandbox HTTP body: '' @ e))
     | HttpAnswered status (Inr text) \<Rightarrow>
         if \<not> http_success status
         then throw (ME_Api (''HTTP request to sandbox returned '' @ kl_status_text lib status @ '': '' @ take_chars 500 text))
         else (case kl_from_str lib text of
             Inr v \<Rightarrow> ret v
           | Inl e \<Rightarrow> throw (ME_Api (''Failed to parse sandbox HTTP response as JSON: '' @ e @ '' (body starts: '' @
               take_chars 200 text @ '')''))))"

definition http_method :: "string \<Rightarrow> string" where
  "http_method meth = (if meth \<in> set [''POST'', ''PUT'', ''PATCH'', ''DELETE''] then meth else ''GET'')"

definition k8s_exec_http ::
  "kube_lib \<Rightarrow> KubernetesManager \<Rightarrow> string \<Rightarrow> string \<Rightarrow> string \<Rightarrow> json option \<Rightarrow> u64 option \<Rightarrow> (cluster, ManagerError, json) prog" where
  "k8s_exec_http lib m i path meth body timeout_secs =
     bindE http_client (\<lambda>_.
     http_attempts lib (''http://'' @ service_host m i @ show_nat (unat tool_proxy_port) @ path) (http_method meth)
       (if http_method meth \<in> set [''POST'', ''PUT'', ''PATCH''] then body else None) 1 max_http_attempts)"

section \<open>Queries\<close>

definition k8s_is_running :: "kube_lib \<Rightarrow> string \<Rightarrow> (cluster, ManagerError, bool) prog" where
  "k8s_is_running lib i =
     bindE (map_err (map_kube_error lib ''is_running'') (get_pod (sandbox_resource_name i))) (\<lambda>pod.
     ret (Option.bind (pod_status pod) pst_phase = Some ''Running''))"

definition k8s_get_exit_info :: "kube_lib \<Rightarrow> string \<Rightarrow> (cluster, ManagerError, i64 \<times> bool) prog" where
  "k8s_get_exit_info lib i =
     bindE (map_err (map_kube_error lib ''get_exit_info'') (get_pod (sandbox_resource_name i))) (\<lambda>pod.
     ret (case Option.bind (pod_status pod) pst_containers of
            Some ((_, Some (CsTerminated code reason)) # _) \<Rightarrow> (scast code, reason = Some ''OOMKilled'')
          | _ \<Rightarrow> (0, False)))"

definition sandbox_info_of_pod :: "Pod \<Rightarrow> SandboxInfo" where
  "sandbox_info_of_pod pod =
     \<lparr>si_id = (case map_of (pod_labels pod) label_sandbox_id of Some i \<Rightarrow> i | None \<Rightarrow> []),
      si_name = Some (pod_name pod), si_image = Some (ct_image (pd_container (pod_spec pod))),
      si_state = Some (phase_to_state (pod_phase pod)), si_status = Some (pod_phase pod),
      si_created = pod_created pod, si_ports = [], si_labels = pod_labels pod,
      si_node_name = pd_node_name (pod_spec pod), si_pod_ip = Option.bind (pod_status pod) pst_pod_ip\<rparr>"

definition k8s_list :: "kube_lib \<Rightarrow> bool \<Rightarrow> (cluster, ManagerError, SandboxInfo list) prog" where
  "k8s_list lib all =
     bindE (map_err (map_kube_error lib ''list'') (list_pods label_managed_by ''dsb'')) (\<lambda>pods.
     ret (map sandbox_info_of_pod (filter (\<lambda>p. all \<or> pod_phase p = ''Running'') pods)))"

definition k8s_remove_volume :: "kube_lib \<Rightarrow> string \<Rightarrow> (cluster, ManagerError, unit) prog" where
  "k8s_remove_volume lib name = map_err (map_kube_error lib ''delete_pvc'') (delete_pvc name)"

definition k8s_get_sandbox_address :: "KubernetesManager \<Rightarrow> string \<Rightarrow> u16 \<Rightarrow> (cluster, ManagerError, string) prog" where
  "k8s_get_sandbox_address m i port = ret (service_host m i @ show_nat (unat port))"

definition k8s_get_sandbox_k8s_status :: "kube_lib \<Rightarrow> uuid \<Rightarrow> (cluster, ManagerError, KubernetesInfo option) prog" where
  "k8s_get_sandbox_k8s_status lib u =
     bindE (attempt (get_crd (sandbox_resource_name (kl_uuid_text lib u)))) (\<lambda>r. case r of
       Inl e \<Rightarrow> if is_not_found e then ret None else throw (map_kube_error lib ''get_sandbox_k8s_status'' e)
     | Inr sandbox \<Rightarrow>
         ret (case crd_status sandbox of
            None \<Rightarrow> None
          | Some st \<Rightarrow>
              if sst_node_name st = None \<and> sst_pod_ip st = None \<and> sst_service_name st = None \<and> sst_message st = None
              then None
              else Some \<lparr>ki_node_name = sst_node_name st, ki_pod_ip = sst_pod_ip st,
                ki_service_name = sst_service_name st, ki_message = sst_message st\<rparr>))"

section \<open>The backend as a sandbox manager\<close>

definition pull_not_supported :: "string \<Rightarrow> ManagerError" where
  "pull_not_supported img = ME_NotSupported (''Image pulling is not supported on Kubernetes. Images must be '' @
     ''pre-pulled via DaemonSet. Image: '' @ img)"

definition k8s_list_images :: "(cluster, ManagerError, string list) prog" where
  "k8s_list_images = ret []"

definition k8s_delete_image :: "string \<Rightarrow> (cluster, ManagerError, unit) prog" where
  "k8s_delete_image i = throw (ME_NotSupported (''Image deletion is not supported on Kubernetes. Image lifecycle is '' @
     ''managed by DaemonSet. Image: '' @ i))"

definition k8s_backend :: "kube_lib \<Rightarrow> KubernetesManager \<Rightarrow> cluster SandboxManager" where
  "k8s_backend lib m =
     \<lparr>mgr_create = k8s_create lib m, mgr_start = k8s_start lib m, mgr_stop = k8s_stop lib, mgr_delete = k8s_delete lib,
      mgr_exec = k8s_exec_cmd lib, mgr_stats = k8s_stats lib, mgr_is_running = k8s_is_running lib,
      mgr_get_exit_info = k8s_get_exit_info lib, mgr_get_workdir = (\<lambda>_. ret ''/workspace''), mgr_list = k8s_list lib,
      mgr_remove_volume = k8s_remove_volume lib,
      mgr_get_image_features = (\<lambda>_. throw (ME_NotSupported (''Image feature detection is not supported on Kubernetes '' @
        ''backend. Use Docker backend for feature detection.''))),
      mgr_pull_image = (\<lambda>img. throw (pull_not_supported img)),
      mgr_pull_image_with_progress = (\<lambda>img c. (([], Inl (pull_not_supported img)), c)),
      mgr_image_exists = (\<lambda>_. ret True), mgr_exec_http = k8s_exec_http lib m,
      mgr_exec_with_stdin_result = k8s_exec_with_stdin_result lib,
      mgr_upload_archive = k8s_upload_archive lib, mgr_get_sandbox_k8s_status = k8s_get_sandbox_k8s_status lib\<rparr>"

end
