(* ===== verification/K8sProps.thy ===== *)
theory K8sProps
  imports K8sBackend
begin

text \<open>
  What the Kubernetes backend and its operator guarantee together, and what they do not: the
  objects they build fit together, a new sandbox gets its pod and its service, a stop is undone by
  the operator when it looks at the pod that is still ending, and a sandbox that has stopped for
  good can never be started again.
\<close>

section \<open>Clusters without interference\<close>

text \<open>
  On a still cluster nobody else changes the objects; on a cluster_calm one no call fails either.
\<close>

definition still :: "cluster \<Rightarrow> bool" where
  "still c \<longleftrightarrow> k_env c = (\<lambda>_ ob. ob)"

definition cluster_calm :: "cluster \<Rightarrow> bool" where
  "cluster_calm c \<longleftrightarrow> still c \<and> k_fail c = (\<lambda>_. None)"

lemma still_tick [simp]: "still (tick n c) = still c"
  by (simp add: still_def tick_def)

lemma still_objects [simp]: "still (c\<lparr>k_objects := ob\<rparr>) = still c"
  by (simp add: still_def)

lemma cluster_calm_tick [simp]: "cluster_calm (tick n c) = cluster_calm c"
  by (simp add: cluster_calm_def) (simp add: tick_def)

lemma cluster_calm_objects [simp]: "cluster_calm (c\<lparr>k_objects := ob\<rparr>) = cluster_calm c"
  by (simp add: cluster_calm_def)

lemma tick_objects: "still c \<Longrightarrow> k_objects (tick n c) = k_objects c"
  by (simp add: still_def tick_def)

lemma cluster_calm_still: "cluster_calm c \<Longrightarrow> still c"
  by (simp add: cluster_calm_def)

lemma wpE_kube_call_calm:
  "cluster_calm c \<Longrightarrow>
   wpE (kube_call oper) Q E c =
     (case oper (k_objects c) of
        (Inl e, ob) \<Rightarrow> E e ((tick 0 c)\<lparr>k_objects := ob\<rparr>)
      | (Inr a, ob) \<Rightarrow> Q a ((tick 0 c)\<lparr>k_objects := ob\<rparr>))"
  by (simp add: wpE_def kube_call_def Let_def tick_objects cluster_calm_def split: prod.splits sum.splits)

text \<open>
  A program keeps a property of the objects when it does so whatever its calls answer, an error
  after or before the effect included.
\<close>

definition keeps :: "(objects \<Rightarrow> bool) \<Rightarrow> (cluster, 'e, 'a) prog \<Rightarrow> bool" where
  "keeps P p \<longleftrightarrow>
     (\<forall>c. still c \<and> P (k_objects c) \<longrightarrow> still (snd (p c)) \<and> P (k_objects (snd (p c))))"

lemma keepsI:
  "(\<And>c. still c \<Longrightarrow> P (k_objects c) \<Longrightarrow> still (snd (p c)) \<and> P (k_objects (snd (p c)))) \<Longrightarrow> keeps P p"
  unfolding keeps_def by blast

lemma keepsD: "keeps P p \<Longrightarrow> still c \<Longrightarrow> P (k_objects c) \<Longrightarrow> still (snd (p c)) \<and> P (k_objects (snd (p c)))"
  unfolding keeps_def by blast

lemma keeps_ret [simp]: "keeps P (ret x)" and keeps_throw [simp]: "keeps P (throw e)"
  by (simp_all add: keeps_def ret_def throw_def)

lemma keeps_ok_or [simp]: "keeps P (ok_or e x)"
  by (cases x) (simp_all add: ok_or_def)

lemma keeps_bindE:
  assumes "keeps P p" and "\<And>a. keeps P (f a)"
  shows "keeps P (bindE p f)"
proof (rule keepsI)
  fix c assume c: "still c" "P (k_objects c)"
  show "still (snd (bindE p f c)) \<and> P (k_objects (snd (bindE p f c)))"
  proof (cases "p c")
    case (Pair r v)
    then have "still v \<and> P (k_objects v)"
      using keepsD [OF assms(1) c] by simp
    then show ?thesis
      using Pair keepsD [OF assms(2), of v] by (cases r) (simp_all add: bindE_def)
  qed
qed

lemma keeps_attempt: "keeps P p \<Longrightarrow> keeps P (attempt p)"
  unfolding keeps_def attempt_def by (simp add: case_prod_beta)

lemma keeps_kube_call:
  assumes "\<And>ob. P ob \<Longrightarrow> P (snd (oper ob))"
  shows "keeps P (kube_call oper)"
proof (rule keepsI)
  fix c assume c: "still c" "P (k_objects c)"
  then have ob: "k_objects (tick 0 c) = k_objects c" by (simp add: tick_objects)
  show "still (snd (kube_call oper c)) \<and> P (k_objects (snd (kube_call oper c)))"
    using c assms [OF c(2)] unfolding kube_call_def Let_def ob
    by (cases "oper (k_objects c)"; cases "k_fail c (k_ticks c)") (auto simp: ob)
qed

lemmas keeps_rules = keeps_bindE keeps_attempt keeps_kube_call

section \<open>The rest of the cluster\<close>

text \<open>
  What may happen to the objects between two calls about one sandbox, whose resource has the name
  \<open>own\<close>: the operator handles a custom resource as it is now (its own calls may fail), a node
  reports a new status of a pod, a pod or a service goes away, another sandbox is created or
  deleted.
\<close>

inductive cluster_step :: "kube_lib \<Rightarrow> KubernetesManager \<Rightarrow> string \<Rightarrow> objects \<Rightarrow> objects \<Rightarrow> bool"
  for lib :: kube_lib and m :: KubernetesManager and own :: string where
  operator_acts:
    "still c \<Longrightarrow> k_objects c = ob \<Longrightarrow> map_of (o_crds ob) n = Some x \<Longrightarrow>
     cluster_step lib m own ob (k_objects (snd (reconcile lib m x c)))"
| node_reports:
    "map_of (o_pods ob) n = Some p \<Longrightarrow>
     cluster_step lib m own ob (ob\<lparr>o_pods := AList.update n (p\<lparr>pod_status := st\<rparr>) (o_pods ob)\<rparr>)"
| pod_ends: "cluster_step lib m own ob (ob\<lparr>o_pods := AList.delete n (o_pods ob)\<rparr>)"
| service_ends: "cluster_step lib m own ob (ob\<lparr>o_services := AList.delete n (o_services ob)\<rparr>)"
| other_created:
    "crd_name x \<noteq> own \<Longrightarrow> sandbox_resource_name (spec_sandbox_id (crd_spec x)) = crd_name x \<Longrightarrow>
     cluster_step lib m own ob (ob\<lparr>o_crds := o_crds ob @ [(crd_name x, x)]\<rparr>)"
| other_deleted:
    "n \<noteq> own \<Longrightarrow> cluster_step lib m own ob (ob\<lparr>o_crds := AList.delete n (o_crds ob)\<rparr>)"

text \<open>
  The custom resources are kept under their own names, which derive from their sandboxes; a
  sandbox rests when its resource says that it is stopped and its pod is gone.
\<close>

definition crds_named :: "objects \<Rightarrow> bool" where
  "crds_named ob \<longleftrightarrow>
     list_all (\<lambda>(n, x). crd_name x = n \<and> sandbox_resource_name (spec_sandbox_id (crd_spec x)) = n) (o_crds ob)"

definition resting :: "string \<Rightarrow> objects \<Rightarrow> bool" where
  "resting n ob \<longleftrightarrow>
     crds_named ob \<and> map_of (o_pods ob) n = None \<and>
     (case map_of (o_crds ob) n of Some x \<Rightarrow> phase_in x [''Stopped''] | None \<Rightarrow> False)"

lemma crds_namedD:
  "crds_named ob \<Longrightarrow> map_of (o_crds ob) n = Some x \<Longrightarrow>
   crd_name x = n \<and> sandbox_resource_name (spec_sandbox_id (crd_spec x)) = n"
  by (auto simp: crds_named_def list_all_iff dest!: map_of_SomeD)

lemma phase_in_two: "phase_in x [''Stopped''] \<Longrightarrow> \<not> phase_in x [''Running'', ''Pending'']"
  "phase_in x [''Stopped''] \<Longrightarrow> phase_in x [''Stopped'', ''Succeeded'', ''Failed'']"
  "phase_in x [''Stopped''] \<Longrightarrow> crd_status x \<noteq> None"
  by (auto simp: phase_in_def split: option.splits bind_splits)

lemma set_update_subset: "set (AList.update k v xs) \<subseteq> insert (k, v) (set xs)"
  by (induction xs) auto

lemma crds_named_status:
  assumes "crds_named ob" and "map_of (o_crds ob) n = Some x"
  shows "crds_named (ob\<lparr>o_crds := AList.update n (x\<lparr>crd_status := st\<rparr>) (o_crds ob)\<rparr>)"
  using crds_namedD [OF assms] assms(1) set_update_subset [of n "x\<lparr>crd_status := st\<rparr>" "o_crds ob"]
  by (auto simp: crds_named_def list_all_iff)

lemma resting_other_status:
  "k \<noteq> n \<Longrightarrow> keeps (resting n) (patch_crd_status k st)"
  unfolding patch_crd_status_def
  by (rule keeps_kube_call)
    (auto simp: resting_def AList.update_conv' crds_named_status split: option.splits)

lemma resting_other_pod: "pod_name p \<noteq> n \<Longrightarrow> keeps (resting n) (create_pod p)"
  unfolding create_pod_def by (rule keeps_kube_call) (auto simp: resting_def crds_named_def map_add_def)

lemma resting_service: "keeps (resting n) (create_service s)"
  unfolding create_service_def by (rule keeps_kube_call) (auto simp: resting_def crds_named_def)

lemma resting_get: "keeps (resting n) (get_pod k)"
  unfolding get_pod_def by (rule keeps_kube_call) auto

lemma resting_create_resources:
  "crd_name x \<noteq> n \<Longrightarrow> keeps (resting n) (create_resources_from_crd lib m x)"
  unfolding create_resources_from_crd_def skip_conflict_def
  by (intro keeps_bindE keeps_attempt resting_other_pod resting_service keeps_ok_or)
    (auto simp: build_pod_def split: sum.splits)

text \<open>The operator leaves a resting sandbox alone, and the others cannot wake it.\<close>

lemma resting_reconcile_other:
  assumes "crd_name x \<noteq> n"
  shows "keeps (resting n) (reconcile lib m x)"
proof -
  have keep: "keeps (resting n) (patch_crd_status (crd_name x) st)"
    "keeps (resting n) (create_resources_from_crd lib m x)" for st
    using assms by (simp_all add: resting_other_status resting_create_resources)
  show ?thesis
    unfolding reconcile_def update_crd_status_def
    by (intro keeps_bindE keeps_attempt resting_get)
      (auto simp: keep split: sum.splits intro!: keeps_bindE)
qed

lemma get_pod_absent:
  assumes "map_of (o_pods (k_objects (tick 0 c))) n = None"
  shows "\<exists>e. get_pod n c = (Inl e, tick 0 c)"
  using assms
  by (cases "k_fail c (k_ticks c)") (auto simp: get_pod_def kube_call_def Let_def not_found_def)

lemma resting_reconcile_own:
  assumes "still c" "resting n (k_objects c)" "map_of (o_crds (k_objects c)) n = Some x"
  shows "resting n (k_objects (snd (reconcile lib m x c)))"
proof -
  have named: "sandbox_resource_name (spec_sandbox_id (crd_spec x)) = n"
    and none: "map_of (o_pods (k_objects c)) n = None" and phase: "phase_in x [''Stopped'']"
    using assms(2,3) crds_namedD [of "k_objects c" n x] by (auto simp: resting_def)
  obtain e where get: "get_pod n c = (Inl e, tick 0 c)"
    using get_pod_absent [of c n] none assms(1) by (auto simp: tick_objects)
  show ?thesis
    using assms(2) phase_in_two [OF phase] tick_objects [OF assms(1)]
    by (auto simp: reconcile_def named bindE_def attempt_def get ret_def throw_def)
qed

lemma resting_step:
  assumes "cluster_step lib m n ob ob'" "resting n ob"
  shows "resting n ob'"
  using assms
proof cases
  case (operator_acts c k x)
  show ?thesis
  proof (cases "k = n")
    case True
    then show ?thesis
      using operator_acts assms(2) resting_reconcile_own by auto
  next
    case False
    then have "crd_name x \<noteq> n"
      using operator_acts assms(2) crds_namedD [of ob k x] by (simp add: resting_def)
    then show ?thesis
      using keepsD [OF resting_reconcile_other] operator_acts assms(2) by simp
  qed
next
  case (node_reports k p st)
  then show ?thesis
    using assms(2) by (auto simp: resting_def crds_named_def AList.update_conv')
next
  case (pod_ends k)
  then show ?thesis
    using assms(2) by (auto simp: resting_def crds_named_def delete_conv')
next
  case (service_ends k)
  then show ?thesis
    using assms(2) by (auto simp: resting_def crds_named_def)
next
  case (other_created x)
  then show ?thesis
    using assms(2) by (auto simp: resting_def crds_named_def map_add_def split: option.splits)
next
  case (other_deleted k)
  then show ?thesis
    using assms(2) delete_conv' [of k "o_crds ob"]
    by (simp add: resting_def crds_named_def) (auto simp: list_all_iff AList.delete_eq)
qed

lemma resting_steps: "(cluster_step lib m n)\<^sup>*\<^sup>* ob ob' \<Longrightarrow> resting n ob \<Longrightarrow> resting n ob'"
  by (induction rule: rtranclp_induct) (auto intro: resting_step)

section \<open>A stopped sandbox does not start\<close>

text \<open>Throughout a wait the rest of the cluster makes only its own steps.\<close>

definition stepping :: "kube_lib \<Rightarrow> KubernetesManager \<Rightarrow> string \<Rightarrow> cluster \<Rightarrow> bool" where
  "stepping lib m n c \<longleftrightarrow> (\<forall>k ob. (cluster_step lib m n)\<^sup>*\<^sup>* ob (k_env c k ob))"

lemma stepping_tick [simp]: "stepping lib m n (tick k c) = stepping lib m n c"
  by (simp add: stepping_def tick_def)

lemma resting_tick: "stepping lib m n c \<Longrightarrow> resting n (k_objects c) \<Longrightarrow> resting n (k_objects (tick k c))"
  by (auto simp: stepping_def tick_def intro: resting_steps)

lemma resting_poll:
  assumes "stepping lib m n c" "resting n (k_objects c)"
  shows "\<exists>e. get_pod n c = (Inl e, tick 0 c)" "resting n (k_objects (after_poll n c))"
    "stepping lib m n (after_poll n c)"
proof -
  have rest: "resting n (k_objects (tick 0 c))"
    by (rule resting_tick [OF assms])
  then show get: "\<exists>e. get_pod n c = (Inl e, tick 0 c)"
    by (intro get_pod_absent) (simp add: resting_def)
  then show "resting n (k_objects (after_poll n c))" "stepping lib m n (after_poll n c)"
    using rest assms by (auto simp: after_poll_def intro: resting_tick)
qed

lemma wait_pod_loop_resting:
  "stepping lib m n c \<Longrightarrow> resting n (k_objects c) \<Longrightarrow> isl (fst (wait_pod_loop lib m n s c))"
proof (induction lib m n s c rule: wait_pod_loop.induct)
  case (1 lib m n s c)
  obtain e where get: "get_pod n c = (Inl e, tick 0 c)"
    using resting_poll(1) [OF 1(3,4)] by blast
  show ?case
    using "1.IH"(1) [OF refl] resting_poll(2,3) [OF 1(3,4)]
    by (subst wait_pod_loop.simps) (auto simp: get Let_def)
qed

text \<open>
  Once a sandbox of the Kubernetes backend has stopped for good (its resource says Stopped and
  its pod is gone), starting it fails: whatever steps the operator, the nodes and other sandboxes
  take meanwhile, and whatever single calls fail, nobody creates the pod for which the start waits.
\<close>

theorem k8s_start_after_stop_fails:
  assumes "stepping lib m (sandbox_resource_name i) c"
    and "resting (sandbox_resource_name i) (k_objects c)"
  shows "isl (fst (k8s_start lib m i c))"
  using wait_pod_loop_resting [OF assms, of "k_now c"]
  by (cases "wait_pod_loop lib m (sandbox_resource_name i) (k_now c) c")
    (auto simp: k8s_start_def Let_def bindE_def wait_for_pod_ready_def isl_def)

section \<open>What the operator does on a cluster_calm cluster\<close>

definition operate :: "kube_lib \<Rightarrow> KubernetesManager \<Rightarrow> string \<Rightarrow> cluster \<Rightarrow> cluster" where
  "operate lib m n c =
     (case map_of (o_crds (k_objects c)) n of Some x \<Rightarrow> snd (reconcile lib m x c) | None \<Rightarrow> c)"

definition pod_gone :: "string \<Rightarrow> cluster \<Rightarrow> cluster" where
  "pod_gone n c = c\<lparr>k_objects := (k_objects c)\<lparr>o_pods := AList.delete n (o_pods (k_objects c))\<rparr>\<rparr>"

lemma cluster_calm_pod_gone [simp]: "cluster_calm (pod_gone n c) = cluster_calm c"
  by (simp add: pod_gone_def)

lemma wpE_E: "wpE p Q E c \<Longrightarrow> (\<And>e v. \<not> E e v) \<Longrightarrow> \<exists>a c'. p c = (Inr a, c') \<and> Q a c'"
  by (auto simp: wpE_def split: prod.splits sum.splits)

lemmas cluster_calm_calls =
  get_pod_def create_pod_def delete_pod_def create_service_def delete_service_def
  patch_crd_status_def create_crd_def get_crd_def

lemma wpE_ret_all: "wpE (ret x) Q E = Q x"
  by (simp add: fun_eq_iff wpE_ret)

lemma wpE_create_crd:
  "wpE (create_crd x) Q E c =
     wpE (kube_call (\<lambda>ob. if map_of (o_crds ob) (crd_name x) \<noteq> None then (conflict (crd_name x), ob)
       else (Inr (), ob\<lparr>o_crds := o_crds ob @ [(crd_name x, x\<lparr>crd_uid := Some (k_uids c (k_ticks c))\<rparr>)]\<rparr>))) Q E c"
  by (simp add: wpE_def create_crd_def)

lemma wpE_k8s_create:
  "wpE (k8s_create lib m (Some u) config) Q E c =
     wpE (create_crd \<lparr>crd_name = sandbox_resource_name (kl_uuid_text lib u), crd_uid = None,
         crd_spec = build_sandbox_spec m (kl_uuid_text lib u) config, crd_status = None\<rparr>)
       (\<lambda>_. Q (kl_uuid_text lib u)) (\<lambda>e. E (map_kube_error lib ''create_crd'' e)) c"
proof -
  have "wpE (k8s_create lib m (Some u) config) Q E c =
      wpE (bindE (map_err (map_kube_error lib ''create_crd'')
        (create_crd \<lparr>crd_name = sandbox_resource_name (kl_uuid_text lib u), crd_uid = None,
         crd_spec = build_sandbox_spec m (kl_uuid_text lib u) config, crd_status = None\<rparr>))
        (\<lambda>_. ret (kl_uuid_text lib u))) Q E c"
    by (simp add: wpE_def k8s_create_def Let_def)
  then show ?thesis
    by (simp add: wpE_bindE wpE_map_err wpE_ret_all)
qed

lemma map_of_snoc: "map_of xs k = None \<Longrightarrow> map_of (xs @ [(k, v)]) = (map_of xs)(k \<mapsto> v)"
  by (auto simp: map_add_def fun_eq_iff split: option.splits)

lemma operator_sees_pod:
  assumes "cluster_calm c" and x: "map_of (o_crds (k_objects c)) n = Some x" "crd_name x = n"
      "sandbox_resource_name (spec_sandbox_id (crd_spec x)) = n"
    and p: "map_of (o_pods (k_objects c)) n = Some p"
  shows "cluster_calm (operate lib m n c) \<and>
    k_objects (operate lib m n c) = (k_objects c)\<lparr>o_crds := AList.update n (x\<lparr>crd_status :=
      Some (sandbox_status n (pod_phase p) (pd_node_name (pod_spec p)) (Option.bind (pod_status p) pst_pod_ip))\<rparr>)
      (o_crds (k_objects c))\<rparr>"
proof -
  have "wpE (reconcile lib m x) (\<lambda>_ v. cluster_calm v \<and> k_objects v = (k_objects c)\<lparr>o_crds := AList.update n (x\<lparr>crd_status :=
      Some (sandbox_status n (pod_phase p) (pd_node_name (pod_spec p)) (Option.bind (pod_status p) pst_pod_ip))\<rparr>)
      (o_crds (k_objects c))\<rparr>) (\<lambda>_ _. False) c"
    using assms by (simp add: reconcile_def update_crd_status_def cluster_calm_calls wp wpE_kube_call_calm)
  from wpE_E [OF this] show ?thesis
    by (auto simp: operate_def x)
qed

lemma operator_creates:
  assumes "cluster_calm c" and x: "map_of (o_crds (k_objects c)) n = Some x" "crd_name x = n" "crd_uid x = Some u"
      "sandbox_resource_name (spec_sandbox_id (crd_spec x)) = n"
    and p: "map_of (o_pods (k_objects c)) n = None"
    and phase: "\<not> phase_in x [''Stopped'', ''Succeeded'', ''Failed'']"
  shows "cluster_calm (operate lib m n c) \<and>
    o_crds (k_objects (operate lib m n c)) = o_crds (k_objects c) \<and>
    map_of (o_pods (k_objects (operate lib m n c))) =
      (map_of (o_pods (k_objects c)))(n \<mapsto> build_pod (kl_toleration lib) m n u (crd_spec x)) \<and>
    map_of (o_services (k_objects (operate lib m n c))) (sandbox_service_name (spec_sandbox_id (crd_spec x))) \<noteq> None"
proof -
  let ?pod = "build_pod (kl_toleration lib) m n u (crd_spec x)"
  have pod: "pod_name ?pod = n" by (simp add: build_pod_def)
  have sv: "sv_name (build_service m n u (crd_spec x)) = sandbox_service_name (spec_sandbox_id (crd_spec x))"
    by (simp add: build_service_def)
  have "wpE (create_resources_from_crd lib m x) (\<lambda>_ v. cluster_calm v \<and> o_crds (k_objects v) = o_crds (k_objects c) \<and>
      map_of (o_pods (k_objects v)) = (map_of (o_pods (k_objects c)))(n \<mapsto> ?pod) \<and>
      map_of (o_services (k_objects v)) (sandbox_service_name (spec_sandbox_id (crd_spec x))) \<noteq> None) (\<lambda>_ _. False) d"
    if "cluster_calm d" "k_objects d = k_objects c" for d
    using that p x pod sv
    by (simp add: create_resources_from_crd_def skip_conflict_def cluster_calm_calls wp wpE_kube_call_calm map_of_snoc conflict_def
      del: map_of_append)
  note create = this
  have "wpE (reconcile lib m x) (\<lambda>_ v. cluster_calm v \<and> o_crds (k_objects v) = o_crds (k_objects c) \<and>
      map_of (o_pods (k_objects v)) = (map_of (o_pods (k_objects c)))(n \<mapsto> ?pod) \<and>
      map_of (o_services (k_objects v)) (sandbox_service_name (spec_sandbox_id (crd_spec x))) \<noteq> None) (\<lambda>_ _. False) c"
    using assms create [of "(tick 0 c)\<lparr>k_objects := k_objects c\<rparr>"]
    by (simp add: reconcile_def get_pod_def wp wpE_ret_all wpE_kube_call_calm not_found_def)
  from wpE_E [OF this] show ?thesis
    by (auto simp: operate_def x)
qed

text \<open>A stop on a cluster_calm cluster: the resource says Stopped, and the pod is ending.\<close>

lemma k8s_stop_calm:
  assumes "cluster_calm c" and x: "map_of (o_crds (k_objects c)) n = Some x"
    and p: "map_of (o_pods (k_objects c)) n = Some p" and n: "n = sandbox_resource_name i"
  obtains c' where "k8s_stop lib i c = (Inr (), c')" "cluster_calm c'"
    "o_crds (k_objects c') = AList.update n (x\<lparr>crd_status := Some (sandbox_status n ''Stopped'' None None)\<rparr>)
       (o_crds (k_objects c))"
    "o_pods (k_objects c') = AList.update n (p\<lparr>pod_terminating := True\<rparr>) (o_pods (k_objects c))"
proof -
  have "wpE (k8s_stop lib i) (\<lambda>_ c'. cluster_calm c' \<and>
      o_crds (k_objects c') = AList.update n (x\<lparr>crd_status := Some (sandbox_status n ''Stopped'' None None)\<rparr>)
        (o_crds (k_objects c)) \<and>
      o_pods (k_objects c') = AList.update n (p\<lparr>pod_terminating := True\<rparr>) (o_pods (k_objects c))) (\<lambda>_ _. False) c"
    using assms by (simp add: k8s_stop_def update_status_def cluster_calm_calls wp wpE_kube_call_calm not_found_def)
  from wpE_E [OF this] show thesis
    by (auto intro: that)
qed

text \<open>If the pod ends before the operator looks again, the sandbox rests.\<close>

lemma k8s_stop_rests:
  assumes "cluster_calm c" "crds_named (k_objects c)" "map_of (o_crds (k_objects c)) n = Some x"
    "map_of (o_pods (k_objects c)) n = Some p" "n = sandbox_resource_name i"
  shows "resting n (k_objects (pod_gone n (snd (k8s_stop lib i c))))"
proof -
  obtain c1 where "k8s_stop lib i c = (Inr (), c1)" and
    "o_crds (k_objects c1) = AList.update n (x\<lparr>crd_status := Some (sandbox_status n ''Stopped'' None None)\<rparr>)
       (o_crds (k_objects c))"
    using k8s_stop_calm [OF assms(1,3,4,5)] by metis
  then show ?thesis
    using crds_named_status [OF assms(2,3)]
    by (simp add: resting_def pod_gone_def delete_conv' AList.update_conv' crds_named_def phase_in_def sandbox_status_def)
qed

text \<open>
  C34. A stop of the Kubernetes backend is undone by the operator when it handles the resource
  while the pod is still ending: it writes the phase of the ending pod over the phase Stopped, and
  once the pod is gone it takes that for an accident and creates the pod anew.
\<close>

theorem k8s_stop_undone:
  assumes "cluster_calm c" and "crds_named (k_objects c)"
    and "map_of (o_crds (k_objects c)) (sandbox_resource_name i) = Some x" and "crd_uid x = Some u"
    and "map_of (o_pods (k_objects c)) (sandbox_resource_name i) = Some p"
    and "pod_phase p \<notin> {''Stopped'', ''Succeeded'', ''Failed''}"
  shows "let n = sandbox_resource_name i;
             c1 = snd (k8s_stop lib i c);
             c2 = operate lib m n (pod_gone n (operate lib m n c1))
         in fst (k8s_stop lib i c) = Inr () \<and>
            map_of (o_pods (k_objects c2)) n = Some (build_pod (kl_toleration lib) m n u (crd_spec x))"
proof -
  define n where "n = sandbox_resource_name i"
  obtain c1 where stop: "k8s_stop lib i c = (Inr (), c1)" and c1: "cluster_calm c1"
    "o_crds (k_objects c1) = AList.update n (x\<lparr>crd_status := Some (sandbox_status n ''Stopped'' None None)\<rparr>)
       (o_crds (k_objects c))"
    "o_pods (k_objects c1) = AList.update n (p\<lparr>pod_terminating := True\<rparr>) (o_pods (k_objects c))"
    using k8s_stop_calm [of c n x p i] assms n_def by metis
  have named: "crd_name x = n" "sandbox_resource_name (spec_sandbox_id (crd_spec x)) = n"
    using crds_namedD [OF assms(2,3)] n_def by auto
  let ?c2 = "pod_gone n (operate lib m n c1)"
  let ?y = "x\<lparr>crd_status := Some (sandbox_status n (pod_phase p) (pd_node_name (pod_spec p))
    (Option.bind (pod_status p) pst_pod_ip))\<rparr>"
  have op1: "cluster_calm (operate lib m n c1)" "map_of (o_crds (k_objects (operate lib m n c1))) n = Some ?y"
    using operator_sees_pod [OF c1(1), of n "x\<lparr>crd_status := Some (sandbox_status n ''Stopped'' None None)\<rparr>"
      "p\<lparr>pod_terminating := True\<rparr>" lib m] named
    by (simp_all add: c1 AList.update_conv' pod_phase_def)
  have "map_of (o_pods (k_objects (operate lib m n ?c2))) n = Some (build_pod (kl_toleration lib) m n u (crd_spec ?y))"
    using operator_creates [of ?c2 n ?y u lib m] op1 named assms(4,6)
    by (simp add: pod_gone_def delete_conv' phase_in_def sandbox_status_def)
  then show ?thesis
    by (simp add: stop n_def [symmetric])
qed


section \<open>Objects that fit together\<close>

definition listed :: "'a list option \<Rightarrow> 'a list" where
  "listed xs = (case xs of Some ys \<Rightarrow> ys | None \<Rightarrow> [])"

definition mounts_declared :: "PodSpec \<Rightarrow> bool" where
  "mounts_declared ps \<longleftrightarrow>
     list_all (\<lambda>mt. mt_name mt \<in> set (map fst (listed (pd_volumes ps)))) (listed (ct_volume_mounts (pd_container ps)))"

lemma mounts_declared_with_volumes:
  "ct_volume_mounts (pd_container ps) = None \<Longrightarrow> mounts_declared (with_volumes vols ps)"
  by (force simp: with_volumes_def mounts_declared_def listed_def list_all_iff split: list.splits)

lemma mounts_declared_build_pod_spec: "mounts_declared (build_pod_spec tol m spec)"
proof -
  have "mounts_declared (with_volumes (spec_volumes spec) ps)" if "pd_container ps = build_container m spec" for ps
    by (rule mounts_declared_with_volumes) (simp add: that build_container_def)
  then show ?thesis
    by (simp add: build_pod_spec_def Let_def mounts_declared_def with_gpu_def)
qed

lemma with_volumes_resources [simp]:
  "ct_resources (pd_container (with_volumes vols ps)) = ct_resources (pd_container ps)"
  by (simp add: with_volumes_def split: list.split)

lemma build_container_cover:
  "map_of (rr_requests (ct_resources (build_container m spec))) ''cpu'' \<noteq> None"
  "map_of (rr_requests (ct_resources (build_container m spec))) ''memory'' \<noteq> None"
  "map_of (rr_limits (ct_resources (build_container m spec))) ''cpu'' \<noteq> None"
  "map_of (rr_limits (ct_resources (build_container m spec))) ''memory'' \<noteq> None"
  by (simp_all add: build_container_def build_resource_requirements_def Let_def)

lemma build_resources_cover:
  assumes "r = ''cpu'' \<or> r = ''memory''"
  shows "map_of (rr_requests (ct_resources (pd_container (build_pod_spec tol m spec)))) r \<noteq> None"
    and "map_of (rr_limits (ct_resources (pd_container (build_pod_spec tol m spec)))) r \<noteq> None"
  using assms build_container_cover [of m spec]
  by (auto simp del: not_None_eq simp add: build_pod_spec_def Let_def with_gpu_def)

text \<open>
  What is built for a sandbox fits together: the service selects exactly by labels that the
  pod carries, both are owned by the custom resource, the pod has the name under which the backend
  looks for it, tool calls go to the service's name, each mount of the container names a volume of
  the pod, and the container always has requests and limits for processor and memory.
\<close>

theorem k8s_objects_fit:
  "let spec = build_sandbox_spec m i config;
       name = sandbox_resource_name i;
       pod = build_pod tol m name uid spec;
       service = build_service m name uid spec;
       resources = ct_resources (pd_container (pod_spec pod))
   in list_all (\<lambda>(k, v). map_of (pod_labels pod) k = Some v) (sv_selector service) \<and>
      pod_owners pod = [owner_reference name uid] \<and> sv_owners service = [owner_reference name uid] \<and>
      pod_name pod = sandbox_resource_name (spec_sandbox_id spec) \<and>
      service_host m i = sv_name service @ ''.'' @ sv_namespace service @ ''.svc.cluster.local:'' \<and>
      mounts_declared (pod_spec pod) \<and>
      list_all (\<lambda>r. map_of (rr_requests resources) r \<noteq> None \<and> map_of (rr_limits resources) r \<noteq> None)
        [''cpu'', ''memory'']"
proof -
  let ?spec = "build_sandbox_spec m i config"
  have "spec_sandbox_id ?spec = i" "spec_labels ?spec = []"
    by (simp_all add: build_sandbox_spec_def)
  then show ?thesis
    using build_resources_cover [of _ tol m ?spec]
    by (simp add: Let_def build_pod_def build_service_def mounts_declared_build_pod_spec service_host_def
      hm_extend_def pod_base_labels_def label_managed_by_def label_sandbox_id_def label_component_def del: not_None_eq)
qed

section \<open>Witnesses\<close>

definition demo_lib :: kube_lib where
  "demo_lib =
     \<lparr>kl_toleration = (\<lambda>_. None), kl_from_str = (\<lambda>_. Inl ''no value''), kl_error_text = (\<lambda>_. ''failed''),
      kl_debug = (\<lambda>_. []), kl_percent = (\<lambda>_ _. 0), kl_status_text = show_nat, kl_uuid_text = (\<lambda>u. show_nat (unat u))\<rparr>"

definition demo_manager :: KubernetesManager where
  "demo_manager = kubernetes_manager_new config_default"

definition demo_spec :: "string \<Rightarrow> SandboxSpec" where
  "demo_spec i =
     \<lparr>spec_image = ''alpine'', spec_env = [], spec_ports = [], spec_volumes = [], spec_resources = None,
      spec_command = None, spec_args = None, spec_labels = [], spec_gpu = False, spec_inactivity_timeout_minutes = None,
      spec_sandbox_id = i, spec_api_key_hash = None, spec_has_dsb_features = False\<rparr>"

definition demo_crd :: "SandboxStatus option \<Rightarrow> SandboxCrd" where
  "demo_crd st =
     \<lparr>crd_name = sandbox_resource_name ''7'', crd_uid = Some ''u'', crd_spec = demo_spec ''7'', crd_status = st\<rparr>"

definition demo_pod :: Pod where
  "demo_pod = (build_pod (kl_toleration demo_lib) demo_manager (sandbox_resource_name ''7'') ''u'' (demo_spec ''7''))
     \<lparr>pod_status := Some \<lparr>pst_phase = Some ''Running'', pst_pod_ip = None, pst_conditions = None, pst_containers = None\<rparr>\<rparr>"

definition demo_cluster :: "objects \<Rightarrow> cluster" where
  "demo_cluster ob =
     \<lparr>k_objects = ob, k_now = 0, k_ticks = 0, k_env = (\<lambda>_ ob. ob), k_latency = (\<lambda>_. 0), k_fail = (\<lambda>_. None),
      k_uids = (\<lambda>_. ''u''), k_uuids = (\<lambda>_. 7), k_utc = (\<lambda>_. 0), k_exec = (\<lambda>_ _ _ _. ExecRefused ''no''),
      k_http_client = None, k_http = (\<lambda>_ _ _ _. HttpFailed ''no'')\<rparr>"

lemma demo_cluster_calm: "cluster_calm (demo_cluster ob)"
  by (simp add: cluster_calm_def still_def demo_cluster_def)

lemma demo_cluster_stepping: "stepping lib m n (demo_cluster ob)"
  by (simp add: stepping_def demo_cluster_def)

lemma demo_crds_named: "o_crds ob = [(sandbox_resource_name ''7'', demo_crd st)] \<Longrightarrow> crds_named ob"
  by (simp add: crds_named_def demo_crd_def demo_spec_def)

definition stopped_objects :: objects where
  "stopped_objects =
     \<lparr>o_crds = [(sandbox_resource_name ''7'', demo_crd (Some (sandbox_status (sandbox_resource_name ''7'') ''Stopped'' None None)))],
      o_pods = [], o_services = [], o_pvcs = []\<rparr>"

theorem k8s_start_after_stop_fails_witness:
  "isl (fst (k8s_start demo_lib demo_manager ''7'' (demo_cluster stopped_objects)))"
proof (rule k8s_start_after_stop_fails [OF demo_cluster_stepping])
  show "resting (sandbox_resource_name ''7'') (k_objects (demo_cluster stopped_objects))"
    using demo_crds_named [of stopped_objects]
    by (simp add: resting_def demo_cluster_def stopped_objects_def demo_crd_def phase_in_def sandbox_status_def)
qed

definition running_objects :: objects where
  "running_objects =
     \<lparr>o_crds = [(sandbox_resource_name ''7'', demo_crd None)], o_pods = [(sandbox_resource_name ''7'', demo_pod)],
      o_services = [], o_pvcs = []\<rparr>"

theorem k8s_stop_undone_witness:
  "let n = sandbox_resource_name ''7'';
       c1 = snd (k8s_stop demo_lib ''7'' (demo_cluster running_objects));
       c2 = operate demo_lib demo_manager n (pod_gone n (operate demo_lib demo_manager n c1))
   in fst (k8s_stop demo_lib ''7'' (demo_cluster running_objects)) = Inr () \<and>
      map_of (o_pods (k_objects c2)) n = Some (build_pod (kl_toleration demo_lib) demo_manager n ''u'' (crd_spec (demo_crd None)))"
proof (rule k8s_stop_undone [OF demo_cluster_calm])
  show "crds_named (k_objects (demo_cluster running_objects))"
    by (rule demo_crds_named [of _ None]) (simp add: demo_cluster_def running_objects_def)
  show "map_of (o_crds (k_objects (demo_cluster running_objects))) (sandbox_resource_name ''7'') = Some (demo_crd None)"
    "map_of (o_pods (k_objects (demo_cluster running_objects))) (sandbox_resource_name ''7'') = Some demo_pod"
    by (simp_all add: demo_cluster_def running_objects_def)
  show "crd_uid (demo_crd None) = Some ''u''" "pod_phase demo_pod \<notin> {''Stopped'', ''Succeeded'', ''Failed''}"
    by (simp_all add: demo_crd_def demo_pod_def pod_phase_def)
qed


end
