(* ===== verification/Docker.thy ===== *)
theory Docker
  imports Config FileSystem Service
begin

text \<open>
  The Docker backend (\<open>src/src/docker/manager.rs\<close>, \<open>src/src/docker/manager/\<close> and
  \<open>src/src/docker/docker_trait.rs\<close>). The Docker client library and the daemon behind it are a
  parameter (\<open>docker_api\<close>): one program per call the code makes, on a state of which nothing is
  assumed here. A client error is its text, the only thing of it that the code looks at. The
  state of the process is the cache of container addresses; the host has its file system, its
  environment and a clock.
\<close>

section \<open>What is sent to the daemon and what comes back\<close>

record HostConfig =
  hc_port_bindings :: "(string \<times> (string \<times> string) list) list"
  hc_memory :: "i64 option"
  hc_cpu_quota :: "i64 option"
  hc_cpu_period :: "i64 option"
  hc_cpu_shares :: "i64 option"
  hc_pids_limit :: "i64 option"
  hc_binds :: "string list option"
  hc_ulimits :: "Ulimit list option"

record ContainerCreateBody =
  cb_image :: string
  cb_env :: "string list option"
  cb_cmd :: "string list option"
  cb_entrypoint :: "string list option"
  cb_host_config :: HostConfig
  cb_exposed_ports :: "string list option"

record InspectState =
  is_running :: "bool option"
  is_exit_code :: "i64 option"
  is_oom_killed :: "bool option"

record ContainerInspect =
  in_state :: "InspectState option"
  in_working_dir :: "string option"
  in_networks :: "(string \<times> string option) list option"

record SummaryPort =
  spt_private :: u16
  spt_public :: "u16 option"

record ContainerSummary =
  cy_id :: "string option"
  cy_names :: "string list option"
  cy_image :: "string option"
  cy_state :: "string option"
  cy_status :: "string option"
  cy_created :: "i64 option"
  cy_ports :: "SummaryPort list option"
  cy_labels :: "(string \<times> string) list option"

datatype log_output = StdOut string | StdErr string | StdIn string | Console string

text \<open>A command that was started: how writing its input went, what it printed, how long it took.\<close>

record exec_session =
  xs_write :: "string option"
  xs_shutdown :: "string option"
  xs_output :: "(string + log_output) list"
  xs_nanos :: int

datatype start_exec_results = ExAttached exec_session | ExDetached

record PullProgress =
  pp_status :: "string option"
  pp_error :: "string option"
  pp_current :: "i64 option"
  pp_total :: "i64 option"

record CpuStats =
  cpu_total_usage :: "u64 option"
  cpu_system_usage :: "u64 option"
  cpu_online :: "u32 option"

record BlkioEntry =
  bl_op :: "string option"
  bl_value :: "u64 option"

record StatsResponse =
  sr_cpu :: "CpuStats option"
  sr_precpu :: "CpuStats option"
  sr_memory :: "(u64 option \<times> u64 option) option"
  sr_networks :: "(u64 option \<times> u64 option) list option"
  sr_blkio :: "BlkioEntry list option"

record ImageInspect =
  ii_id :: "string option"
  ii_repo_tags :: "string list option"
  ii_size :: "i64 option"
  ii_virtual_size :: "i64 option"
  ii_created :: "string option"
  ii_architecture :: "string option"
  ii_os :: "string option"
  ii_labels :: "(string \<times> string) list option"
  ii_env :: "string list option"

text \<open>A request over HTTP: when its answer arrived, and the status and body, or the error.\<close>

record http_exchange =
  hx_nanos :: int
  hx_result :: "string + nat \<times> (string + string)"

type_synonym ('d, 'a) daemon = "('d, string, 'a) prog"

record 'd docker_api =
  da_create_container :: "string option \<Rightarrow> ContainerCreateBody \<Rightarrow> ('d, string) daemon"
  da_connect_network :: "string \<Rightarrow> string \<Rightarrow> string list \<Rightarrow> ('d, unit) daemon"
  da_start_container :: "string \<Rightarrow> ('d, unit) daemon"
  da_stop_container :: "string \<Rightarrow> nat \<Rightarrow> ('d, unit) daemon"
  da_remove_container :: "string \<Rightarrow> ('d, unit) daemon"
  da_inspect_container :: "string \<Rightarrow> ('d, ContainerInspect) daemon"
  da_list_containers :: "bool \<Rightarrow> (string \<times> string list) list option \<Rightarrow> ('d, ContainerSummary list) daemon"
  da_create_exec :: "string \<Rightarrow> string list \<Rightarrow> bool \<Rightarrow> ('d, string) daemon"
  da_start_exec :: "string \<Rightarrow> string option \<Rightarrow> ('d, start_exec_results) daemon"
  da_inspect_exec :: "string \<Rightarrow> ('d, i64 option) daemon"
  da_create_image :: "string \<Rightarrow> 'd \<Rightarrow> (string + PullProgress) list \<times> 'd"
  da_inspect_image :: "string \<Rightarrow> ('d, ImageInspect) daemon"
  da_remove_image :: "string \<Rightarrow> ('d, unit) daemon"
  da_stats :: "string \<Rightarrow> 'd \<Rightarrow> (string + StatsResponse) option \<times> 'd"
  da_remove_volume :: "string \<Rightarrow> ('d, unit) daemon"
  da_upload :: "string \<Rightarrow> string \<Rightarrow> string \<Rightarrow> ('d, unit) daemon"
  da_http :: "string \<Rightarrow> string \<Rightarrow> json option \<Rightarrow> 'd \<Rightarrow> http_exchange \<times> 'd"

text \<open>Library code: decoding, texts, and arithmetic on floating-point numbers.\<close>

record docker_lib =
  dl_from_str :: "string \<Rightarrow> string + json"
  dl_parse_label :: "string \<Rightarrow> ImageFeatureLabel option"
  dl_status_text :: "nat \<Rightarrow> string"
  dl_cpu_percent :: "u64 \<Rightarrow> u64 \<Rightarrow> u64 \<Rightarrow> u64 \<Rightarrow> u32 \<Rightarrow> f64"
  dl_percent :: "u64 \<Rightarrow> u64 \<Rightarrow> f64"
  dl_rfc3339 :: "string \<Rightarrow> i64 option"
  dl_uuid_text :: "uuid \<Rightarrow> string"

record 'd docker_world =
  dw_daemon :: 'd
  dw_ip_cache :: "(string \<times> string) list"
  dw_files :: file_system
  dw_env :: "string \<Rightarrow> string option"
  dw_utc :: time

record 'd DockerManager =
  dm_docker :: "'d docker_api"
  dm_config :: Config
  dm_lib :: docker_lib

definition on_daemon :: "('d, 'a) daemon \<Rightarrow> ('d docker_world, string, 'a) prog" where
  "on_daemon p w = (case p (dw_daemon w) of (r, d) \<Rightarrow> (r, w\<lparr>dw_daemon := d\<rparr>))"

section \<open>Errors\<close>

datatype DockerManagerError =
    DM_Api string
  | DM_ContainerNotFound string
  | DM_ImageNotFound string
  | DM_ExecFailed string
  | DM_Volume string
  | DM_Io string
  | DM_Bollard string
  | DM_ToolProxy string string
  | DM_InvalidConfig string
  | DM_Http string
  | DM_Timeout string

datatype DockerError =
    DE_Api string
  | DE_ToolProxy string ErrorCode
  | DE_ContainerNotFound string
  | DE_ImageNotFound string
  | DE_ExecFailed string
  | DE_Volume string
  | DE_Io string

fun docker_error_code :: "DockerError \<Rightarrow> ErrorCode" where
  "docker_error_code (DE_Api m) = EC_ServiceUnavailable"
| "docker_error_code (DE_ToolProxy m code) = code"
| "docker_error_code (DE_ContainerNotFound m) = EC_BackendContainerNotFound"
| "docker_error_code (DE_ImageNotFound m) = EC_BackendImagePullFailed"
| "docker_error_code (DE_ExecFailed m) = EC_BackendExecFailed"
| "docker_error_code (DE_Volume m) = EC_BackendVolumeError"
| "docker_error_code (DE_Io m) = EC_InternalError"

fun docker_error_of :: "DockerManagerError \<Rightarrow> DockerError" where
  "docker_error_of (DM_Api s) = DE_Api s"
| "docker_error_of (DM_ContainerNotFound s) = DE_ContainerNotFound s"
| "docker_error_of (DM_ImageNotFound s) = DE_ImageNotFound s"
| "docker_error_of (DM_ExecFailed s) = DE_ExecFailed s"
| "docker_error_of (DM_Volume s) = DE_Volume s"
| "docker_error_of (DM_Io e) = DE_Io e"
| "docker_error_of (DM_Bollard e) = DE_Api e"
| "docker_error_of (DM_ToolProxy m oper) = DE_ToolProxy m EC_ServiceUnavailable"
| "docker_error_of (DM_InvalidConfig s) = DE_Api s"
| "docker_error_of (DM_Http s) = DE_Api s"
| "docker_error_of (DM_Timeout s) = DE_Api s"

fun manager_error_of_docker :: "DockerError \<Rightarrow> ManagerError" where
  "manager_error_of_docker (DE_Api s) = ME_Api s"
| "manager_error_of_docker (DE_ContainerNotFound s) = ME_NotFound (''Container: '' @ s)"
| "manager_error_of_docker (DE_ImageNotFound s) = ME_NotFound (''Image: '' @ s)"
| "manager_error_of_docker (DE_ExecFailed s) = ME_OperationFailed (''Exec: '' @ s)"
| "manager_error_of_docker (DE_Volume s) = ME_OperationFailed (''Volume: '' @ s)"
| "manager_error_of_docker (DE_Io e) = ME_Io e"
| "manager_error_of_docker (DE_ToolProxy m code) = ME_OperationFailed (''Tool proxy: '' @ m)"

fun manager_error_of :: "DockerManagerError \<Rightarrow> ManagerError" where
  "manager_error_of (DM_Api s) = ME_Api s"
| "manager_error_of (DM_ContainerNotFound s) = ME_NotFound (''Container: '' @ s)"
| "manager_error_of (DM_ImageNotFound s) = ME_NotFound (''Image: '' @ s)"
| "manager_error_of (DM_ExecFailed s) = ME_OperationFailed (''Exec: '' @ s)"
| "manager_error_of (DM_Volume s) = ME_OperationFailed (''Volume: '' @ s)"
| "manager_error_of (DM_Io e) = ME_Io e"
| "manager_error_of (DM_Bollard e) = ME_Api e"
| "manager_error_of (DM_ToolProxy m oper) = ME_OperationFailed (''Tool proxy '' @ oper @ '': '' @ m)"
| "manager_error_of (DM_InvalidConfig s) = ME_Api s"
| "manager_error_of (DM_Http s) = ME_Api s"
| "manager_error_of (DM_Timeout s) = ME_OperationFailed s"

type_synonym ('d, 'a) docker = "('d docker_world, DockerManagerError, 'a) prog"

definition bollard :: "('d, 'a) daemon \<Rightarrow> ('d, 'a) docker" where
  "bollard p = map_err DM_Bollard (on_daemon p)"

text \<open>
  Whether the text of an error says that the container is gone. Only the text is looked at, of
  which the name of the container is a part.
\<close>

definition mentions :: "string \<Rightarrow> string list \<Rightarrow> bool" where
  "mentions e pats = list_ex (str_contains (to_lowercase e)) pats"

definition gone_texts :: "string list" where
  "gone_texts = [''no such container'', ''not found'', ''404'']"

section \<open>Where the daemon is\<close>

datatype docker_connection = ConnUnix string | ConnHttp string | ConnLocalDefaults

text \<open>
  The mounted socket comes first, before the configured host. The prefixes of both web schemes
  are cut at seven characters.
\<close>

definition docker_target :: "file_system \<Rightarrow> (string \<Rightarrow> string option) \<Rightarrow> Config \<Rightarrow> docker_connection" where
  "docker_target fs env config =
     (if path_exists fs ''/var/run/docker.sock'' then ConnUnix ''/var/run/docker.sock''
      else (case (case dkc_host (conf_docker config) of Some h \<Rightarrow> Some h | None \<Rightarrow> env ''DOCKER_HOST'') of
          None \<Rightarrow> ConnLocalDefaults
        | Some host \<Rightarrow>
            if starts_with host ''unix://'' then
              (let socket_path = strip_all ''unix://'' host
               in if path_exists fs socket_path then ConnUnix socket_path else ConnLocalDefaults)
            else if starts_with host ''tcp://'' then ConnHttp (strip_all ''tcp://'' host)
            else if starts_with host ''http://'' \<or> starts_with host ''https://'' then ConnHttp (drop 7 host)
            else if path_exists fs host then ConnUnix host
            else ConnLocalDefaults))"

section \<open>Containers\<close>

definition expand_tilde :: "(string \<Rightarrow> string option) \<Rightarrow> string \<Rightarrow> string option \<Rightarrow> string" where
  "expand_tilde env path home_dir =
     (if starts_with path ''~/'' then
        (let home = (case home_dir of Some h \<Rightarrow> Some h
             | None \<Rightarrow> (case env ''HOME'' of Some h \<Rightarrow> Some h | None \<Rightarrow> env ''USERPROFILE''))
         in case home of Some h \<Rightarrow> h @ drop 1 path | None \<Rightarrow> path)
      else path)"

definition port_key :: "PortMapping \<Rightarrow> string" where
  "port_key pm = show_nat (unat (pm_container_port pm)) @ ''/'' @ (case pm_protocol pm of Tcp \<Rightarrow> ''tcp'' | Udp \<Rightarrow> ''udp'')"

definition port_bindings :: "PortMapping list \<Rightarrow> (string \<times> (string \<times> string) list) list" where
  "port_bindings pms =
     foldl (\<lambda>m pm. hm_insert m (port_key pm) [(''0.0.0.0'', show_nat (unat (pm_host_port pm)))]) [] pms"

definition exposed_ports :: "u16 list \<Rightarrow> string list" where
  "exposed_ports ports =
     foldl (\<lambda>ks p. push_new (push_new ks (show_nat (unat p) @ ''/tcp'')) (show_nat (unat p) @ ''/udp'')) [] ports"

fun bind_text :: "VolumeMount \<Rightarrow> string" where
  "bind_text (Bind host path ro) = host @ '':'' @ path @ (if ro then '':ro'' else [])"
| "bind_text (Named name path ro) = name @ '':'' @ path @ (if ro then '':ro'' else [])"

text \<open>
  The directory of published files is made on the host. Its mode and owner, which the code
  changes next and only logs when that fails, are not part of the model of files.
\<close>

definition public_bind :: "'d DockerManager \<Rightarrow> uuid option \<Rightarrow> ('d, string list) docker" where
  "public_bind m sandbox_id w =
     (case sandbox_id of
        None \<Rightarrow> (Inr [], w)
      | Some sid \<Rightarrow>
          (let st = conf_static_server (dm_config m);
               base = (case ssc_host_path st of Some h \<Rightarrow> h | None \<Rightarrow> ssc_base_path st);
               dir = expand_tilde (dw_env w) base (dkc_home_dir (conf_docker (dm_config m))) @ ''/'' @ dl_uuid_text (dm_lib m) sid
           in case create_dir_all (dw_files w) dir of
                (Inl _, fs) \<Rightarrow> (Inr [], w\<lparr>dw_files := fs\<rparr>)
              | (Inr _, fs) \<Rightarrow> (Inr [dir @ '':/public:rw,z''], w\<lparr>dw_files := fs\<rparr>)))"

definition some_unless_empty :: "'a list \<Rightarrow> 'a list option" where
  "some_unless_empty xs = (if xs = [] then None else Some xs)"

definition memory_bytes :: "u64 \<Rightarrow> i64" where
  "memory_bytes m = m * 1024 * 1024"

definition host_config :: "SandboxConfig \<Rightarrow> string list \<Rightarrow> HostConfig" where
  "host_config config binds =
     (let rl = cfg_resource_limits config
      in \<lparr>hc_port_bindings = port_bindings (cfg_port_mappings config),
          hc_memory = map_option memory_bytes (rl_memory_mb rl),
          hc_cpu_quota = rl_cpu_quota rl, hc_cpu_period = rl_cpu_period rl, hc_cpu_shares = rl_cpu_shares rl,
          hc_pids_limit = rl_pids_limit rl, hc_binds = some_unless_empty binds,
          hc_ulimits = some_unless_empty (case rl_ulimits rl of Some us \<Rightarrow> us | None \<Rightarrow> [])\<rparr>)"

definition container_env :: "'d DockerManager \<Rightarrow> SandboxConfig \<Rightarrow> string list" where
  "container_env m config =
     map (\<lambda>(k, v). k @ ''='' @ v) (hm_extend (dkc_proxy_env (conf_docker (dm_config m))) (cfg_environment config))"

definition has_features :: "SandboxConfig \<Rightarrow> bool" where
  "has_features config = (cfg_enable_all_features config \<or> cfg_features config \<noteq> [])"

definition create_body :: "'d DockerManager \<Rightarrow> SandboxConfig \<Rightarrow> string list \<Rightarrow> ContainerCreateBody" where
  "create_body m config public =
     \<lparr>cb_image = cfg_image config, cb_env = some_unless_empty (container_env m config),
      cb_cmd = (case cfg_command config of Some c \<Rightarrow> Some c
        | None \<Rightarrow> if has_features config then None else Some [''tail'', ''-f'', ''/dev/null'']),
      cb_entrypoint = (if has_features config then None else Some []),
      cb_host_config = host_config config (map bind_text (cfg_volumes config) @ public),
      cb_exposed_ports = some_unless_empty (exposed_ports (cfg_exposed_ports config))\<rparr>"

definition create_container :: "'d DockerManager \<Rightarrow> SandboxConfig \<Rightarrow> uuid option \<Rightarrow> ('d, string) docker" where
  "create_container m config sandbox_id =
     bindE (public_bind m sandbox_id) (\<lambda>public.
     bindE (bollard (da_create_container (dm_docker m) (cfg_name config) (create_body m config public))) (\<lambda>container_id.
     bindE (case dkc_network (conf_docker (dm_config m)) of
              None \<Rightarrow> ret ()
            | Some network \<Rightarrow>
                bindE (attempt (on_daemon (da_connect_network (dm_docker m) network container_id
                  [case cfg_name config of Some n \<Rightarrow> n | None \<Rightarrow> ''sandbox'']))) (\<lambda>_. ret ())) (\<lambda>_.
     ret container_id)))"

definition start_container :: "'d DockerManager \<Rightarrow> string \<Rightarrow> ('d, unit) docker" where
  "start_container m i = bollard (da_start_container (dm_docker m) i)"

definition stop_container :: "'d DockerManager \<Rightarrow> string \<Rightarrow> ('d, unit) docker" where
  "stop_container m i = bollard (da_stop_container (dm_docker m) i 10)"

definition verify_container_removed :: "'d DockerManager \<Rightarrow> string \<Rightarrow> ('d, bool) docker" where
  "verify_container_removed m i =
     bindE (attempt (on_daemon (da_inspect_container (dm_docker m) i))) (\<lambda>r. case r of
       Inr _ \<Rightarrow> ret False
     | Inl e \<Rightarrow> if mentions e [''not found'', ''no such container''] then ret True else throw (DM_Bollard e))"

definition evict :: "string \<Rightarrow> ('d, unit) docker" where
  "evict i = modify (\<lambda>w. w\<lparr>dw_ip_cache := AList.delete i (dw_ip_cache w)\<rparr>)"

definition max_retries :: nat where
  "max_retries = 3"

fun remove_attempts ::
  "'d DockerManager \<Rightarrow> string \<Rightarrow> nat \<Rightarrow> nat \<Rightarrow> DockerManagerError option \<Rightarrow> ('d, unit) docker" where
  "remove_attempts m i k 0 last_error =
     throw (case last_error of Some e \<Rightarrow> e
       | None \<Rightarrow> DM_Api (''Failed to remove container after '' @ show_nat max_retries @ '' attempts''))"
| "remove_attempts m i k (Suc left) last_error =
     bindE (attempt (on_daemon (da_remove_container (dm_docker m) i))) (\<lambda>r. case r of
       Inr _ \<Rightarrow>
         bindE (attempt (verify_container_removed m i)) (\<lambda>v. case v of
           Inr True \<Rightarrow> evict i
         | Inr False \<Rightarrow> remove_attempts m i (Suc k) left
             (Some (DM_Api (''Container removal reported success but container still exists (attempt '' @ show_nat k @ '')'')))
         | Inl e \<Rightarrow> evict i)
     | Inl e \<Rightarrow>
         if mentions e gone_texts then evict i
         else remove_attempts m i (Suc k) left (Some (DM_Bollard e)))"

definition remove_container :: "'d DockerManager \<Rightarrow> string \<Rightarrow> ('d, unit) docker" where
  "remove_container m i = remove_attempts m i 1 max_retries None"

definition list_containers ::
  "'d DockerManager \<Rightarrow> bool \<Rightarrow> (string \<times> string list) list option \<Rightarrow> ('d, ContainerSummary list) docker" where
  "list_containers m all filters = bollard (da_list_containers (dm_docker m) all filters)"

definition sandbox_info_of_summary :: "ContainerSummary \<Rightarrow> SandboxInfo" where
  "sandbox_info_of_summary cs =
     \<lparr>si_id = (case cy_id cs of Some i \<Rightarrow> i | None \<Rightarrow> []),
      si_name = Option.bind (cy_names cs) (\<lambda>ns. case ns of [] \<Rightarrow> None | n # _ \<Rightarrow> Some (trim_start_matches (CHR ''/'') n)),
      si_image = cy_image cs, si_state = cy_state cs, si_status = cy_status cs, si_created = cy_created cs,
      si_ports = List.map_filter (\<lambda>p. map_option (\<lambda>hp. (hp, spt_private p)) (spt_public p))
        (case cy_ports cs of Some ps \<Rightarrow> ps | None \<Rightarrow> []),
      si_labels = (case cy_labels cs of Some ls \<Rightarrow> ls | None \<Rightarrow> []), si_node_name = None, si_pod_ip = None\<rparr>"

section \<open>Commands\<close>

fun exec_text :: "(string + log_output) list \<Rightarrow> string \<Rightarrow> DockerManagerError + string" where
  "exec_text [] acc = Inr acc"
| "exec_text (Inl e # rest) acc = Inl (DM_Bollard e)"
| "exec_text (Inr (StdOut t) # rest) acc = exec_text rest (acc @ to_string_lossy t)"
| "exec_text (Inr (StdErr t) # rest) acc = exec_text rest (acc @ to_string_lossy t)"
| "exec_text (Inr (Console t) # rest) acc = exec_text rest (acc @ to_string_lossy t)"
| "exec_text (Inr (StdIn t) # rest) acc = exec_text rest acc"

definition exit_code_of :: "i64 option \<Rightarrow> i32" where
  "exit_code_of code =
     (case code of
        Some c \<Rightarrow> if - (2 ^ 31) \<le> sint c \<and> sint c < 2 ^ 31 then scast c else 0
      | None \<Rightarrow> 0)"

definition exec_operation ::
  "'d DockerManager \<Rightarrow> string \<Rightarrow> string option \<Rightarrow> start_exec_results \<Rightarrow> ('d, ExecCommandResult) docker" where
  "exec_operation m exec_id stdin result =
     (case result of
        ExDetached \<Rightarrow> ret \<lparr>ecr_output = ''Command started in detached mode'', ecr_exit_code = 0\<rparr>
      | ExAttached xs \<Rightarrow>
          bindE (case (stdin, xs_write xs, xs_shutdown xs) of
                   (Some _, Some e, _) \<Rightarrow> throw (DM_Io e)
                 | (Some _, None, Some e) \<Rightarrow> throw (DM_Io e)
                 | _ \<Rightarrow> ret ()) (\<lambda>_.
          case exec_text (xs_output xs) [] of
            Inl e \<Rightarrow> throw e
          | Inr full_output \<Rightarrow>
              bindE (bollard (da_inspect_exec (dm_docker m) exec_id)) (\<lambda>code.
              ret \<lparr>ecr_output = full_output, ecr_exit_code = exit_code_of code\<rparr>)))"

definition exec_duration :: "start_exec_results \<Rightarrow> int" where
  "exec_duration result = (case result of ExAttached xs \<Rightarrow> xs_nanos xs | ExDetached \<Rightarrow> 0)"

text \<open>A command that times out goes on running: nothing stops it.\<close>

definition exec_container_with_stdin_result ::
  "'d DockerManager \<Rightarrow> string \<Rightarrow> string list \<Rightarrow> string option \<Rightarrow> u64 option \<Rightarrow> ('d, ExecCommandResult) docker" where
  "exec_container_with_stdin_result m i command stdin timeout_secs =
     bindE (bollard (da_create_exec (dm_docker m) i command (stdin \<noteq> None))) (\<lambda>exec_id.
     bindE (bollard (da_start_exec (dm_docker m) exec_id stdin)) (\<lambda>result.
     case timeout_secs of
       Some secs \<Rightarrow>
         if int (unat secs) * nanos_per_sec < exec_duration result
         then throw (DM_Timeout (''Command timed out after '' @ show_nat (unat secs) @ '' seconds''))
         else exec_operation m exec_id stdin result
     | None \<Rightarrow> exec_operation m exec_id stdin result))"

definition exec_container_with_stdin ::
  "'d DockerManager \<Rightarrow> string \<Rightarrow> string list \<Rightarrow> string option \<Rightarrow> u64 option \<Rightarrow> ('d, string) docker" where
  "exec_container_with_stdin m i command stdin timeout_secs =
     bindE (exec_container_with_stdin_result m i command stdin timeout_secs) (\<lambda>r. ret (ecr_output r))"

definition exec_container :: "'d DockerManager \<Rightarrow> string \<Rightarrow> string list \<Rightarrow> u64 option \<Rightarrow> ('d, string) docker" where
  "exec_container m i command timeout_secs = exec_container_with_stdin m i command None timeout_secs"

section \<open>Tool calls over HTTP\<close>

definition upper_char :: "char \<Rightarrow> char" where
  "upper_char c = (let n = of_char c :: nat in if 97 \<le> n \<and> n \<le> 122 then char_of (n - 32) else c)"

definition to_uppercase :: "string \<Rightarrow> string" where
  "to_uppercase s = map upper_char s"

definition nonempty_ip :: "string option \<Rightarrow> string option" where
  "nonempty_ip ip = (case ip of Some a \<Rightarrow> if a = [] then None else Some a | None \<Rightarrow> None)"

text \<open>The address on the configured network, even if it is empty; otherwise on the first one listed.\<close>

definition container_ip :: "string option \<Rightarrow> ContainerInspect \<Rightarrow> string option" where
  "container_ip network inspect =
     (case in_networks inspect of
        None \<Rightarrow> None
      | Some nets \<Rightarrow>
          (case Option.bind network (map_of nets) of
             Some ip \<Rightarrow> nonempty_ip ip
           | None \<Rightarrow> (case nets of [] \<Rightarrow> None | (_, ip) # _ \<Rightarrow> nonempty_ip ip)))"

definition lookup_ip :: "'d DockerManager \<Rightarrow> string \<Rightarrow> ('d, string) docker" where
  "lookup_ip m i =
     bindE (gets (\<lambda>w. map_of (dw_ip_cache w) i)) (\<lambda>cached. case cached of
       Some ip \<Rightarrow> ret ip
     | None \<Rightarrow>
         bindE (map_err (\<lambda>e. DM_Api (''Failed to inspect container: '' @ e))
           (on_daemon (da_inspect_container (dm_docker m) i))) (\<lambda>inspect.
         bindE (ok_or (DM_Api ''Container has no IP address'')
           (container_ip (dkc_network (conf_docker (dm_config m))) inspect)) (\<lambda>ip.
         bindE (modify (\<lambda>w. w\<lparr>dw_ip_cache := AList.update i ip (dw_ip_cache w)\<rparr>)) (\<lambda>_.
         ret ip))))"

definition tool_proxy_error :: "docker_lib \<Rightarrow> string \<Rightarrow> nat \<Rightarrow> string \<Rightarrow> DockerManagerError" where
  "tool_proxy_error lib path status error_text =
     (let plain = DM_Api (''HTTP error '' @ dl_status_text lib status @ '': '' @ error_text)
      in case dl_from_str lib error_text of
           Inl _ \<Rightarrow> plain
         | Inr j \<Rightarrow>
             (case Option.bind (json_get j ''error_code'') json_as_str of
                None \<Rightarrow> plain
              | Some _ \<Rightarrow>
                  DM_ToolProxy
                    (case Option.bind (case json_get j ''detail'' of Some d \<Rightarrow> Some d | None \<Rightarrow> json_get j ''message'') json_as_str of
                       Some t \<Rightarrow> t | None \<Rightarrow> error_text)
                    path))"

definition http_timeout :: "u64 option \<Rightarrow> http_exchange \<Rightarrow> bool" where
  "http_timeout timeout_secs hx =
     (case timeout_secs of Some secs \<Rightarrow> int (unat secs) * nanos_per_sec < hx_nanos hx | None \<Rightarrow> False)"

definition http_answer :: "docker_lib \<Rightarrow> string \<Rightarrow> u64 option \<Rightarrow> http_exchange \<Rightarrow> DockerManagerError + json" where
  "http_answer lib path timeout_secs hx =
     (if http_timeout timeout_secs hx
      then Inl (DM_Timeout (''HTTP request timed out after '' @
        (case timeout_secs of Some secs \<Rightarrow> show_nat (unat secs) | None \<Rightarrow> []) @ '' seconds''))
      else (case hx_result hx of
          Inl e \<Rightarrow> Inl (DM_Http (''HTTP request failed: '' @ e))
        | Inr (status, body) \<Rightarrow>
            if \<not> (200 \<le> status \<and> status < 300)
            then Inl (tool_proxy_error lib path status (case body of Inr t \<Rightarrow> t | Inl _ \<Rightarrow> ''Unknown error''))
            else (case body of
                Inl e \<Rightarrow> Inl (DM_Api (''Failed to parse JSON response: '' @ e))
              | Inr t \<Rightarrow>
                  (case dl_from_str lib t of
                     Inl e \<Rightarrow> Inl (DM_Api (''Failed to parse JSON response: '' @ e))
                   | Inr v \<Rightarrow> Inr v))))"

definition send_http :: "'d DockerManager \<Rightarrow> string \<Rightarrow> string \<Rightarrow> json option \<Rightarrow> ('d, http_exchange) docker" where
  "send_http m meth url body w = (case da_http (dm_docker m) meth url body (dw_daemon w) of (hx, d) \<Rightarrow> (Inr hx, w\<lparr>dw_daemon := d\<rparr>))"

definition of_result :: "'e + 'a \<Rightarrow> ('w, 'e, 'a) prog" where
  "of_result r w = (r, w)"

definition exec_container_http ::
  "'d DockerManager \<Rightarrow> string \<Rightarrow> string \<Rightarrow> string \<Rightarrow> json option \<Rightarrow> u64 option \<Rightarrow> ('d, json) docker" where
  "exec_container_http m i path meth body timeout_secs =
     bindE (lookup_ip m i) (\<lambda>ip.
     let url = ''http://'' @ ip @ '':8080'' @ path;
         verb = to_uppercase meth
     in if verb \<notin> set [''GET'', ''POST'', ''PUT'', ''DELETE''] then throw (DM_Api (''Unsupported HTTP method: '' @ meth))
        else bindE (send_http m verb url body) (\<lambda>hx. of_result (http_answer (dm_lib m) path timeout_secs hx)))"

section \<open>Images\<close>

fun pull_steps ::
  "(string + PullProgress) list \<Rightarrow> (string \<times> u64 option \<times> u64 option) list \<Rightarrow>
   (string \<times> u64 option \<times> u64 option) list \<times> (DockerManagerError + unit)" where
  "pull_steps [] seen = (seen, Inr ())"
| "pull_steps (Inl e # rest) seen = (seen, Inl (DM_Bollard e))"
| "pull_steps (Inr p # rest) seen =
     (let seen' = seen @ [(case pp_status p of Some t \<Rightarrow> t | None \<Rightarrow> ''Pulling...'', pp_current p, pp_total p)]
      in case pp_error p of
           Some e \<Rightarrow> (seen', Inl (DM_ImageNotFound (''Failed to pull image: '' @ e)))
         | None \<Rightarrow> pull_steps rest seen')"

definition pull_image_with_progress ::
  "'d DockerManager \<Rightarrow> string \<Rightarrow> 'd docker_world \<Rightarrow>
   ((string \<times> u64 option \<times> u64 option) list \<times> (DockerManagerError + unit)) \<times> 'd docker_world" where
  "pull_image_with_progress m img w =
     (case da_create_image (dm_docker m) img (dw_daemon w) of (items, d) \<Rightarrow> (pull_steps items [], w\<lparr>dw_daemon := d\<rparr>))"

definition pull_image :: "'d DockerManager \<Rightarrow> string \<Rightarrow> ('d, unit) docker" where
  "pull_image m img w = (case pull_image_with_progress m img w of ((_, r), v) \<Rightarrow> (r, v))"

definition image_exists :: "'d DockerManager \<Rightarrow> string \<Rightarrow> ('d, bool) docker" where
  "image_exists m img =
     bindE (attempt (on_daemon (da_inspect_image (dm_docker m) img))) (\<lambda>r. case r of
       Inr _ \<Rightarrow> ret True
     | Inl e \<Rightarrow> if mentions e [''no such image'', ''not found''] then ret False else throw (DM_Bollard e))"

definition image_error :: "string \<Rightarrow> string \<Rightarrow> DockerError" where
  "image_error i e =
     (if str_contains e ''not found'' \<or> str_contains e ''No such image'' then DE_ImageNotFound i else DE_Api e)"

definition detect_features_from_labels :: "docker_lib \<Rightarrow> (string \<times> string) list option \<Rightarrow> string list" where
  "detect_features_from_labels lib labels =
     (case labels of
        None \<Rightarrow> []
      | Some ls \<Rightarrow>
          (let has = (\<lambda>f. map_of ls (''dsb.feature.'' @ f) \<noteq> None \<or> map_of ls (''com.dsb.feature.'' @ f) \<noteq> None)
           in (case Option.bind (map_of ls DSB_FEATURES_LABEL) (dl_parse_label lib) of
                 Some l \<Rightarrow> map fst (ifl_features l) | None \<Rightarrow> []) @
              filter has [''vnc'', ''browser'', ''desktop'']))"

definition inspect_image :: "'d DockerManager \<Rightarrow> string \<Rightarrow> ('d docker_world, DockerError, ImageDetails) prog" where
  "inspect_image m i =
     bindE (map_err (image_error i) (on_daemon (da_inspect_image (dm_docker m) i))) (\<lambda>img.
     ret \<lparr>img_id = (case ii_id img of Some x \<Rightarrow> x | None \<Rightarrow> []),
       img_repo_tags = (case ii_repo_tags img of Some x \<Rightarrow> x | None \<Rightarrow> []),
       img_size = (case ii_size img of Some x \<Rightarrow> x | None \<Rightarrow> 0),
       img_virtual_size = (case ii_virtual_size img of Some x \<Rightarrow> x | None \<Rightarrow> 0),
       img_created = (case Option.bind (ii_created img) (dl_rfc3339 (dm_lib m)) of Some x \<Rightarrow> x | None \<Rightarrow> 0),
       img_architecture = (case ii_architecture img of Some x \<Rightarrow> x | None \<Rightarrow> ''unknown''),
       img_os = (case ii_os img of Some x \<Rightarrow> x | None \<Rightarrow> ''unknown''),
       img_labels = ii_labels img, img_env = ii_env img,
       img_features = detect_features_from_labels (dm_lib m) (ii_labels img)\<rparr>)"

text \<open>The feature detector reads the label of an image; without one, or with one it cannot parse, there are no features.\<close>

definition detect_from_image :: "'d DockerManager \<Rightarrow> string \<Rightarrow> FeatureSelection \<Rightarrow> ('d, FeatureProfile) docker" where
  "detect_from_image m img selection =
     bindE (bollard (da_inspect_image (dm_docker m) img)) (\<lambda>inspect.
     ret (case Option.bind (map_of (case ii_labels inspect of Some ls \<Rightarrow> ls | None \<Rightarrow> []) DSB_FEATURES_LABEL)
            (dl_parse_label (dm_lib m)) of
            None \<Rightarrow> feature_profile_empty
          | Some l \<Rightarrow> build_feature_profile l selection))"

definition remove_image :: "'d DockerManager \<Rightarrow> string \<Rightarrow> ('d docker_world, DockerError, unit) prog" where
  "remove_image m i = map_err (image_error i) (on_daemon (da_remove_image (dm_docker m) i))"

section \<open>Inspection\<close>

definition read_stats :: "'d DockerManager \<Rightarrow> string \<Rightarrow> ('d, StatsResponse) docker" where
  "read_stats m i w =
     (case da_stats (dm_docker m) i (dw_daemon w) of
        (None, d) \<Rightarrow> (Inl (DM_Api ''No stats available''), w\<lparr>dw_daemon := d\<rparr>)
      | (Some (Inl e), d) \<Rightarrow> (Inl (DM_Api (''Failed to get stats: '' @ e)), w\<lparr>dw_daemon := d\<rparr>)
      | (Some (Inr st), d) \<Rightarrow> (Inr st, w\<lparr>dw_daemon := d\<rparr>))"

definition or_zero :: "('a::zero) option \<Rightarrow> 'a" where
  "or_zero x = (case x of Some v \<Rightarrow> v | None \<Rightarrow> 0)"

definition blkio_bytes :: "string \<Rightarrow> StatsResponse \<Rightarrow> u64" where
  "blkio_bytes oper st =
     sum_list (map (or_zero \<circ> bl_value) (filter (\<lambda>b. bl_op b = Some oper) (case sr_blkio st of Some bs \<Rightarrow> bs | None \<Rightarrow> [])))"

definition get_container_stats :: "'d DockerManager \<Rightarrow> string \<Rightarrow> ('d, ContainerStats) docker" where
  "get_container_stats m i =
     bindE (read_stats m i) (\<lambda>st.
     bindE (ok_or (DM_Api ''No CPU stats available'') (sr_cpu st)) (\<lambda>cpu.
     bindE (ok_or (DM_Api ''No memory stats available'') (sr_memory st)) (\<lambda>mem.
     bindE (gets dw_utc) (\<lambda>now.
     let pre = sr_precpu st;
         usage = or_zero (fst mem) div (1024 * 1024);
         limit = or_zero (snd mem) div (1024 * 1024);
         nets = (case sr_networks st of Some ns \<Rightarrow> ns | None \<Rightarrow> [])
     in ret \<lparr>cs_cpu_percent = dl_cpu_percent (dm_lib m) (or_zero (cpu_total_usage cpu))
            (or_zero (Option.bind pre cpu_total_usage)) (or_zero (cpu_system_usage cpu))
            (or_zero (Option.bind pre cpu_system_usage)) (case cpu_online cpu of Some n \<Rightarrow> n | None \<Rightarrow> 1),
          cs_memory_usage_mb = usage, cs_memory_limit_mb = limit,
          cs_memory_percent = (if 0 < limit then dl_percent (dm_lib m) usage limit else 0),
          cs_network_rx_bytes = sum_list (map (or_zero \<circ> fst) nets),
          cs_network_tx_bytes = sum_list (map (or_zero \<circ> snd) nets),
          cs_block_read_bytes = blkio_bytes ''Read'' st, cs_block_write_bytes = blkio_bytes ''Write'' st,
          cs_timestamp = now\<rparr>))))"

definition remove_volume :: "'d DockerManager \<Rightarrow> string \<Rightarrow> ('d, unit) docker" where
  "remove_volume m name = bollard (da_remove_volume (dm_docker m) name)"

definition create_volume :: "VolumeMount \<Rightarrow> string" where
  "create_volume v = (case v of Named n _ _ \<Rightarrow> n | Bind _ _ _ \<Rightarrow> [])"

fun remove_volumes :: "'d DockerManager \<Rightarrow> VolumeMount list \<Rightarrow> ('d docker_world, DockerError, unit) prog" where
  "remove_volumes m [] = ret ()"
| "remove_volumes m (v # vs) =
     bindE (case v of Named n _ _ \<Rightarrow> map_err docker_error_of (remove_volume m n) | Bind _ _ _ \<Rightarrow> ret ()) (\<lambda>_.
     remove_volumes m vs)"

definition is_container_running :: "'d DockerManager \<Rightarrow> string \<Rightarrow> ('d, bool) docker" where
  "is_container_running m i =
     bindE (attempt (on_daemon (da_inspect_container (dm_docker m) i))) (\<lambda>r. case r of
       Inr inspect \<Rightarrow> ret (case in_state inspect of Some st \<Rightarrow> is_running st = Some True | None \<Rightarrow> False)
     | Inl e \<Rightarrow> if mentions e gone_texts then ret False else throw (DM_Bollard e))"

definition inspect_or_gone :: "'d DockerManager \<Rightarrow> string \<Rightarrow> ('d, ContainerInspect) docker" where
  "inspect_or_gone m i =
     map_err (\<lambda>e. if mentions e gone_texts then DM_ContainerNotFound (''Container '' @ i @ '' not found'') else DM_Bollard e)
       (on_daemon (da_inspect_container (dm_docker m) i))"

definition get_container_workdir :: "'d DockerManager \<Rightarrow> string \<Rightarrow> ('d, string) docker" where
  "get_container_workdir m i =
     bindE (inspect_or_gone m i) (\<lambda>inspect.
     ret (case in_working_dir inspect of Some d \<Rightarrow> if d \<noteq> [] then d else ''/'' | None \<Rightarrow> ''/''))"

definition get_container_exit_info :: "'d DockerManager \<Rightarrow> string \<Rightarrow> ('d, i64 \<times> bool) docker" where
  "get_container_exit_info m i =
     bindE (inspect_or_gone m i) (\<lambda>inspect.
     ret (case in_state inspect of
            Some st \<Rightarrow> (case is_exit_code st of Some c \<Rightarrow> c | None \<Rightarrow> -1, is_oom_killed st = Some True)
          | None \<Rightarrow> (-1, False)))"

section \<open>The backend as a sandbox manager\<close>

text \<open>Operations that go through the older trait convert their errors twice.\<close>

definition via_trait :: "('d, 'a) docker \<Rightarrow> ('d docker_world, ManagerError, 'a) prog" where
  "via_trait p = map_err (manager_error_of_docker \<circ> docker_error_of) p"

definition as_manager :: "('d, 'a) docker \<Rightarrow> ('d docker_world, ManagerError, 'a) prog" where
  "as_manager p = map_err manager_error_of p"

definition upload_archive :: "'d DockerManager \<Rightarrow> string \<Rightarrow> string \<Rightarrow> string \<Rightarrow> ('d docker_world, ManagerError, unit) prog" where
  "upload_archive m i path tar_data =
     map_err (\<lambda>e. ME_OperationFailed (''Upload archive failed: '' @ e)) (on_daemon (da_upload (dm_docker m) i path tar_data))"

definition docker_list :: "'d DockerManager \<Rightarrow> bool \<Rightarrow> (string \<times> string list) list option \<Rightarrow>
    ('d docker_world, ManagerError, SandboxInfo list) prog" where
  "docker_list m all filters =
     bindE (as_manager (list_containers m all filters)) (\<lambda>cs. ret (map sandbox_info_of_summary cs))"

text \<open>The address is cut at twelve bytes; the identifiers of containers are hexadecimal.\<close>

definition docker_sandbox_address :: "string \<Rightarrow> u16 \<Rightarrow> string" where
  "docker_sandbox_address i port = (if 12 < length i then take 12 i else i) @ '':'' @ show_nat (unat port)"

definition docker_backend :: "'d DockerManager \<Rightarrow> 'd docker_world SandboxManager" where
  "docker_backend m =
     \<lparr>mgr_create = (\<lambda>sid config. via_trait (create_container m config sid)),
      mgr_start = (\<lambda>i. via_trait (start_container m i)), mgr_stop = (\<lambda>i. via_trait (stop_container m i)),
      mgr_delete = (\<lambda>i. via_trait (remove_container m i)),
      mgr_exec = (\<lambda>i cmd. as_manager (exec_container m i cmd None)),
      mgr_stats = (\<lambda>i. as_manager (get_container_stats m i)),
      mgr_is_running = (\<lambda>i. as_manager (is_container_running m i)),
      mgr_get_exit_info = (\<lambda>i. as_manager (get_container_exit_info m i)),
      mgr_get_workdir = (\<lambda>i. as_manager (get_container_workdir m i)),
      mgr_list = (\<lambda>all. docker_list m all None), mgr_remove_volume = (\<lambda>n. as_manager (remove_volume m n)),
      mgr_get_image_features = (\<lambda>i. map_err manager_error_of_docker (inspect_image m i)),
      mgr_pull_image = (\<lambda>i. via_trait (pull_image m i)),
      mgr_pull_image_with_progress = (\<lambda>i w. case pull_image_with_progress m i w of
        ((seen, r), v) \<Rightarrow> ((seen, case r of Inl e \<Rightarrow> Inl (manager_error_of_docker (docker_error_of e)) | Inr x \<Rightarrow> Inr x), v)),
      mgr_image_exists = (\<lambda>i. via_trait (image_exists m i)),
      mgr_exec_http = (\<lambda>i path meth body secs. as_manager (exec_container_http m i path meth body secs)),
      mgr_exec_with_stdin_result = (\<lambda>i cmd stdin secs. as_manager (exec_container_with_stdin_result m i cmd stdin secs)),
      mgr_upload_archive = upload_archive m,
      mgr_get_sandbox_k8s_status = (\<lambda>_. ret None)\<rparr>"

end
