(* ===== verification/DockerProps.thy ===== *)
theory DockerProps
  imports Docker Lifecycle
begin

text \<open>
  What the Docker backend guarantees, and what it does not: a removal that is reported has taken
  place if the daemon's answers can be trusted; error texts are matched against \<open>404\<close>, which the
  name of a container may contain; addresses of containers are remembered for too long; and the
  memory limit is exact below eight exbibytes.
\<close>

lemma wpE_on_daemon [wp]:
  "wpE (on_daemon p) Q E w =
     (case p (dw_daemon w) of
        (Inl e, d) \<Rightarrow> E e (w\<lparr>dw_daemon := d\<rparr>)
      | (Inr a, d) \<Rightarrow> Q a (w\<lparr>dw_daemon := d\<rparr>))"
  by (simp add: wpE_def on_daemon_def split: prod.splits sum.splits)

lemma wpE_evict [wp]: "wpE (evict i) Q E w = Q () (w\<lparr>dw_ip_cache := AList.delete i (dw_ip_cache w)\<rparr>)"
  by (simp add: evict_def wpE_modify)

section \<open>Removal\<close>

text \<open>
  What a removal relies on: looking at a container changes nothing and fails only when the
  container is gone, and so does a removal refused with a text that says so.
\<close>

definition daemon_truthful :: "'d docker_api \<Rightarrow> ('d \<Rightarrow> string \<Rightarrow> bool) \<Rightarrow> bool" where
  "daemon_truthful api present \<longleftrightarrow>
     (\<forall>i d e d'. da_inspect_container api i d = (Inl e, d') \<longrightarrow> \<not> present d' i) \<and>
     (\<forall>i d e d'. da_remove_container api i d = (Inl e, d') \<and> mentions e gone_texts \<longrightarrow> \<not> present d' i)"

lemma remove_attempts_sound:
  assumes "daemon_truthful (dm_docker m) present"
  shows "wpE (remove_attempts m i k left last_error)
    (\<lambda>_ w'. \<not> present (dw_daemon w') i \<and> map_of (dw_ip_cache w') i = None) (\<lambda>_ _. True) w"
proof (induction left arbitrary: k last_error w)
  case 0
  show ?case by (simp add: wp)
next
  case (Suc left)
  note laws = assms [unfolded daemon_truthful_def]
  show ?case
    using laws Suc.IH
    by (auto simp: wp verify_container_removed_def delete_conv' split: prod.splits sum.splits)
qed


section \<open>Errors that mention 404\<close>

lemma contains_middle: "str_contains c p \<Longrightarrow> str_contains (pre @ c @ post) p"
  unfolding str_contains_sublist sublist_def by (metis append_assoc)

text \<open>
  C32. A container whose identifier contains 404 can be believed to be stopped while it is not:
  when the daemon refuses to stop it with an error that names it, the service on the Docker
  backend takes that for an answer with status 404, reports success and records the sandbox as
  stopped.
\<close>

theorem stop_with_404_id:
  assumes "svc_state svc = StateStore" and "svc_backend svc = docker_backend m" and "mem_invar (w_store w)"
    and "map_of (w_store w) i = Some sb" and "sb_container_id sb = Some c" and "str_contains c ''404''"
    and "da_stop_container (dm_docker m) c 10 (dw_daemon (w_backend w)) = (Inl (pre @ c @ post), d)"
  shows "fst (stop_sandbox svc i w) = Inr () \<and>
    dw_daemon (w_backend (snd (stop_sandbox svc i w))) = d \<and>
    map_option sb_state (map_of (w_store (snd (stop_sandbox svc i w))) i) = Some Stopped"
proof -
  let ?b = "(w_backend w)\<lparr>dw_daemon := d\<rparr>"
  have stop: "mgr_stop (svc_backend svc) c (w_backend w) = (Inl (ME_Api (pre @ c @ post)), ?b)"
    by (simp add: assms(2,7) docker_backend_def via_trait_def stop_container_def bollard_def on_daemon_def map_err_def)
  have ok: "stop_ok (Inl (ME_Api (pre @ c @ post)))"
    by (simp add: stop_ok_def contains_middle [OF assms(6)])
  show ?thesis
    using mem.stop_rel [OF assms(1,3,4,5) stop] ok
    by (cases "stop_sandbox svc i w") (auto simp: wpE_def split: sum.splits)
qed

section \<open>Addresses\<close>

lemma docker_keeps_cache:
  "dw_ip_cache (snd (mgr_start (docker_backend m) i w)) = dw_ip_cache w"
  "dw_ip_cache (snd (mgr_stop (docker_backend m) i w)) = dw_ip_cache w"
  by (simp_all add: docker_backend_def via_trait_def start_container_def stop_container_def bollard_def
    map_err_def on_daemon_def split: prod.splits sum.splits)

lemma http_cached:
  assumes "map_of (dw_ip_cache w) i = Some ip"
    and "to_uppercase meth \<in> {''GET'', ''POST'', ''PUT'', ''DELETE''}"
    and "da_http (dm_docker m) (to_uppercase meth) (''http://'' @ ip @ '':8080'' @ path) body (dw_daemon w) = (hx, d)"
  shows "exec_container_http m i path meth body secs w = (http_answer (dm_lib m) path secs hx, w\<lparr>dw_daemon := d\<rparr>)"
  using assms
  by (auto simp: exec_container_http_def lookup_ip_def bindE_def gets_def ret_def Let_def send_http_def of_result_def)

text \<open>
  The address of a container is asked for once and kept until the container is removed. When
  a sandbox is stopped, another one started and then the first one started again, a tool call of
  the first still goes to the address it had before, whoever has that address by now.
\<close>

theorem docker_stale_address:
  assumes "map_of (dw_ip_cache w) i = Some ip"
    and "to_uppercase meth \<in> {''GET'', ''POST'', ''PUT'', ''DELETE''}"
    and "w1 = snd (mgr_start (docker_backend m) i (snd (mgr_start (docker_backend m) j (snd (mgr_stop (docker_backend m) i w)))))"
    and "da_http (dm_docker m) (to_uppercase meth) (''http://'' @ ip @ '':8080'' @ path) body (dw_daemon w1) = (hx, d)"
  shows "exec_container_http m i path meth body secs w1 = (http_answer (dm_lib m) path secs hx, w1\<lparr>dw_daemon := d\<rparr>)"
  using assms by (intro http_cached) (simp_all add: docker_keeps_cache)

section \<open>The connection\<close>

text \<open>
  A host given with the scheme \<open>https\<close> keeps the last slash of its scheme: the connection goes
  to an address that begins with a slash.
\<close>

lemma https_host_mangled:
  assumes "\<not> path_exists fs ''/var/run/docker.sock''" and "dkc_host (conf_docker config) = Some (''https://'' @ h)"
  shows "docker_target fs env config = ConnHttp (''/'' @ h)"
  using assms by (simp add: docker_target_def starts_with_def)

section \<open>Memory\<close>

lemma memory_bytes_small:
  assumes "unat (mb :: u64) < 2 ^ 43"
  shows "sint (memory_bytes mb) = int (unat mb) * 2 ^ 20"
proof -
  have prod: "unat mb * 2 ^ 20 < 2 ^ 63" using assms by simp
  define n where "n = unat mb * 2 ^ 20"
  have bytes: "memory_bytes mb = of_nat n"
    by (simp add: memory_bytes_def n_def)
  have "n < 2 ^ 64" using prod by (simp add: n_def)
  then have "unat (of_nat n :: u64) = n" by (simp add: unat_of_nat)
  then have u: "unat (memory_bytes mb) = unat mb * 2 ^ 20"
    unfolding bytes n_def .
  then have "int (unat (memory_bytes mb)) < int (2 ^ 63)"
    using prod by (simp only: of_nat_less_iff)
  then have small: "uint (memory_bytes mb) < 2 ^ 63" by simp
  have "sint (memory_bytes mb) = signed_take_bit 63 (uint (memory_bytes mb))"
    by (simp add: sint_uint)
  also have "\<dots> = uint (memory_bytes mb)"
    using small order_trans [OF _ uint_ge_0, of "- (2 ^ 63)"] by (intro signed_take_bit_int_eq_self) simp_all
  also have "\<dots> = int (unat mb * 2 ^ 20)"
    unfolding u [symmetric] by simp
  finally show ?thesis by simp
qed

text \<open>
  The memory limit sent to Docker is the configured number of mebibytes exactly when that is
  below 2 to the 43; a limit of 2 to the 44 mebibytes wraps around to zero, which is no limit.
\<close>

theorem docker_memory_limit:
  "(sint (memory_bytes mb) = int (unat mb) * 2 ^ 20 \<longleftrightarrow> unat mb < 2 ^ 43) \<and> memory_bytes (2 ^ 44) = 0"
proof -
  have "unat mb < 2 ^ 43" if "sint (memory_bytes mb) = int (unat mb) * 2 ^ 20"
  proof -
    have "sint (memory_bytes mb) < 2 ^ 63"
      using sint_less [of "memory_bytes mb"] by simp
    then have "int (unat mb) * 2 ^ 20 < 2 ^ 63"
      using that by metis
    then have "int (unat mb) < int (2 ^ 43)" by simp
    then show ?thesis by (rule of_nat_less_iff [THEN iffD1])
  qed
  then show ?thesis
    using memory_bytes_small by (auto simp: memory_bytes_def)
qed

section \<open>Witnesses\<close>

text \<open>
  A small daemon: each container with its address while it runs, the lowest free address for one
  that starts. It refuses to stop containers it calls protected, and a request to an address is
  answered with the name of the container that has it.
\<close>

type_synonym small_daemon = "(string \<times> string option) list"

definition free_address :: "small_daemon \<Rightarrow> string option" where
  "free_address d = List.find (\<lambda>a. Some a \<notin> set (map snd d)) [''10.0.0.2'', ''10.0.0.3'', ''10.0.0.4'']"

definition holder :: "small_daemon \<Rightarrow> string \<Rightarrow> string option" where
  "holder d url = map_option fst (List.find (\<lambda>(c, a). case a of Some ip \<Rightarrow> str_contains url ip | None \<Rightarrow> False) d)"

definition known :: "string \<Rightarrow> (small_daemon, 'a) daemon \<Rightarrow> (small_daemon, 'a) daemon" where
  "known i p d = (if map_of d i = None then (Inl (''No such container: '' @ i), d) else p d)"

definition small_api :: "small_daemon docker_api" where
  "small_api =
     \<lparr>da_create_container = (\<lambda>_ _ d. (Inl ''no image'', d)), da_connect_network = (\<lambda>_ _ _. ret ()),
      da_start_container = (\<lambda>i. known i (\<lambda>d. (Inr (), AList.update i (free_address d) d))),
      da_stop_container = (\<lambda>i _. known i (\<lambda>d. if str_contains i ''404'' then (Inl (''cannot stop '' @ i @ '': protected''), d)
        else (Inr (), AList.update i None d))),
      da_remove_container = (\<lambda>i. known i (\<lambda>d. (Inr (), AList.delete i d))),
      da_inspect_container = (\<lambda>i. known i (\<lambda>d. (Inr \<lparr>in_state = None, in_working_dir = None,
        in_networks = Some [(''bridge'', case map_of d i of Some a \<Rightarrow> a | None \<Rightarrow> None)]\<rparr>, d))),
      da_list_containers = (\<lambda>_ _. ret []), da_create_exec = (\<lambda>_ _ _. throw ''no''), da_start_exec = (\<lambda>_ _. throw ''no''),
      da_inspect_exec = (\<lambda>_. ret None), da_create_image = (\<lambda>_ d. ([], d)), da_inspect_image = (\<lambda>_. throw ''no''),
      da_remove_image = (\<lambda>_. ret ()), da_stats = (\<lambda>_ d. (None, d)), da_remove_volume = (\<lambda>_. ret ()),
      da_upload = (\<lambda>_ _ _. ret ()),
      da_http = (\<lambda>_ url _ d. (\<lparr>hx_nanos = 0, hx_result = (case holder d url of
        Some c \<Rightarrow> Inr (200, Inr c) | None \<Rightarrow> Inl ''unreachable'')\<rparr>, d))\<rparr>"

definition small_manager :: "small_daemon DockerManager" where
  "small_manager =
     \<lparr>dm_docker = small_api, dm_config = config_default,
      dm_lib = \<lparr>dl_from_str = (\<lambda>t. Inr (JString t)), dl_parse_label = (\<lambda>_. None), dl_status_text = show_nat,
        dl_cpu_percent = (\<lambda>_ _ _ _ _. 0), dl_percent = (\<lambda>_ _. 0), dl_rfc3339 = (\<lambda>_. None),
        dl_uuid_text = (\<lambda>u. show_nat (unat u))\<rparr>\<rparr>"

definition small_world :: "(string \<times> string) list \<Rightarrow> small_daemon \<Rightarrow> small_daemon docker_world" where
  "small_world cache d =
     \<lparr>dw_daemon = d, dw_ip_cache = cache, dw_files = \<lparr>fs_root = FDir [], fs_cwd = [], fs_fault = (\<lambda>_ _. None), fs_dir_len = (\<lambda>_. 0)\<rparr>,
      dw_env = (\<lambda>_. None), dw_utc = 0\<rparr>"

lemma small_truthful: "daemon_truthful small_api (\<lambda>d i. map_of d i \<noteq> None)"
  by (auto simp: daemon_truthful_def small_api_def known_def split: if_splits)


definition docker_service :: "(mem_store, small_daemon docker_world) SandboxService" where
  "docker_service = service_new (docker_backend small_manager) StateStore"

definition docker_example :: "(mem_store, small_daemon docker_world) world" where
  "docker_example =
     \<lparr>w_store = [(7, example_sandbox 7 Running (Some ''ab404c''))], w_backend = small_world [] [(''ab404c'', Some ''10.0.0.2'')],
      w_activities = [], w_ticks = 0, w_uuids = 0, w_db_calls = 0, w_clock = (\<lambda>n. int n * nanos_per_sec),
      w_uuid_src = (\<lambda>n. of_nat n + 100), w_db_up = (\<lambda>_. True), w_uuid_to_string = (\<lambda>i. show_nat (unat i)),
      w_parse_label = (\<lambda>_. Inl ''no label'')\<rparr>"

theorem stop_with_404_id_witness:
  "fst (stop_sandbox docker_service 7 docker_example) = Inr () \<and>
   dw_daemon (w_backend (snd (stop_sandbox docker_service 7 docker_example))) = [(''ab404c'', Some ''10.0.0.2'')] \<and>
   map_option sb_state (map_of (w_store (snd (stop_sandbox docker_service 7 docker_example))) 7) = Some Stopped"
proof (rule stop_with_404_id [where m = small_manager and pre = "''cannot stop ''" and c = "''ab404c''" and post = "'': protected''"])
  show "svc_state docker_service = StateStore" "svc_backend docker_service = docker_backend small_manager"
    by (simp_all add: docker_service_def service_new_def)
  show "mem_invar (w_store docker_example)"
    using mem_invar_single [of 7 "example_sandbox 7 Running (Some ''ab404c'')"] by (simp add: docker_example_def)
  show "map_of (w_store docker_example) 7 = Some (example_sandbox 7 Running (Some ''ab404c''))"
    by (simp add: docker_example_def)
  show "sb_container_id (example_sandbox 7 Running (Some ''ab404c'')) = Some ''ab404c''" by simp
  show "str_contains ''ab404c'' ''404''" by code_simp
  show "da_stop_container (dm_docker small_manager) ''ab404c'' 10 (dw_daemon (w_backend docker_example)) =
      (Inl (''cannot stop '' @ ''ab404c'' @ '': protected''), [(''ab404c'', Some ''10.0.0.2'')])"
    by code_simp
qed

theorem docker_stale_address_witness:
  "let b = docker_backend small_manager;
       w = small_world [(''a'', ''10.0.0.2'')] [(''a'', Some ''10.0.0.2''), (''b'', None)];
       w1 = snd (mgr_start b ''a'' (snd (mgr_start b ''b'' (snd (mgr_stop b ''a'' w)))))
   in dw_daemon w1 = [(''a'', Some ''10.0.0.3''), (''b'', Some ''10.0.0.2'')] \<and>
      fst (exec_container_http small_manager ''a'' ''/whoami'' ''get'' None None w1) = Inr (JString ''b'')"
proof -
  let ?b = "docker_backend small_manager"
  let ?w = "small_world [(''a'', ''10.0.0.2'')] [(''a'', Some ''10.0.0.2''), (''b'', None)]"
  define w1 where "w1 = snd (mgr_start ?b ''a'' (snd (mgr_start ?b ''b'' (snd (mgr_stop ?b ''a'' ?w)))))"
  have d: "dw_daemon w1 = [(''a'', Some ''10.0.0.3''), (''b'', Some ''10.0.0.2'')]"
    unfolding w1_def by code_simp
  obtain hx d' where http: "da_http (dm_docker small_manager) (to_uppercase ''get'')
      (''http://'' @ ''10.0.0.2'' @ '':8080'' @ ''/whoami'') None (dw_daemon w1) = (hx, d')"
    by (cases "da_http (dm_docker small_manager) (to_uppercase ''get'')
      (''http://'' @ ''10.0.0.2'' @ '':8080'' @ ''/whoami'') None (dw_daemon w1)")
  have "fst (da_http (dm_docker small_manager) (to_uppercase ''get'')
      (''http://'' @ ''10.0.0.2'' @ '':8080'' @ ''/whoami'') None
      [(''a'', Some ''10.0.0.3''), (''b'', Some ''10.0.0.2'')]) = \<lparr>hx_nanos = 0, hx_result = Inr (200, Inr ''b'')\<rparr>"
    by code_simp
  then have hx: "hx = \<lparr>hx_nanos = 0, hx_result = Inr (200, Inr ''b'')\<rparr>"
    using http d by simp
  have "map_of (dw_ip_cache ?w) ''a'' = Some ''10.0.0.2''" "to_uppercase ''get'' \<in> {''GET'', ''POST'', ''PUT'', ''DELETE''}"
    by code_simp+
  from docker_stale_address [OF this w1_def http, of None]
  have "fst (exec_container_http small_manager ''a'' ''/whoami'' ''get'' None None w1) =
      http_answer (dm_lib small_manager) ''/whoami'' None hx" by simp
  also have "\<dots> = Inr (JString ''b'')"
    unfolding hx by code_simp
  finally show ?thesis
    using d unfolding Let_def w1_def by simp
qed

end
