(* ===== verification/SshGateway.thy ===== *)
theory SshGateway
  imports Config
begin

text \<open>
  The SSH gateway, a process of its own (\<open>src/ssh-gateway/src/\<close>): the client of the server's
  interface (\<open>session.rs\<close>), the connections and the handlers of the SSH server (\<open>ssh.rs\<close>), the
  shells in containers and pods (\<open>docker.rs\<close>, \<open>k8s.rs\<close>) and the command line (\<open>main.rs\<close>). The
  network, the Docker daemon and the Kubernetes interface are a parameter (\<open>gateway_remote\<close>) on
  a state of which nothing is assumed. The gateway's world records what was asked of the server
  and what was sent to the clients.
\<close>

section \<open>The world of the gateway\<close>

datatype shell_stream = DockerShell string string | PodShell string string

record SandboxGrant =
  sg_container_id :: string

record GatewayAuth =
  ga_authorized :: bool
  ga_sandbox :: "SandboxGrant option"

text \<open>The answer to a request: the error of sending it, or the status and the body or its error.\<close>

type_synonym http_reply = "string + nat \<times> (string + string)"

record 'w gateway_remote =
  gr_http :: "string \<Rightarrow> string \<Rightarrow> string option \<Rightarrow> json option \<Rightarrow> 'w \<Rightarrow> http_reply \<times> 'w"
  gr_parse_auth :: "string \<Rightarrow> GatewayAuth option"
  gr_parse_session :: "string \<Rightarrow> uuid option"
  gr_parse_uuid :: "string \<Rightarrow> uuid option"
  gr_uuid_text :: "uuid \<Rightarrow> string"
  gr_docker_connect :: "('w, string, unit) prog"
  gr_create_exec :: "string \<Rightarrow> string list \<Rightarrow> ('w, string, string) prog"
  gr_start_exec :: "string \<Rightarrow> ('w, string, bool) prog"
  gr_kube_client :: "('w, string, unit) prog"
  gr_pod_phase :: "string \<Rightarrow> string \<Rightarrow> ('w, string, string option) prog"
  gr_kube_exec :: "string \<Rightarrow> string \<Rightarrow> string list \<Rightarrow> ('w, string, bool \<times> bool \<times> bool) prog"
  gr_write :: "shell_stream \<Rightarrow> string \<Rightarrow> ('w, string, unit) prog"

record ConnectionState =
  cn_sandbox_id :: "uuid option"
  cn_session_id :: "uuid option"
  cn_client_ip :: string
  cn_channel_id :: "nat option"
  cn_exec_input :: "shell_stream option"
  cn_exec_output :: "shell_stream option"
  cn_handle_channel :: "nat option"

definition connection_new :: "string \<Rightarrow> ConnectionState" where
  "connection_new client_ip =
     \<lparr>cn_sandbox_id = None, cn_session_id = None, cn_client_ip = client_ip, cn_channel_id = None,
      cn_exec_input = None, cn_exec_output = None, cn_handle_channel = None\<rparr>"

datatype gateway_event =
    AskedAuth uuid "GatewayAuth option"
  | AskedSession string
  | SentData u64 nat string
  | ClosedChannel u64 nat
  | WroteShell u64 shell_stream string

record 'w gateway_world =
  gw_connections :: "(u64 \<times> ConnectionState) list"
  gw_next_id :: u64
  gw_remote :: 'w
  gw_log :: "gateway_event list"

type_synonym ('w, 'a) gw = "('w gateway_world, string, 'a) prog"

definition on_remote :: "('w, 'e, 'a) prog \<Rightarrow> ('w gateway_world, 'e, 'a) prog" where
  "on_remote p g = (case p (gw_remote g) of (r, w) \<Rightarrow> (r, g\<lparr>gw_remote := w\<rparr>))"

definition jot :: "gateway_event \<Rightarrow> ('w gateway_world, 'e, unit) prog" where
  "jot e = modify (\<lambda>g. g\<lparr>gw_log := gw_log g @ [e]\<rparr>)"

section \<open>The client of the server's interface\<close>

record SessionManager =
  sm_api_url :: string
  sm_api_key :: "string option"

record GatewayServer =
  gs_config :: Config
  gs_manager :: SessionManager

definition ssh_server_new :: "Config \<Rightarrow> GatewayServer" where
  "ssh_server_new config =
     \<lparr>gs_config = config,
      gs_manager = \<lparr>sm_api_url = sshc_api_url (conf_ssh config),
        sm_api_key = (case sshc_api_key (conf_ssh config) of Some k \<Rightarrow> Some k
          | None \<Rightarrow> srv_ssh_gateway_api_key (conf_server config))\<rparr>\<rparr>"

definition http_call :: "'w gateway_remote \<Rightarrow> SessionManager \<Rightarrow> string \<Rightarrow> string \<Rightarrow> json option \<Rightarrow> ('w gateway_world, 'e, http_reply) prog" where
  "http_call rm sm meth url body g =
     (case gr_http rm meth url (sm_api_key sm) body (gw_remote g) of (r, w) \<Rightarrow> (Inr r, g\<lparr>gw_remote := w\<rparr>))"

text \<open>A request whose failure and whose answer are reported with the given texts.\<close>

definition read_reply :: "string \<Rightarrow> string \<Rightarrow> http_reply \<Rightarrow> string + string" where
  "read_reply send_context failed r =
     (case r of
        Inl _ \<Rightarrow> Inl send_context
      | Inr (status, Inl _) \<Rightarrow> Inl ''Failed to read response body''
      | Inr (status, Inr body) \<Rightarrow>
          if 200 \<le> status \<and> status < 300 then Inr body
          else Inl (failed @ '' ('' @ show_nat status @ ''): '' @ body))"

definition authorize_sandbox :: "'w gateway_remote \<Rightarrow> SessionManager \<Rightarrow> uuid \<Rightarrow> ('w, GatewayAuth) gw" where
  "authorize_sandbox rm sm i =
     bindE (http_call rm sm ''GET'' (sm_api_url sm @ ''/ssh/authorize/'' @ gr_uuid_text rm i) None) (\<lambda>r.
     case read_reply ''Failed to send authorize request'' ''Authorization failed'' r of
       Inl e \<Rightarrow> bindE (jot (AskedAuth i None)) (\<lambda>_. throw e)
     | Inr body \<Rightarrow>
         (case gr_parse_auth rm body of
            None \<Rightarrow> bindE (jot (AskedAuth i None)) (\<lambda>_. throw ''Failed to parse authorization response'')
          | Some auth \<Rightarrow> bindE (jot (AskedAuth i (Some auth))) (\<lambda>_. ret auth)))"

definition create_ssh_session :: "'w gateway_remote \<Rightarrow> SessionManager \<Rightarrow> uuid \<Rightarrow> string \<Rightarrow> ('w, uuid) gw" where
  "create_ssh_session rm sm i client_ip =
     bindE (http_call rm sm ''POST'' (sm_api_url sm @ ''/ssh-sessions'')
       (Some (JObject [(''sandbox_id'', JString (gr_uuid_text rm i)), (''client_ip'', JString client_ip),
         (''ssh_version'', JString ''SSH-2.0-Russh_0.45''), (''auth_method'', JString ''api_key'')]))) (\<lambda>r.
     bindE (jot (AskedSession ''create'')) (\<lambda>_.
     case read_reply ''Failed to send create session request'' ''Failed to create session'' r of
       Inl e \<Rightarrow> throw e
     | Inr body \<Rightarrow> ok_or ''Failed to parse session response'' (gr_parse_session rm body)))"

text \<open>Heartbeat and termination read the body of the answer only when it is not a success.\<close>

definition read_status :: "string \<Rightarrow> string \<Rightarrow> http_reply \<Rightarrow> string + unit" where
  "read_status send_context failed r =
     (case r of
        Inr (status, Inl _) \<Rightarrow> if 200 \<le> status \<and> status < 300 then Inr () else Inl ''Failed to read response body''
      | _ \<Rightarrow> (case read_reply send_context failed r of Inl e \<Rightarrow> Inl e | Inr _ \<Rightarrow> Inr ()))"

definition session_post :: "'w gateway_remote \<Rightarrow> SessionManager \<Rightarrow> string \<Rightarrow> uuid \<Rightarrow> string \<Rightarrow> json \<Rightarrow> string \<Rightarrow> ('w, unit) gw" where
  "session_post rm sm what i verb body failed =
     bindE (http_call rm sm ''POST'' (sm_api_url sm @ ''/ssh-sessions/'' @ gr_uuid_text rm i @ ''/'' @ verb) (Some body)) (\<lambda>r.
     bindE (jot (AskedSession verb)) (\<lambda>_.
     case read_status (''Failed to send '' @ verb @ '' request'') failed r of Inl e \<Rightarrow> throw e | Inr _ \<Rightarrow> ret ()))"

definition send_heartbeat :: "'w gateway_remote \<Rightarrow> SessionManager \<Rightarrow> uuid \<Rightarrow> i64 \<Rightarrow> i64 \<Rightarrow> ('w, unit) gw" where
  "send_heartbeat rm sm i sent received =
     session_post rm sm ''heartbeat'' i ''heartbeat''
       (JObject [(''bytes_sent'', JNumber (sint sent)), (''bytes_received'', JNumber (sint received))])
       ''Failed to send heartbeat''"

definition terminate_ssh_session :: "'w gateway_remote \<Rightarrow> SessionManager \<Rightarrow> uuid \<Rightarrow> string \<Rightarrow> ('w, unit) gw" where
  "terminate_ssh_session rm sm i reason =
     session_post rm sm ''terminate'' i ''terminate'' (JObject [(''reason'', JString reason)]) ''Failed to terminate session''"

section \<open>Shells\<close>

definition shell_command :: "string list option \<Rightarrow> string list" where
  "shell_command exec_config = (case exec_config of Some c \<Rightarrow> c | None \<Rightarrow> [''/bin/bash''])"

definition docker_create_exec :: "'w gateway_remote \<Rightarrow> string \<Rightarrow> string list option \<Rightarrow> ('w, string) gw" where
  "docker_create_exec rm container_id exec_config =
     map_err (\<lambda>_. ''Failed to create exec instance'') (on_remote (gr_create_exec rm container_id (shell_command exec_config)))"

definition docker_start_exec :: "'w gateway_remote \<Rightarrow> string \<Rightarrow> ('w, unit) gw" where
  "docker_start_exec rm exec_id =
     bindE (map_err (\<lambda>_. ''Failed to start exec instance'') (on_remote (gr_start_exec rm exec_id))) (\<lambda>attached.
     if attached then ret () else throw ''Exec instance was detached, expected attached mode'')"

definition pod_create_exec :: "'w gateway_remote \<Rightarrow> string \<Rightarrow> string \<Rightarrow> ('w, string) gw" where
  "pod_create_exec rm namespace pod_name =
     bindE (map_err (\<lambda>_. ''Failed to get pod '' @ pod_name @ '' in namespace '' @ namespace)
       (on_remote (gr_pod_phase rm namespace pod_name))) (\<lambda>phase.
     if phase = Some ''Running'' then ret pod_name else throw (''Pod '' @ pod_name @ '' is not running''))"

definition pod_start_exec :: "'w gateway_remote \<Rightarrow> string \<Rightarrow> string \<Rightarrow> string list option \<Rightarrow> ('w, unit) gw" where
  "pod_start_exec rm namespace pod_name exec_config =
     bindE (map_err (\<lambda>_. ''Failed to exec into pod '' @ pod_name @ '' in namespace '' @ namespace)
       (on_remote (gr_kube_exec rm namespace pod_name [join '' '' (shell_command exec_config)]))) (\<lambda>(stdin, stdout, sizes).
     if \<not> stdin then throw ''Failed to get stdin stream from pod exec''
     else if \<not> stdout then throw ''Failed to get stdout stream from pod exec''
     else if \<not> sizes then throw ''Failed to get terminal resize channel''
     else ret ())"

section \<open>Handlers\<close>

definition conn_of :: "u64 \<Rightarrow> 'w gateway_world \<Rightarrow> ConnectionState option" where
  "conn_of cid g = map_of (gw_connections g) cid"

definition update_conn :: "u64 \<Rightarrow> (ConnectionState \<Rightarrow> ConnectionState) \<Rightarrow> ('w, unit) gw" where
  "update_conn cid f = modify (\<lambda>g. case conn_of cid g of
     Some c \<Rightarrow> g\<lparr>gw_connections := AList.update cid (f c) (gw_connections g)\<rparr> | None \<Rightarrow> g)"

definition new_client :: "'w gateway_world \<Rightarrow> u64 \<times> 'w gateway_world" where
  "new_client g =
     (gw_next_id g, g\<lparr>gw_next_id := gw_next_id g + 1,
        gw_connections := AList.update (gw_next_id g) (connection_new ''unknown'') (gw_connections g)\<rparr>)"

datatype auth_answer = AuthAccept | AuthReject

text \<open>The key that the client shows is not looked at.\<close>

definition auth_publickey ::
  "'w gateway_remote \<Rightarrow> GatewayServer \<Rightarrow> u64 \<Rightarrow> string \<Rightarrow> 'key \<Rightarrow> ('w, auth_answer) gw" where
  "auth_publickey rm gs cid user key =
     (case gr_parse_uuid rm user of
        None \<Rightarrow> ret AuthReject
      | Some sandbox_id \<Rightarrow>
          bindE (attempt (authorize_sandbox rm (gs_manager gs) sandbox_id)) (\<lambda>r. case r of
            Inl e \<Rightarrow> ret AuthReject
          | Inr auth \<Rightarrow>
              if \<not> ga_authorized auth then ret AuthReject
              else bindE (update_conn cid (\<lambda>c. c\<lparr>cn_sandbox_id := Some sandbox_id\<rparr>)) (\<lambda>_. ret AuthAccept)))"

definition channel_open_session :: "u64 \<Rightarrow> nat \<Rightarrow> ('w, bool) gw" where
  "channel_open_session cid ch = bindE (update_conn cid (\<lambda>c. c\<lparr>cn_channel_id := Some ch\<rparr>)) (\<lambda>_. ret True)"

definition say_and_close :: "u64 \<Rightarrow> nat \<Rightarrow> string \<Rightarrow> ('w, unit) gw" where
  "say_and_close cid ch msg = bindE (jot (SentData cid ch msg)) (\<lambda>_. jot (ClosedChannel cid ch))"

definition crlf :: string where
  "crlf = [CHR 0x0D, CHR 0x0A]"

definition pod_shell :: "'w gateway_remote \<Rightarrow> GatewayServer \<Rightarrow> string \<Rightarrow> ('w gateway_world, string, shell_stream) prog" where
  "pod_shell rm gs container_id =
     (let namespace = sshc_kubernetes_namespace (conf_ssh (gs_config gs));
          pod_name = ''dsb-sb-'' @ container_id
      in bindE (map_err (\<lambda>_. ''create shell: Failed to create Kubernetes client. Ensure running in-cluster or kubeconfig is valid'')
           (on_remote (gr_kube_client rm))) (\<lambda>_.
         bindE (map_err (\<lambda>e. ''create shell: '' @ e) (pod_create_exec rm namespace pod_name)) (\<lambda>_.
         bindE (map_err (\<lambda>e. ''start shell: '' @ e) (pod_start_exec rm namespace pod_name None)) (\<lambda>_.
         ret (PodShell namespace pod_name)))))"

definition docker_shell :: "'w gateway_remote \<Rightarrow> string \<Rightarrow> ('w gateway_world, string, shell_stream) prog" where
  "docker_shell rm container_id =
     bindE (map_err (\<lambda>e. ''create shell: Failed to connect to Docker daemon: '' @ e) (on_remote (gr_docker_connect rm))) (\<lambda>_.
     bindE (map_err (\<lambda>e. ''create shell: '' @ e) (docker_create_exec rm container_id None)) (\<lambda>exec_id.
     bindE (map_err (\<lambda>e. ''start shell: '' @ e) (docker_start_exec rm exec_id)) (\<lambda>_.
     ret (DockerShell container_id exec_id))))"

datatype shell_answer = ShellDone | ShellDisconnect

definition open_shell ::
  "'w gateway_remote \<Rightarrow> GatewayServer \<Rightarrow> u64 \<Rightarrow> nat \<Rightarrow> uuid \<Rightarrow> string \<Rightarrow> ('w, shell_answer) gw" where
  "open_shell rm gs cid ch sandbox_id container_id =
     (let kube = (sshc_backend (conf_ssh (gs_config gs)) = ''kubernetes'')
      in bindE (attempt (if kube then pod_shell rm gs container_id else docker_shell rm container_id)) (\<lambda>s. case s of
           Inl e \<Rightarrow> bindE (say_and_close cid ch (''Error: Failed to '' @ e @ crlf)) (\<lambda>_. ret ShellDone)
         | Inr stream \<Rightarrow>
             bindE (update_conn cid (\<lambda>c. c\<lparr>cn_exec_input := Some stream,
               cn_exec_output := (if kube then cn_exec_output c else Some stream), cn_handle_channel := Some ch\<rparr>)) (\<lambda>_.
             bindE (jot (SentData cid ch (''Connected to sandbox '' @ gr_uuid_text rm sandbox_id @
               '' (container: '' @ container_id @ '')'' @ crlf @ crlf))) (\<lambda>_.
             ret ShellDone))))"

definition shell_request ::
  "'w gateway_remote \<Rightarrow> GatewayServer \<Rightarrow> u64 \<Rightarrow> nat \<Rightarrow> ('w, shell_answer) gw" where
  "shell_request rm gs cid ch =
     bindE (gets (conn_of cid)) (\<lambda>conn. case Option.bind conn cn_sandbox_id of
       None \<Rightarrow> ret ShellDisconnect
     | Some sandbox_id \<Rightarrow>
         bindE (attempt (authorize_sandbox rm (gs_manager gs) sandbox_id)) (\<lambda>r. case r of
           Inl e \<Rightarrow> bindE (say_and_close cid ch (''Error: Failed to authorize sandbox: '' @ e @ crlf)) (\<lambda>_. ret ShellDone)
         | Inr auth \<Rightarrow>
             (case ga_sandbox auth of
                None \<Rightarrow> bindE (say_and_close cid ch (''Error: Sandbox not found or not running'' @ crlf)) (\<lambda>_. ret ShellDone)
              | Some sandbox \<Rightarrow> open_shell rm gs cid ch sandbox_id (sg_container_id sandbox))))"

text \<open>What the client types goes to the shell of its connection; errors of writing are only logged.\<close>

definition client_data :: "'w gateway_remote \<Rightarrow> u64 \<Rightarrow> nat \<Rightarrow> string \<Rightarrow> ('w, unit) gw" where
  "client_data rm cid ch data =
     bindE (gets (conn_of cid)) (\<lambda>conn. case Option.bind conn cn_exec_input of
       None \<Rightarrow> ret ()
     | Some stream \<Rightarrow>
         bindE (jot (WroteShell cid stream data)) (\<lambda>_.
         bindE (attempt (on_remote (gr_write rm stream data))) (\<lambda>_. ret ())))"

definition channel_close :: "'w gateway_remote \<Rightarrow> GatewayServer \<Rightarrow> u64 \<Rightarrow> nat \<Rightarrow> ('w, unit) gw" where
  "channel_close rm gs cid ch =
     bindE (gets (conn_of cid)) (\<lambda>conn. case Option.bind conn cn_session_id of
       None \<Rightarrow> ret ()
     | Some session_id \<Rightarrow>
         bindE (attempt (terminate_ssh_session rm (gs_manager gs) session_id ''Channel closed'')) (\<lambda>_. ret ()))"

text \<open>
  The task that forwards the output of a shell: it ends at an error, at an empty piece, at the end
  of the stream, or when the client cannot be reached (\<open>reached\<close> says for how many pieces it can).
\<close>

fun forward_output :: "nat \<Rightarrow> (string + string) list \<Rightarrow> string list" where
  "forward_output reached [] = []"
| "forward_output reached (Inl e # rest) = []"
| "forward_output reached (Inr data # rest) =
     (if data = [] then []
      else case reached of 0 \<Rightarrow> [] | Suc n \<Rightarrow> data # forward_output n rest)"

definition start_output_task :: "u64 \<Rightarrow> nat \<Rightarrow> (string + string) list \<Rightarrow> ('w, unit) gw" where
  "start_output_task cid reached items =
     bindE (gets (conn_of cid)) (\<lambda>conn.
     case (Option.bind conn cn_exec_output, Option.bind conn cn_handle_channel) of
       (Some stream, Some ch) \<Rightarrow>
         bindE (update_conn cid (\<lambda>c. c\<lparr>cn_exec_output := None\<rparr>)) (\<lambda>_.
         modify (\<lambda>g. g\<lparr>gw_log := gw_log g @ map (SentData cid ch) (forward_output reached items)\<rparr>))
     | _ \<Rightarrow> update_conn cid (\<lambda>c. c\<lparr>cn_exec_output := None\<rparr>))"

text \<open>For a pod the task owns the stream; only the channel is looked up.\<close>

definition start_pod_output_task :: "u64 \<Rightarrow> nat \<Rightarrow> (string + string) list \<Rightarrow> ('w, unit) gw" where
  "start_pod_output_task cid reached items =
     bindE (gets (conn_of cid)) (\<lambda>conn. case Option.bind conn cn_handle_channel of
       Some ch \<Rightarrow> modify (\<lambda>g. g\<lparr>gw_log := gw_log g @ map (SentData cid ch) (forward_output reached items)\<rparr>)
     | None \<Rightarrow> ret ())"

section \<open>The command line\<close>

record GatewayArgs =
  arg_port :: "u16 option"
  arg_api_url :: "string option"
  arg_api_key :: "string option"
  arg_host_key_path :: "string option"
  arg_log_level :: "string option"
  arg_backend :: "string option"
  arg_kubernetes_namespace :: "string option"

definition given_to :: "'a option \<Rightarrow> 'a \<Rightarrow> 'a" where
  "given_to a d = (case a of Some x \<Rightarrow> x | None \<Rightarrow> d)"

definition gateway_overrides :: "GatewayArgs \<Rightarrow> (string \<times> string) list" where
  "gateway_overrides args =
     (case arg_port args of Some p \<Rightarrow> [(''ssh.port'', show_nat (unat p))] | None \<Rightarrow> []) @
     (case arg_api_url args of Some u \<Rightarrow> [(''ssh.api_url'', u)] | None \<Rightarrow> []) @
     (case arg_log_level args of Some l \<Rightarrow> [(''logging.level'', l)] | None \<Rightarrow> [])"

text \<open>The overrides that have a key are applied by loading the configuration once more.\<close>

definition apply_cli_overrides :: "'v config_crate \<Rightarrow> Config \<Rightarrow> GatewayArgs \<Rightarrow> process \<Rightarrow> Config \<times> process" where
  "apply_cli_overrides crate config args pr =
     (let ssh = conf_ssh config;
          ssh1 = ssh\<lparr>sshc_api_key := or_else (arg_api_key args) (sshc_api_key ssh),
            sshc_host_key_path := or_else (arg_host_key_path args) (sshc_host_key_path ssh),
            sshc_backend := given_to (arg_backend args) (sshc_backend ssh),
            sshc_kubernetes_namespace := given_to (arg_kubernetes_namespace args) (sshc_kubernetes_namespace ssh)\<rparr>;
          config1 = config\<lparr>conf_ssh := ssh1\<rparr>
      in if gateway_overrides args = [] then (config1, pr)
         else (case load_with_cli_args crate (Some (gateway_overrides args)) pr of
             (Inl _, pr') \<Rightarrow> (config1, pr')
           | (Inr merged, pr') \<Rightarrow>
               (config1\<lparr>conf_ssh := ssh1\<lparr>sshc_api_key := or_else (sshc_api_key ssh1) (sshc_api_key (conf_ssh merged)),
                   sshc_host_key_path := or_else (sshc_host_key_path ssh1) (sshc_host_key_path (conf_ssh merged)),
                   sshc_port := sshc_port (conf_ssh merged), sshc_api_url := sshc_api_url (conf_ssh merged)\<rparr>,
                 conf_logging := (conf_logging config1)\<lparr>log_level := log_level (conf_logging merged)\<rparr>\<rparr>, pr')))"

end
