(* ===== verification/SshGatewayProps.thy ===== *)
theory SshGatewayProps
  imports SshGateway
begin

text \<open>
  What the SSH gateway guarantees over all its reachable states, however the calls of its handlers
  interleave: what a client types goes only into containers that the server named, and no session
  is ever created or ended at the server. And what it does not check: the key of the client.
\<close>

section \<open>Rules for the primitives\<close>

lemma wpE_jot [wp]: "wpE (jot e) Q E g = Q () (g\<lparr>gw_log := gw_log g @ [e]\<rparr>)"
  by (simp add: jot_def wpE_modify)

lemma wpE_on_remote [wp]:
  "wpE (on_remote p) Q E g =
     (case p (gw_remote g) of
        (Inl e, w) \<Rightarrow> E e (g\<lparr>gw_remote := w\<rparr>)
      | (Inr a, w) \<Rightarrow> Q a (g\<lparr>gw_remote := w\<rparr>))"
  by (simp add: wpE_def on_remote_def split: prod.splits sum.splits)

lemma wpE_http_call [wp]:
  "wpE (http_call rm sm meth url body) Q E g =
     (case gr_http rm meth url (sm_api_key sm) body (gw_remote g) of (r, w) \<Rightarrow> Q r (g\<lparr>gw_remote := w\<rparr>))"
  by (simp add: wpE_def http_call_def split: prod.splits)

lemma wpE_prod [wp]: "wpE (case x of (a, b) \<Rightarrow> p a b) Q E g = (case x of (a, b) \<Rightarrow> wpE (p a b) Q E g)"
  by (simp split: prod.splits)

definition with_conn :: "u64 \<Rightarrow> (ConnectionState \<Rightarrow> ConnectionState) \<Rightarrow> 'w gateway_world \<Rightarrow> 'w gateway_world" where
  "with_conn cid f g = (case conn_of cid g of
     Some c \<Rightarrow> g\<lparr>gw_connections := AList.update cid (f c) (gw_connections g)\<rparr> | None \<Rightarrow> g)"

lemma wpE_update_conn [wp]: "wpE (update_conn cid f) Q E g = Q () (with_conn cid f g)"
  by (simp add: update_conn_def wpE_modify with_conn_def)

section \<open>Invariant\<close>

text \<open>A shell is granted when the server has named its container in an answer.\<close>

fun shell_container :: "shell_stream \<Rightarrow> string \<Rightarrow> bool" where
  "shell_container (DockerShell c e) c' = (c' = c)"
| "shell_container (PodShell ns p) c' = (p = ''dsb-sb-'' @ c')"

definition granted :: "gateway_event list \<Rightarrow> shell_stream \<Rightarrow> bool" where
  "granted log st \<longleftrightarrow>
     (\<exists>i auth sb. AskedAuth i (Some auth) \<in> set log \<and> ga_sandbox auth = Some sb \<and> shell_container st (sg_container_id sb))"

definition authorised :: "gateway_event list \<Rightarrow> uuid \<Rightarrow> bool" where
  "authorised log i \<longleftrightarrow> (\<exists>auth. AskedAuth i (Some auth) \<in> set log \<and> ga_authorized auth)"

definition conn_ok :: "gateway_event list \<Rightarrow> ConnectionState \<Rightarrow> bool" where
  "conn_ok log c \<longleftrightarrow>
     cn_session_id c = None \<and> pred_option (authorised log) (cn_sandbox_id c) \<and> pred_option (granted log) (cn_exec_input c)"

fun event_ok :: "gateway_event list \<Rightarrow> gateway_event \<Rightarrow> bool" where
  "event_ok log (WroteShell cid st data) = granted log st"
| "event_ok log (AskedSession v) = False"
| "event_ok log _ = True"

definition gateway_ok :: "'w gateway_world \<Rightarrow> bool" where
  "gateway_ok g \<longleftrightarrow>
     (\<forall>cid c. conn_of cid g = Some c \<longrightarrow> conn_ok (gw_log g) c) \<and> list_all (event_ok (gw_log g)) (gw_log g)"

lemma granted_mono: "granted log st \<Longrightarrow> set log \<subseteq> set log' \<Longrightarrow> granted log' st"
  unfolding granted_def by blast

lemma authorised_mono: "authorised log i \<Longrightarrow> set log \<subseteq> set log' \<Longrightarrow> authorised log' i"
  unfolding authorised_def by blast

lemma conn_ok_mono: "conn_ok log c \<Longrightarrow> set log \<subseteq> set log' \<Longrightarrow> conn_ok log' c"
  by (auto simp: conn_ok_def pred_option_def intro: granted_mono authorised_mono)

lemma event_ok_mono: "event_ok log e \<Longrightarrow> set log \<subseteq> set log' \<Longrightarrow> event_ok log' e"
  by (cases e) (auto intro: granted_mono)

lemma gateway_ok_remote [simp]: "gateway_ok (g\<lparr>gw_remote := w\<rparr>) = gateway_ok g"
  by (simp add: gateway_ok_def conn_of_def)

lemma gateway_ok_log:
  assumes "gateway_ok g" and "list_all (event_ok (gw_log g @ es)) es"
  shows "gateway_ok (g\<lparr>gw_log := gw_log g @ es\<rparr>)"
  using assms unfolding gateway_ok_def conn_of_def
  by (auto simp: list_all_iff intro: conn_ok_mono [of "gw_log g"] event_ok_mono [of "gw_log g"])

lemma gateway_ok_conn:
  assumes "gateway_ok g" and "\<And>c. conn_of cid g = Some c \<Longrightarrow> conn_ok (gw_log g) c \<Longrightarrow> conn_ok (gw_log g) (f c)"
  shows "gateway_ok (with_conn cid f g)"
  using assms by (auto simp: gateway_ok_def with_conn_def conn_of_def AList.update_conv' split: option.splits)

lemma with_conn_log [simp]: "gw_log (with_conn cid f g) = gw_log g"
  by (simp add: with_conn_def split: option.splits)

text \<open>An answer of the server is recorded; nothing else of the gateway changes.\<close>

lemma gateway_authorize_wp:
  assumes "\<And>auth w. Q auth (g\<lparr>gw_remote := w, gw_log := gw_log g @ [AskedAuth i (Some auth)]\<rparr>)"
    and "\<And>e w. E e (g\<lparr>gw_remote := w, gw_log := gw_log g @ [AskedAuth i None]\<rparr>)"
  shows "wpE (authorize_sandbox rm sm i) Q E g"
  unfolding authorize_sandbox_def
  by (auto simp: wp intro: assms split: prod.splits sum.splits option.splits)

text \<open>Opening a shell changes the remote side only, and the shell is in the container asked for.\<close>

lemma docker_shell_wp:
  assumes "\<And>w e. Q (DockerShell c e) (g\<lparr>gw_remote := w\<rparr>)" and "\<And>e w. E e (g\<lparr>gw_remote := w\<rparr>)"
  shows "wpE (docker_shell rm c) Q E g"
  unfolding docker_shell_def docker_create_exec_def docker_start_exec_def
  by (auto simp: wp intro: assms split: prod.splits sum.splits)

lemma pod_shell_wp:
  assumes "\<And>w ns. Q (PodShell ns (''dsb-sb-'' @ c)) (g\<lparr>gw_remote := w\<rparr>)" and "\<And>e w. E e (g\<lparr>gw_remote := w\<rparr>)"
  shows "wpE (pod_shell rm gs c) Q E g"
  unfolding pod_shell_def pod_create_exec_def pod_start_exec_def Let_def
  by (auto simp: wp intro: assms(1) [simplified] assms(2) split: prod.splits sum.splits)

lemmas gateway_ok_event = gateway_ok_log [where es = "[e]" for e, simplified]

lemma asked_ok: "gateway_ok g \<Longrightarrow> gateway_ok (g\<lparr>gw_remote := w, gw_log := gw_log g @ [AskedAuth i a]\<rparr>)"
  using gateway_ok_event [of "g\<lparr>gw_remote := w\<rparr>" "AskedAuth i a"] by simp

lemma conn_ok_of: "gateway_ok g \<Longrightarrow> conn_of cid g = Some c \<Longrightarrow> conn_ok (gw_log g) c"
  unfolding gateway_ok_def by blast

text \<open>Every handler keeps the invariant.\<close>

lemma new_client_ok: "gateway_ok g \<Longrightarrow> gateway_ok (snd (new_client g))"
  by (auto simp: gateway_ok_def new_client_def conn_of_def AList.update_conv' connection_new_def conn_ok_def)

lemma auth_ok:
  assumes "gateway_ok g"
  shows "wpE (auth_publickey rm gs cid user key) (\<lambda>_. gateway_ok) (\<lambda>_. gateway_ok) g"
proof (cases "gr_parse_uuid rm user")
  case None
  then show ?thesis using assms by (simp add: auth_publickey_def wp)
next
  case (Some i)
  show ?thesis
    unfolding auth_publickey_def Some option.case wpE_bindE wpE_attempt
    by (rule gateway_authorize_wp)
      (auto simp: wp assms authorised_def conn_ok_def intro!: gateway_ok_conn asked_ok)
qed

lemma channel_open_ok: "gateway_ok g \<Longrightarrow> wpE (channel_open_session cid ch) (\<lambda>_. gateway_ok) (\<lambda>_. gateway_ok) g"
  by (auto simp: channel_open_session_def wp conn_ok_def intro!: gateway_ok_conn)

lemma close_ok:
  assumes "gateway_ok g"
  shows "wpE (channel_close rm gs cid ch) (\<lambda>_. gateway_ok) (\<lambda>_. gateway_ok) g"
proof -
  have "Option.bind (conn_of cid g) cn_session_id = None"
    using assms by (cases "conn_of cid g") (auto simp: gateway_ok_def conn_ok_def)
  then show ?thesis using assms by (simp add: channel_close_def wp)
qed

lemma data_ok:
  assumes "gateway_ok g"
  shows "wpE (client_data rm cid ch data) (\<lambda>_. gateway_ok) (\<lambda>_. gateway_ok) g"
proof (cases "Option.bind (conn_of cid g) cn_exec_input")
  case None
  then show ?thesis using assms by (simp add: client_data_def wp)
next
  case (Some st)
  then have "granted (gw_log g) st"
    using conn_ok_of [OF assms, of cid] by (cases "conn_of cid g") (auto simp: conn_ok_def)
  then have "granted (gw_log g @ [WroteShell cid st data]) st"
    by (rule granted_mono) auto
  then show ?thesis
    using assms Some
    by (auto simp: client_data_def wp intro!: gateway_ok_event split: prod.splits sum.splits)
qed

lemma output_ok:
  assumes "gateway_ok g"
  shows "wpE (start_output_task cid n items) (\<lambda>_. gateway_ok) (\<lambda>_. gateway_ok) g"
proof -
  let ?g = "with_conn cid (cn_exec_output_update (\<lambda>_. None)) g"
  have ok: "gateway_ok ?g"
    by (rule gateway_ok_conn [OF assms]) (simp add: conn_ok_def)
  have "gateway_ok (?g\<lparr>gw_log := gw_log ?g @ map (SentData cid ch) (forward_output n items)\<rparr>)" for ch
    by (rule gateway_ok_log [OF ok]) (simp add: list_all_iff)
  then show ?thesis
    using ok unfolding start_output_task_def
    by (simp add: wp split: option.splits)
qed

lemma pod_output_ok:
  assumes "gateway_ok g"
  shows "wpE (start_pod_output_task cid n items) (\<lambda>_. gateway_ok) (\<lambda>_. gateway_ok) g"
  using assms gateway_ok_log [OF assms, of "map (SentData cid ch) (forward_output n items)" for ch]
  unfolding start_pod_output_task_def
  by (auto simp: wp list_all_iff split: option.splits)

lemma say_ok: "gateway_ok g \<Longrightarrow> wpE (bindE (say_and_close cid ch msg) (\<lambda>_. ret x)) (\<lambda>_. gateway_ok) (\<lambda>_. gateway_ok) g"
  using gateway_ok_log [of g "[SentData cid ch msg, ClosedChannel cid ch]"]
  by (simp add: say_and_close_def wp)

lemma opened_ok:
  assumes "gateway_ok g" "granted (gw_log g) st"
  shows "wpE (bindE (update_conn cid (\<lambda>c. c\<lparr>cn_exec_input := Some st, cn_exec_output := out c, cn_handle_channel := Some ch\<rparr>)) (\<lambda>_.
    bindE (jot (SentData cid ch msg)) (\<lambda>_. ret x))) (\<lambda>_. gateway_ok) (\<lambda>_. gateway_ok) g"
proof -
  have "gateway_ok (with_conn cid (\<lambda>c. c\<lparr>cn_exec_input := Some st, cn_exec_output := out c, cn_handle_channel := Some ch\<rparr>) g)"
    using assms by (intro gateway_ok_conn) (auto simp: conn_ok_def)
  from gateway_ok_event [OF this, of "SentData cid ch msg"] show ?thesis
    by (simp add: wp)
qed

lemma open_shell_ok:
  assumes "gateway_ok g" and "AskedAuth j (Some auth) \<in> set (gw_log g)" and "ga_sandbox auth = Some sb"
  shows "wpE (open_shell rm gs cid ch i (sg_container_id sb)) (\<lambda>_. gateway_ok) (\<lambda>_. gateway_ok) g"
proof -
  have g: "granted (gw_log g) st" if "shell_container st (sg_container_id sb)" for st
    using that assms(2,3) unfolding granted_def by blast
  have ok: "gateway_ok (g\<lparr>gw_remote := w\<rparr>)" for w
    using assms(1) by simp
  show ?thesis
  proof (cases "sshc_backend (conf_ssh (gs_config gs)) = ''kubernetes''")
    case True
    show ?thesis
      unfolding open_shell_def Let_def wpE_bindE [of "attempt _"] wpE_attempt if_P [OF True]
      by (rule pod_shell_wp; unfold sum.case) (rule opened_ok say_ok; (rule ok | simp add: g))+
  next
    case False
    show ?thesis
      unfolding open_shell_def Let_def wpE_bindE [of "attempt _"] wpE_attempt if_not_P [OF False]
      by (rule docker_shell_wp; unfold sum.case) (rule opened_ok say_ok; (rule ok | simp add: g))+
  qed
qed

lemma shell_ok:
  assumes "gateway_ok g"
  shows "wpE (shell_request rm gs cid ch) (\<lambda>_. gateway_ok) (\<lambda>_. gateway_ok) g"
proof (cases "Option.bind (conn_of cid g) cn_sandbox_id")
  case None
  then show ?thesis using assms by (simp add: shell_request_def wp)
next
  case (Some i)
  have asked: "gateway_ok (g\<lparr>gw_remote := w, gw_log := gw_log g @ [AskedAuth i a]\<rparr>)" for w a
    by (rule asked_ok [OF assms])
  show ?thesis
    unfolding shell_request_def wpE_bindE [of "gets _"] wpE_gets Some option.case wpE_bindE [of "attempt _"] wpE_attempt
    by (rule gateway_authorize_wp) (auto simp: asked intro!: say_ok open_shell_ok split: option.splits)
qed

section \<open>Reachable states\<close>

text \<open>
  The steps of the gateway: its handlers, on any connection and in any order, the task that
  forwards output, and changes of the world around it.
\<close>

inductive gateway_step :: "'w gateway_remote \<Rightarrow> GatewayServer \<Rightarrow> 'w gateway_world \<Rightarrow> 'w gateway_world \<Rightarrow> bool"
  for rm :: "'w gateway_remote" and gs :: GatewayServer where
  connects: "gateway_step rm gs g (snd (new_client g))"
| authenticates: "gateway_step rm gs g (snd (auth_publickey rm gs cid user (key :: string) g))"
| opens: "gateway_step rm gs g (snd (channel_open_session cid ch g))"
| asks_shell: "gateway_step rm gs g (snd (shell_request rm gs cid ch g))"
| types: "gateway_step rm gs g (snd (client_data rm cid ch data g))"
| closes: "gateway_step rm gs g (snd (channel_close rm gs cid ch g))"
| forwards: "gateway_step rm gs g (snd (start_output_task cid n items g))"
| forwards_pod: "gateway_step rm gs g (snd (start_pod_output_task cid n items g))"
| world_moves: "gateway_step rm gs g (g\<lparr>gw_remote := w\<rparr>)"

definition gateway_start :: "'w \<Rightarrow> 'w gateway_world" where
  "gateway_start w = \<lparr>gw_connections = [], gw_next_id = 0, gw_remote = w, gw_log = []\<rparr>"

lemma handlers_ok:
  assumes "gateway_ok g"
  shows "gateway_ok (snd (auth_publickey rm gs cid user key g))" "gateway_ok (snd (channel_open_session cid ch g))"
    "gateway_ok (snd (shell_request rm gs cid ch g))" "gateway_ok (snd (client_data rm cid ch data g))"
    "gateway_ok (snd (channel_close rm gs cid ch g))" "gateway_ok (snd (start_output_task cid n items g))"
    "gateway_ok (snd (start_pod_output_task cid n items g))"
  using auth_ok [OF assms] channel_open_ok [OF assms] shell_ok [OF assms] data_ok [OF assms] close_ok [OF assms] output_ok [OF assms]
    pod_output_ok [OF assms]
  unfolding wpE_snd by simp_all

lemma step_ok: "gateway_step rm gs g g' \<Longrightarrow> gateway_ok g \<Longrightarrow> gateway_ok g'"
  by (induction rule: gateway_step.induct) (simp_all add: handlers_ok new_client_ok)

lemma start_ok: "gateway_ok (gateway_start w)"
  by (simp add: gateway_ok_def gateway_start_def conn_of_def)

lemma gateway_reachable_ok: "(gateway_step rm gs)\<^sup>*\<^sup>* (gateway_start w) g \<Longrightarrow> gateway_ok g"
  by (induction rule: rtranclp_induct) (auto intro: step_ok start_ok)

text \<open>
  C25. In every state that the gateway can reach, whatever clients do in whatever order: all input
  of clients has gone into shells of containers that the server named in an answer, a connection
  that is bound to a sandbox had a positive answer for it, and no session has ever been created,
  kept alive or ended at the server, so that the server's list of SSH sessions stays empty.
\<close>

theorem gateway_shells_granted:
  assumes "(gateway_step rm gs)\<^sup>*\<^sup>* (gateway_start w) g"
  shows "(WroteShell cid st data \<in> set (gw_log g) \<longrightarrow> granted (gw_log g) st) \<and>
    (conn_of cid g = Some c \<longrightarrow> pred_option (authorised (gw_log g)) (cn_sandbox_id c) \<and> cn_session_id c = None) \<and>
    AskedSession verb \<notin> set (gw_log g)"
proof -
  have ok: "gateway_ok g" by (rule gateway_reachable_ok [OF assms])
  then have "event_ok (gw_log g) e" if "e \<in> set (gw_log g)" for e
    using that by (auto simp: gateway_ok_def list_all_iff)
  from this [of "WroteShell cid st data"] this [of "AskedSession verb"] show ?thesis
    using conn_ok_of [OF ok, of cid c] by (auto simp: conn_ok_def)
qed

section \<open>The key of the client\<close>

text \<open>The server grants a sandbox, and the Docker daemon opens shells.\<close>

definition server_grants :: "'w gateway_remote \<Rightarrow> SessionManager \<Rightarrow> uuid \<Rightarrow> string \<Rightarrow> bool" where
  "server_grants rm sm i c \<longleftrightarrow>
     (\<forall>w. \<exists>status body w' auth sb.
        gr_http rm ''GET'' (sm_api_url sm @ ''/ssh/authorize/'' @ gr_uuid_text rm i) (sm_api_key sm) None w = (Inr (status, Inr body), w') \<and>
        200 \<le> status \<and> status < 300 \<and> gr_parse_auth rm body = Some auth \<and> ga_authorized auth \<and>
        ga_sandbox auth = Some sb \<and> sg_container_id sb = c)"

definition daemon_works :: "'w gateway_remote \<Rightarrow> bool" where
  "daemon_works rm \<longleftrightarrow>
     (\<forall>w. \<exists>w'. gr_docker_connect rm w = (Inr (), w')) \<and>
     (\<forall>c cmd w. \<exists>e w'. gr_create_exec rm c cmd w = (Inr e, w')) \<and>
     (\<forall>e w. \<exists>w'. gr_start_exec rm e w = (Inr True, w'))"

lemma authorize_granted:
  assumes "server_grants rm sm i c"
    and "\<And>auth sb w. ga_authorized auth \<Longrightarrow> ga_sandbox auth = Some sb \<Longrightarrow> sg_container_id sb = c \<Longrightarrow>
      Q auth (g\<lparr>gw_remote := w, gw_log := gw_log g @ [AskedAuth i (Some auth)]\<rparr>)"
  shows "wpE (authorize_sandbox rm sm i) Q E g"
proof -
  obtain status body w auth sb where
    http: "gr_http rm ''GET'' (sm_api_url sm @ ''/ssh/authorize/'' @ gr_uuid_text rm i) (sm_api_key sm) None (gw_remote g) =
      (Inr (status, Inr body), w)" and ok: "200 \<le> status" "status < 300"
    and auth: "gr_parse_auth rm body = Some auth" "ga_authorized auth" "ga_sandbox auth = Some sb" "sg_container_id sb = c"
    using assms(1) unfolding server_grants_def by metis
  show ?thesis
    unfolding authorize_sandbox_def wpE_bindE wpE_http_call http prod.case
    using assms(2) [OF auth(2-4)] by (simp add: wp read_reply_def ok auth(1))
qed

lemma docker_shell_works:
  assumes "daemon_works rm" and "\<And>w e. Q (DockerShell c e) (g\<lparr>gw_remote := w\<rparr>)"
  shows "wpE (docker_shell rm c) Q E g"
proof -
  obtain w1 where 1: "gr_docker_connect rm (gw_remote g) = (Inr (), w1)"
    using assms(1) unfolding daemon_works_def by blast
  obtain e w2 where 2: "gr_create_exec rm c [''/bin/bash''] w1 = (Inr e, w2)"
    using assms(1) unfolding daemon_works_def by blast
  obtain w3 where 3: "gr_start_exec rm e w2 = (Inr True, w3)"
    using assms(1) unfolding daemon_works_def by blast
  show ?thesis
    using assms(2) [of e w3]
    by (simp add: docker_shell_def docker_create_exec_def docker_start_exec_def wp shell_command_def 1 2 3)
qed

lemma conn_of_simps [simp]:
  "conn_of cid (g\<lparr>gw_remote := w\<rparr>) = conn_of cid g" "conn_of cid (g\<lparr>gw_log := l\<rparr>) = conn_of cid g"
  "conn_of cid (with_conn cid f g) = map_option f (conn_of cid g)"
  by (simp_all add: conn_of_def with_conn_def AList.update_conv' split: option.splits)

text \<open>
  C26. A client needs no key of its own: when the server grants a sandbox to the gateway and the
  daemon works, a client that names the sandbox is accepted with any key it likes and gets a
  shell in the container of the sandbox.
\<close>

theorem any_key_opens_shell:
  assumes "gr_parse_uuid rm user = Some i" and "server_grants rm (gs_manager gs) i c" and "daemon_works rm"
    and "sshc_backend (conf_ssh (gs_config gs)) \<noteq> ''kubernetes''"
  shows "let (cid, g1) = new_client g;
             (r, g2) = auth_publickey rm gs cid user key g1;
             (_, g3) = shell_request rm gs cid ch g2
         in r = Inr AuthAccept \<and> (\<exists>e. Option.bind (conn_of cid g3) cn_exec_input = Some (DockerShell c e))"
proof -
  obtain cid g1 where new: "new_client g = (cid, g1)" by (cases "new_client g")
  then have conn: "conn_of cid g1 = Some (connection_new ''unknown'')"
    by (auto simp: new_client_def conn_of_def AList.update_conv')
  have "wpE (auth_publickey rm gs cid user key)
      (\<lambda>a v. a = AuthAccept \<and> Option.bind (conn_of cid v) cn_sandbox_id = Some i) (\<lambda>_ _. False) g1"
    unfolding auth_publickey_def assms(1) option.case wpE_bindE [of "attempt _"] wpE_attempt
    by (rule authorize_granted [OF assms(2)])
      (simp add: wp conn)
  then obtain g2 where auth: "auth_publickey rm gs cid user key g1 = (Inr AuthAccept, g2)"
    and bound: "Option.bind (conn_of cid g2) cn_sandbox_id = Some i"
    by (auto simp: wpE_def split: prod.splits sum.splits)
  then obtain k where k: "conn_of cid g2 = Some k" by (cases "conn_of cid g2") auto
  have "wpE (shell_request rm gs cid ch) (\<lambda>_ v. \<exists>e. Option.bind (conn_of cid v) cn_exec_input = Some (DockerShell c e)) (\<lambda>_ _. False) g2"
    unfolding shell_request_def wpE_bindE [of "gets _"] wpE_gets bound option.case wpE_bindE [of "attempt _"] wpE_attempt
    by (rule authorize_granted [OF assms(2)])
      (simp add: open_shell_def Let_def assms(4) wpE_bindE wpE_attempt docker_shell_works [OF assms(3)] wp k)
  then show ?thesis
    by (auto simp: new auth wpE_def split: prod.splits sum.splits)
qed

section \<open>Witnesses\<close>

definition small_remote :: "nat gateway_remote" where
  "small_remote =
     \<lparr>gr_http = (\<lambda>_ _ _ _ n. (Inr (200, Inr ''yes''), Suc n)),
      gr_parse_auth = (\<lambda>_. Some \<lparr>ga_authorized = True, ga_sandbox = Some \<lparr>sg_container_id = ''ctr0''\<rparr>\<rparr>),
      gr_parse_session = (\<lambda>_. None), gr_parse_uuid = (\<lambda>t. if t = ''7'' then Some 7 else None), gr_uuid_text = (\<lambda>u. show_nat (unat u)),
      gr_docker_connect = ret (), gr_create_exec = (\<lambda>_ _. ret ''exec1''), gr_start_exec = (\<lambda>_. ret True), gr_kube_client = ret (),
      gr_pod_phase = (\<lambda>_ _. ret None), gr_kube_exec = (\<lambda>_ _ _. throw ''no''), gr_write = (\<lambda>_ _. ret ())\<rparr>"

definition small_gateway :: GatewayServer where
  "small_gateway = ssh_server_new config_default"

lemma small_grants: "server_grants small_remote (gs_manager small_gateway) 7 ''ctr0''"
  by (simp add: server_grants_def small_remote_def)

lemma small_daemon_works: "daemon_works small_remote"
  by (simp add: daemon_works_def small_remote_def ret_def)

definition typed_run :: "nat gateway_world" where
  "typed_run =
     snd (client_data small_remote 0 1 ''id'' (snd (shell_request small_remote small_gateway 0 1
       (snd (auth_publickey small_remote small_gateway 0 ''7'' ''any key'' (snd (new_client (gateway_start 0))))))))"

lemma typed_run_reachable: "(gateway_step small_remote small_gateway)\<^sup>*\<^sup>* (gateway_start 0) typed_run"
  unfolding typed_run_def
  by (rule rtranclp.rtrancl_into_rtrancl [OF rtranclp.rtrancl_into_rtrancl [OF rtranclp.rtrancl_into_rtrancl [OF r_into_rtranclp]]])
    (rule gateway_step.intros)+

theorem gateway_shells_granted_witness:
  "WroteShell 0 (DockerShell ''ctr0'' ''exec1'') ''id'' \<in> set (gw_log typed_run) \<and>
   granted (gw_log typed_run) (DockerShell ''ctr0'' ''exec1'') \<and> AskedSession ''create'' \<notin> set (gw_log typed_run)"
proof -
  have "WroteShell 0 (DockerShell ''ctr0'' ''exec1'') ''id'' \<in> set (gw_log typed_run)" by code_simp
  then show ?thesis
    using gateway_shells_granted [OF typed_run_reachable, of 0 "DockerShell ''ctr0'' ''exec1''" "''id''" undefined "''create''"]
    by blast
qed

theorem any_key_opens_shell_witness:
  "let (cid, g1) = new_client (gateway_start 0);
       (r, g2) = auth_publickey small_remote small_gateway cid ''7'' ''a key of a stranger'' g1;
       (_, g3) = shell_request small_remote small_gateway cid 1 g2
   in r = Inr AuthAccept \<and> (\<exists>e. Option.bind (conn_of cid g3) cn_exec_input = Some (DockerShell ''ctr0'' e))"
proof (rule any_key_opens_shell [OF _ small_grants small_daemon_works])
  show "gr_parse_uuid small_remote ''7'' = Some 7" by (simp add: small_remote_def)
  show "sshc_backend (conf_ssh (gs_config small_gateway)) \<noteq> ''kubernetes''"
    by (simp add: small_gateway_def ssh_server_new_def config_default_def ssh_default_def)
qed

end
