(* ===== verification/ActivityApi.thy ===== *)
theory ActivityApi
  imports ApiProps "HOL-Library.Multiset"
begin

text \<open>
  The activity log as clients see it: the queries of \<open>src/src/db/activities.rs\<close> over the table
  that \<open>Service\<close> writes, the service in front of them (\<open>src/src/core/activities.rs\<close>) and the
  handlers of \<open>src/src/api/handlers/activities.rs\<close>, cleanup on request included.
  The theorems say what a listing contains, that a key reads only the log of its own
  sandboxes, and what a cleanup with and without \<open>dry_run\<close> does.
\<close>

section \<open>Rows of the activity table\<close>

fun activity_type_to_string :: "ActivityType \<Rightarrow> string" where
  "activity_type_to_string ActCreate = ''create''"
| "activity_type_to_string ActDelete = ''delete''"
| "activity_type_to_string ActRestore = ''restore''"
| "activity_type_to_string ActExec = ''exec''"
| "activity_type_to_string ActStats = ''stats''"
| "activity_type_to_string ActStop = ''stop''"
| "activity_type_to_string ActStart = ''start''"
| "activity_type_to_string ActCleanup = ''cleanup''"
| "activity_type_to_string ActInfo = ''info''"
| "activity_type_to_string ActContainerActivity = ''container_activity''"
| "activity_type_to_string ActUpload = ''upload''"
| "activity_type_to_string ActDownload = ''download''"

definition activity_types :: "ActivityType list" where
  "activity_types = [ActCreate, ActDelete, ActRestore, ActExec, ActStats, ActStop, ActStart, ActCleanup,
     ActInfo, ActContainerActivity, ActUpload, ActDownload]"

text \<open>
  The error of the parser is declared as an error of the connection pool, as in the code.
\<close>

datatype ActivityError =
    ActPostgres string
  | ActPool string

definition activity_type_from_string :: "string \<Rightarrow> ActivityError + ActivityType" where
  "activity_type_from_string s =
     (case find (\<lambda>t. activity_type_to_string t = s) activity_types of
        Some t \<Rightarrow> Inr t
      | None \<Rightarrow> Inl (ActPool (''Invalid activity type: '' @ s)))"

record activity_row =
  arw_id :: uuid
  arw_sandbox_id :: uuid
  arw_activity_type :: string
  arw_timestamp :: time
  arw_details :: json
  arw_sandbox_is_deleted :: bool

text \<open>The parameters of the \<open>INSERT\<close>; the table of the database is the log under this encoding.\<close>

definition activity_to_row :: "SandboxActivity \<Rightarrow> activity_row" where
  "activity_to_row a =
     \<lparr>arw_id = act_id a, arw_sandbox_id = act_sandbox_id a,
      arw_activity_type = activity_type_to_string (act_activity_type a),
      arw_timestamp = act_timestamp a, arw_details = act_details a,
      arw_sandbox_is_deleted = act_sandbox_is_deleted a\<rparr>"

definition row_to_activity :: "activity_row \<Rightarrow> ActivityError + SandboxActivity" where
  "row_to_activity r =
     (case activity_type_from_string (arw_activity_type r) of
        Inl e \<Rightarrow> Inl e
      | Inr t \<Rightarrow> Inr \<lparr>act_id = arw_id r, act_sandbox_id = arw_sandbox_id r, act_activity_type = t,
          act_timestamp = arw_timestamp r, act_details = arw_details r,
          act_sandbox_is_deleted = arw_sandbox_is_deleted r\<rparr>)"

definition activity_rows :: "('s, 'b) world \<Rightarrow> activity_row list" where
  "activity_rows w = map activity_to_row (w_activities w)"

section \<open>Queries\<close>

type_synonym ('s, 'b, 'a) act = "(('s, 'b) world, ActivityError, 'a) prog"

definition activity_statement :: "('s, 'b, unit) act" where
  "activity_statement = map_err ActPostgres db_statement"

text \<open>
  \<open>ORDER BY timestamp DESC LIMIT\<close>: the limit is cast to a signed number, and the database
  refuses a negative one.
\<close>

definition select_newest :: "(activity_row \<Rightarrow> bool) \<Rightarrow> u64 \<Rightarrow> ('s, 'b, activity_row list) act" where
  "select_newest p limit =
     bindE activity_statement (\<lambda>_.
     if sint limit < 0 then throw (ActPostgres ''LIMIT must not be negative'')
     else gets (\<lambda>w. take (nat (sint limit)) (sort_key (\<lambda>r. - arw_timestamp r) (filter p (activity_rows w)))))"

text \<open>Rows that cannot be read are logged and skipped.\<close>

fun readable_rows :: "activity_row list \<Rightarrow> SandboxActivity list" where
  "readable_rows [] = []"
| "readable_rows (r # rs) =
     (case row_to_activity r of Inr a \<Rightarrow> a # readable_rows rs | Inl _ \<Rightarrow> readable_rows rs)"

definition store_list_sandbox_activities :: "uuid \<Rightarrow> u64 \<Rightarrow> ('s, 'b, SandboxActivity list) act" where
  "store_list_sandbox_activities sid limit =
     bindE (select_newest (\<lambda>r. arw_sandbox_id r = sid) limit) (\<lambda>rows. ret (readable_rows rows))"

definition store_list_recent_activities :: "u64 \<Rightarrow> ('s, 'b, SandboxActivity list) act" where
  "store_list_recent_activities limit =
     bindE (select_newest (\<lambda>_. True) limit) (\<lambda>rows. ret (readable_rows rows))"

definition store_get_activity :: "uuid \<Rightarrow> ('s, 'b, SandboxActivity option) act" where
  "store_get_activity aid =
     bindE activity_statement (\<lambda>_.
     bindE (gets (\<lambda>w. find (\<lambda>r. arw_id r = aid) (activity_rows w))) (\<lambda>row. case row of
       None \<Rightarrow> ret None
     | Some r \<Rightarrow> (case row_to_activity r of Inl e \<Rightarrow> throw e | Inr a \<Rightarrow> ret (Some a))))"

definition svc_list_sandbox_activities :: "uuid \<Rightarrow> u64 \<Rightarrow> ('s, 'b, ActivityResponse list) act" where
  "svc_list_sandbox_activities sid limit =
     bindE (store_list_sandbox_activities sid limit) (\<lambda>l. ret (map activity_response_from l))"

definition svc_list_recent_activities :: "u64 \<Rightarrow> ('s, 'b, ActivityResponse list) act" where
  "svc_list_recent_activities limit =
     bindE (store_list_recent_activities limit) (\<lambda>l. ret (map activity_response_from l))"

definition svc_get_activity :: "uuid \<Rightarrow> ('s, 'b, ActivityResponse option) act" where
  "svc_get_activity aid =
     bindE (store_get_activity aid) (\<lambda>found. ret (map_option activity_response_from found))"

section \<open>Handlers\<close>

record ListActivitiesQuery =
  laq_sandbox_id :: "uuid option"
  laq_activity_type :: "string option"
  laq_limit :: "u64 option"

record CleanupQuery =
  cq_dry_run :: "bool option"
  cq_timeout :: "u64 option"

record CleanupResponse =
  cl_message :: string
  cl_cleaned :: u64
  cl_dry_run :: bool

text \<open>What the handlers answer: an error response, or one of the documents of the log.\<close>

datatype activity_answer =
    ErrorAnswer http_response
  | ActivityList "ActivityResponse list"
  | OneActivity ActivityResponse
  | CleanupDone CleanupResponse

type_synonym ('s, 'b) act_handler = "(('s, 'b) world, activity_answer, activity_answer) prog"

definition privileged_only_response :: "string \<Rightarrow> activity_answer" where
  "privileged_only_response m =
     ErrorAnswer (into_response (ApiValidation m None EC_AuthorizationInsufficientPermissions))"

definition require_log_owner ::
  "('s, 'b) SandboxService \<Rightarrow> ApiKeyIdentity \<Rightarrow> uuid \<Rightarrow> (('s, 'b) world, activity_answer, unit) prog" where
  "require_log_owner svc ident i =
     (if is_privileged_key ident then ret () else map_err ErrorAnswer (require_owner svc ident i False))"

definition no_activity_service :: activity_answer where
  "no_activity_service = ErrorAnswer (reply 503 (TextBody ''Activity tracking requires PostgreSQL backend''))"

fun activity_error_display :: "ActivityError \<Rightarrow> string" where
  "activity_error_display (ActPostgres m) = ''Database error: PostgreSQL error: '' @ m"
| "activity_error_display (ActPool m) = ''Database error: Pool error: '' @ m"

definition or_internal_error :: "string \<Rightarrow> ('s, 'b, 'a) act \<Rightarrow> (('s, 'b) world, activity_answer, 'a) prog" where
  "or_internal_error what m = map_err (\<lambda>e. ErrorAnswer (reply 500 (json_error (what @ activity_error_display e)))) m"

definition limit_of :: "ListActivitiesQuery \<Rightarrow> u64" where
  "limit_of params = (case laq_limit params of None \<Rightarrow> 100 | Some l \<Rightarrow> l)"

definition api_list_activities ::
  "('s, 'b) SandboxService \<Rightarrow> ApiKeyIdentity \<Rightarrow> ListActivitiesQuery \<Rightarrow> ('s, 'b) act_handler" where
  "api_list_activities svc ident params =
     bindE (case laq_sandbox_id params of
         Some sid \<Rightarrow> require_log_owner svc ident sid
       | None \<Rightarrow>
           if is_privileged_key ident then ret ()
           else throw (privileged_only_response ''Listing all activities requires a privileged API key'')) (\<lambda>_.
     if \<not> svc_activity_service svc then throw no_activity_service
     else bindE (or_internal_error ''Failed to list activities: ''
         (case laq_sandbox_id params of
            Some sid \<Rightarrow> svc_list_sandbox_activities sid (limit_of params)
          | None \<Rightarrow> svc_list_recent_activities (limit_of params)))
       (\<lambda>l. ret (ActivityList l)))"

definition api_get_activity ::
  "('s, 'b) SandboxService \<Rightarrow> ApiKeyIdentity \<Rightarrow> uuid \<Rightarrow> ('s, 'b) act_handler" where
  "api_get_activity svc ident aid =
     (if \<not> svc_activity_service svc then throw no_activity_service
      else bindE (or_internal_error ''Failed to get activity: '' (svc_get_activity aid)) (\<lambda>found. case found of
          None \<Rightarrow> throw (ErrorAnswer (reply 404 (TextBody ''Activity not found'')))
        | Some a \<Rightarrow> bindE (require_log_owner svc ident (ar_sandbox_id a)) (\<lambda>_. ret (OneActivity a))))"

definition api_list_sandbox_activities ::
  "('s, 'b) SandboxService \<Rightarrow> ApiKeyIdentity \<Rightarrow> uuid \<Rightarrow> ListActivitiesQuery \<Rightarrow> ('s, 'b) act_handler" where
  "api_list_sandbox_activities svc ident sid params =
     bindE (require_log_owner svc ident sid) (\<lambda>_.
     if \<not> svc_activity_service svc then throw no_activity_service
     else bindE (or_internal_error ''Failed to list sandbox activities: '' (svc_list_sandbox_activities sid (limit_of params)))
       (\<lambda>l. ret (ActivityList l)))"

text \<open>Cleanup on request. The time is read once; the count is a \<open>u64\<close> that only successes increase.\<close>

definition inactive_cleanup_one ::
  "('s, 'b) SandboxService \<Rightarrow> bool \<Rightarrow> u64 \<Rightarrow> time \<Rightarrow> Sandbox \<Rightarrow> u64 \<Rightarrow> ('s, 'b, u64) svc" where
  "inactive_cleanup_one svc dry_run timeout now sandbox cleaned =
     (if timeout \<le> elapsed_minutes now (sb_activity sandbox) then
        if dry_run then ret cleaned
        else bindE (attempt (cleanup_sandbox svc (sb_id sandbox))) (\<lambda>r.
          ret (case r of Inr _ \<Rightarrow> cleaned + 1 | Inl _ \<Rightarrow> cleaned))
      else ret cleaned)"

definition cleanup_inactive_sandboxes ::
  "('s, 'b) SandboxService \<Rightarrow> bool \<Rightarrow> u64 \<Rightarrow> ('s, 'b, u64) svc" where
  "cleanup_inactive_sandboxes svc dry_run timeout =
     bindE (svc_list_sandboxes svc) (\<lambda>sandboxes.
     bindE utc_now (\<lambda>now.
     foldE (inactive_cleanup_one svc dry_run timeout now) sandboxes 0))"

definition cleanup_message :: "bool \<Rightarrow> u64 \<Rightarrow> string" where
  "cleanup_message dry_run n =
     (if dry_run then ''Dry run complete: '' @ show_nat (unat n) @ '' sandboxes would be cleaned up''
      else ''Cleanup complete: '' @ show_nat (unat n) @ '' sandboxes cleaned'')"

definition api_cleanup_inactive ::
  "('s, 'b) SandboxService \<Rightarrow> ApiKeyIdentity \<Rightarrow> CleanupQuery \<Rightarrow> ('s, 'b) act_handler" where
  "api_cleanup_inactive svc ident params =
     (if \<not> is_privileged_key ident
      then throw (privileged_only_response ''Cleaning up all sandboxes requires a privileged API key'')
      else
        let dry_run = (case cq_dry_run params of None \<Rightarrow> False | Some b \<Rightarrow> b);
            timeout = (case cq_timeout params of None \<Rightarrow> 30 | Some t \<Rightarrow> t) in
        bindE (attempt (cleanup_inactive_sandboxes svc dry_run timeout)) (\<lambda>r.
        let n = (case r of Inr n \<Rightarrow> n | Inl _ \<Rightarrow> 0) in
        ret (CleanupDone \<lparr>cl_message = cleanup_message dry_run n, cl_cleaned = n, cl_dry_run = dry_run\<rparr>)))"

section \<open>The routes\<close>

datatype activity_request =
    ReqActivities ListActivitiesQuery
  | ReqActivity uuid
  | ReqSandboxActivities uuid ListActivitiesQuery
  | ReqCleanupInactive CleanupQuery

fun activity_route ::
  "('s, 'b) SandboxService \<Rightarrow> ApiKeyIdentity \<Rightarrow> activity_request \<Rightarrow> ('s, 'b) act_handler" where
  "activity_route svc ident (ReqActivities q) = api_list_activities svc ident q"
| "activity_route svc ident (ReqActivity aid) = api_get_activity svc ident aid"
| "activity_route svc ident (ReqSandboxActivities sid q) = api_list_sandbox_activities svc ident sid q"
| "activity_route svc ident (ReqCleanupInactive q) = api_cleanup_inactive svc ident q"

fun shown_activities :: "activity_answer \<Rightarrow> ActivityResponse list" where
  "shown_activities (ErrorAnswer _) = []"
| "shown_activities (ActivityList l) = l"
| "shown_activities (OneActivity a) = [a]"
| "shown_activities (CleanupDone _) = []"

section \<open>Reading the log\<close>

lemma activity_type_roundtrip: "activity_type_from_string (activity_type_to_string t) = Inr t"
  by (cases t) (simp_all add: activity_type_from_string_def activity_types_def)

lemma row_to_activity_to_row [simp]: "row_to_activity (activity_to_row a) = Inr a"
  by (simp add: row_to_activity_def activity_to_row_def activity_type_roundtrip)

lemma readable_rows_encoded [simp]: "readable_rows (map activity_to_row l) = l"
  by (induction l) simp_all

lemma insort_key_map: "insort_key f (g x) (map g xs) = map g (insort_key (f \<circ> g) x xs)"
  by (induction xs) simp_all

lemma sort_key_map: "sort_key f (map g xs) = map g (sort_key (f \<circ> g) xs)"
  by (induction xs) (simp_all add: insort_key_map comp_def)

lemma newest_encoded:
  "sort_key (\<lambda>r. - arw_timestamp r) (filter p (map activity_to_row l)) =
     map activity_to_row (sort_key (\<lambda>a. - act_timestamp a) (filter (p \<circ> activity_to_row) l))"
  by (simp add: filter_map sort_key_map comp_def) (simp add: activity_to_row_def)

text \<open>Every query of the log in one equation: what it reads, in which order, and when it fails.\<close>

definition newest_activities :: "(SandboxActivity \<Rightarrow> bool) \<Rightarrow> u64 \<Rightarrow> SandboxActivity list \<Rightarrow> ActivityResponse list" where
  "newest_activities p limit log =
     map activity_response_from (take (unat limit) (sort_key (\<lambda>a. - act_timestamp a) (filter p log)))"

lemma limit_cast:
  fixes limit :: u64
  shows "sint limit < 0 \<longleftrightarrow> 2 ^ 63 \<le> limit" "\<not> 2 ^ 63 \<le> limit \<Longrightarrow> nat (sint limit) = unat limit"
proof -
  have "int (unat limit) < 2 ^ 64" using uint_lt2p [of limit] by simp
  then show "sint limit < 0 \<longleftrightarrow> 2 ^ 63 \<le> limit" by (auto simp: sint_u64 not_less)
  show "nat (sint limit) = unat limit" if "\<not> 2 ^ 63 \<le> limit"
    using that by (simp add: sint_u64 not_le)
qed

lemma select_newest_run:
  "bindE (select_newest p limit) (\<lambda>rows. ret (map activity_response_from (readable_rows rows))) w =
     ((if \<not> w_db_up w (w_db_calls w) then Inl (ActPostgres ''database error'')
       else if 2 ^ 63 \<le> limit then Inl (ActPostgres ''LIMIT must not be negative'')
       else Inr (newest_activities (p \<circ> activity_to_row) limit (w_activities w))),
      w\<lparr>w_db_calls := Suc (w_db_calls w)\<rparr>)"
proof (cases "2 ^ 63 \<le> limit")
  case True
  then show ?thesis
    by (simp add: select_newest_def activity_statement_def db_statement_def map_err_def bindE_def ret_def throw_def limit_cast(1))
next
  case False
  then show ?thesis
    by (simp add: select_newest_def activity_statement_def db_statement_def map_err_def bindE_def ret_def gets_def
        limit_cast(1) limit_cast(2) [OF False] activity_rows_def newest_encoded newest_activities_def take_map)
qed

lemma svc_list_activities_run:
  "svc_list_sandbox_activities sid limit w =
     ((if \<not> w_db_up w (w_db_calls w) then Inl (ActPostgres ''database error'')
       else if 2 ^ 63 \<le> limit then Inl (ActPostgres ''LIMIT must not be negative'')
       else Inr (newest_activities (\<lambda>a. act_sandbox_id a = sid) limit (w_activities w))),
      w\<lparr>w_db_calls := Suc (w_db_calls w)\<rparr>)"
  using select_newest_run [of "\<lambda>r. arw_sandbox_id r = sid" limit w]
  by (simp add: svc_list_sandbox_activities_def store_list_sandbox_activities_def bindE_assoc bindE_ret comp_def)
    (simp add: activity_to_row_def)

lemma svc_recent_activities_run:
  "svc_list_recent_activities limit w =
     ((if \<not> w_db_up w (w_db_calls w) then Inl (ActPostgres ''database error'')
       else if 2 ^ 63 \<le> limit then Inl (ActPostgres ''LIMIT must not be negative'')
       else Inr (newest_activities (\<lambda>_. True) limit (w_activities w))),
      w\<lparr>w_db_calls := Suc (w_db_calls w)\<rparr>)"
  using select_newest_run [of "\<lambda>r. True" limit w]
  by (simp add: svc_list_recent_activities_def store_list_recent_activities_def bindE_assoc bindE_ret comp_def)

lemma svc_get_activity_run:
  "svc_get_activity aid w =
     ((if w_db_up w (w_db_calls w)
       then Inr (map_option activity_response_from (find (\<lambda>a. act_id a = aid) (w_activities w)))
       else Inl (ActPostgres ''database error'')),
      w\<lparr>w_db_calls := Suc (w_db_calls w)\<rparr>)"
proof -
  have "find (\<lambda>r. arw_id r = aid) (map activity_to_row l) = map_option activity_to_row (find (\<lambda>a. act_id a = aid) l)" for l
    by (induction l) (simp_all add: activity_to_row_def)
  then show ?thesis
    by (auto simp: svc_get_activity_def store_get_activity_def activity_statement_def db_statement_def map_err_def
        bindE_def ret_def gets_def activity_rows_def split: option.splits)
qed

lemma api_get_activity_run:
  "api_get_activity svc ident aid w =
     (let w' = w\<lparr>w_db_calls := Suc (w_db_calls w)\<rparr> in
      if \<not> svc_activity_service svc then (Inl no_activity_service, w)
      else if \<not> w_db_up w (w_db_calls w)
      then (Inl (ErrorAnswer (reply 500 (json_error (''Failed to get activity: '' @ activity_error_display (ActPostgres ''database error''))))), w')
      else case find (\<lambda>a. act_id a = aid) (w_activities w) of
          None \<Rightarrow> (Inl (ErrorAnswer (reply 404 (TextBody ''Activity not found''))), w')
        | Some a \<Rightarrow> bindE (require_log_owner svc ident (act_sandbox_id a)) (\<lambda>_. ret (OneActivity (activity_response_from a))) w')"
  by (simp add: api_get_activity_def or_internal_error_def map_err_def bindE_def [of "\<lambda>w. case svc_get_activity aid w of _ \<Rightarrow> _ w"]
      svc_get_activity_run throw_def activity_response_from_def split: option.split)

text \<open>The answer to a privileged client, who may read every log.\<close>

lemma list_activities_privileged:
  assumes "svc_activity_service svc" and "is_privileged_key ident"
  shows "api_list_sandbox_activities svc ident sid params w =
     ((if \<not> w_db_up w (w_db_calls w)
       then Inl (ErrorAnswer (reply 500 (json_error ''Failed to list sandbox activities: Database error: PostgreSQL error: database error'')))
       else if 2 ^ 63 \<le> limit_of params
       then Inl (ErrorAnswer (reply 500 (json_error ''Failed to list sandbox activities: Database error: PostgreSQL error: LIMIT must not be negative'')))
       else Inr (ActivityList (newest_activities (\<lambda>a. act_sandbox_id a = sid) (limit_of params) (w_activities w)))),
      w\<lparr>w_db_calls := Suc (w_db_calls w)\<rparr>)"
  using assms by (simp add: api_list_sandbox_activities_def require_log_owner_def bindE_ret or_internal_error_def)
    (simp add: bindE_def map_err_def svc_list_activities_run ret_def)

text \<open>
  What a listing of the log contains: when the database answers and the limit fits a signed
  number, the newest activities of this sandbox, newest first, and no others: as many as there
  are, up to the limit, and everything that is left out is not newer than what is shown.
\<close>

lemma sort_key_take_rest:
  fixes f :: "'a \<Rightarrow> int"
  assumes "x \<in> set (take n (sort_key f l))" and "y \<in> set (drop n (sort_key f l))"
  shows "f x \<le> f y"
proof -
  have "sorted (map f (take n (sort_key f l)) @ map f (drop n (sort_key f l)))"
    by (metis append_take_drop_id map_append sorted_sort_key)
  then show ?thesis using assms by (fastforce simp: sorted_append)
qed

theorem activity_listing_newest:
  fixes w :: "('s, 'b) world"
  assumes "w_db_up w (w_db_calls w)" and "limit < 2 ^ 63"
  shows "\<exists>shown left. svc_list_sandbox_activities sid limit w =
      (Inr (map activity_response_from shown), w\<lparr>w_db_calls := Suc (w_db_calls w)\<rparr>) \<and>
    mset (shown @ left) = mset (filter (\<lambda>a. act_sandbox_id a = sid) (w_activities w)) \<and>
    sorted (rev (map act_timestamp shown)) \<and>
    length shown = min (unat limit) (length (filter (\<lambda>a. act_sandbox_id a = sid) (w_activities w))) \<and>
    (\<forall>a \<in> set shown. \<forall>b \<in> set left. act_timestamp b \<le> act_timestamp a)"
proof -
  let ?l = "sort_key (\<lambda>a. - act_timestamp a) (filter (\<lambda>a. act_sandbox_id a = sid) (w_activities w))"
  have s: "sorted (map (\<lambda>a. - act_timestamp a) ?l)" by simp
  have neg: "sorted (rev (map act_timestamp l)) = sorted (map (\<lambda>a. - act_timestamp a) l)" for l
    by (induction l) (auto simp: sorted_append)
  have "sorted (rev (map act_timestamp (take (unat limit) ?l)))"
    using sorted_wrt_take [OF s, of "unat limit"] by (simp add: neg take_map)
  moreover have "\<forall>a \<in> set (take (unat limit) ?l). \<forall>b \<in> set (drop (unat limit) ?l). act_timestamp b \<le> act_timestamp a"
    using sort_key_take_rest [where f = "\<lambda>a. - act_timestamp a"] by force
  moreover have "mset (take (unat limit) ?l @ drop (unat limit) ?l) = mset (filter (\<lambda>a. act_sandbox_id a = sid) (w_activities w))"
    by (metis append_take_drop_id mset_sort)
  ultimately show ?thesis
    using assms by (intro exI [of _ "take (unat limit) ?l"] exI [of _ "drop (unat limit) ?l"])
      (simp add: svc_list_activities_run newest_activities_def not_le min.commute)
qed

section \<open>Isolation of the logs\<close>

context state_store
begin

definition log_visible :: "ApiKeyIdentity \<Rightarrow> ('s, 'b) world \<Rightarrow> uuid \<Rightarrow> bool" where
  "log_visible ident w sid \<longleftrightarrow> (\<exists>key sb. ident_id ident = Some key \<and>
     contents (w_store w) sid = Some sb \<and> owned_visible key False sb)"

lemma require_owner_grants:
  assumes svc: "svc_state svc = st" and w: "quiet u w" and priv: "\<not> is_privileged_key ident"
  shows "wpE (require_owner svc ident i False) (\<lambda>_ v. quiet u v \<and> log_visible ident u i) (\<lambda>_ v. quiet u v) w"
proof (cases "ident_id ident")
  case None
  with w priv show ?thesis by (simp add: require_owner_def check_sandbox_ownership_with_deleted_def wp)
next
  case (Some key)
  have inv: "invar (w_store w)" using w by (simp add: quiet_def)
  obtain r t where owned: "ss_get_sandbox_with_deleted_if_owned_by st i key False (w_store w) = (r, t)" by fastforce
  note t = owned_law [OF inv owned]
  have q: "quiet u (w\<lparr>w_store := t\<rparr>)" using t w by (simp add: quiet_def)
  show ?thesis
  proof (cases r)
    case None
    obtain r' t' where get: "ss_get_sandbox_with_deleted st i False t = (r', t')" by fastforce
    have "quiet u (w\<lparr>w_store := t'\<rparr>)"
      using get_with_deleted_law [OF _ get] t w by (simp add: quiet_def)
    with Some None priv owned get svc show ?thesis
      by (simp add: require_owner_def check_sandbox_ownership_with_deleted_def wp)
  next
    case (Some sb)
    with t obtain sb' where "contents (w_store w) i = Some sb'" "owned_visible key False sb'" by blast
    with w \<open>ident_id ident = Some key\<close> have "log_visible ident u i" by (simp add: log_visible_def quiet_def)
    with Some \<open>ident_id ident = Some key\<close> priv owned svc q show ?thesis
      by (simp add: require_owner_def check_sandbox_ownership_with_deleted_def wp)
  qed
qed

lemma log_owner_grants:
  assumes "svc_state svc = st" and "quiet u w" and "\<not> is_privileged_key ident"
  shows "wpE (require_log_owner svc ident i) (\<lambda>_ v. quiet u v \<and> log_visible ident u i) (\<lambda>a v. quiet u v \<and> shown_activities a = []) w"
  using require_owner_grants [OF assms, of i] assms(3)
  by (auto simp: require_log_owner_def wp elim!: wpE_mono)

lemma newest_of_sandbox: "a \<in> set (newest_activities (\<lambda>a. act_sandbox_id a = sid) limit l) \<Longrightarrow> ar_sandbox_id a = sid"
  by (auto simp: newest_activities_def activity_response_from_def dest!: in_set_takeD)

lemma quiet_db_calls: "quiet u (w\<lparr>w_db_calls := n\<rparr>) = quiet u w"
  by (simp add: quiet_def)

lemma listing_of_sandbox:
  assumes "quiet u v" and "log_visible ident u sid"
  shows "wpE (bindE (or_internal_error what (svc_list_sandbox_activities sid limit)) (\<lambda>l. ret (ActivityList l)))
    (\<lambda>a x. quiet u x \<and> (\<forall>r \<in> set (shown_activities a). log_visible ident u (ar_sandbox_id r)))
    (\<lambda>a x. quiet u x \<and> shown_activities a = []) v"
  using assms
  by (auto simp: wp or_internal_error_def) (auto simp: wpE_def ret_def svc_list_activities_run quiet_db_calls dest: newest_of_sandbox)

lemma activity_route_isolated:
  assumes svc: "svc_state svc = st" and inv: "invar (w_store w)" and priv: "\<not> is_privileged_key ident"
  shows "wpE (activity_route svc ident req)
    (\<lambda>a v. quiet w v \<and> (\<forall>r \<in> set (shown_activities a). log_visible ident w (ar_sandbox_id r)))
    (\<lambda>a v. quiet w v \<and> shown_activities a = []) w"
proof -
  note owner = log_owner_grants [OF svc quiet_refl [OF inv] priv]
  have listing: "wpE (bindE (require_log_owner svc ident sid) (\<lambda>_.
      if \<not> svc_activity_service svc then throw no_activity_service
      else bindE (or_internal_error what (svc_list_sandbox_activities sid limit)) (\<lambda>l. ret (ActivityList l))))
    (\<lambda>a v. quiet w v \<and> (\<forall>r \<in> set (shown_activities a). log_visible ident w (ar_sandbox_id r)))
    (\<lambda>a v. quiet w v \<and> shown_activities a = []) w" for sid what limit
    unfolding wpE_bindE [of "require_log_owner svc ident sid"]
    by (rule wpE_mono [OF owner [of sid]]) (auto simp: wpE_if wpE_throw no_activity_service_def listing_of_sandbox)
  show ?thesis
  proof (cases req)
    case (ReqActivities q)
    show ?thesis
    proof (cases "laq_sandbox_id q")
      case None
      with ReqActivities priv quiet_refl [OF inv] show ?thesis
        by (simp add: api_list_activities_def wpE_bindE wpE_throw privileged_only_response_def)
    next
      case (Some sid)
      with listing [of sid] show ?thesis
        by (simp only: ReqActivities activity_route.simps api_list_activities_def option.case)
    qed
  next
    case (ReqActivity aid)
    have after: "wpE (bindE (require_log_owner svc ident (ar_sandbox_id a)) (\<lambda>_. ret (OneActivity a)))
        (\<lambda>a v. quiet w v \<and> (\<forall>r \<in> set (shown_activities a). log_visible ident w (ar_sandbox_id r)))
        (\<lambda>a v. quiet w v \<and> shown_activities a = []) v" if "quiet w v" for a v
      unfolding wpE_bindE by (rule wpE_mono [OF log_owner_grants [OF svc that priv]]) (auto simp: wpE_ret)
    have q: "quiet w (w\<lparr>w_db_calls := n\<rparr>)" for n using inv by (simp add: quiet_def)
    have sid: "ar_sandbox_id (activity_response_from a) = act_sandbox_id a" for a
      by (simp add: activity_response_from_def)
    show ?thesis
      using after [OF q, of "activity_response_from _"] quiet_refl [OF inv] q
      by (simp add: sid ReqActivity wpE_def api_get_activity_run Let_def no_activity_service_def split: option.split)
  next
    case (ReqSandboxActivities sid q)
    with listing show ?thesis by (simp add: api_list_sandbox_activities_def)
  next
    case (ReqCleanupInactive q)
    with priv quiet_refl [OF inv] show ?thesis
      by (simp add: api_cleanup_inactive_def wpE_throw privileged_only_response_def)
  qed
qed

end

text \<open>
  C16. Isolation of the logs: whatever a caller with a database key asks of the activity routes,
  each activity it is shown belongs to a sandbox of that key which is not deleted; its request
  changes no sandbox of the PostgreSQL store, no log entry and nothing in the backend, even
  when statements fail.
\<close>

theorem activity_log_isolation:
  assumes "svc_state svc = PostgresStateStore (jsonb_codec tm)" and "pg_invar (jsonb_codec tm) (w_store w)"
    and "ident_key_type ident = Database" and "activity_route svc ident req w = (res, v)"
  shows "w_activities v = w_activities w \<and> w_backend v = w_backend w \<and>
    pg_contents (jsonb_codec tm) (w_store v) = pg_contents (jsonb_codec tm) (w_store w) \<and>
    (\<forall>a \<in> set (shown_activities (case res of Inl x \<Rightarrow> x | Inr x \<Rightarrow> x)). \<exists>sb.
       pg_contents (jsonb_codec tm) (w_store w) (ar_sandbox_id a) = Some sb \<and>
       sb_deleted_at sb = None \<and> ident_id ident \<noteq> None \<and> sb_api_key_id sb = ident_id ident)"
proof -
  have "\<not> is_privileged_key ident" using assms(3) by (simp add: is_privileged_key_def)
  from pgj.pg.activity_route_isolated [OF assms(1,2) this, of req] assms(4) show ?thesis
    by (fastforce simp: wpE_def pgj.pg.quiet_def pgj.pg.log_visible_def owned_visible_def split: sum.splits)
qed

definition example_log_world :: "(json pg, example_containers) world" where
  "example_log_world = example_api_world
     \<lparr>w_activities := map (\<lambda>(n, s). \<lparr>act_id = of_nat n, act_sandbox_id = s, act_activity_type = ActExec,
        act_timestamp = int n, act_details = JObject [], act_sandbox_is_deleted = False\<rparr>)
        [(1, 7), (2, 8), (3, 7), (4, 7)]\<rparr>"

definition example_log_service :: "(json pg, example_containers) SandboxService" where
  "example_log_service = example_api_service\<lparr>svc_activity_service := True\<rparr>"

definition example_log_query :: ListActivitiesQuery where
  "example_log_query = \<lparr>laq_sandbox_id = None, laq_activity_type = None, laq_limit = Some 2\<rparr>"

lemma example_log_ok: "pg_invar (jsonb_codec id) (w_store example_log_world)"
  "svc_state example_log_service = PostgresStateStore (jsonb_codec id)"
  using example_api_invar example_api_state by (simp_all add: example_log_world_def example_log_service_def)

theorem activity_log_isolation_witness:
  "map ar_id (shown_activities (projr (fst (activity_route example_log_service (example_key_identity 5)
     (ReqSandboxActivities 7 example_log_query) example_log_world)))) = [4, 3] \<and>
   w_activities (snd (activity_route example_log_service (example_key_identity 5)
     (ReqSandboxActivities 7 example_log_query) example_log_world)) = w_activities example_log_world"
proof -
  let ?r = "activity_route example_log_service (example_key_identity 5) (ReqSandboxActivities 7 example_log_query) example_log_world"
  have "map ar_id (shown_activities (projr (fst ?r))) = [4, 3]" by code_simp
  moreover have "w_activities (snd ?r) = w_activities example_log_world"
    using activity_log_isolation [OF example_log_ok(2,1), of "example_key_identity 5" "ReqSandboxActivities 7 example_log_query" "fst ?r" "snd ?r"]
    by (simp add: example_key_identity_def)
  ultimately show ?thesis by simp
qed

theorem activity_listing_newest_witness:
  "\<exists>shown left. svc_list_sandbox_activities 7 2 example_log_world =
      (Inr (map activity_response_from shown), example_log_world\<lparr>w_db_calls := 1\<rparr>) \<and> length shown = 2 \<and> length (shown @ left) = 3"
proof -
  have n: "length (filter (\<lambda>a. act_sandbox_id a = 7) (w_activities example_log_world)) = 3" by code_simp
  have c: "w_db_calls example_log_world = 0" "w_db_up example_log_world 0"
    by (simp_all add: example_log_world_def example_api_world_def)
  obtain shown left where l: "svc_list_sandbox_activities 7 2 example_log_world =
      (Inr (map activity_response_from shown), example_log_world\<lparr>w_db_calls := 1\<rparr>)"
    "mset (shown @ left) = mset (filter (\<lambda>a. act_sandbox_id a = 7) (w_activities example_log_world))" "length shown = 2"
    using activity_listing_newest [of example_log_world 2 7] c n by auto
  then have "length (shown @ left) = 3" using n by (metis size_mset)
  with l show ?thesis by blast
qed

section \<open>Cleanup on request\<close>

text \<open>A dry run is documented to report what would be removed; the counter is only increased by removals.\<close>

lemma dry_run_fold: "foldE (inactive_cleanup_one svc True timeout now) l n w = (Inr n, w)"
  by (induction l arbitrary: n) (simp_all add: bindE_def inactive_cleanup_one_def ret_def)

lemma dry_run_cleanup:
  assumes "ss_list_sandboxes (svc_state svc) (w_store w) = (l, s)"
  shows "cleanup_inactive_sandboxes svc True timeout w = (Inr 0, w\<lparr>w_store := s, w_ticks := Suc (w_ticks w)\<rparr>)"
  using assms by (simp add: cleanup_inactive_sandboxes_def svc_list_sandboxes_def store_list_def read_store_def bindE_def
      utc_now_def dry_run_fold)

theorem cleanup_dry_run_counts_nothing:
  assumes "ident_key_type ident = Privileged"
    and "ss_list_sandboxes (svc_state svc) (w_store w) = (l, s)"
  shows "api_cleanup_inactive svc ident \<lparr>cq_dry_run = Some True, cq_timeout = timeout\<rparr> w =
    (Inr (CleanupDone \<lparr>cl_message = ''Dry run complete: 0 sandboxes would be cleaned up'', cl_cleaned = 0, cl_dry_run = True\<rparr>),
     w\<lparr>w_store := s, w_ticks := Suc (w_ticks w)\<rparr>)"
proof -
  have m: "cleanup_message True 0 = ''Dry run complete: 0 sandboxes would be cleaned up''" by code_simp
  show ?thesis
    using assms(1)
    by (simp add: api_cleanup_inactive_def is_privileged_key_def bindE_def attempt_def dry_run_cleanup [OF assms(2)] ret_def m)
qed

definition removed_by_cleanup :: "Sandbox \<Rightarrow> Sandbox \<Rightarrow> bool" where
  "removed_by_cleanup sb sb' \<longleftrightarrow> (\<exists>d t. sb' = sb\<lparr>sb_deleted_at := Some d, sb_deleted_by := Some ''auto-cleanup'',
     sb_state := Destroyed, sb_updated_at := t, sb_container_id := None\<rparr>)"

lemma cleanup_changes_one:
  assumes svc: "svc_state svc = StateStore" and w: "world_ok map_of mem_invar w"
    and sb: "map_of (w_store w) i = Some sb" and run: "cleanup_sandbox svc i w = (res, v)"
  shows "world_ok map_of mem_invar v \<and> (case res of
      Inl _ \<Rightarrow> map_of (w_store v) = map_of (w_store w) \<and> sb_container_id sb \<noteq> None
    | Inr _ \<Rightarrow> \<exists>sb'. removed_by_cleanup sb sb' \<and> map_of (w_store v) = (map_of (w_store w))(i \<mapsto> sb'))"
proof -
  have inv: "mem_invar (w_store w)" using w by (simp add: world_ok_def)
  obtain r b where r: "delete_container svc (sb_container_id sb) w = (r, w\<lparr>w_backend := b\<rparr>)"
    using delete_container_frame [of svc "sb_container_id sb" w] by blast
  obtain b' where f: "foldE (remove_named_volume svc) (sb_volume_mounts sb) () (w\<lparr>w_backend := b\<rparr>) =
      (Inr (), w\<lparr>w_backend := b'\<rparr>)"
    using remove_volumes_frame [of svc "sb_volume_mounts sb" "w\<lparr>w_backend := b\<rparr>"] by auto
  have "world_ok map_of mem_invar v"
    using yields_inv [OF mem.yields_cleanup_sandbox [OF svc, of i] w run] .
  moreover have "sb_container_id sb = None \<Longrightarrow> r = Inr ()" using r by (simp add: delete_container_def ret_def)
  ultimately show ?thesis
    using mem.cleanup_rel [OF svc inv sb r f] run by (auto simp: wpE_def removed_by_cleanup_def split: sum.splits)
qed

text \<open>The effect of a cleanup: the records of \<open>gone\<close>, all of them due, became tombstones; no other changed.\<close>

definition cleanup_effect :: "Sandbox set \<Rightarrow> Sandbox list \<Rightarrow> (mem_store, 'b) world \<Rightarrow> (mem_store, 'b) world \<Rightarrow> bool" where
  "cleanup_effect due gone w v \<longleftrightarrow> set gone \<subseteq> due \<and> distinct (map sb_id gone) \<and>
     (\<forall>sb \<in> due. sb_container_id sb = None \<longrightarrow> sb \<in> set gone) \<and>
     (\<forall>i. i \<notin> sb_id ` set gone \<longrightarrow> map_of (w_store v) i = map_of (w_store w) i) \<and>
     (\<forall>sb \<in> set gone. \<exists>sb'. map_of (w_store v) (sb_id sb) = Some sb' \<and> removed_by_cleanup sb sb')"

lemma cleanup_effect_skip:
  "cleanup_effect due gone u v \<Longrightarrow> due' = due \<or> (\<exists>sb. due' = insert sb due \<and> sb_container_id sb \<noteq> None) \<Longrightarrow>
    map_of (w_store u) = map_of (w_store w) \<Longrightarrow> cleanup_effect due' gone w v"
  by (auto simp: cleanup_effect_def)

lemma cleanup_effect_Cons:
  assumes "cleanup_effect due gone u v" and "removed_by_cleanup sb sb'"
    and "map_of (w_store u) = (map_of (w_store w))(sb_id sb \<mapsto> sb')"
    and "sb_id sb \<notin> sb_id ` due" and "due' = insert sb due"
  shows "cleanup_effect due' (sb # gone) w v"
proof -
  have "sb_id sb \<notin> sb_id ` set gone" using assms(1,4) by (auto simp: cleanup_effect_def)
  moreover from this assms(1,3) have "map_of (w_store v) (sb_id sb) = Some sb'" by (simp add: cleanup_effect_def)
  ultimately show ?thesis using assms by (auto simp: cleanup_effect_def)
qed

definition due_for_cleanup :: "u64 \<Rightarrow> time \<Rightarrow> Sandbox list \<Rightarrow> Sandbox set" where
  "due_for_cleanup timeout now l = {sb \<in> set l. timeout \<le> elapsed_minutes now (sb_activity sb)}"

lemma cleanup_fold:
  assumes svc: "svc_state svc = StateStore" and "world_ok map_of mem_invar w" and "distinct (map sb_id l)"
    and "\<And>sb. sb \<in> set l \<Longrightarrow> map_of (w_store w) (sb_id sb) = Some sb"
  shows "\<exists>gone v. foldE (inactive_cleanup_one svc False timeout now) l n w = (Inr (n + of_nat (length gone)), v) \<and>
    cleanup_effect (due_for_cleanup timeout now l) gone w v"
  using assms(2-)
proof (induction l arbitrary: n w)
  case Nil
  then show ?case by (intro exI [of _ "[]"]) (simp add: ret_def cleanup_effect_def due_for_cleanup_def)
next
  case (Cons sb l)
  have due: "due_for_cleanup timeout now (sb # l) =
      (if timeout \<le> elapsed_minutes now (sb_activity sb) then insert sb (due_for_cleanup timeout now l) else due_for_cleanup timeout now l)"
    by (auto simp: due_for_cleanup_def)
  show ?case
  proof (cases "timeout \<le> elapsed_minutes now (sb_activity sb)")
    case False
    then have "foldE (inactive_cleanup_one svc False timeout now) (sb # l) n w = foldE (inactive_cleanup_one svc False timeout now) l n w"
      by (simp add: bindE_def) (simp add: inactive_cleanup_one_def ret_def)
    with Cons.IH [of w n] Cons.prems False show ?thesis by (auto simp: due)
  next
    case True
    obtain res u where run: "cleanup_sandbox svc (sb_id sb) w = (res, u)" by fastforce
    have here: "map_of (w_store w) (sb_id sb) = Some sb" using Cons.prems(3) by simp
    note one = cleanup_changes_one [OF svc Cons.prems(1) here run]
    have rest: "map_of (w_store u) (sb_id x) = Some x" if "x \<in> set l" for x
      using one that Cons.prems(2) Cons.prems(3) [of x] by (cases res) (auto simp: image_iff)
    define m where "m = (case res of Inl _ \<Rightarrow> n | Inr _ \<Rightarrow> n + 1)"
    have step: "foldE (inactive_cleanup_one svc False timeout now) (sb # l) n w = foldE (inactive_cleanup_one svc False timeout now) l m u"
      using True run by (simp add: bindE_def) (simp add: inactive_cleanup_one_def bindE_def ret_def attempt_def m_def)
    obtain gone v where g: "foldE (inactive_cleanup_one svc False timeout now) l m u = (Inr (m + of_nat (length gone)), v)"
      "cleanup_effect (due_for_cleanup timeout now l) gone u v"
      using Cons.IH [of u m] one Cons.prems(2) rest by auto
    show ?thesis
    proof (cases res)
      case (Inl e)
      with one g(1) step True cleanup_effect_skip [OF g(2), of "insert sb (due_for_cleanup timeout now l)" w] show ?thesis
        by (intro exI [of _ gone] exI [of _ v]) (auto simp: m_def due)
    next
      case (Inr x)
      with one obtain sb' where sb': "removed_by_cleanup sb sb'" "map_of (w_store u) = (map_of (w_store w))(sb_id sb \<mapsto> sb')"
        by auto
      have "sb_id sb \<notin> sb_id ` due_for_cleanup timeout now l" "due_for_cleanup timeout now (sb # l) = insert sb (due_for_cleanup timeout now l)"
        using Cons.prems(2) True by (auto simp: due) (auto simp: due_for_cleanup_def)
      from cleanup_effect_Cons [OF g(2) sb' this] g(1) step Inr show ?thesis
        by (intro exI [of _ "sb # gone"] exI [of _ v]) (simp add: m_def add.assoc)
    qed
  qed
qed

text \<open>
  C17. Cleanup on request, on the in-memory store in any world that keeps the lifecycle
  invariant: exactly the records of a list \<open>gone\<close> become tombstones, each of them inactive for
  at least the timeout by the one reading of the clock, and the answer counts them; every
  inactive record without a container is among them, and every other record, in particular
  each sandbox that was active within the timeout, is unchanged. Tombstones are not
  exempt: without a container themselves, they are removed, and counted, once more.
\<close>

theorem cleanup_request_effect:
  assumes "svc_state svc = StateStore" and "world_ok map_of mem_invar w"
  shows "\<exists>gone v. cleanup_inactive_sandboxes svc False timeout w = (Inr (of_nat (length gone)), v) \<and>
    set gone \<subseteq> {sb \<in> ran (map_of (w_store w)). timeout \<le> elapsed_minutes (w_clock w (w_ticks w)) (sb_activity sb)} \<and>
    distinct (map sb_id gone) \<and>
    (\<forall>sb \<in> ran (map_of (w_store w)). timeout \<le> elapsed_minutes (w_clock w (w_ticks w)) (sb_activity sb) \<longrightarrow>
       sb_container_id sb = None \<longrightarrow> sb \<in> set gone) \<and>
    (\<forall>i. i \<notin> sb_id ` set gone \<longrightarrow> map_of (w_store v) i = map_of (w_store w) i) \<and>
    (\<forall>sb \<in> set gone. \<exists>d t. map_of (w_store v) (sb_id sb) = Some (sb\<lparr>sb_deleted_at := Some d,
       sb_deleted_by := Some ''auto-cleanup'', sb_state := Destroyed, sb_updated_at := t, sb_container_id := None\<rparr>))"
proof -
  let ?u = "w\<lparr>w_ticks := Suc (w_ticks w)\<rparr>" and ?now = "w_clock w (w_ticks w)"
  have inv: "mem_invar (w_store w)" using assms(2) by (simp add: world_ok_def)
  have ids: "map sb_id (map snd (w_store w)) = map fst (w_store w)"
    using inv by (auto simp: mem_invar_def)
  have sb: "map_of (w_store w) (sb_id sb) = Some sb" if "sb \<in> set (map snd (w_store w))" for sb
    using inv that by (auto simp: mem_invar_def)
  have "distinct (map sb_id (map snd (w_store w)))" using inv unfolding ids by (simp add: mem_invar_def)
  then obtain gone v where g: "foldE (inactive_cleanup_one svc False timeout ?now) (map snd (w_store w)) 0 ?u = (Inr (of_nat (length gone)), v)"
      "cleanup_effect (due_for_cleanup timeout ?now (map snd (w_store w))) gone ?u v"
    using cleanup_fold [OF assms(1), of ?u "map snd (w_store w)" timeout ?now 0] assms(2) sb by (auto simp: world_ok_def)
  have "cleanup_inactive_sandboxes svc False timeout w = (Inr (of_nat (length gone)), v)"
    using g(1) assms(1) by (simp add: cleanup_inactive_sandboxes_def svc_list_sandboxes_def store_list_def read_store_def bindE_def
        utc_now_def StateStore_def mem_list_sandboxes_def)
  moreover have "ran (map_of (w_store w)) = snd ` set (w_store w)"
    using inv by (simp add: mem_invar_def ran_distinct)
  moreover have "\<exists>d t. map_of (w_store v) (sb_id sb) = Some (sb\<lparr>sb_deleted_at := Some d,
       sb_deleted_by := Some ''auto-cleanup'', sb_state := Destroyed, sb_updated_at := t, sb_container_id := None\<rparr>)"
    if "sb \<in> set gone" for sb
    using g(2) that by (fastforce simp: cleanup_effect_def removed_by_cleanup_def)
  ultimately show ?thesis
    using g(2) by (intro exI [of _ gone] exI [of _ v]) (simp add: cleanup_effect_def due_for_cleanup_def)
qed

theorem cleanup_request_effect_witness:
  "map_option sb_deleted_by (map_of (w_store (snd (cleanup_inactive_sandboxes example_service False 0
      (example_world [(7, example_sandbox 7 Error None)] [])))) 7) = Some (Some ''auto-cleanup'')"
proof -
  let ?w = "example_world [(7, example_sandbox 7 Error None)] []"
  have "world_ok map_of mem_invar ?w"
    by (auto simp: world_ok_def mem_invar_def example_world_def example_sandbox_def sandbox_ok_def split: if_splits)
  then obtain gone v where g: "snd (cleanup_inactive_sandboxes example_service False 0 ?w) = v"
      "example_sandbox 7 Error None \<in> set gone"
      "\<forall>sb \<in> set gone. \<exists>d t. map_of (w_store v) (sb_id sb) = Some (sb\<lparr>sb_deleted_at := Some d,
         sb_deleted_by := Some ''auto-cleanup'', sb_state := Destroyed, sb_updated_at := t, sb_container_id := None\<rparr>)"
    using cleanup_request_effect [OF example_service_state, of ?w 0]
    by (auto simp: example_world_def example_sandbox_def)
  then show ?thesis by (fastforce simp: example_sandbox_def)
qed

end
