(* ===== verification/Mcp.thy ===== *)
theory Mcp
  imports Exec "HOL-Library.AList"
begin

text \<open>
  The MCP server, a process of its own that offers sandboxes as tools to language models
  (\<open>src/dsb-mcp-server/src/\<close>): the HTTP client of the DSB server (\<open>dsb_client.rs\<close>), the table of
  sessions (\<open>session.rs\<close>), the tools themselves (\<open>tools/\<close>) and the services that expose them
  (\<open>services/\<close>, \<open>dsb_service.rs\<close>). The network and the libraries are a parameter
  (\<open>mcp_remote\<close>) on a state of which nothing is assumed; the body of an HTTP answer has a type of
  its own, so that the server of \<open>Api\<close> can be put behind it. A tool call is one step. Texts are
  sequences of bytes.
\<close>

section \<open>Settings\<close>

record StorageSettings =
  mst_redis_host :: string
  mst_redis_port :: u16
  mst_redis_username :: "string option"
  mst_redis_password :: "string option"
  mst_redis_ssl :: bool
  mst_redis_key_prefix :: string

record DSBSettings =
  mds_api_url :: string
  mds_api_key :: "string option"
  mds_timeout_secs :: u64

text \<open>Floating-point settings are only passed on; they are kept as the JSON numbers they become.\<close>

record WebSettings =
  mws_searxng_url :: string
  mws_word_count_threshold :: u32
  mws_pruning_threshold :: json
  mws_bm25_threshold :: json
  mws_wait_until :: string
  mws_cache_mode :: string
  mws_page_timeout :: u32
  mws_allow_exec_fallback :: bool

record McpSandboxSettings =
  mss_default_image :: string
  mss_file_encoding :: string
  mss_static_file_endpoint :: string
  mss_static_files_endpoint :: string
  mss_default_static_file :: string

record TerminalSettings =
  mts_default_rows :: u32
  mts_default_cols :: u32
  mts_websocket_protocol_http :: string
  mts_websocket_protocol_https :: string
  mts_websocket_instructions :: string

record BrowserSettings =
  mbs_success_status :: string
  mbs_screenshot_full_page :: bool

record Settings =
  set_storage :: StorageSettings
  set_dsb :: DSBSettings
  set_web :: WebSettings
  set_sandbox :: McpSandboxSettings
  set_terminal :: TerminalSettings
  set_browser :: BrowserSettings

definition default_settings :: "json \<Rightarrow> json \<Rightarrow> Settings" where
  "default_settings pruning bm25 =
     \<lparr>set_storage = \<lparr>mst_redis_host = ''127.0.0.1'', mst_redis_port = 6379, mst_redis_username = None,
        mst_redis_password = None, mst_redis_ssl = False, mst_redis_key_prefix = ''dms:local:dev:''\<rparr>,
      set_dsb = \<lparr>mds_api_url = ''http://localhost:8080'', mds_api_key = None, mds_timeout_secs = 600\<rparr>,
      set_web = \<lparr>mws_searxng_url = ''http://localhost:8888/search'', mws_word_count_threshold = 10,
        mws_pruning_threshold = pruning, mws_bm25_threshold = bm25,
        mws_wait_until = ''domcontentloaded'', mws_cache_mode = ''bypass'', mws_page_timeout = 180000,
        mws_allow_exec_fallback = False\<rparr>,
      set_sandbox = \<lparr>mss_default_image = ''docker.io/dsb/sandbox:dev'', mss_file_encoding = ''utf-8'',
        mss_static_file_endpoint = ''/static/'', mss_static_files_endpoint = ''/static/files/'',
        mss_default_static_file = ''index.html''\<rparr>,
      set_terminal = \<lparr>mts_default_rows = 24, mts_default_cols = 80, mts_websocket_protocol_http = ''ws://'',
        mts_websocket_protocol_https = ''wss://'',
        mts_websocket_instructions = ''Connect to the WebSocket URL to access the interactive terminal. Send commands and receive output through the WebSocket connection.''\<rparr>,
      set_browser = \<lparr>mbs_success_status = ''success'', mbs_screenshot_full_page = False\<rparr>\<rparr>"

text \<open>A \<open>HashMap\<close> is an association list without repeated keys; \<open>insert\<close> and \<open>extend\<close> update it.\<close>

definition get_sandbox_env :: "Settings \<Rightarrow> (string \<times> string) list" where
  "get_sandbox_env s =
     (let st = set_storage s;
          env = [(''REDIS_HOST'', mst_redis_host st), (''REDIS_PORT'', show_nat (unat (mst_redis_port st)))];
          env = (case mst_redis_username st of None \<Rightarrow> env | Some u \<Rightarrow> AList.update ''REDIS_USER'' u env);
          env = (case mst_redis_password st of None \<Rightarrow> env | Some p \<Rightarrow> AList.update ''REDIS_PASSWORD'' p env);
          env = AList.update ''REDIS_SSL'' (if mst_redis_ssl st then ''true'' else ''false'') env
      in AList.update ''REDIS_KEY_PREFIX'' (mst_redis_key_prefix st) env)"

definition extend_env :: "(string \<times> string) list \<Rightarrow> (string \<times> string) list option \<Rightarrow> (string \<times> string) list" where
  "extend_env env user = (case user of None \<Rightarrow> env | Some kvs \<Rightarrow> fold (\<lambda>(k, v). AList.update k v) kvs env)"

section \<open>The world of the server\<close>

record McpSandbox =
  msb_id :: uuid
  msb_state :: string
  msb_image :: string
  msb_name :: "string option"
  msb_created_at :: string
  msb_updated_at :: string

record McpExecResult =
  mex_output :: string
  mex_exit_code :: i32

datatype mcp_body =
    EmptyBody
  | SentJson json
  | SentForm "(string \<times> string) list"

text \<open>The answer to a request: the error of sending it, or the status and the body or the error of reading it.\<close>

type_synonym 't mcp_reply = "string + nat \<times> (string + 't)"

record ('w, 't) mcp_remote =
  mr_http :: "string \<Rightarrow> string \<Rightarrow> string option \<Rightarrow> mcp_body \<Rightarrow> 'w \<Rightarrow> 't mcp_reply \<times> 'w"
  mr_search :: "string \<Rightarrow> (string \<times> string) list \<Rightarrow> 'w \<Rightarrow> 't mcp_reply \<times> 'w"
  mr_text :: "'t \<Rightarrow> string"
  mr_parse_json :: "string \<Rightarrow> string + json"
  mr_parse_sandbox :: "'t \<Rightarrow> string + McpSandbox"
  mr_parse_sandboxes :: "'t \<Rightarrow> string + McpSandbox list"
  mr_parse_exec :: "'t \<Rightarrow> string + McpExecResult"
  mr_parse_value :: "'t \<Rightarrow> string + json"
  mr_parse_uuid :: "string \<Rightarrow> string + uuid"
  mr_uuid_text :: "uuid \<Rightarrow> string"
  mr_urlencode :: "string \<Rightarrow> string"
  mr_parse_url :: "string \<Rightarrow> (string \<times> string option) option"
  mr_header_ok :: "string \<Rightarrow> bool"
  mr_print :: "json \<Rightarrow> string"
  mr_status_text :: "nat \<Rightarrow> string"

text \<open>The log of requests is what the network has seen; no code reads it.\<close>

record 'w mcp_world =
  mw_sessions :: "(string \<times> uuid \<times> time) list"
  mw_remote :: 'w
  mw_instants :: "nat \<Rightarrow> time"
  mw_reads :: nat
  mw_requests :: "(string \<times> string \<times> mcp_body) list"

type_synonym ('w, 'a) mcp = "('w mcp_world, string, 'a) prog"

definition instant_now :: "('w mcp_world, 'e, time) prog" where
  "instant_now g = (Inr (mw_instants g (mw_reads g)), g\<lparr>mw_reads := Suc (mw_reads g)\<rparr>)"

section \<open>The client of the DSB server\<close>

record CreateSandboxConfig =
  csc_image :: string
  csc_name :: "string option"
  csc_environment :: "(string \<times> string) list option"
  csc_port_mappings :: "json option"
  csc_resource_limits :: "json option"
  csc_volumes :: "json option"
  csc_command :: "string list option"
  csc_inactivity_timeout_minutes :: "u64 option"
  csc_pull_policy :: "string option"

text \<open>The key is sent with each request, unless it cannot be a header value.\<close>

definition client_key :: "('w, 't) mcp_remote \<Rightarrow> Settings \<Rightarrow> string option" where
  "client_key rm s =
     (case mds_api_key (set_dsb s) of None \<Rightarrow> None | Some k \<Rightarrow> if mr_header_ok rm k then Some k else None)"

definition send :: "('w, 't) mcp_remote \<Rightarrow> Settings \<Rightarrow> string \<Rightarrow> string \<Rightarrow> mcp_body \<Rightarrow> ('w, nat \<times> (string + 't)) mcp" where
  "send rm s meth path body g =
     (let url = mds_api_url (set_dsb s) @ path in
      case mr_http rm meth url (client_key rm s) body (mw_remote g) of (r, w) \<Rightarrow>
        (r, g\<lparr>mw_remote := w, mw_requests := mw_requests g @ [(meth, path, body)]\<rparr>))"

definition read_text :: "('w, 't) mcp_remote \<Rightarrow> string + 't \<Rightarrow> ('w, string) mcp" where
  "read_text rm b = (case b of Inl e \<Rightarrow> throw e | Inr t \<Rightarrow> ret (mr_text rm t))"

definition is_success :: "nat \<Rightarrow> bool" where
  "is_success status \<longleftrightarrow> 200 \<le> status \<and> status < 300"

text \<open>The pattern of every client method: send, report an unsuccessful answer with its text, use a successful one.\<close>

definition request ::
  "('w, 't) mcp_remote \<Rightarrow> Settings \<Rightarrow> string \<Rightarrow> string \<Rightarrow> mcp_body \<Rightarrow> string \<Rightarrow> (string + 't \<Rightarrow> ('w, 'a) mcp) \<Rightarrow> ('w, 'a) mcp" where
  "request rm s meth path body failed use =
     bindE (send rm s meth path body) (\<lambda>(status, b).
     if is_success status then use b
     else bindE (read_text rm b) (\<lambda>t. throw (failed @ '': '' @ t)))"

definition decoded :: "('t \<Rightarrow> string + 'a) \<Rightarrow> string + 't \<Rightarrow> ('w, 'a) mcp" where
  "decoded f b = (case b of Inl e \<Rightarrow> throw e | Inr t \<Rightarrow> (case f t of Inl e \<Rightarrow> throw e | Inr a \<Rightarrow> ret a))"

definition sandbox_path :: "('w, 't) mcp_remote \<Rightarrow> uuid \<Rightarrow> string \<Rightarrow> string" where
  "sandbox_path rm i rest = ''/sandboxes/'' @ mr_uuid_text rm i @ rest"

definition opt_entry :: "string \<Rightarrow> ('a \<Rightarrow> json) \<Rightarrow> 'a option \<Rightarrow> (string \<times> json) list" where
  "opt_entry k f x = (case x of None \<Rightarrow> [] | Some a \<Rightarrow> [(k, f a)])"

definition json_strings :: "string list \<Rightarrow> json" where
  "json_strings l = JArray (map JString l)"

definition json_of_env :: "(string \<times> string) list \<Rightarrow> json" where
  "json_of_env env = JObject (map (\<lambda>(k, v). (k, JString v)) env)"

definition json_of_u64 :: "u64 \<Rightarrow> json" where
  "json_of_u64 n = JNumber (int (unat n))"

definition client_create_body :: "CreateSandboxConfig \<Rightarrow> json" where
  "client_create_body c =
     JObject ((''image'', JString (csc_image c)) # opt_entry ''name'' JString (csc_name c) @
       opt_entry ''environment'' json_of_env (csc_environment c) @ opt_entry ''port_mappings'' id (csc_port_mappings c) @
       opt_entry ''resource_limits'' id (csc_resource_limits c) @ opt_entry ''volumes'' id (csc_volumes c) @
       opt_entry ''command'' json_strings (csc_command c) @
       opt_entry ''inactivity_timeout_minutes'' json_of_u64 (csc_inactivity_timeout_minutes c) @
       opt_entry ''pull_policy'' JString (csc_pull_policy c))"

definition create_sandbox_full :: "('w, 't) mcp_remote \<Rightarrow> Settings \<Rightarrow> CreateSandboxConfig \<Rightarrow> ('w, McpSandbox) mcp" where
  "create_sandbox_full rm s config =
     request rm s ''POST'' ''/sandboxes'' (SentJson (client_create_body config)) ''Failed to create sandbox'' (decoded (mr_parse_sandbox rm))"

definition client_list_sandboxes :: "('w, 't) mcp_remote \<Rightarrow> Settings \<Rightarrow> ('w, McpSandbox list) mcp" where
  "client_list_sandboxes rm s =
     request rm s ''GET'' ''/sandboxes'' EmptyBody ''Failed to list sandboxes'' (decoded (mr_parse_sandboxes rm))"

definition client_delete_sandbox :: "('w, 't) mcp_remote \<Rightarrow> Settings \<Rightarrow> uuid \<Rightarrow> ('w, unit) mcp" where
  "client_delete_sandbox rm s i =
     request rm s ''DELETE'' (sandbox_path rm i '''') EmptyBody ''Failed to delete sandbox'' (\<lambda>_. ret ())"

definition client_get_sandbox :: "('w, 't) mcp_remote \<Rightarrow> Settings \<Rightarrow> uuid \<Rightarrow> ('w, McpSandbox) mcp" where
  "client_get_sandbox rm s i =
     request rm s ''GET'' (sandbox_path rm i '''') EmptyBody ''Failed to get sandbox'' (decoded (mr_parse_sandbox rm))"

definition exec_command_with_stdin ::
  "('w, 't) mcp_remote \<Rightarrow> Settings \<Rightarrow> uuid \<Rightarrow> string list \<Rightarrow> string option \<Rightarrow> ('w, McpExecResult) mcp" where
  "exec_command_with_stdin rm s i command stdin =
     request rm s ''POST'' (sandbox_path rm i ''/exec'')
       (SentJson (JObject ((''command'', json_strings command) # opt_entry ''stdin'' JString stdin)))
       ''Failed to execute command'' (decoded (mr_parse_exec rm))"

definition exec_command :: "('w, 't) mcp_remote \<Rightarrow> Settings \<Rightarrow> uuid \<Rightarrow> string list \<Rightarrow> ('w, McpExecResult) mcp" where
  "exec_command rm s i command = exec_command_with_stdin rm s i command None"

definition client_execute_tool ::
  "('w, 't) mcp_remote \<Rightarrow> Settings \<Rightarrow> uuid \<Rightarrow> string \<Rightarrow> string \<Rightarrow> string \<Rightarrow> json option \<Rightarrow> u64 option \<Rightarrow> ('w, json) mcp" where
  "client_execute_tool rm s i interpreter script_path action args timeout =
     request rm s ''POST'' (sandbox_path rm i ''/tools'')
       (SentJson (JObject ([(''interpreter'', JString interpreter), (''script_path'', JString script_path),
         (''action'', JString action)] @ opt_entry ''args'' id args @ opt_entry ''timeout'' json_of_u64 timeout)))
       ''Failed to execute tool'' (decoded (mr_parse_value rm))"

definition client_upload_file :: "('w, 't) mcp_remote \<Rightarrow> Settings \<Rightarrow> uuid \<Rightarrow> string \<Rightarrow> string \<Rightarrow> ('w, unit) mcp" where
  "client_upload_file rm s i path content =
     request rm s ''POST'' (sandbox_path rm i ''/upload'') (SentForm [(''path'', path), (''file'', content)])
       ''Failed to upload file'' (\<lambda>_. ret ())"

definition client_download_file :: "('w, 't) mcp_remote \<Rightarrow> Settings \<Rightarrow> uuid \<Rightarrow> string \<Rightarrow> ('w, string) mcp" where
  "client_download_file rm s i path =
     request rm s ''GET'' (sandbox_path rm i (''/download?path='' @ mr_urlencode rm path)) EmptyBody
       ''Failed to download file'' (read_text rm)"

text \<open>The list of static files, as an array or inside an object.\<close>

fun static_file_entries :: "json \<Rightarrow> json list" where
  "static_file_entries (JArray l) = l"
| "static_file_entries (JObject kvs) =
     (case map_of kvs ''files'' of
        Some v \<Rightarrow> (case v of JArray l \<Rightarrow> l | _ \<Rightarrow> [])
      | None \<Rightarrow> (case map_of kvs ''data'' of Some (JArray l) \<Rightarrow> l | _ \<Rightarrow> []))"
| "static_file_entries _ = []"

definition client_list_static_files :: "('w, 't) mcp_remote \<Rightarrow> Settings \<Rightarrow> uuid \<Rightarrow> ('w, json list) mcp" where
  "client_list_static_files rm s i =
     bindE (request rm s ''GET'' (''/static/files/'' @ mr_uuid_text rm i) EmptyBody
       ''Failed to list static files'' (decoded (mr_parse_value rm))) (\<lambda>v. ret (static_file_entries v))"

section \<open>The table of sessions\<close>

definition session_get :: "string \<Rightarrow> ('w mcp_world, 'e, uuid option) prog" where
  "session_get sid =
     bindE (gets (\<lambda>g. map_of (mw_sessions g) sid)) (\<lambda>entry. case entry of
       None \<Rightarrow> ret None
     | Some (i, _) \<Rightarrow>
         bindE instant_now (\<lambda>now.
         bindE (modify (mw_sessions_update (AList.update sid (i, now)))) (\<lambda>_. ret (Some i))))"

definition session_set :: "string \<Rightarrow> uuid \<Rightarrow> ('w mcp_world, 'e, unit) prog" where
  "session_set sid i = bindE instant_now (\<lambda>now. modify (mw_sessions_update (AList.update sid (i, now))))"

definition session_remove :: "string \<Rightarrow> ('w mcp_world, 'e, uuid option) prog" where
  "session_remove sid =
     bindE (gets (\<lambda>g. map_of (mw_sessions g) sid)) (\<lambda>entry.
     bindE (modify (mw_sessions_update (AList.delete sid))) (\<lambda>_. ret (map_option fst entry)))"

definition session_contains :: "string \<Rightarrow> ('w mcp_world, 'e, bool) prog" where
  "session_contains sid = gets (\<lambda>g. map_of (mw_sessions g) sid \<noteq> None)"

definition session_len :: "('w mcp_world, 'e, nat) prog" where
  "session_len = gets (\<lambda>g. length (mw_sessions g))"

definition session_clear :: "('w mcp_world, 'e, unit) prog" where
  "session_clear = modify (mw_sessions_update (\<lambda>_. []))"

definition session_ttl :: time where
  "session_ttl = 30 * 60 * nanos_per_sec"

text \<open>One round of the cleanup task; \<open>duration_since\<close> of an instant that lies ahead is zero.\<close>

definition session_cleanup_tick :: "('w mcp_world, 'e, unit) prog" where
  "session_cleanup_tick =
     bindE instant_now (\<lambda>now.
     modify (mw_sessions_update (filter (\<lambda>(_, _, last). max 0 (now - last) < session_ttl))))"

definition default_sandbox_config :: "Settings \<Rightarrow> CreateSandboxConfig" where
  "default_sandbox_config s =
     \<lparr>csc_image = mss_default_image (set_sandbox s), csc_name = None, csc_environment = Some (get_sandbox_env s),
      csc_port_mappings = None, csc_resource_limits = None, csc_volumes = None, csc_command = None,
      csc_inactivity_timeout_minutes = None, csc_pull_policy = None\<rparr>"

text \<open>\<open>Context\<close> replaces the displayed text of an error.\<close>

definition resolve_or_create :: "('w, 't) mcp_remote \<Rightarrow> Settings \<Rightarrow> string \<Rightarrow> ('w, uuid) mcp" where
  "resolve_or_create rm s sid =
     bindE (session_get sid) (\<lambda>found. case found of
       Some i \<Rightarrow> ret i
     | None \<Rightarrow>
         bindE (map_err (\<lambda>_. ''Failed to create sandbox for session '' @ sid)
           (create_sandbox_full rm s (default_sandbox_config s))) (\<lambda>sandbox.
         bindE (session_set sid (msb_id sandbox)) (\<lambda>_. ret (msb_id sandbox))))"

section \<open>Checking addresses\<close>

text \<open>
  \<open>validate_url_secure\<close>: the URL parser is a library; it gives the scheme and, if the URL has
  one, the host as text.
\<close>

definition private_second_octet :: "string \<Rightarrow> bool" where
  "private_second_octet host =
     (case split_on (CHR ''.'') host of
        _ # second # _ \<Rightarrow> (case parse_uint 8 second of Some n \<Rightarrow> 16 \<le> n \<and> n \<le> 31 | None \<Rightarrow> False)
      | _ \<Rightarrow> False)"

definition validate_host :: "string \<Rightarrow> string + unit" where
  "validate_host host =
     (if host = ''localhost'' \<or> host = ''127.0.0.1'' \<or> host = ''::1'' \<or> starts_with host ''127.'' \<or> starts_with host ''0.''
      then Inl ''URL points to localhost/loopback which is not allowed''
      else if starts_with host ''169.254.'' then Inl ''URL points to link-local address which is not allowed''
      else if (starts_with host ''10.'' \<or> starts_with host ''192.168.'' \<or> starts_with host ''172.'') \<and>
        (if starts_with host ''172.'' then private_second_octet host else True)
      then Inl ''URL points to private IP range which is not allowed''
      else if host = ''::1'' \<or> starts_with host ''fc'' \<or> starts_with host ''fd''
      then Inl ''URL points to private IPv6 range which is not allowed''
      else Inr ())"

definition validate_url_secure :: "(string \<Rightarrow> (string \<times> string option) option) \<Rightarrow> string \<Rightarrow> string + unit" where
  "validate_url_secure parse url =
     (if url = [] then Inl ''URL cannot be empty''
      else case parse url of
        None \<Rightarrow> Inl ''Invalid URL format''
      | Some (scheme, host) \<Rightarrow>
          if scheme \<noteq> ''http'' \<and> scheme \<noteq> ''https''
          then Inl (''URL scheme '' @ [CHR 0x27] @ scheme @ [CHR 0x27] @ '' is not allowed. Only http:// and https:// are permitted.'')
          else (case host of
              None \<Rightarrow> Inl ''Invalid URL - missing host''
            | Some h \<Rightarrow> validate_host (to_lowercase h)))"

section \<open>Browser tools\<close>

definition parse_id :: "('w, 't) mcp_remote \<Rightarrow> string \<Rightarrow> ('w, uuid) mcp" where
  "parse_id rm t = map_err (\<lambda>e. ''Invalid sandbox ID: '' @ e) (lift_res (mr_parse_uuid rm t))"

definition call_browser_tool :: "('w, 't) mcp_remote \<Rightarrow> Settings \<Rightarrow> string \<Rightarrow> string \<Rightarrow> json \<Rightarrow> ('w, json) mcp" where
  "call_browser_tool rm s sandbox_id action args =
     bindE (parse_id rm sandbox_id) (\<lambda>i.
     map_err (\<lambda>e. ''Browser tool execution failed: '' @ e)
       (client_execute_tool rm s i ''python'' ''/opt/tools/agent_browser_tools.py'' action (Some args) None))"

definition str_or :: "json \<Rightarrow> string \<Rightarrow> string \<Rightarrow> string" where
  "str_or v k d = (case json_get v k of Some (JString t) \<Rightarrow> t | _ \<Rightarrow> d)"

definition browser_navigate_tool :: "('w, 't) mcp_remote \<Rightarrow> Settings \<Rightarrow> string \<Rightarrow> string \<Rightarrow> ('w, string) mcp" where
  "browser_navigate_tool rm s sandbox_id url =
     bindE (parse_id rm sandbox_id) (\<lambda>_.
     bindE (lift_res (validate_url_secure (mr_parse_url rm) url)) (\<lambda>_.
     bindE (call_browser_tool rm s sandbox_id ''browser_navigate'' (JObject [(''url'', JString url)])) (\<lambda>result.
     ret (''**Navigated to:** '' @ str_or result ''url'' ''unknown'' @ [CHR 0x0A, CHR 0x0A] @ ''**Message:** '' @
       str_or result ''message'' []))))"

definition browser_snapshot_tool :: "('w, 't) mcp_remote \<Rightarrow> Settings \<Rightarrow> string \<Rightarrow> bool \<Rightarrow> ('w, string) mcp" where
  "browser_snapshot_tool rm s sandbox_id interactive =
     bindE (call_browser_tool rm s sandbox_id ''browser_snapshot'' (JObject [(''interactive'', JBool interactive)])) (\<lambda>result.
     ret (case json_get result ''snapshot'' of Some (JString t) \<Rightarrow> t | _ \<Rightarrow> mr_print rm result))"

definition element_args :: "string option \<Rightarrow> string option \<Rightarrow> string + (string \<times> json) list" where
  "element_args r selector =
     (case r of Some x \<Rightarrow> Inr [(''ref'', JString x)]
      | None \<Rightarrow> (case selector of Some x \<Rightarrow> Inr [(''selector'', JString x)]
          | None \<Rightarrow> Inl ''Must provide either ref or selector''))"

definition browser_click_tool :: "('w, 't) mcp_remote \<Rightarrow> Settings \<Rightarrow> string \<Rightarrow> string option \<Rightarrow> string option \<Rightarrow> ('w, string) mcp" where
  "browser_click_tool rm s sandbox_id r selector =
     bindE (lift_res (element_args r selector)) (\<lambda>args.
     bindE (call_browser_tool rm s sandbox_id ''browser_click'' (JObject args)) (\<lambda>_. ret ''**Clicked element successfully**''))"

definition browser_fill_tool ::
  "('w, 't) mcp_remote \<Rightarrow> Settings \<Rightarrow> string \<Rightarrow> string option \<Rightarrow> string option \<Rightarrow> string \<Rightarrow> bool option \<Rightarrow> ('w, string) mcp" where
  "browser_fill_tool rm s sandbox_id r selector val clear =
     bindE (lift_res (element_args r selector)) (\<lambda>args.
     bindE (call_browser_tool rm s sandbox_id ''browser_fill''
       (JObject ((''value'', JString val) # args @ opt_entry ''clear'' JBool clear))) (\<lambda>_. ret ''**Filled form field successfully**''))"

definition browser_screenshot_tool ::
  "('w, 't) mcp_remote \<Rightarrow> Settings \<Rightarrow> string \<Rightarrow> bool \<Rightarrow> string option \<Rightarrow> string option \<Rightarrow> ('w, string) mcp" where
  "browser_screenshot_tool rm s sandbox_id full_page name selector =
     bindE (call_browser_tool rm s sandbox_id ''browser_screenshot''
       (JObject ((''fullPage'', JBool full_page) # opt_entry ''name'' JString name @ opt_entry ''selector'' JString selector))) (\<lambda>result.
     ret (''**Screenshot saved to:** '' @ str_or result ''path'' ''/tmp/screenshot.png''))"

definition browser_evaluate_tool :: "('w, 't) mcp_remote \<Rightarrow> Settings \<Rightarrow> string \<Rightarrow> string \<Rightarrow> ('w, string) mcp" where
  "browser_evaluate_tool rm s sandbox_id script =
     bindE (call_browser_tool rm s sandbox_id ''browser_evaluate'' (JObject [(''script'', JString script)])) (\<lambda>result.
     ret (''**Result:** '' @ str_or result ''result'' ''null''))"

definition browser_scroll_tool :: "('w, 't) mcp_remote \<Rightarrow> Settings \<Rightarrow> string \<Rightarrow> string \<Rightarrow> i32 \<Rightarrow> ('w, string) mcp" where
  "browser_scroll_tool rm s sandbox_id direction amount =
     bindE (call_browser_tool rm s sandbox_id ''browser_scroll''
       (JObject [(''direction'', JString direction), (''amount'', JNumber (sint amount))])) (\<lambda>_. ret ''**Scrolled successfully**'')"

definition browser_back_tool :: "('w, 't) mcp_remote \<Rightarrow> Settings \<Rightarrow> string \<Rightarrow> ('w, string) mcp" where
  "browser_back_tool rm s sandbox_id =
     bindE (call_browser_tool rm s sandbox_id ''browser_go_back'' (JObject [])) (\<lambda>result.
     ret (''**Went back, current URL:** '' @ str_or result ''url'' []))"

definition browser_forward_tool :: "('w, 't) mcp_remote \<Rightarrow> Settings \<Rightarrow> string \<Rightarrow> ('w, string) mcp" where
  "browser_forward_tool rm s sandbox_id =
     bindE (call_browser_tool rm s sandbox_id ''browser_go_forward'' (JObject [])) (\<lambda>result.
     ret (''**Went forward, current URL:** '' @ str_or result ''url'' []))"

text \<open>The numbered list of tabs.\<close>

fun tab_lines :: "nat \<Rightarrow> json list \<Rightarrow> string" where
  "tab_lines n [] = []"
| "tab_lines n (tab # tabs) =
     show_nat n @ ''. **'' @ str_or tab ''title'' [] @ ''** - '' @ str_or tab ''url'' [] @ [CHR 0x0A] @ tab_lines (Suc n) tabs"

definition browser_tabs_tool ::
  "('w, 't) mcp_remote \<Rightarrow> Settings \<Rightarrow> string \<Rightarrow> string \<Rightarrow> i32 option \<Rightarrow> string option \<Rightarrow> ('w, string) mcp" where
  "browser_tabs_tool rm s sandbox_id action index url =
     bindE (call_browser_tool rm s sandbox_id ''browser_tabs''
       (JObject ((''action'', JString action) # opt_entry ''index'' (\<lambda>i. JNumber (sint i)) index @ opt_entry ''url'' JString url))) (\<lambda>result.
     if action = ''list'' then
       ret (''**Open Tabs:**'' @ [CHR 0x0A, CHR 0x0A] @
         tab_lines 0 (case json_get result ''tabs'' of Some (JArray l) \<Rightarrow> l | _ \<Rightarrow> []))
     else ret (''**Tab action '' @ [CHR 0x27] @ action @ [CHR 0x27] @ '' completed**''))"

definition automate_browser ::
  "('w, 't) mcp_remote \<Rightarrow> Settings \<Rightarrow> string \<Rightarrow> string \<Rightarrow> string option \<Rightarrow> string option \<Rightarrow> string option \<Rightarrow> ('w, string) mcp" where
  "automate_browser rm s sandbox_id action selector val url =
     (if action = ''navigate'' then browser_navigate_tool rm s sandbox_id (case url of None \<Rightarrow> [] | Some u \<Rightarrow> u)
      else if action = ''click'' then browser_click_tool rm s sandbox_id None selector
      else if action = ''fill'' \<or> action = ''type''
      then browser_fill_tool rm s sandbox_id None selector (case val of None \<Rightarrow> [] | Some v \<Rightarrow> v) None
      else if action = ''screenshot'' then browser_screenshot_tool rm s sandbox_id False None None
      else if action = ''back'' then browser_back_tool rm s sandbox_id
      else if action = ''forward'' then browser_forward_tool rm s sandbox_id
      else throw (''Unknown browser action: '' @ action))"

section \<open>Web tools\<close>

text \<open>Texts of errors after which a tool call is repeated as a command in the sandbox.\<close>

definition should_fallback_to_exec :: "string \<Rightarrow> bool" where
  "should_fallback_to_exec e \<longleftrightarrow>
     str_contains e ''HTTP request failed'' \<or> str_contains e ''HTTP request to sandbox failed'' \<or>
     str_contains e ''error sending request'' \<or> str_contains e ''Connection refused'' \<or> str_contains e ''Failed to connect''"

text \<open>
  The output of the command should be JSON; otherwise its last line that is JSON counts, then
  what follows the last brace. \<open>lines\<close> also drops carriage returns, as \<open>trim\<close> does here.
\<close>

fun first_json :: "(string \<Rightarrow> string + json) \<Rightarrow> string list \<Rightarrow> json option" where
  "first_json parse [] = None"
| "first_json parse (line # rest) =
     (if trim line = [] then first_json parse rest
      else case parse (trim line) of Inr v \<Rightarrow> Some v | Inl _ \<Rightarrow> first_json parse rest)"

definition from_last_brace :: "string \<Rightarrow> string option" where
  "from_last_brace out =
     (if CHR 0x7B \<in> set out
      then Some (drop (length out - 1 - length (takeWhile (\<lambda>c. c \<noteq> CHR 0x7B) (rev out))) out) else None)"

definition parse_fallback_json_output :: "(string \<Rightarrow> string + json) \<Rightarrow> string \<Rightarrow> string + json" where
  "parse_fallback_json_output parse out =
     (if out = [] then Inl ''Failed to parse fallback tool response: EOF while parsing a value at line 1 column 0 (output: )''
      else case parse out of
        Inr v \<Rightarrow> Inr v
      | Inl _ \<Rightarrow>
          (case first_json parse (rev (split_on (CHR 0x0A) out)) of
             Some v \<Rightarrow> Inr v
           | None \<Rightarrow>
               (case map_option parse (from_last_brace out) of
                  Some (Inr v) \<Rightarrow> Inr v
                | _ \<Rightarrow> Inl (''Failed to parse fallback tool response: expected JSON output (output: '' @ out @ '')''))))"

definition web_tools_path :: string where
  "web_tools_path = ''/opt/tools/web_tools.py''"

definition call_web_tool_via_exec :: "('w, 't) mcp_remote \<Rightarrow> Settings \<Rightarrow> uuid \<Rightarrow> string \<Rightarrow> json \<Rightarrow> ('w, json) mcp" where
  "call_web_tool_via_exec rm s i command args =
     bindE (map_err (\<lambda>e. ''Fallback tool execution failed: '' @ e)
       (exec_command_with_stdin rm s i
         [''sh'', ''-c'', ''exec 9>/tmp/dsb-web-tools.lock && flock 9 && PYTHONWARNINGS=ignore python '' @ web_tools_path @
           '' '' @ command @ '' 2>/dev/null''] (Some (mr_print rm args)))) (\<lambda>result.
     let out = trim (mex_output result) in
     bindE (lift_res (parse_fallback_json_output (mr_parse_json rm) out)) (\<lambda>v.
     if mex_exit_code result \<noteq> 0 then throw (str_or v ''error_message'' out) else ret v))"

definition call_web_tool ::
  "('w, 't) mcp_remote \<Rightarrow> Settings \<Rightarrow> string \<Rightarrow> string \<Rightarrow> json \<Rightarrow> bool \<Rightarrow> ('w, json) mcp" where
  "call_web_tool rm s sandbox_id command args allow_exec_fallback =
     bindE (parse_id rm sandbox_id) (\<lambda>i.
     bindE (attempt (client_execute_tool rm s i ''python'' web_tools_path command (Some args) None)) (\<lambda>r. case r of
       Inr v \<Rightarrow> ret v
     | Inl e \<Rightarrow>
         if allow_exec_fallback \<and> should_fallback_to_exec e then call_web_tool_via_exec rm s i command args
         else throw (''Tool execution failed: '' @ e)))"

record ScrapeWebConfig =
  swc_sandbox_id :: string
  swc_url :: string
  swc_format :: "string option"
  swc_screenshot :: "bool option"
  swc_css_selector :: "string option"
  swc_word_count_threshold :: "u32 option"
  swc_search_query :: "string option"
  swc_use_pruning :: "bool option"
  swc_pruning_threshold :: "json option"
  swc_bm25_threshold :: "json option"
  swc_wait_until :: "string option"
  swc_cache_mode :: "string option"
  swc_page_timeout :: "u32 option"
  swc_max_length :: "u64 option"
  swc_proxy_config :: "json option"
  swc_allow_exec_fallback :: bool

definition json_of_u32 :: "u32 \<Rightarrow> json" where
  "json_of_u32 n = JNumber (int (unat n))"

definition scrape_format :: "ScrapeWebConfig \<Rightarrow> string" where
  "scrape_format c = (case swc_format c of None \<Rightarrow> ''markdown'' | Some f \<Rightarrow> f)"

definition scrape_args :: "ScrapeWebConfig \<Rightarrow> json" where
  "scrape_args c =
     JObject ([(''url'', JString (swc_url c)), (''format'', JString (scrape_format c))] @
       opt_entry ''screenshot'' JBool (swc_screenshot c) @ opt_entry ''css_selector'' JString (swc_css_selector c) @
       opt_entry ''word_count_threshold'' json_of_u32 (swc_word_count_threshold c) @
       opt_entry ''search_query'' JString (swc_search_query c) @ opt_entry ''max_length'' json_of_u64 (swc_max_length c) @
       opt_entry ''use_pruning'' JBool (swc_use_pruning c) @ opt_entry ''pruning_threshold'' id (swc_pruning_threshold c) @
       opt_entry ''bm25_threshold'' id (swc_bm25_threshold c) @ opt_entry ''wait_until'' JString (swc_wait_until c) @
       opt_entry ''cache_mode'' JString (swc_cache_mode c) @ opt_entry ''page_timeout'' json_of_u32 (swc_page_timeout c) @
       opt_entry ''proxy_config'' id (swc_proxy_config c))"

text \<open>Links as a list of lines.\<close>

definition link_text :: "json \<Rightarrow> string" where
  "link_text v = (case json_as_str v of Some t \<Rightarrow> t | None \<Rightarrow> [])"

definition link_line :: "json \<Rightarrow> string" where
  "link_line v = ''- '' @ link_text v @ [CHR 0x0A]"

fun json_links_to_markdown :: "json \<Rightarrow> string" where
  "json_links_to_markdown (JArray links) =
     (if links = [] then []
      else ''**Links:**'' @ [CHR 0x0A, CHR 0x0A] @ concat (map link_line (filter (\<lambda>v. link_text v \<noteq> []) links)))"
| "json_links_to_markdown (JObject kvs) =
     (case map_of kvs ''internal'' of
        Some (JArray (l # ls)) \<Rightarrow> ''**Internal Links:**'' @ [CHR 0x0A, CHR 0x0A] @ concat (map link_line (l # ls)) @ [CHR 0x0A]
      | _ \<Rightarrow> []) @
     (case map_of kvs ''external'' of
        Some (JArray (l # ls)) \<Rightarrow> ''**External Links:**'' @ [CHR 0x0A, CHR 0x0A] @ concat (map link_line (l # ls))
      | _ \<Rightarrow> [])"
| "json_links_to_markdown _ = []"

definition scrape_web :: "('w, 't) mcp_remote \<Rightarrow> Settings \<Rightarrow> ScrapeWebConfig \<Rightarrow> ('w, string) mcp" where
  "scrape_web rm s c =
     bindE (call_web_tool rm s (swc_sandbox_id c) ''web_scrape'' (scrape_args c) (swc_allow_exec_fallback c)) (\<lambda>v.
     if scrape_format c = ''links''
     then ret (case json_get v ''links'' of Some links \<Rightarrow> json_links_to_markdown links | None \<Rightarrow> ''No links found'')
     else ret (str_or v ''content'' ''No content''))"

section \<open>Searching\<close>

text \<open>
  Cutting a text at a byte that is inside a character panics; the other failures of a search
  are texts. The time limit of a search, a floating-point number, is not modelled.
\<close>

datatype tool_error = ToolError string | ToolPanic

definition truncate_for_error :: "string \<Rightarrow> tool_error + string" where
  "truncate_for_error m =
     (if length m \<le> 300 then Inr m else if is_char_boundary m 300 then Inr (take 300 m) else Inl ToolPanic)"

definition normalize_search_query :: "string \<Rightarrow> string + string" where
  "normalize_search_query q = (if trim q = [] then Inl ''query cannot be empty'' else Inr (trim q))"

definition supported_search_engines :: "string list" where
  "supported_search_engines = [''google'', ''duckduckgo'', ''bing'', ''baidu'']"

definition normalize_search_engine :: "string option \<Rightarrow> string + string option" where
  "normalize_search_engine engine =
     (case engine of
        None \<Rightarrow> Inr None
      | Some e \<Rightarrow>
          (let engine = to_lowercase (trim e) in
           if engine = [] then Inl ''engine cannot be empty''
           else if engine \<notin> set supported_search_engines
           then Inl (''Unsupported search engine '' @ [CHR 0x27] @ engine @ [CHR 0x27] @ ''. Supported engines: '' @
             join '', '' supported_search_engines)
           else Inr (Some engine)))"

definition normalize_num_results :: "u64 option \<Rightarrow> string + u64" where
  "normalize_num_results n =
     (let v = (case n of None \<Rightarrow> 10 | Some v \<Rightarrow> v)
      in if v = 0 \<or> 100 < v then Inl ''num_results must be between 1 and 100'' else Inr v)"

definition results_of :: "json \<Rightarrow> json list option" where
  "results_of v = (case json_get v ''results'' of Some (JArray l) \<Rightarrow> Some l | _ \<Rightarrow> None)"

record SearchWebConfig =
  swb_query :: string
  swb_engine :: "string option"
  swb_num_results :: "u64 option"
  swb_language :: "string option"
  swb_categories :: "string option"
  swb_time_range :: "string option"

definition search_params :: "string \<Rightarrow> string option \<Rightarrow> SearchWebConfig \<Rightarrow> (string \<times> string) list" where
  "search_params q engine c =
     [(''q'', q), (''format'', ''json''), (''categories'', case swb_categories c of None \<Rightarrow> ''general'' | Some x \<Rightarrow> x)] @
     (case engine of None \<Rightarrow> [] | Some e \<Rightarrow> [(''engines'', e)]) @
     (case swb_language c of None \<Rightarrow> [] | Some e \<Rightarrow> [(''language'', e)]) @
     (case swb_time_range c of None \<Rightarrow> [] | Some e \<Rightarrow> [(''time_range'', e)])"

type_synonym ('w, 'a) searcher = "('w mcp_world, tool_error, 'a) prog"

definition or_fail :: "string + 'a \<Rightarrow> ('w, 'a) searcher" where
  "or_fail r = (case r of Inl e \<Rightarrow> throw (ToolError e) | Inr a \<Rightarrow> ret a)"

definition truncated :: "string \<Rightarrow> ('w, string) searcher" where
  "truncated m = (case truncate_for_error (trim m) of Inl e \<Rightarrow> throw e | Inr t \<Rightarrow> ret t)"

definition call_searxng_search ::
  "('w, 't) mcp_remote \<Rightarrow> Settings \<Rightarrow> (string \<times> string) list \<Rightarrow> ('w, json) searcher" where
  "call_searxng_search rm s params =
     bindE (\<lambda>g. case mr_search rm (mws_searxng_url (set_web s)) params (mw_remote g) of (r, w) \<Rightarrow> (Inr r, g\<lparr>mw_remote := w\<rparr>)) (\<lambda>r.
     case r of
       Inl e \<Rightarrow> throw (ToolError (''SearXNG request failed: '' @ e))
     | Inr (status, Inl e) \<Rightarrow> throw (ToolError (''Failed to read SearXNG response: '' @ e))
     | Inr (status, Inr b) \<Rightarrow>
         if \<not> is_success status then
           bindE (truncated (mr_text rm b)) (\<lambda>t.
           throw (ToolError (''SearXNG request failed with status '' @ mr_status_text rm status @ (if t = [] then [] else '': '' @ t))))
         else (case mr_parse_json rm (mr_text rm b) of
             Inl e \<Rightarrow>
               bindE (truncated (mr_text rm b)) (\<lambda>t.
               throw (ToolError (''Failed to parse SearXNG response as JSON: '' @ e @ '' (body: '' @ t @ '')'')))
           | Inr v \<Rightarrow> if results_of v = None then throw (ToolError ''SearXNG response missing results array'') else ret v))"

definition opt_str :: "json \<Rightarrow> string \<Rightarrow> string option" where
  "opt_str v k = (case json_get v k of Some (JString t) \<Rightarrow> Some t | _ \<Rightarrow> None)"

definition result_line :: "nat \<Rightarrow> json \<Rightarrow> string" where
  "result_line n v =
     (let title = str_or v ''title'' ''Untitled result''; url = str_or v ''url'' [];
          snippet = (case opt_str v ''snippet'' of Some t \<Rightarrow> t | None \<Rightarrow>
            (case opt_str v ''content'' of Some t \<Rightarrow> t | None \<Rightarrow>
            (case opt_str v ''description'' of Some t \<Rightarrow> t | None \<Rightarrow> []))) in
      show_nat n @ (if url = [] then ''. **'' @ title @ ''**'' else ''. **['' @ title @ ''](''  @ url @ '')**'') @ [CHR 0x0A, CHR 0x0A] @
      (if snippet = [] then [] else ''   '' @ snippet @ [CHR 0x0A, CHR 0x0A]))"

fun search_lines :: "nat \<Rightarrow> json list \<Rightarrow> string" where
  "search_lines n [] = []"
| "search_lines n (v # vs) = result_line n v @ search_lines (Suc n) vs"

text \<open>\<open>trim_search_results\<close> shortens the list of the answer, \<open>json_search_to_markdown\<close> prints it.\<close>

definition search_web :: "('w, 't) mcp_remote \<Rightarrow> Settings \<Rightarrow> SearchWebConfig \<Rightarrow> ('w, string) searcher" where
  "search_web rm s c =
     bindE (or_fail (normalize_search_query (swb_query c))) (\<lambda>q.
     bindE (or_fail (normalize_search_engine (swb_engine c))) (\<lambda>engine.
     bindE (or_fail (normalize_num_results (swb_num_results c))) (\<lambda>limit.
     bindE (call_searxng_search rm s (search_params q engine c)) (\<lambda>v.
     case results_of v of
       None \<Rightarrow> throw (ToolError ''SearXNG response missing results array'')
     | Some l \<Rightarrow>
         (let out = search_lines 1 (take (unat limit) l)
          in ret (if trim out = [] then ''No search results found.'' else out))))))"

section \<open>The services\<close>

datatype McpError =
    InvalidParams string string
  | InternalError string string
  | MethodNotFound string
  | Panicked

text \<open>The answer of a tool: a text of its own, or a JSON value that is printed.\<close>

datatype mcp_text = Pretty json | Plain string

type_synonym 'w tool = "('w mcp_world, McpError, mcp_text) prog"

definition internal :: "string \<Rightarrow> ('w, 'a) mcp \<Rightarrow> ('w mcp_world, McpError, 'a) prog" where
  "internal what m = map_err (InternalError what) m"

definition resolve_session :: "string \<Rightarrow> ('w mcp_world, McpError, uuid) prog" where
  "resolve_session sid =
     bindE (session_get sid) (\<lambda>found. case found of
       Some i \<Rightarrow> ret i
     | None \<Rightarrow> throw (InvalidParams ''session_id'' (''No sandbox found for session '' @ [CHR 0x27] @ sid @ [CHR 0x27] @
         ''. Create a sandbox first using create_sandbox.'')))"

definition resolve_or_create_session :: "('w, 't) mcp_remote \<Rightarrow> Settings \<Rightarrow> string \<Rightarrow> ('w mcp_world, McpError, uuid) prog" where
  "resolve_or_create_session rm s sid = internal ''resolve_or_create'' (resolve_or_create rm s sid)"

text \<open>Both command tools first log the first hundred bytes of the command.\<close>

definition log_command :: "string \<Rightarrow> ('w mcp_world, McpError, unit) prog" where
  "log_command command = (if is_char_boundary command (min (length command) 100) then ret () else throw Panicked)"

definition opt_json :: "string option \<Rightarrow> json" where
  "opt_json x = (case x of None \<Rightarrow> JNull | Some t \<Rightarrow> JString t)"

subsection \<open>Sandboxes\<close>

record McpCreateArgs =
  mca_session_id :: string
  mca_name :: "string option"
  mca_image :: "string option"
  mca_environment :: "(string \<times> string) list option"
  mca_volumes :: "(string \<times> string) list option"
  mca_command :: "string list option"
  mca_resource_limits :: "json option"

definition sandbox_fields :: "('w, 't) mcp_remote \<Rightarrow> McpSandbox \<Rightarrow> (string \<times> json) list" where
  "sandbox_fields rm sandbox =
     [(''id'', JString (mr_uuid_text rm (msb_id sandbox))), (''name'', opt_json (msb_name sandbox)),
      (''image'', JString (msb_image sandbox)), (''state'', JString (msb_state sandbox)),
      (''created_at'', JString (msb_created_at sandbox))]"

definition bind_mounts :: "(string \<times> string) list \<Rightarrow> json" where
  "bind_mounts vols = JArray (map (\<lambda>(host_path, container_path). JObject [(''type'', JString ''bind''),
     (''host_path'', JString host_path), (''container_path'', JString container_path), (''read_only'', JBool False)]) vols)"

definition tool_create_sandbox :: "('w, 't) mcp_remote \<Rightarrow> Settings \<Rightarrow> McpCreateArgs \<Rightarrow> 'w tool" where
  "tool_create_sandbox rm s a =
     bindE (session_get (mca_session_id a)) (\<lambda>cached.
     bindE (case cached of
         None \<Rightarrow> ret None
       | Some i \<Rightarrow>
           bindE (attempt (client_get_sandbox rm s i)) (\<lambda>r. ret (case r of
             Inr sandbox \<Rightarrow> if msb_state sandbox = ''running'' then Some sandbox else None
           | Inl _ \<Rightarrow> None))) (\<lambda>running. case running of
       Some sandbox \<Rightarrow>
         ret (Pretty (JObject (sandbox_fields rm sandbox @ [(''session_id'', JString (mca_session_id a)),
           (''message'', JString ''Sandbox already exists and is running''), (''reused'', JBool True)])))
     | None \<Rightarrow>
         let config = \<lparr>csc_image = (case mca_image a of Some x \<Rightarrow> x | None \<Rightarrow> mss_default_image (set_sandbox s)),
             csc_name = mca_name a, csc_environment = Some (extend_env (get_sandbox_env s) (mca_environment a)),
             csc_port_mappings = None, csc_resource_limits = mca_resource_limits a,
             csc_volumes = map_option bind_mounts (mca_volumes a), csc_command = mca_command a,
             csc_inactivity_timeout_minutes = None, csc_pull_policy = None\<rparr> in
         bindE (internal ''create_sandbox'' (create_sandbox_full rm s config)) (\<lambda>sandbox.
         bindE (session_set (mca_session_id a) (msb_id sandbox)) (\<lambda>_.
         ret (Pretty (JObject (sandbox_fields rm sandbox @ [(''session_id'', JString (mca_session_id a))])))))))"

definition tool_destroy_sandbox :: "('w, 't) mcp_remote \<Rightarrow> Settings \<Rightarrow> string \<Rightarrow> 'w tool" where
  "tool_destroy_sandbox rm s sid =
     bindE (resolve_session sid) (\<lambda>i.
     bindE (internal ''destroy_sandbox'' (client_delete_sandbox rm s i)) (\<lambda>_.
     bindE (session_remove sid) (\<lambda>_.
     ret (Pretty (JObject [(''success'', JBool True), (''message'', JString (''Destroyed sandbox for session '' @ sid))])))))"

definition tool_get_sandbox :: "('w, 't) mcp_remote \<Rightarrow> Settings \<Rightarrow> string \<Rightarrow> 'w tool" where
  "tool_get_sandbox rm s sid =
     bindE (resolve_session sid) (\<lambda>i.
     bindE (internal ''get_sandbox'' (client_get_sandbox rm s i)) (\<lambda>sandbox.
     ret (Pretty (JObject (sandbox_fields rm sandbox @ [(''session_id'', JString sid), (''updated_at'', JString (msb_updated_at sandbox))])))))"

text \<open>
  The variables of the command, in the order in which the \<open>HashMap\<close> gives them, which is the
  argument's order here. The module's \<open>shell_quote\<close> is the one of \<open>Exec\<close>.
\<close>

definition build_shell_command :: "string \<Rightarrow> string option \<Rightarrow> (string \<times> string) list option \<Rightarrow> string list" where
  "build_shell_command command working_dir env =
     [''sh'', ''-c'',
      (case env of None \<Rightarrow> [] | Some kvs \<Rightarrow> concat (map (\<lambda>(k, v). ''export '' @ k @ ''='' @ shell_quote v @ ''; '') kvs)) @
      (case working_dir of None \<Rightarrow> [] | Some d \<Rightarrow> ''cd '' @ shell_quote d @ '' && '') @ command]"

definition exec_answer :: "McpExecResult \<Rightarrow> json" where
  "exec_answer r =
     JObject [(''stdout'', JString (mex_output r)), (''stderr'', JString []), (''exitCode'', JNumber (sint (mex_exit_code r))),
       (''errorType'', if mex_exit_code r = 0 then JNull else JString ''CommandExecutionError''), (''timedOut'', JBool False)]"

definition tool_execute_command ::
  "('w, 't) mcp_remote \<Rightarrow> Settings \<Rightarrow> string \<Rightarrow> string \<Rightarrow> string option \<Rightarrow> (string \<times> string) list option \<Rightarrow> u64 option \<Rightarrow> 'w tool" where
  "tool_execute_command rm s sid command working_dir env timeout =
     bindE (log_command command) (\<lambda>_.
     bindE (resolve_or_create_session rm s sid) (\<lambda>i.
     bindE (internal ''execute_command'' (exec_command rm s i (build_shell_command command working_dir env))) (\<lambda>r.
     ret (Pretty (exec_answer r)))))"

definition tool_file_upload :: "('w, 't) mcp_remote \<Rightarrow> Settings \<Rightarrow> string \<Rightarrow> string \<Rightarrow> string \<Rightarrow> 'w tool" where
  "tool_file_upload rm s sid file_path content =
     bindE (resolve_or_create_session rm s sid) (\<lambda>i.
     bindE (internal ''file_upload'' (client_upload_file rm s i file_path content)) (\<lambda>_.
     ret (Pretty (JObject [(''success'', JBool True), (''file_path'', JString file_path),
       (''message'', JString (''File uploaded successfully at '' @ file_path))]))))"

definition tool_file_download :: "('w, 't) mcp_remote \<Rightarrow> Settings \<Rightarrow> string \<Rightarrow> string \<Rightarrow> 'w tool" where
  "tool_file_download rm s sid file_path =
     bindE (resolve_or_create_session rm s sid) (\<lambda>i.
     bindE (internal ''file_download'' (client_download_file rm s i file_path)) (\<lambda>content.
     ret (Pretty (JObject [(''success'', JBool True), (''file_path'', JString file_path), (''content'', JString content),
       (''encoding'', JString (mss_file_encoding (set_sandbox s))),
       (''message'', JString (''File downloaded successfully from '' @ file_path))]))))"

definition tool_get_static_file_url :: "('w, 't) mcp_remote \<Rightarrow> Settings \<Rightarrow> string \<Rightarrow> string option \<Rightarrow> 'w tool" where
  "tool_get_static_file_url rm s sid path =
     bindE (resolve_or_create_session rm s sid) (\<lambda>i.
     let p = (case path of Some x \<Rightarrow> x | None \<Rightarrow> mss_default_static_file (set_sandbox s)); api = mds_api_url (set_dsb s); t = mr_uuid_text rm i in
     ret (Pretty (JObject [(''success'', JBool True), (''session_id'', JString sid), (''sandbox_id'', JString t), (''file_path'', JString p),
       (''static_url'', JString (api @ mss_static_file_endpoint (set_sandbox s) @ t @ ''/'' @ p)),
       (''files_list_url'', JString (api @ mss_static_files_endpoint (set_sandbox s) @ t)),
       (''message'', JString (''Static file URL generated for '' @ p))])))"

definition tool_list_static_files :: "('w, 't) mcp_remote \<Rightarrow> Settings \<Rightarrow> string \<Rightarrow> 'w tool" where
  "tool_list_static_files rm s sid =
     bindE (resolve_or_create_session rm s sid) (\<lambda>i.
     bindE (internal ''list_static_files'' (client_list_static_files rm s i)) (\<lambda>files.
     ret (Pretty (JObject [(''success'', JBool True), (''session_id'', JString sid), (''sandbox_id'', JString (mr_uuid_text rm i)),
       (''files_list_url'', JString (mds_api_url (set_dsb s) @ mss_static_files_endpoint (set_sandbox s) @ mr_uuid_text rm i)),
       (''files'', JArray files), (''total'', JNumber (int (length files))),
       (''message'', JString (''Found '' @ show_nat (length files) @ '' static file(s) in sandbox''))]))))"

subsection \<open>Terminals\<close>

definition terminal_url :: "('w, 't) mcp_remote \<Rightarrow> Settings \<Rightarrow> uuid \<Rightarrow> string" where
  "terminal_url rm s i =
     (let api = mds_api_url (set_dsb s); t = set_terminal s in
      (if starts_with api ''https://'' then mts_websocket_protocol_https t else mts_websocket_protocol_http t) @
      strip_all ''https://'' (strip_all ''http://'' api) @ ''/terminal/'' @ mr_uuid_text rm i)"

definition tool_terminal_connect :: "('w, 't) mcp_remote \<Rightarrow> Settings \<Rightarrow> string \<Rightarrow> 'w tool" where
  "tool_terminal_connect rm s sid =
     bindE (resolve_or_create_session rm s sid) (\<lambda>i.
     ret (Pretty (JObject [(''success'', JBool True), (''ws_url'', JString (terminal_url rm s i)),
       (''rows'', json_of_u32 (mts_default_rows (set_terminal s))), (''cols'', json_of_u32 (mts_default_cols (set_terminal s))),
       (''instructions'', JString (mts_websocket_instructions (set_terminal s)))])))"

definition tool_terminal_execute :: "('w, 't) mcp_remote \<Rightarrow> Settings \<Rightarrow> string \<Rightarrow> string \<Rightarrow> 'w tool" where
  "tool_terminal_execute rm s sid command =
     bindE (log_command command) (\<lambda>_.
     bindE (resolve_or_create_session rm s sid) (\<lambda>i.
     bindE (internal ''terminal_execute'' (exec_command rm s i [''sh'', ''-c'', command])) (\<lambda>r.
     ret (Pretty (JObject [(''success'', JBool True), (''output'', JString (mex_output r)),
       (''exit_code'', JNumber (sint (mex_exit_code r)))])))))"

definition tool_terminal_resize :: "('w, 't) mcp_remote \<Rightarrow> Settings \<Rightarrow> string \<Rightarrow> u32 option \<Rightarrow> u32 option \<Rightarrow> 'w tool" where
  "tool_terminal_resize rm s sid rows cols =
     bindE (resolve_or_create_session rm s sid) (\<lambda>_.
     ret (Pretty (JObject [(''success'', JBool True),
       (''rows'', json_of_u32 (case rows of None \<Rightarrow> mts_default_rows (set_terminal s) | Some r \<Rightarrow> r)),
       (''cols'', json_of_u32 (case cols of None \<Rightarrow> mts_default_cols (set_terminal s) | Some c \<Rightarrow> c)),
       (''message'', JString ''Terminal resized'')])))"

subsection \<open>Browser\<close>

text \<open>
  Every tool of the service: resolve the session, call the tool of \<open>tools/browser.rs\<close> and wrap
  its answer.
\<close>

definition browser_tool ::
  "('w, 't) mcp_remote \<Rightarrow> Settings \<Rightarrow> string \<Rightarrow> string \<Rightarrow> (string \<Rightarrow> ('w, json) mcp) \<Rightarrow> 'w tool" where
  "browser_tool rm s name sid m =
     bindE (resolve_or_create_session rm s sid) (\<lambda>i.
     bindE (internal name (m (mr_uuid_text rm i))) (\<lambda>out.
     ret (Pretty (JObject [(''success'', JBool True), (''status'', JString (mbs_success_status (set_browser s))), (''output'', out)]))))"

definition as_text :: "('w, string) mcp \<Rightarrow> ('w, json) mcp" where
  "as_text m = bindE m (\<lambda>t. ret (JString t))"

datatype browser_call =
    BrowserNavigate string
  | BrowserGetClickableElements
  | BrowserClick "i32 option" "string option"
  | BrowserFill string string "bool option"
  | BrowserScroll "i32 option"
  | BrowserScreenshot "string option" "bool option" "string option"
  | BrowserNewTab "string option"
  | BrowserTabList
  | BrowserSwitchTab i32
  | BrowserHealthCheck
  | BrowserGoBack
  | BrowserGoForward
  | BrowserEvaluate string
  | BrowserClose

definition show_int :: "int \<Rightarrow> string" where
  "show_int n = (if n < 0 then ''-'' @ show_nat (nat (- n)) else show_nat (nat n))"

fun browser_service :: "('w, 't) mcp_remote \<Rightarrow> Settings \<Rightarrow> string \<Rightarrow> browser_call \<Rightarrow> 'w tool" where
  "browser_service rm s sid (BrowserNavigate url) =
     (case validate_url_secure (mr_parse_url rm) url of
        Inl e \<Rightarrow> throw (InvalidParams ''browser_navigate'' e)
      | Inr _ \<Rightarrow> browser_tool rm s ''browser_navigate'' sid (\<lambda>t. as_text (browser_navigate_tool rm s t url)))"
| "browser_service rm s sid BrowserGetClickableElements =
     browser_tool rm s ''browser_get_clickable_elements'' sid (\<lambda>t. as_text (browser_snapshot_tool rm s t True))"
| "browser_service rm s sid (BrowserClick index selector) =
     browser_tool rm s ''browser_click'' sid (\<lambda>t. as_text (browser_click_tool rm s t
       (map_option (\<lambda>i. ''@e'' @ show_int (sint i)) index) selector))"
| "browser_service rm s sid (BrowserFill selector val clear) =
     browser_tool rm s ''browser_fill'' sid (\<lambda>t. as_text (browser_fill_tool rm s t None (Some selector) val clear))"
| "browser_service rm s sid (BrowserScroll amount) =
     browser_tool rm s ''browser_scroll'' sid (\<lambda>t. as_text (browser_scroll_tool rm s t ''down'' (case amount of None \<Rightarrow> 300 | Some a \<Rightarrow> a)))"
| "browser_service rm s sid (BrowserScreenshot name full_page selector) =
     browser_tool rm s ''browser_screenshot'' sid (\<lambda>t. as_text (browser_screenshot_tool rm s t
       (case full_page of None \<Rightarrow> mbs_screenshot_full_page (set_browser s) | Some b \<Rightarrow> b) name selector))"
| "browser_service rm s sid (BrowserNewTab url) =
     browser_tool rm s ''browser_new_tab'' sid (\<lambda>t. as_text (browser_tabs_tool rm s t ''new'' None url))"
| "browser_service rm s sid BrowserTabList =
     browser_tool rm s ''browser_tab_list'' sid (\<lambda>t. as_text (browser_tabs_tool rm s t ''list'' None None))"
| "browser_service rm s sid (BrowserSwitchTab index) =
     browser_tool rm s ''browser_switch_tab'' sid (\<lambda>t. as_text (browser_tabs_tool rm s t ''select'' (Some index) None))"
| "browser_service rm s sid BrowserHealthCheck =
     browser_tool rm s ''browser_health_check'' sid (\<lambda>t. call_browser_tool rm s t ''browser_health_check'' (JObject []))"
| "browser_service rm s sid BrowserGoBack =
     browser_tool rm s ''browser_go_back'' sid (\<lambda>t. as_text (browser_back_tool rm s t))"
| "browser_service rm s sid BrowserGoForward =
     browser_tool rm s ''browser_go_forward'' sid (\<lambda>t. as_text (browser_forward_tool rm s t))"
| "browser_service rm s sid (BrowserEvaluate script) =
     browser_tool rm s ''browser_evaluate'' sid (\<lambda>t. as_text (browser_evaluate_tool rm s t script))"
| "browser_service rm s sid BrowserClose =
     browser_tool rm s ''browser_close'' sid (\<lambda>t. call_browser_tool rm s t ''browser_close'' (JObject []))"

subsection \<open>Web\<close>

definition fetch_config :: "Settings \<Rightarrow> string \<Rightarrow> string \<Rightarrow> string option \<Rightarrow> string option \<Rightarrow> u64 option \<Rightarrow> ScrapeWebConfig" where
  "fetch_config s sandbox_id url fmt search_query max_length =
     (let web = set_web s in
      \<lparr>swc_sandbox_id = sandbox_id, swc_url = url, swc_format = fmt, swc_screenshot = None, swc_css_selector = None,
       swc_word_count_threshold = Some (mws_word_count_threshold web), swc_search_query = search_query, swc_use_pruning = None,
       swc_pruning_threshold = Some (mws_pruning_threshold web), swc_bm25_threshold = Some (mws_bm25_threshold web),
       swc_wait_until = Some (mws_wait_until web), swc_cache_mode = Some (mws_cache_mode web),
       swc_page_timeout = Some (mws_page_timeout web), swc_max_length = max_length, swc_proxy_config = None,
       swc_allow_exec_fallback = mws_allow_exec_fallback web\<rparr>)"

definition tool_web_fetch ::
  "('w, 't) mcp_remote \<Rightarrow> Settings \<Rightarrow> string \<Rightarrow> string \<Rightarrow> string option \<Rightarrow> string option \<Rightarrow> u64 option \<Rightarrow> 'w tool" where
  "tool_web_fetch rm s sid url fmt search_query max_length =
     (case validate_url_secure (mr_parse_url rm) url of
        Inl e \<Rightarrow> throw (InvalidParams ''web_fetch'' e)
      | Inr _ \<Rightarrow>
          bindE (resolve_or_create_session rm s sid) (\<lambda>i.
          bindE (internal ''web_fetch'' (scrape_web rm s (fetch_config s (mr_uuid_text rm i) url fmt search_query max_length))) (\<lambda>content.
          ret (Pretty (JObject [(''url'', JString url), (''title'', JString []), (''content'', JString content)])))))"

definition as_tool :: "string \<Rightarrow> ('w, string) searcher \<Rightarrow> 'w tool" where
  "as_tool what m =
     bindE (map_err (\<lambda>e. case e of ToolError t \<Rightarrow> InternalError what t | ToolPanic \<Rightarrow> Panicked) m) (\<lambda>t. ret (Plain t))"

definition tool_web_search :: "('w, 't) mcp_remote \<Rightarrow> Settings \<Rightarrow> SearchWebConfig \<Rightarrow> 'w tool" where
  "tool_web_search rm s c = as_tool ''web_search'' (search_web rm s c)"

subsection \<open>The older service, which names sandboxes by identifier\<close>

definition legacy_id :: "('w, 't) mcp_remote \<Rightarrow> string \<Rightarrow> string \<Rightarrow> ('w mcp_world, McpError, uuid) prog" where
  "legacy_id rm what t = (case mr_parse_uuid rm t of Inl e \<Rightarrow> throw (InvalidParams what e) | Inr i \<Rightarrow> ret i)"

definition plain :: "string \<Rightarrow> ('w, string) mcp \<Rightarrow> 'w tool" where
  "plain what m = bindE (internal what m) (\<lambda>t. ret (Plain t))"

text \<open>The settings are loaded again for each call, with the defaults when that fails.\<close>

definition legacy_create_sandbox :: "('w, 't) mcp_remote \<Rightarrow> Settings \<Rightarrow> Settings \<Rightarrow> CreateSandboxConfig \<Rightarrow> 'w tool" where
  "legacy_create_sandbox rm s loaded c =
     plain ''create_sandbox'' (bindE (create_sandbox_full rm s
       (c\<lparr>csc_environment := Some (extend_env (get_sandbox_env loaded) (csc_environment c))\<rparr>)) (\<lambda>sandbox.
       ret (''Created sandbox: '' @ mr_uuid_text rm (msb_id sandbox) @ '' (image: '' @ msb_image sandbox @ '', state: '' @
         msb_state sandbox @ '')'')))"

definition legacy_list_sandboxes :: "('w, 't) mcp_remote \<Rightarrow> Settings \<Rightarrow> 'w tool" where
  "legacy_list_sandboxes rm s =
     plain ''list_sandboxes'' (bindE (client_list_sandboxes rm s) (\<lambda>l.
       ret (if l = [] then ''No sandboxes found''
         else ''Sandboxes:'' @ [CHR 0x0A] @ concat (map (\<lambda>sandbox. ''  - '' @ mr_uuid_text rm (msb_id sandbox) @ '': '' @
           (case msb_name sandbox of None \<Rightarrow> ''unnamed'' | Some n \<Rightarrow> n) @ '' ('' @ msb_state sandbox @ '')'' @ [CHR 0x0A]) l))))"

definition legacy_delete_sandbox :: "('w, 't) mcp_remote \<Rightarrow> Settings \<Rightarrow> string \<Rightarrow> 'w tool" where
  "legacy_delete_sandbox rm s t =
     bindE (legacy_id rm ''delete_sandbox'' t) (\<lambda>i.
     plain ''delete_sandbox'' (bindE (client_delete_sandbox rm s i) (\<lambda>_. ret (''Deleted sandbox: '' @ t))))"

definition legacy_execute_code :: "('w, 't) mcp_remote \<Rightarrow> Settings \<Rightarrow> string \<Rightarrow> string \<Rightarrow> 'w tool" where
  "legacy_execute_code rm s t code =
     bindE (legacy_id rm ''execute_code'' t) (\<lambda>i.
     plain ''execute_code'' (bindE (exec_command rm s i [''sh'', ''-c'', ''python3 -c '' @ shell_quote code]) (\<lambda>r. ret (mex_output r))))"

definition legacy_execute_bash :: "('w, 't) mcp_remote \<Rightarrow> Settings \<Rightarrow> string \<Rightarrow> string \<Rightarrow> 'w tool" where
  "legacy_execute_bash rm s t command =
     bindE (legacy_id rm ''execute_bash'' t) (\<lambda>i.
     plain ''execute_bash'' (bindE (exec_command rm s i [''sh'', ''-c'', command]) (\<lambda>r. ret (mex_output r))))"

definition legacy_scrape_web ::
  "('w, 't) mcp_remote \<Rightarrow> Settings \<Rightarrow> string \<Rightarrow> string \<Rightarrow> string option \<Rightarrow> string option \<Rightarrow> bool option \<Rightarrow> u64 option \<Rightarrow> 'w tool" where
  "legacy_scrape_web rm s t url fmt css_selector screenshot threshold =
     bindE (legacy_id rm ''scrape_web'' t) (\<lambda>_.
     if (case threshold of None \<Rightarrow> False | Some n \<Rightarrow> 2 ^ 32 \<le> n)
     then throw (InvalidParams ''scrape_web'' ''word_count_threshold exceeds supported range'')
     else plain ''scrape_web'' (scrape_web rm s
       \<lparr>swc_sandbox_id = t, swc_url = url, swc_format = fmt, swc_screenshot = screenshot, swc_css_selector = css_selector,
        swc_word_count_threshold = map_option ucast threshold, swc_search_query = None, swc_use_pruning = None,
        swc_pruning_threshold = None, swc_bm25_threshold = None, swc_wait_until = None, swc_cache_mode = None,
        swc_page_timeout = None, swc_max_length = None, swc_proxy_config = None, swc_allow_exec_fallback = True\<rparr>))"

definition legacy_automate_browser ::
  "('w, 't) mcp_remote \<Rightarrow> Settings \<Rightarrow> string \<Rightarrow> string \<Rightarrow> string option \<Rightarrow> string option \<Rightarrow> string option \<Rightarrow> 'w tool" where
  "legacy_automate_browser rm s t action url selector val =
     bindE (legacy_id rm ''automate_browser'' t) (\<lambda>_.
     plain ''automate_browser'' (automate_browser rm s t action selector val url))"

subsection \<open>Calls\<close>

text \<open>The calls of the services that work on sessions.\<close>

datatype session_call =
    CreateSandbox McpCreateArgs
  | DestroySandbox
  | GetSandbox
  | ExecuteCommand string "string option" "(string \<times> string) list option" "u64 option"
  | FileUpload string string
  | FileDownload string
  | GetStaticFileUrl "string option"
  | ListStaticFiles
  | TerminalConnect
  | TerminalExecute string
  | TerminalResize "u32 option" "u32 option"
  | Browser browser_call
  | WebFetch string "string option" "string option" "u64 option"
  | UnknownTool string

fun call_tool :: "('w, 't) mcp_remote \<Rightarrow> Settings \<Rightarrow> string \<Rightarrow> session_call \<Rightarrow> 'w tool" where
  "call_tool rm s sid (CreateSandbox a) = tool_create_sandbox rm s (a\<lparr>mca_session_id := sid\<rparr>)"
| "call_tool rm s sid DestroySandbox = tool_destroy_sandbox rm s sid"
| "call_tool rm s sid GetSandbox = tool_get_sandbox rm s sid"
| "call_tool rm s sid (ExecuteCommand c d e t) = tool_execute_command rm s sid c d e t"
| "call_tool rm s sid (FileUpload p c) = tool_file_upload rm s sid p c"
| "call_tool rm s sid (FileDownload p) = tool_file_download rm s sid p"
| "call_tool rm s sid (GetStaticFileUrl p) = tool_get_static_file_url rm s sid p"
| "call_tool rm s sid ListStaticFiles = tool_list_static_files rm s sid"
| "call_tool rm s sid TerminalConnect = tool_terminal_connect rm s sid"
| "call_tool rm s sid (TerminalExecute c) = tool_terminal_execute rm s sid c"
| "call_tool rm s sid (TerminalResize r c) = tool_terminal_resize rm s sid r c"
| "call_tool rm s sid (Browser b) = browser_service rm s sid b"
| "call_tool rm s sid (WebFetch u f q n) = tool_web_fetch rm s sid u f q n"
| "call_tool rm s sid (UnknownTool n) = throw (MethodNotFound (''Tool not found: '' @ n))"

end
