(* ===== verification/McpProps.thy ===== *)
theory McpProps
  imports Mcp Api
begin

text \<open>
  What the MCP server guarantees and what it does not: the calls of a session reach only the
  sandbox of that session and never touch another session; a session is forgotten exactly after
  thirty minutes without a call; a sandbox that the server has removed stays bound to its
  session. The address check is exact for IPv4 addresses, and the theorems after it show the
  ways around it.
\<close>

named_theorems directed_rules \<open>programs that only send requests to one sandbox\<close>

section \<open>Requests of a call\<close>

definition targets :: "('w, 't) mcp_remote \<Rightarrow> string \<Rightarrow> uuid \<Rightarrow> bool" where
  "targets rm path i \<longleftrightarrow> (\<exists>rest. path = sandbox_path rm i rest) \<or> path = ''/static/files/'' @ mr_uuid_text rm i"

text \<open>Between \<open>g\<close> and \<open>v\<close> requests were sent about sandbox \<open>i\<close> only, and no session changed.\<close>

definition sent_to :: "('w, 't) mcp_remote \<Rightarrow> uuid \<Rightarrow> 'w mcp_world \<Rightarrow> 'w mcp_world \<Rightarrow> bool" where
  "sent_to rm i g v \<longleftrightarrow> mw_sessions v = mw_sessions g \<and>
     (\<exists>new. mw_requests v = mw_requests g @ new \<and> (\<forall>r \<in> set new. targets rm (fst (snd r)) i))"

lemma sent_to_refl: "sent_to rm i g g"
  by (simp add: sent_to_def)

lemma sent_to_trans: "sent_to rm i g u \<Longrightarrow> sent_to rm i u v \<Longrightarrow> sent_to rm i g v"
  by (fastforce simp: sent_to_def)

definition directed :: "('w, 't) mcp_remote \<Rightarrow> uuid \<Rightarrow> ('w mcp_world, 'e, 'a) prog \<Rightarrow> bool" where
  "directed rm i m \<longleftrightarrow> (\<forall>g. wpE m (\<lambda>_. sent_to rm i g) (\<lambda>_. sent_to rm i g) g)"

lemma directed_ret [directed_rules]: "directed rm i (ret x)" "directed rm i (throw e)"
  by (simp_all add: directed_def wp sent_to_refl)

lemma directed_bind [directed_rules]:
  assumes "directed rm i m" and "\<And>a. directed rm i (f a)"
  shows "directed rm i (bindE m f)"
  unfolding directed_def wpE_bindE
proof
  fix g
  show "wpE m (\<lambda>a. wpE (f a) (\<lambda>_. sent_to rm i g) (\<lambda>_. sent_to rm i g)) (\<lambda>_. sent_to rm i g) g"
  proof (rule wpE_mono)
    show "wpE m (\<lambda>_. sent_to rm i g) (\<lambda>_. sent_to rm i g) g" using assms(1) by (simp add: directed_def)
    show "wpE (f a) (\<lambda>_. sent_to rm i g) (\<lambda>_. sent_to rm i g) v" if "sent_to rm i g v" for a v
      using assms(2) [of a] that unfolding directed_def by (blast intro: wpE_mono sent_to_trans)
  qed simp
qed

lemma directed_map_err [directed_rules]: "directed rm i m \<Longrightarrow> directed rm i (map_err f m)"
  by (simp add: directed_def wp)

lemma directed_attempt [directed_rules]: "directed rm i m \<Longrightarrow> directed rm i (attempt m)"
  by (simp add: directed_def wp)

lemma directed_sum [directed_rules]:
  "(\<And>e. directed rm i (f e)) \<Longrightarrow> (\<And>a. directed rm i (h a)) \<Longrightarrow> directed rm i (case x of Inl e \<Rightarrow> f e | Inr a \<Rightarrow> h a)"
  by (cases x) simp_all

lemma directed_if [directed_rules]: "directed rm i m \<Longrightarrow> directed rm i n \<Longrightarrow> directed rm i (if b then m else n)"
  by simp

lemma directed_Let [directed_rules]: "(\<And>x. directed rm i (f x)) \<Longrightarrow> directed rm i (Let y f)"
  by simp

lemma directed_send: "targets rm path i \<Longrightarrow> directed rm i (send rm s meth path body)"
  unfolding directed_def wpE_def send_def Let_def sent_to_def by (auto split: prod.splits sum.splits)

lemma directed_request:
  assumes "targets rm path i" and "\<And>b. directed rm i (use b)"
  shows "directed rm i (request rm s meth path body failed use)"
  unfolding request_def
  by (rule directed_bind [OF directed_send [OF assms(1)]])
    (auto simp: read_text_def split: prod.split intro!: directed_rules assms(2) split: sum.splits)

lemma targets_paths [simp]: "targets rm (sandbox_path rm i rest) i" "targets rm (''/static/files/'' @ mr_uuid_text rm i) i"
  by (auto simp: targets_def)

lemma directed_decoded [directed_rules]: "directed rm i (decoded f b)" "directed rm i (read_text rm b)" "directed rm i (lift_res r)"
  unfolding decoded_def read_text_def lift_res_def by (intro directed_rules)+

lemma directed_client [directed_rules]:
  "directed rm i (client_get_sandbox rm s i)" "directed rm i (client_delete_sandbox rm s i)"
  "directed rm i (exec_command_with_stdin rm s i c stdin)" "directed rm i (exec_command rm s i c)"
  "directed rm i (client_execute_tool rm s i a b d e f)" "directed rm i (client_upload_file rm s i p x)"
  "directed rm i (client_download_file rm s i p)" "directed rm i (client_list_static_files rm s i)"
  unfolding client_get_sandbox_def client_delete_sandbox_def exec_command_with_stdin_def exec_command_def
    client_execute_tool_def client_upload_file_def client_download_file_def client_list_static_files_def
  by (intro directed_rules directed_request targets_paths)+

text \<open>The text of an identifier is read back as that identifier.\<close>

definition uuid_law :: "('w, 't) mcp_remote \<Rightarrow> bool" where
  "uuid_law rm \<longleftrightarrow> (\<forall>i. mr_parse_uuid rm (mr_uuid_text rm i) = Inr i)"

lemma parse_id_own: "uuid_law rm \<Longrightarrow> parse_id rm (mr_uuid_text rm i) = ret i"
  by (rule ext) (simp add: uuid_law_def parse_id_def lift_res_def map_err_def ret_def)

lemma directed_browser:
  assumes "uuid_law rm"
  shows "directed rm i (call_browser_tool rm s (mr_uuid_text rm i) action args)"
  unfolding call_browser_tool_def parse_id_own [OF assms] bindE_ret by (intro directed_rules)

lemma directed_web:
  assumes "uuid_law rm"
  shows "directed rm i (call_web_tool rm s (mr_uuid_text rm i) command args fallback)"
  unfolding call_web_tool_def parse_id_own [OF assms] bindE_ret call_web_tool_via_exec_def
  by (intro directed_rules)

lemma directed_browser_tools:
  assumes "uuid_law rm"
  shows "directed rm i (browser_navigate_tool rm s (mr_uuid_text rm i) url)"
    "directed rm i (browser_snapshot_tool rm s (mr_uuid_text rm i) b)"
    "directed rm i (browser_click_tool rm s (mr_uuid_text rm i) r sel)"
    "directed rm i (browser_fill_tool rm s (mr_uuid_text rm i) r sel v c)"
    "directed rm i (browser_screenshot_tool rm s (mr_uuid_text rm i) b nm sel)"
    "directed rm i (browser_evaluate_tool rm s (mr_uuid_text rm i) script)"
    "directed rm i (browser_scroll_tool rm s (mr_uuid_text rm i) d n)"
    "directed rm i (browser_back_tool rm s (mr_uuid_text rm i))"
    "directed rm i (browser_forward_tool rm s (mr_uuid_text rm i))"
    "directed rm i (browser_tabs_tool rm s (mr_uuid_text rm i) act ix u)"
  unfolding browser_navigate_tool_def browser_snapshot_tool_def browser_click_tool_def browser_fill_tool_def
    browser_screenshot_tool_def browser_evaluate_tool_def browser_scroll_tool_def browser_back_tool_def
    browser_forward_tool_def browser_tabs_tool_def parse_id_own [OF assms] bindE_ret
  by (intro directed_rules directed_browser [OF assms])+

lemma directed_scrape:
  "uuid_law rm \<Longrightarrow> swc_sandbox_id c = mr_uuid_text rm i \<Longrightarrow> directed rm i (scrape_web rm s c)"
  unfolding scrape_web_def by (simp del: split_paired_All) (intro directed_rules directed_web)

section \<open>Resolution of sessions\<close>

definition bound :: "'w mcp_world \<Rightarrow> string \<Rightarrow> uuid option" where
  "bound g sid = map_option fst (map_of (mw_sessions g) sid)"

text \<open>A session that is looked up is marked as used.\<close>

definition touch :: "string \<Rightarrow> uuid \<Rightarrow> 'w mcp_world \<Rightarrow> 'w mcp_world" where
  "touch sid i g = mw_sessions_update (AList.update sid (i, mw_instants g (mw_reads g))) (g\<lparr>mw_reads := Suc (mw_reads g)\<rparr>)"

lemma wpE_session_get:
  "wpE (session_get sid) Q E g =
     (case map_of (mw_sessions g) sid of None \<Rightarrow> Q None g | Some (i, _) \<Rightarrow> Q (Some i) (touch sid i g))"
  by (auto simp: session_get_def wpE_def bindE_def gets_def ret_def instant_now_def modify_def touch_def split: option.split)

lemma wpE_session_set: "wpE (session_set sid i) Q E g = Q () (touch sid i g)"
  by (simp add: session_set_def wpE_def bindE_def instant_now_def modify_def touch_def)

text \<open>
  \<open>confined\<close>: the effect of a call of session \<open>sid\<close>. Other sessions stay as they are, and
  each request either creates a sandbox or is about one that \<open>sid\<close> was bound to before or is now.
\<close>

definition confined :: "('w, 't) mcp_remote \<Rightarrow> string \<Rightarrow> 'w mcp_world \<Rightarrow> 'w mcp_world \<Rightarrow> bool" where
  "confined rm sid g v \<longleftrightarrow>
     (\<forall>other. other \<noteq> sid \<longrightarrow> map_of (mw_sessions v) other = map_of (mw_sessions g) other) \<and>
     (\<exists>new. mw_requests v = mw_requests g @ new \<and> (\<forall>r \<in> set new.
        fst r = ''POST'' \<and> fst (snd r) = ''/sandboxes'' \<or>
        (\<exists>i. targets rm (fst (snd r)) i \<and> (bound g sid = Some i \<or> bound v sid = Some i))))"

lemma confined_refl: "confined rm sid g g"
  by (simp add: confined_def)

text \<open>Resolution, and then requests to the resolved sandbox.\<close>

definition resolved :: "('w, 't) mcp_remote \<Rightarrow> string \<Rightarrow> uuid \<Rightarrow> 'w mcp_world \<Rightarrow> 'w mcp_world \<Rightarrow> bool" where
  "resolved rm sid i g v \<longleftrightarrow> confined rm sid g v \<and> bound v sid = Some i"

lemma resolved_sent: "resolved rm sid i g u \<Longrightarrow> sent_to rm i u v \<Longrightarrow> resolved rm sid i g v"
  unfolding resolved_def confined_def sent_to_def bound_def by fastforce

lemma resolved_touch: "bound g sid = Some i \<Longrightarrow> resolved rm sid i g (touch sid i g)"
  by (auto simp: touch_def resolved_def confined_def bound_def update_conv')

lemma create_full_run:
  "wpE (create_sandbox_full rm s c)
     (\<lambda>_ v. mw_sessions v = mw_sessions g \<and> (\<exists>b. mw_requests v = mw_requests g @ [(''POST'', ''/sandboxes'', b)]))
     (\<lambda>_ v. mw_sessions v = mw_sessions g \<and> (\<exists>b. mw_requests v = mw_requests g @ [(''POST'', ''/sandboxes'', b)])) g"
  unfolding create_sandbox_full_def request_def send_def Let_def read_text_def decoded_def wpE_def bindE_def throw_def ret_def
  by (auto split: prod.splits sum.splits if_splits)

lemma resolve_or_create_confined:
  "wpE (resolve_or_create rm s sid) (\<lambda>i. resolved rm sid i g) (\<lambda>_ v. confined rm sid g v \<and> bound v sid = None) g"
proof (cases "map_of (mw_sessions g) sid")
  case None
  have set: "resolved rm sid i g (touch sid i v)"
    if "mw_sessions v = mw_sessions g" "mw_requests v = mw_requests g @ [(''POST'', ''/sandboxes'', b)]" for i v b
    using that by (auto simp: touch_def resolved_def confined_def bound_def update_conv')
  show ?thesis
    unfolding resolve_or_create_def wpE_bindE wpE_session_get wpE_session_set wpE_map_err wpE_ret wpE_option None option.case
    by (rule wpE_mono [OF create_full_run [of rm s "default_sandbox_config s" g]])
      (use None in \<open>auto simp: confined_def bound_def intro: set\<close>)
next
  case (Some e)
  then show ?thesis
    by (cases e) (simp add: resolve_or_create_def wpE_bindE [of "session_get sid"] wpE_session_get wpE_ret resolved_touch bound_def)
qed

text \<open>The pattern of most tools.\<close>

lemma resolve_then:
  assumes "\<And>i. directed rm i (f i)"
  shows "wpE (bindE (resolve_or_create_session rm s sid) f) (\<lambda>_. confined rm sid g) (\<lambda>_. confined rm sid g) g"
proof -
  have f: "wpE (f i) (\<lambda>_. confined rm sid g) (\<lambda>_. confined rm sid g) v" if "resolved rm sid i g v" for i v
  proof -
    have "confined rm sid g x" if "sent_to rm i v x" for x
      using resolved_sent [OF \<open>resolved rm sid i g v\<close> that] by (simp add: resolved_def)
    with assms [of i] show ?thesis unfolding directed_def by (blast intro: wpE_mono)
  qed
  show ?thesis
    unfolding wpE_bindE resolve_or_create_session_def internal_def wpE_map_err
    by (rule wpE_mono [OF resolve_or_create_confined]) (auto intro: f)
qed

lemma resolve_session_then:
  assumes "\<And>i v. bound g sid = Some i \<Longrightarrow> resolved rm sid i g v \<Longrightarrow> wpE (f i) (\<lambda>_. confined rm sid g) (\<lambda>_. confined rm sid g) v"
  shows "wpE (bindE (resolve_session sid) f) (\<lambda>_. confined rm sid g) (\<lambda>_. confined rm sid g) g"
  using assms resolved_touch [of g sid _ rm]
  by (auto simp: resolve_session_def wpE_bindE wpE_session_get wpE_ret wpE_throw bound_def confined_refl split: option.splits)

lemma directed_confined:
  assumes "directed rm i m" and "resolved rm sid i g v"
  shows "wpE m (\<lambda>_. resolved rm sid i g) (\<lambda>_. resolved rm sid i g) v"
  using assms(1) resolved_sent [OF assms(2)] unfolding directed_def by (blast intro: wpE_mono)

lemma session_remove_confined:
  assumes "resolved rm sid i g v" and "bound g sid = Some i"
  shows "wpE (session_remove sid) (\<lambda>_. confined rm sid g) (\<lambda>_ _. False) v"
  using assms
  by (auto simp: session_remove_def wpE_bindE wpE_gets wpE_modify wpE_ret resolved_def confined_def bound_def delete_conv')

lemma confined_create:
  assumes "confined rm sid g v" and "bound v sid = bound g sid"
    and "\<And>other. other \<noteq> sid \<Longrightarrow> map_of (mw_sessions u) other = map_of (mw_sessions v) other"
    and "mw_requests u = mw_requests v @ [(''POST'', ''/sandboxes'', b)]"
  shows "confined rm sid g u"
proof -
  obtain new where new: "mw_requests v = mw_requests g @ new"
    "\<forall>r \<in> set new. fst r = ''POST'' \<and> fst (snd r) = ''/sandboxes'' \<or> (\<exists>i. targets rm (fst (snd r)) i \<and> bound g sid = Some i)"
    using assms(1,2) by (auto simp: confined_def)
  have all: "\<forall>r \<in> set (new @ [(''POST'', ''/sandboxes'', b)]). fst r = ''POST'' \<and> fst (snd r) = ''/sandboxes'' \<or>
      (\<exists>i. targets rm (fst (snd r)) i \<and> (bound g sid = Some i \<or> bound u sid = Some i))"
    using new(2) by auto
  show ?thesis
    unfolding confined_def
  proof (intro conjI exI [of _ "new @ [(''POST'', ''/sandboxes'', b)]"])
    show "mw_requests u = mw_requests g @ new @ [(''POST'', ''/sandboxes'', b)]" using new(1) assms(4) by simp
    show "\<forall>other. other \<noteq> sid \<longrightarrow> map_of (mw_sessions u) other = map_of (mw_sessions g) other"
      using assms(1,3) by (simp add: confined_def)
  qed (rule all)
qed

lemma create_tool_confined:
  "wpE (tool_create_sandbox rm s a) (\<lambda>_. confined rm (mca_session_id a) g) (\<lambda>_. confined rm (mca_session_id a) g) g"
proof -
  let ?sid = "mca_session_id a"
  have new: "wpE (bindE (internal what (create_sandbox_full rm s c)) (\<lambda>sandbox.
      bindE (session_set ?sid (msb_id sandbox)) (\<lambda>_. ret (t sandbox)))) (\<lambda>_. confined rm ?sid g) (\<lambda>_. confined rm ?sid g) v"
    if v: "confined rm ?sid g v" "bound v ?sid = bound g ?sid" for what c v and t :: "McpSandbox \<Rightarrow> mcp_text"
  proof -
    have go: "confined rm ?sid g u" "confined rm ?sid g (touch ?sid i u)"
      if "mw_sessions u = mw_sessions v" "\<exists>b. mw_requests u = mw_requests v @ [(''POST'', ''/sandboxes'', b)]" for u i
      using that by (auto intro!: confined_create [OF v] simp: touch_def update_conv')
    show ?thesis
      unfolding wpE_bindE internal_def wpE_map_err wpE_session_set wpE_ret
      by (rule wpE_mono [OF create_full_run [of rm s c v]]) (auto intro: go)
  qed
  show ?thesis
  proof (cases "map_of (mw_sessions g) ?sid")
    case None
    then show ?thesis
      unfolding tool_create_sandbox_def
      by (simp only: wpE_bindE [of "session_get _"] wpE_session_get None option.case bindE_ret Let_def)
        (rule new, simp_all add: confined_refl)
  next
    case (Some e)
    obtain i t where "e = (i, t)" by (cases e)
    with Some have b: "bound g ?sid = Some i" and m: "map_of (mw_sessions g) ?sid = Some (i, t)" by (simp_all add: bound_def)
    show ?thesis
      unfolding tool_create_sandbox_def
      apply (simp only: wpE_bindE [of "session_get _"] wpE_session_get m option.case prod.case Let_def)
      apply (subst wpE_bindE)
      apply (simp only: wpE_bindE [of "attempt _"] wpE_attempt wpE_ret)
      apply (rule wpE_mono [OF directed_confined [OF directed_client(1) resolved_touch [OF b, of rm]]])
       apply (auto simp: wpE_option wpE_ret resolved_def b intro!: new split: option.split)
      done
  qed
qed

lemma browser_tool_confined:
  "(\<And>i. directed rm i (m (mr_uuid_text rm i))) \<Longrightarrow>
     wpE (browser_tool rm s name sid m) (\<lambda>_. confined rm sid g) (\<lambda>_. confined rm sid g) g"
  unfolding browser_tool_def internal_def by (rule resolve_then) (intro directed_rules)

lemma browser_service_confined:
  assumes "uuid_law rm"
  shows "wpE (browser_service rm s sid b) (\<lambda>_. confined rm sid g) (\<lambda>_. confined rm sid g) g"
  by (cases b)
    (auto simp: as_text_def wpE_throw confined_refl split: sum.split
      intro!: browser_tool_confined directed_rules directed_browser_tools [OF assms] directed_browser [OF assms])

lemma log_command_then:
  "wpE m (\<lambda>_. confined rm sid g) (\<lambda>_. confined rm sid g) g \<Longrightarrow>
     wpE (bindE (log_command c) (\<lambda>_. m)) (\<lambda>_. confined rm sid g) (\<lambda>_. confined rm sid g) g"
  by (simp add: log_command_def wpE_bindE wpE_if wpE_ret wpE_throw confined_refl)

text \<open>
  C27. Sessions are kept apart: whatever a client calls with session \<open>sid\<close>, and whatever the
  server and the network answer, no other session changes, and every request that the call
  sends either creates a sandbox or is about a sandbox that this session was bound to before
  the call or is bound to after it.
\<close>

theorem session_calls_confined:
  assumes "uuid_law rm" and "call_tool rm s sid c g = (r, v)"
  shows "(\<forall>other. other \<noteq> sid \<longrightarrow> map_of (mw_sessions v) other = map_of (mw_sessions g) other) \<and>
    (\<exists>new. mw_requests v = mw_requests g @ new \<and> (\<forall>q \<in> set new.
       fst q = ''POST'' \<and> fst (snd q) = ''/sandboxes'' \<or>
       (\<exists>i. targets rm (fst (snd q)) i \<and> (bound g sid = Some i \<or> bound v sid = Some i))))"
proof -
  have destroy: "wpE (tool_destroy_sandbox rm s sid) (\<lambda>_. confined rm sid g) (\<lambda>_. confined rm sid g) g"
    unfolding tool_destroy_sandbox_def
  proof (rule resolve_session_then)
    fix i v assume b: "bound g sid = Some i" and v: "resolved rm sid i g v"
    have "wpE (client_delete_sandbox rm s i) (\<lambda>_. resolved rm sid i g) (\<lambda>_. resolved rm sid i g) v"
      by (rule directed_confined [OF directed_client(2) v])
    then show "wpE (bindE (internal ''destroy_sandbox'' (client_delete_sandbox rm s i)) (\<lambda>_. bindE (session_remove sid) (\<lambda>_.
        ret (Pretty (JObject [(''success'', JBool True), (''message'', JString (''Destroyed sandbox for session '' @ sid))])))))
        (\<lambda>_. confined rm sid g) (\<lambda>_. confined rm sid g) v"
      unfolding wpE_bindE internal_def wpE_map_err wpE_ret
      by (rule wpE_mono) (auto simp: resolved_def intro!: wpE_mono [OF session_remove_confined [OF _ b]])
  qed
  have get: "wpE (tool_get_sandbox rm s sid) (\<lambda>_. confined rm sid g) (\<lambda>_. confined rm sid g) g"
    unfolding tool_get_sandbox_def
  proof (rule resolve_session_then)
    fix i v assume v: "resolved rm sid i g v"
    show "wpE (bindE (internal ''get_sandbox'' (client_get_sandbox rm s i)) (\<lambda>sandbox. ret (Pretty (JObject (sandbox_fields rm sandbox @
        [(''session_id'', JString sid), (''updated_at'', JString (msb_updated_at sandbox))])))))
        (\<lambda>_. confined rm sid g) (\<lambda>_. confined rm sid g) v"
      unfolding wpE_bindE internal_def wpE_map_err wpE_ret
      by (rule wpE_mono [OF directed_confined [OF directed_client(1) v]]) (simp_all add: resolved_def)
  qed
  have "wpE (call_tool rm s sid c) (\<lambda>_. confined rm sid g) (\<lambda>_. confined rm sid g) g"
  proof (cases c)
    case (CreateSandbox a)
    then show ?thesis using create_tool_confined [of rm s "a\<lparr>mca_session_id := sid\<rparr>" g] by simp
  next
    case (WebFetch u f q n)
    have "directed rm i (scrape_web rm s (fetch_config s (mr_uuid_text rm i) u f q n))" for i
      by (rule directed_scrape [OF assms(1)]) (simp add: fetch_config_def Let_def)
    then show ?thesis
      by (auto simp: WebFetch tool_web_fetch_def internal_def wpE_throw confined_refl split: sum.split
          intro!: resolve_then directed_rules)
  qed (auto simp: destroy get tool_execute_command_def tool_file_upload_def tool_file_download_def tool_get_static_file_url_def
      tool_list_static_files_def tool_terminal_connect_def tool_terminal_execute_def tool_terminal_resize_def internal_def
      wpE_throw confined_refl intro!: log_command_then resolve_then browser_service_confined [OF assms(1)] directed_rules)
  with assms(2) show ?thesis by (cases r) (simp_all add: wpE_def confined_def)
qed

section \<open>The server of the main program behind the client\<close>

text \<open>
  The handlers of \<open>Api\<close> as the remote side: the routes that the tools for commands use. Bodies
  are the handlers' own documents, so nothing is printed or parsed on the way.
\<close>

definition request_of_body :: "mcp_body \<Rightarrow> CreateSandboxRequest" where
  "request_of_body b =
     \<lparr>csr_image = (case b of SentJson v \<Rightarrow> str_or v ''image'' [] | _ \<Rightarrow> []), csr_name = None, csr_environment = None,
      csr_port_mappings = None, csr_resource_limits = None, csr_volumes = None, csr_command = None,
      csr_inactivity_timeout_minutes = None, csr_pull_policy = Never, csr_features = [], csr_enable_all_features = False,
      csr_vnc_resolution = None\<rparr>"

definition command_of_body :: "mcp_body \<Rightarrow> ExecSandboxRequest" where
  "command_of_body b =
     \<lparr>esr_command = (case b of SentJson v \<Rightarrow> (case json_get v ''command'' of
        Some (JArray l) \<Rightarrow> map link_text l | _ \<Rightarrow> []) | _ \<Rightarrow> []),
      esr_stdin = None, esr_working_dir = None, esr_environment = None, esr_timeout = None\<rparr>"

definition answered :: "http_response \<times> 'w \<Rightarrow> response_body mcp_reply \<times> 'w" where
  "answered x = (Inr (rs_status (fst x), Inr (rs_body (fst x))), snd x)"

definition api_http ::
  "('s, 'b) SandboxService \<Rightarrow> ApiKeyIdentity \<Rightarrow> string \<Rightarrow> string \<Rightarrow> string option \<Rightarrow> mcp_body \<Rightarrow>
     ('s, 'b) world \<Rightarrow> response_body mcp_reply \<times> ('s, 'b) world" where
  "api_http svc ident meth url key body w =
     (case split_on (CHR ''/'') url of
        [_, r] \<Rightarrow>
          if r = ''sandboxes'' \<and> meth = ''POST'' then answered (serve (api_create_sandbox svc ident (request_of_body body)) w)
          else (Inr (404, Inr NoBody), w)
      | [_, r, t] \<Rightarrow>
          (case parse_digits 0 t of
             None \<Rightarrow> (Inr (404, Inr NoBody), w)
           | Some n \<Rightarrow>
               if meth = ''GET'' then answered (serve (api_get_sandbox svc ident (of_nat n) False) w)
               else answered (serve (api_delete_sandbox svc ident (of_nat n)) w))
      | [_, r, t, e] \<Rightarrow>
          (case parse_digits 0 t of
             None \<Rightarrow> (Inr (404, Inr NoBody), w)
           | Some n \<Rightarrow>
               if e = ''exec'' then answered (serve (api_exec_sandbox svc ident (of_nat n) (command_of_body body)) w)
               else (Inr (404, Inr NoBody), w))
      | _ \<Rightarrow> (Inr (404, Inr NoBody), w))"

fun sandbox_of_body :: "response_body \<Rightarrow> string + McpSandbox" where
  "sandbox_of_body (SandboxBody r) =
     Inr \<lparr>msb_id = sr_id r, msb_state = sandbox_state_as_str (sr_state r), msb_image = cfg_image (sr_config r),
       msb_name = cfg_name (sr_config r), msb_created_at = [], msb_updated_at = []\<rparr>"
| "sandbox_of_body _ = Inl ''error decoding response body''"

fun exec_of_body :: "response_body \<Rightarrow> string + McpExecResult" where
  "exec_of_body (ExecBody out code) = Inr \<lparr>mex_output = out, mex_exit_code = code\<rparr>"
| "exec_of_body _ = Inl ''error decoding response body''"

definition api_remote :: "('s, 'b) SandboxService \<Rightarrow> ApiKeyIdentity \<Rightarrow> (('s, 'b) world, response_body) mcp_remote" where
  "api_remote svc ident =
     \<lparr>mr_http = api_http svc ident, mr_search = (\<lambda>_ _ w. (Inl ''no route'', w)), mr_text = (\<lambda>_. []),
      mr_parse_json = (\<lambda>_. Inl ''not JSON''), mr_parse_sandbox = sandbox_of_body, mr_parse_sandboxes = (\<lambda>_. Inl []),
      mr_parse_exec = exec_of_body, mr_parse_value = (\<lambda>_. Inl []),
      mr_parse_uuid = (\<lambda>t. case parse_digits 0 t of Some n \<Rightarrow> Inr (of_nat n) | None \<Rightarrow> Inl ''invalid character''),
      mr_uuid_text = (\<lambda>i. show_nat (unat i)), mr_urlencode = id, mr_parse_url = (\<lambda>_. None), mr_header_ok = (\<lambda>_. True),
      mr_print = (\<lambda>_. []), mr_status_text = show_nat\<rparr>"

lemma api_remote_uuid_law: "uuid_law (api_remote svc ident)"
  by (simp add: uuid_law_def api_remote_def parse_digits_show)

definition mcp_settings :: Settings where
  "mcp_settings = (default_settings JNull JNull)\<lparr>set_dsb := \<lparr>mds_api_url = ''dsb'', mds_api_key = None, mds_timeout_secs = 600\<rparr>\<rparr>"

definition mcp_start :: "'w \<Rightarrow> 'w mcp_world" where
  "mcp_start w = \<lparr>mw_sessions = [], mw_remote = w, mw_instants = (\<lambda>n. int n), mw_reads = 0, mw_requests = []\<rparr>"

definition mcp_owner :: ApiKeyIdentity where
  "mcp_owner = \<lparr>ident_id = Some 5, ident_key_type = Database\<rparr>"

definition mcp_bound :: "(mem_store, example_containers) world mcp_world" where
  "mcp_bound = (mcp_start (example_world [(7, (example_sandbox 7 Running (Some ''ctr0''))\<lparr>sb_api_key_id := Some 5\<rparr>)] [(''ctr0'', True)]))
     \<lparr>mw_sessions := [(''a'', 7, 0), (''b'', 8, 0)]\<rparr>"

definition mcp_after_get :: "(mem_store, example_containers) world mcp_world" where
  "mcp_after_get = snd (call_tool (api_remote example_service mcp_owner) mcp_settings ''a'' GetSandbox mcp_bound)"

theorem session_calls_confined_witness:
  "map (fst \<circ> snd) (mw_requests mcp_after_get) = [''/sandboxes/7''] \<and> map_of (mw_sessions mcp_after_get) ''b'' = Some (8, 0)"
proof -
  have "map (fst \<circ> snd) (mw_requests mcp_after_get) = [''/sandboxes/7'']" by code_simp
  moreover have "map_of (mw_sessions mcp_after_get) ''b'' = Some (8, 0)"
  proof -
    let ?x = "call_tool (api_remote example_service mcp_owner) mcp_settings ''a'' GetSandbox mcp_bound"
    have "?x = (fst ?x, mcp_after_get)" unfolding mcp_after_get_def by (rule prod.collapse [symmetric])
    from conjunct1 [OF session_calls_confined [OF api_remote_uuid_law this], THEN spec, of "''b''"]
    show ?thesis by (simp add: mcp_bound_def)
  qed
  ultimately show ?thesis by simp
qed

section \<open>A sandbox that is gone stays with its session\<close>

lemma execute_command_gone:
  assumes "bound g sid = Some i" and "gone (mw_remote g)"
    and law: "\<And>w body. gone w \<Longrightarrow> \<exists>status b w'. mr_http rm ''POST'' (mds_api_url (set_dsb s) @ sandbox_path rm i ''/exec'')
      (client_key rm s) body w = (Inr (status, b), w') \<and> \<not> is_success status \<and> gone w'"
    and run: "tool_execute_command rm s sid c d e t g = (r, v)"
  shows "(\<exists>x. r = Inl x) \<and> bound v sid = Some i \<and> gone (mw_remote v) \<and>
    (\<exists>new. mw_requests v = mw_requests g @ new \<and> (\<forall>q \<in> set new. fst (snd q) = sandbox_path rm i ''/exec''))"
proof (cases "is_char_boundary c (min (length c) 100)")
  case False
  with run assms(1,2) show ?thesis
    by (auto simp: tool_execute_command_def log_command_def bindE_def throw_def)
next
  case True
  obtain t0 where m: "map_of (mw_sessions g) sid = Some (i, t0)" using assms(1) by (auto simp: bound_def)
  let ?u = "touch sid i g"
  have u: "mw_remote ?u = mw_remote g" "mw_requests ?u = mw_requests g" "bound ?u sid = Some i"
    by (simp_all add: touch_def bound_def update_conv')
  define body where "body = SentJson (JObject [(''command'', json_strings (build_shell_command c d e))])"
  obtain status b w' where h: "mr_http rm ''POST'' (mds_api_url (set_dsb s) @ sandbox_path rm i ''/exec'')
      (client_key rm s) body (mw_remote g) = (Inr (status, b), w')" "\<not> is_success status" "gone w'"
    using law [OF assms(2), of body] by blast
  have exec: "wpE (exec_command rm s i (build_shell_command c d e)) (\<lambda>_ _. False)
      (\<lambda>_ v. v = ?u\<lparr>mw_remote := w', mw_requests := mw_requests g @ [(''POST'', sandbox_path rm i ''/exec'', body)]\<rparr>) ?u"
    using h by (auto simp: exec_command_def exec_command_with_stdin_def opt_entry_def request_def wpE_def bindE_def send_def Let_def
        u body_def read_text_def throw_def ret_def split: sum.split)
  have "wpE (tool_execute_command rm s sid c d e t) (\<lambda>_ _. False)
      (\<lambda>_ v. v = ?u\<lparr>mw_remote := w', mw_requests := mw_requests g @ [(''POST'', sandbox_path rm i ''/exec'', body)]\<rparr>) g"
    using True m
    by (simp add: tool_execute_command_def log_command_def resolve_or_create_session_def resolve_or_create_def internal_def
        wpE_bindE wpE_ret wpE_map_err wpE_session_get wpE_mono [OF exec])
  with run u(3) h(3) show ?thesis by (cases r) (auto simp: wpE_def bound_def)
qed

lemma commands_gone:
  assumes "bound g sid = Some i" and "gone (mw_remote g)"
    and law: "\<And>w body. gone w \<Longrightarrow> \<exists>status b w'. mr_http rm ''POST'' (mds_api_url (set_dsb s) @ sandbox_path rm i ''/exec'')
      (client_key rm s) body w = (Inr (status, b), w') \<and> \<not> is_success status \<and> gone w'"
  shows "bound (fold (\<lambda>c g. snd (tool_execute_command rm s sid c d e t g)) cs g) sid = Some i \<and>
    gone (mw_remote (fold (\<lambda>c g. snd (tool_execute_command rm s sid c d e t g)) cs g)) \<and>
    (\<exists>new. mw_requests (fold (\<lambda>c g. snd (tool_execute_command rm s sid c d e t g)) cs g) = mw_requests g @ new \<and>
       (\<forall>q \<in> set new. fst (snd q) = sandbox_path rm i ''/exec''))"
  using assms(1,2)
proof (induction cs arbitrary: g)
  case (Cons c cs)
  obtain r v where run: "tool_execute_command rm s sid c d e t g = (r, v)" by fastforce
  note one = execute_command_gone [where gone = gone, OF Cons.prems law run]
  then have "bound v sid = Some i" "gone (mw_remote v)" by simp_all
  from Cons.IH [OF this] one run show ?case by fastforce
qed simp

lemma exec_url_split:
  "split_on (CHR ''/'') (''dsb'' @ sandbox_path (api_remote svc ident) i ''/exec'') = [''dsb'', ''sandboxes'', show_nat (unat i), ''exec'']"
proof -
  have s: "CHR ''/'' \<notin> set (show_nat (unat i))" by (intro set_show_nat) (simp add: digit_val_def)
  have "''dsb'' @ sandbox_path (api_remote svc ident) i ''/exec'' =
      ''dsb'' @ CHR ''/'' # (''sandboxes'' @ CHR ''/'' # (show_nat (unat i) @ CHR ''/'' # ''exec''))"
    by (simp add: sandbox_path_def api_remote_def)
  then show ?thesis by (simp only: split_on_append [OF s] split_on_append split_on_plain) (simp add: split_on_append [OF s])
qed

lemma api_exec_removed:
  assumes "svc_state svc = StateStore" and "mem_invar (w_store w)" and "ident_key_type ident = Database"
    and "map_of (w_store w) i = Some sb" and "sb_deleted_at sb \<noteq> None"
  shows "\<exists>b. api_http svc ident ''POST'' (''dsb'' @ sandbox_path (api_remote svc ident) i ''/exec'') k body w = (Inr (404, b), w)"
proof -
  have "check_sandbox_ownership_with_deleted svc ident i False w = (Inl (ApiSandboxNotFound (w_uuid_to_string w i)), w)"
    using assms by (auto simp: mem.ownership_decision owned_visible_def)
  then have "fst (serve (api_exec_sandbox svc ident i req) w) = into_response (ApiSandboxNotFound (w_uuid_to_string w i))"
    "snd (serve (api_exec_sandbox svc ident i req) w) = w" for req
    by (simp_all add: serve_def api_exec_sandbox_def require_owner_def bindE_def map_err_def)
  then show ?thesis
    unfolding api_http_def exec_url_split by (simp add: parse_digits_show answered_def into_response_def reply_def)
qed


definition mcp_removed :: "(mem_store, example_containers) world mcp_world" where
  "mcp_removed = (mcp_start (example_world [(7, (example_sandbox 7 Destroyed None)\<lparr>sb_api_key_id := Some 5, sb_deleted_at := Some 3\<rparr>)] []))
     \<lparr>mw_sessions := [(''a'', 7, 0)]\<rparr>"


section \<open>Lifetime of a session\<close>

text \<open>One round of the cleanup forgets exactly the sessions whose last use lies thirty minutes or more before it.\<close>

lemma map_of_filter_distinct:
  "distinct (map fst l) \<Longrightarrow>
     map_of (filter P l) k = (case map_of l k of Some v \<Rightarrow> if P (k, v) then Some v else None | None \<Rightarrow> None)"
  by (induction l) (auto simp: map_of_eq_None_iff split: option.splits)

lemma session_cleanup_exact:
  assumes "distinct (map fst (mw_sessions g))" and "session_cleanup_tick g = (r, v)"
  shows "map_of (mw_sessions v) sid = (case map_of (mw_sessions g) sid of
      Some (i, used) \<Rightarrow> if mw_instants g (mw_reads g) - used < session_ttl then Some (i, used) else None
    | None \<Rightarrow> None)"
proof -
  have "session_ttl > 0" by (simp add: session_ttl_def nanos_per_sec_def)
  moreover have "mw_sessions v = filter (\<lambda>(_, _, used). max 0 (mw_instants g (mw_reads g) - used) < session_ttl) (mw_sessions g)"
    using assms(2) by (auto simp: session_cleanup_tick_def bindE_def instant_now_def modify_def)
  ultimately show ?thesis
    by (simp add: map_of_filter_distinct [OF assms(1)] split: option.splits)
qed

section \<open>The address check\<close>

lemma starts_with_dotted:
  assumes "CHR ''.'' \<notin> set x" and "CHR ''.'' \<notin> set p"
  shows "starts_with (x @ CHR ''.'' # r) (p @ CHR ''.'' # q) \<longleftrightarrow> x = p \<and> starts_with r q"
  using assms
proof (induction p arbitrary: x)
  case Nil
  then show ?case by (cases x) (auto simp: starts_with_def)
next
  case (Cons c p)
  then show ?case by (cases x) (auto simp: starts_with_def)
qed

lemma dot_show [simp]: "CHR ''.'' \<notin> set (show_nat n)"
  by (intro set_show_nat) (simp add: digit_val_def)

lemma show_nat_eq: "show_nat m = show_nat n \<longleftrightarrow> m = n"
  by (metis parse_digits_show option.inject)

definition ipv4_text :: "nat \<Rightarrow> nat \<Rightarrow> nat \<Rightarrow> nat \<Rightarrow> string" where
  "ipv4_text a b c d = show_nat a @ CHR ''.'' # (show_nat b @ CHR ''.'' # (show_nat c @ CHR ''.'' # show_nat d))"

text \<open>The ranges that the documentation of the check names, and 0.0.0.0/8.\<close>

definition private_ipv4 :: "nat \<Rightarrow> nat \<Rightarrow> bool" where
  "private_ipv4 a b \<longleftrightarrow> a \<in> {0, 10, 127} \<or> a = 169 \<and> b = 254 \<or> a = 192 \<and> b = 168 \<or> a = 172 \<and> 16 \<le> b \<and> b \<le> 31"

lemma octet_prefix:
  "starts_with (ipv4_text a b c d) (show_nat n @ ''.'') \<longleftrightarrow> a = n"
  "starts_with (ipv4_text a b c d) (show_nat n @ ''.'' @ show_nat m @ ''.'') \<longleftrightarrow> a = n \<and> b = m"
  using starts_with_dotted [of "show_nat a" "show_nat n" _ "[]"] starts_with_dotted [of "show_nat a" "show_nat n" _ "show_nat m @ ''.''"]
    starts_with_dotted [of "show_nat b" "show_nat m" _ "[]"]
  by (simp_all add: ipv4_text_def show_nat_eq starts_with_def)

lemma octet_numerals:
  "''127.'' = show_nat 127 @ ''.''" "''0.'' = show_nat 0 @ ''.''" "''10.'' = show_nat 10 @ ''.''" "''172.'' = show_nat 172 @ ''.''"
  "''169.254.'' = show_nat 169 @ ''.'' @ show_nat 254 @ ''.''" "''192.168.'' = show_nat 192 @ ''.'' @ show_nat 168 @ ''.''"
  by code_simp+

lemma digit_bounds: "c \<in> set (show_nat n) \<Longrightarrow> 48 \<le> (of_char c :: nat) \<and> (of_char c :: nat) \<le> 57"
  using set_show_nat [of c n] by (cases "digit_val c = None") (auto simp: digit_val_def Let_def split: if_splits)

lemma lowercase_ipv4: "to_lowercase (ipv4_text a b c d) = ipv4_text a b c d"
proof -
  have "map lower_char (show_nat n) = show_nat n" for n
    using digit_bounds [of _ n] by (intro map_idI) (fastforce simp: lower_char_def)
  moreover have "lower_char (CHR ''.'') = CHR ''.''" by (simp add: lower_char_def)
  ultimately show ?thesis by (simp add: to_lowercase_def ipv4_text_def)
qed

lemma ipv4_no_letter:
  assumes "\<not> (48 \<le> (of_char x :: nat) \<and> (of_char x :: nat) \<le> 57)"
  shows "ipv4_text a b c d \<noteq> x # t" "\<not> starts_with (ipv4_text a b c d) (x # t)"
proof -
  have "hd (ipv4_text a b c d) \<in> set (show_nat a)" by (simp add: ipv4_text_def)
  with digit_bounds [of _ a] assms have "hd (ipv4_text a b c d) \<noteq> x" by blast
  then show "ipv4_text a b c d \<noteq> x # t" "\<not> starts_with (ipv4_text a b c d) (x # t)"
    by (auto simp: starts_with_def) (cases "ipv4_text a b c d"; simp)
qed

lemma second_octet_ipv4: "b < 256 \<Longrightarrow> private_second_octet (ipv4_text a b c d) \<longleftrightarrow> 16 \<le> b \<and> b \<le> 31"
  using parse_uint_show [of b 8] by (simp add: private_second_octet_def ipv4_text_def split_on_append)

lemma validate_host_ipv4:
  assumes "b < 256"
  shows "validate_host (ipv4_text a b c d) = Inr () \<longleftrightarrow> \<not> private_ipv4 a b"
proof -
  have no: "ipv4_text a b c d \<noteq> ''localhost''" "ipv4_text a b c d \<noteq> ''::1''"
    "\<not> starts_with (ipv4_text a b c d) ''fc''" "\<not> starts_with (ipv4_text a b c d) ''fd''"
    using ipv4_no_letter [of "CHR ''l''"] ipv4_no_letter [of "CHR '':''"] ipv4_no_letter [of "CHR ''f''"] by simp_all
  have pre: "starts_with (ipv4_text a b c d) ''127.'' \<longleftrightarrow> a = 127" "starts_with (ipv4_text a b c d) ''0.'' \<longleftrightarrow> a = 0"
    "starts_with (ipv4_text a b c d) ''10.'' \<longleftrightarrow> a = 10" "starts_with (ipv4_text a b c d) ''172.'' \<longleftrightarrow> a = 172"
    "starts_with (ipv4_text a b c d) ''169.254.'' \<longleftrightarrow> a = 169 \<and> b = 254"
    "starts_with (ipv4_text a b c d) ''192.168.'' \<longleftrightarrow> a = 192 \<and> b = 168"
    using octet_prefix [of a b c d] octet_numerals by metis+
  have "ipv4_text a b c d = ''127.0.0.1'' \<Longrightarrow> a = 127"
    using pre(1) by (simp add: starts_with_def)
  with no pre second_octet_ipv4 [OF assms] show ?thesis
    by (auto simp: validate_host_def private_ipv4_def)
qed


definition example_url_parser :: "string \<Rightarrow> (string \<times> string option) option" where
  "example_url_parser url =
     (case split_on (CHR ''/'') url of
        [scheme, _, host] \<Rightarrow> Some (trim_end_matches (CHR '':'') scheme, Some host)
      | _ \<Rightarrow> None)"


text \<open>
  IPv6: the library gives an IPv6 host in brackets, so none of the tests of the check can match
  one. Every IPv6 address is accepted, the loopback and unique local ones included; and host
  names that begin like such an address are refused.
\<close>

theorem ipv6_hosts_unchecked:
  assumes "parse url = Some (scheme, Some (CHR 0x5B # x))" and "scheme = ''http'' \<or> scheme = ''https''" and "url \<noteq> []"
  shows "validate_url_secure parse url = Inr ()"
proof -
  have "lower_char (CHR 0x5B) = CHR 0x5B" by (simp add: lower_char_def)
  with assms show ?thesis by (auto simp: validate_url_secure_def validate_host_def to_lowercase_def starts_with_def)
qed

theorem ipv6_hosts_unchecked_witness:
  "validate_url_secure example_url_parser ''http://[::1]'' = Inr () \<and> validate_url_secure example_url_parser ''http://fda.gov'' \<noteq> Inr ()"
proof -
  have p: "example_url_parser ''http://[::1]'' = Some (''http'', Some (CHR 0x5B # ''::1]''))" by code_simp
  have "validate_url_secure example_url_parser ''http://[::1]'' = Inr ()"
    by (rule ipv6_hosts_unchecked [where parse = example_url_parser, OF p]) simp_all
  moreover have "validate_url_secure example_url_parser ''http://fda.gov'' \<noteq> Inr ()" by code_simp
  ultimately show ?thesis by simp
qed

text \<open>
  C30. Around the address check: for every URL that the check refuses, opening the page in the
  browser of a session is refused and nothing is sent, while opening a new tab with the same URL
  sends it to the browser unchecked.
\<close>

theorem new_tab_skips_check:
  assumes "uuid_law rm" and "bound g sid = Some i" and "validate_url_secure (mr_parse_url rm) url = Inl e"
  shows "call_tool rm s sid (Browser (BrowserNavigate url)) g = (Inl (InvalidParams ''browser_navigate'' e), g) \<and>
    mw_requests (snd (call_tool rm s sid (Browser (BrowserNewTab (Some url))) g)) = mw_requests g @
      [(''POST'', sandbox_path rm i ''/tools'', SentJson (JObject [(''interpreter'', JString ''python''),
         (''script_path'', JString ''/opt/tools/agent_browser_tools.py''), (''action'', JString ''browser_tabs''),
         (''args'', JObject [(''action'', JString ''new''), (''url'', JString url)])]))]"
proof -
  define body where "body = SentJson (JObject [(''interpreter'', JString ''python''),
         (''script_path'', JString ''/opt/tools/agent_browser_tools.py''), (''action'', JString ''browser_tabs''),
         (''args'', JObject [(''action'', JString ''new''), (''url'', JString url)])])"
  let ?sent = "\<lambda>v. mw_requests v = mw_requests g @ [(''POST'', sandbox_path rm i ''/tools'', body)]"
  obtain t0 where m: "map_of (mw_sessions g) sid = Some (i, t0)" using assms(2) by (auto simp: bound_def)
  have "mw_requests (touch sid i g) = mw_requests g" by (simp add: touch_def)
  then have "wpE (client_execute_tool rm s i ''python'' ''/opt/tools/agent_browser_tools.py'' ''browser_tabs''
      (Some (JObject [(''action'', JString ''new''), (''url'', JString url)])) None) (\<lambda>_. ?sent) (\<lambda>_. ?sent) (touch sid i g)"
    by (auto simp: client_execute_tool_def opt_entry_def request_def wpE_def bindE_def send_def Let_def body_def read_text_def
        decoded_def throw_def ret_def split: prod.splits sum.splits)
  then have "wpE (call_tool rm s sid (Browser (BrowserNewTab (Some url)))) (\<lambda>_. ?sent) (\<lambda>_. ?sent) g"
    using m
    by (simp add: browser_tool_def resolve_or_create_session_def resolve_or_create_def internal_def as_text_def browser_tabs_tool_def
        call_browser_tool_def parse_id_own [OF assms(1)] bindE_ret opt_entry_def wpE_bindE wpE_ret wpE_ret_fun wpE_map_err wpE_session_get)
  then have "?sent (snd (call_tool rm s sid (Browser (BrowserNewTab (Some url))) g))"
    by (auto simp: wpE_def split: prod.splits sum.splits)
  with assms(3) show ?thesis by (simp add: throw_def body_def)
qed

definition web_remote :: "((mem_store, example_containers) world, response_body) mcp_remote" where
  "web_remote = (api_remote example_service mcp_owner)\<lparr>mr_parse_url := example_url_parser\<rparr>"

theorem new_tab_skips_check_witness:
  "map (fst \<circ> snd) (mw_requests (snd (call_tool web_remote mcp_settings ''a'' (Browser (BrowserNewTab (Some ''http://127.0.0.1''))) mcp_bound))) =
     [''/sandboxes/7/tools'']"
proof -
  have law: "uuid_law web_remote" using api_remote_uuid_law by (simp add: web_remote_def uuid_law_def)
  have b: "bound mcp_bound ''a'' = Some 7" by (simp add: bound_def mcp_bound_def)
  have e: "validate_url_secure (mr_parse_url web_remote) ''http://127.0.0.1'' = Inl ''URL points to localhost/loopback which is not allowed''"
    by code_simp
  have "sandbox_path web_remote 7 ''/tools'' = ''/sandboxes/7/tools''" by code_simp
  moreover have "mw_requests mcp_bound = []" by (simp add: mcp_bound_def mcp_start_def)
  ultimately show ?thesis using new_tab_skips_check [OF law b e, of mcp_settings] by simp
qed

end
