(* ===== verification/Spec2Isabelle.thy ===== *)
theory Spec2Isabelle
  imports Prelude Errors Types Features Store Service Lifecycle Create Exec Tasks PgStore Jsonb Ssh SshProps
    Database Auth AuthProps Gateway GatewayProps Paths Api ApiProps SshApi SshApiProps
    FileSystem Config ConfigProps StaticFiles StaticApi StaticWalk StaticTree StaticProps
    K8sTypes K8sBackend K8sProps Docker DockerProps
    SshGateway SshGatewayProps ActivityApi Mcp McpProps
begin

text \<open>
  This development verifies \<open>dsb\<close>, a service that gives out sandboxes: containers with a shell,
  a browser and a file system that clients create, use and remove over HTTP.

  \<^bold>\<open>The program.\<close> The server (\<open>src/src\<close>) answers HTTP requests. A request passes the authentication
  middleware, a handler, the sandbox service and from there two interfaces: a store of sandbox
  records (in memory or PostgreSQL) and a backend that runs the containers (Docker or Kubernetes;
  with Kubernetes an operator turns custom resources into pods). Background tasks of the service
  walk over the same records. Beside the sandbox routes the server has activity logs, published
  files, SSH sessions, a VNC proxy and a web terminal. Two further processes are its clients: the
  SSH gateway (\<open>src/ssh-gateway\<close>) asks the server whom to connect, and the MCP server
  (\<open>src/dsb-mcp-server\<close>) offers sandboxes as tools to language models.

  \<^bold>\<open>Theories and sources.\<close> Each component is a theory of definitions, named as in the code, in the
  order of the code, with its lemmas there or in a theory whose name ends in \<open>Props\<close>.

  \<^item> \<open>Prelude\<close>: what the code uses of the standard library (\<open>str\<close>, \<open>Vec\<close>, \<open>HashMap\<close>, integers at
    their widths, \<open>chrono\<close>), programs with a state and errors (\<open>prog\<close>, with \<open>bindE\<close> for the operator
    \<open>?\<close>) and weakest preconditions for them (\<open>wpE\<close>).
  \<^item> \<open>Errors\<close>, \<open>Types\<close>, \<open>Features\<close>: \<open>core/mod.rs\<close>, \<open>core/types.rs\<close>, \<open>core/features.rs\<close>.
  \<^item> \<open>Store\<close>: the trait of state stores (\<open>core/store_trait.rs\<close>) as a record of operations, its laws
    as locales \<open>state_store\<close> and \<open>reliable_store\<close>, and the in-memory store (\<open>core/state.rs\<close>), which
    interprets both. \<open>PgStore\<close> and \<open>Jsonb\<close>: the PostgreSQL store (\<open>db/store\<close>) with the JSON form of
    its columns; \<open>pg_codec\<close> is what the store needs of that form, and \<open>Jsonb\<close> interprets it.
  \<^item> \<open>Service\<close>, \<open>Lifecycle\<close>, \<open>Create\<close>, \<open>Exec\<close>, \<open>Tasks\<close>: the sandbox service (\<open>core/sandbox\<close>), over
    any store and any backend. The step relation \<open>svc_step\<close> of \<open>Tasks\<close> has one rule per operation and
    per task; \<open>reachable\<close> is its closure.
  \<^item> \<open>Database\<close>, \<open>Auth\<close>, \<open>AuthProps\<close>: tables, API keys, the middleware and the administration routes
    (\<open>db/api_key_store.rs\<close>, \<open>api/auth.rs\<close>, \<open>api/handlers/admin.rs\<close>). \<open>Gateway\<close>, \<open>GatewayProps\<close>: session
    tokens, VNC proxy, web terminal (\<open>session_token.rs\<close>, \<open>vnc_proxy.rs\<close>, \<open>web_terminal.rs\<close>).
  \<^item> \<open>Paths\<close>, \<open>Api\<close>, \<open>ApiProps\<close>: client paths and the sandbox handlers
    (\<open>api/handlers/sandbox.rs\<close>, \<open>utils/mime.rs\<close>). \<open>ActivityApi\<close>: the activity log and cleanup on
    request (\<open>core/activities.rs\<close>, \<open>db/activities.rs\<close>, \<open>api/handlers/activities.rs\<close>).
  \<^item> \<open>Ssh\<close>, \<open>SshProps\<close>, \<open>SshApi\<close>, \<open>SshApiProps\<close>: SSH sessions, their stores and endpoints
    (\<open>core/ssh_service.rs\<close>, \<open>db/ssh_sessions.rs\<close>, \<open>api/handlers/ssh.rs\<close>); the locale \<open>session_store\<close> is
    interpreted on both stores. \<open>SshGateway\<close>, \<open>SshGatewayProps\<close>: the gateway process.
  \<^item> \<open>FileSystem\<close>, \<open>StaticFiles\<close>, \<open>StaticApi\<close>, \<open>StaticWalk\<close>, \<open>StaticTree\<close>, \<open>StaticProps\<close>: published
    files (\<open>core/static_files.rs\<close>, \<open>api/handlers/static_files.rs\<close>) on a file system with links.
  \<^item> \<open>Config\<close>, \<open>ConfigProps\<close>: \<open>config/types.rs\<close>, \<open>loader.rs\<close>, \<open>validator.rs\<close>.
  \<^item> \<open>Docker\<close>, \<open>DockerProps\<close>: \<open>docker/manager\<close>. \<open>K8sTypes\<close>, \<open>K8sBackend\<close>, \<open>K8sProps\<close>: \<open>k8s\<close>, with the
    operator.
  \<^item> \<open>Mcp\<close>, \<open>McpProps\<close>: the MCP server, its sessions, tools and services.

  \<^bold>\<open>What is shown.\<close>

  \<^item> Service: every record satisfies the lifecycle invariant \<open>sandbox_ok\<close> in every reachable world,
    for any store that keeps the laws, here for the PostgreSQL store, and whatever the backend and
    the statements do. Each operation has its outcome on every branch, the failing ones included.
  \<^item> Isolation: a key reaches only its own sandboxes, through the service, the sandbox handlers, the
    activity log and the SSH endpoints; the proxies connect only to the container of the sandbox that
    was asked for; the gateway opens shells only where the server allowed one; a session of the
    MCP server reaches only its own sandbox.
  \<^item> Refinement: the PostgreSQL store implements the store's laws and gives back what was put in, up
    to the fields that are not stored; the table of hashed keys implements a map of keys; the session
    service implements the state machine of a session.
  \<^item> Exactness: pages partition a listing, sanitised paths are canonical, archives and trees hold exactly the
    given files, the address check agrees with its specification on IPv4 addresses.
  \<^item> Cluster: backend and operator together bring up a pod and a service for a new resource.
  \<^item> Termination: walks over directories end although they follow links.
  \<^item> Defects: some theorems state what the code does where that is not what it says: a stop undone by
    the operator, an archive that follows links, any key accepted by the gateway, a removed sandbox
    that stays bound to its session, ways around the address check.

  \<^bold>\<open>Bounds and loops.\<close> Most loops are structural recursions or have a termination proof. Two kinds of
  loop take fuel. The health waits poll ten times per second until their timeout of \<open>s\<close> seconds: \<open>10 * s + 2\<close>
  rounds are enough, 302 for the thirty seconds that creation allows. The walks over a directory return \<open>None\<close> when the
  fuel is too small, and it is proved that some fuel gives a result for every file system. Retries have the
  code's own limits as counters: three attempts to remove a container, twelve for an HTTP request to a
  pod, thirty for the tool proxy. Integers keep their widths and wrap as in a release build.

  \<^bold>\<open>What the models take for granted.\<close>

  \<^item> Any statement to a database and any call to a cluster may fail at any point: the world says which ones get
    through, and unless a theorem says otherwise it holds for all of these worlds.
  \<^item> One operation of a store, one turn of the operator and one tool call of the MCP server is one
    step. Operations of the service run one after the other, in any order; what a caller of the MCP server
    meets in between is any sequence of steps of the server.
  \<^item> Code that is not in the repository is a parameter: the Docker client, the bcrypt
    function (a key verifies against its own hash only), the config crate, the parsers of URLs, UUIDs and
    JSON texts, the ZIP writer, arithmetic on floating-point numbers. The Kubernetes API is modelled as far as it
    is documented: a set of named objects with creation conflicts and missing objects.
  \<^item> Case conversion and trimming of texts follow ASCII. Rows that a query orders equally come in the order of
    the table.

  \<^bold>\<open>What is not modelled.\<close> The command line, the connection pool, the assembly of routes and timers, log lines and
  error pages, the image, health and configuration handlers: declarations for libraries, or copies of
  values into text. Forwarding of terminal frames, which libraries do. The directory \<open>src/src/auth\<close>, which is
  not compiled, and test doubles. The static server, which configures a library, and the agent tester.
  Of the MCP server the clock, the vector-database queries, and prompts and resources.
\<close>

section \<open>The service on the PostgreSQL store\<close>

definition pg_service :: "(json pg, example_containers) SandboxService" where
  "pg_service = service_new example_backend (PostgresStateStore (jsonb_codec id))"

definition pg_world :: "(json pg, example_containers) world" where
  "pg_world =
     \<lparr>w_store = example_pg [], w_backend = [], w_activities = [], w_ticks = 0, w_uuids = 0, w_db_calls = 0,
      w_clock = (\<lambda>n. int n * nanos_per_sec), w_uuid_src = (\<lambda>n. of_nat n + 100),
      w_db_up = (\<lambda>_. True), w_uuid_to_string = (\<lambda>i. show_nat (unat i)),
      w_parse_label = (\<lambda>_. Inl ''no label'')\<rparr>"

text \<open>
  C1. The lifecycle invariant of the deployed configuration: the service on the PostgreSQL
  store, started on an empty table, keeps identifiers unique and every row readable as a
  sandbox that satisfies the lifecycle invariant, whichever statements fail on the way.
\<close>

theorem lifecycle_invariant_postgres:
  assumes "svc_state svc = PostgresStateStore (jsonb_codec tm)" and "pg_rows (w_store w0) = []"
    and "reachable svc w0 w"
  shows "distinct (map r_id (pg_rows (w_store w))) \<and>
    (\<forall>r \<in> set (pg_rows (w_store w)). \<exists>sb.
       row_to_sandbox (jsonb_codec tm) True r = Inr sb \<and> sb_id sb = r_id r \<and> sandbox_ok sb)"
proof -
  let ?cd = "jsonb_codec tm"
  have "world_ok (pg_contents ?cd) (pg_invar ?cd) w0"
    using assms(2) by (simp add: world_ok_def pg_invar_def pg_contents_def)
  then have ok: "world_ok (pg_contents ?cd) (pg_invar ?cd) w"
    by (rule state_store.reachable_ok [OF pgj.pg.state_store_axioms assms(3,1)])
  then have inv: "pg_invar ?cd (w_store w)" by (simp add: world_ok_def)
  have "row_to_sandbox ?cd True r = Inr (full_sandbox ?cd r) \<and> sandbox_ok (full_sandbox ?cd r)"
    if "r \<in> set (pg_rows (w_store w))" for r
    using that ok inv pg_contents_row [OF inv that] unfolding world_ok_def pg_invar_def by metis
  then show ?thesis
    using inv row_to_sandbox_fields unfolding pg_invar_def by metis
qed

theorem lifecycle_invariant_postgres_witness:
  "list_all (\<lambda>r. \<exists>sb. row_to_sandbox (jsonb_codec id) True r = Inr sb \<and> sb_id sb = r_id r \<and> sandbox_ok sb)
     (pg_rows (w_store (snd (create_sandbox pg_service sandbox_config_default None pg_world))))"
proof -
  let ?v = "snd (create_sandbox pg_service sandbox_config_default None pg_world)"
  have "reachable pg_service pg_world ?v"
    by (rule reachable_step [OF reachable_init step_create [OF prod.collapse [symmetric]]])
  then show ?thesis
    using lifecycle_invariant_postgres [of pg_service id pg_world ?v]
    by (simp add: list_all_iff pg_service_def service_new_def pg_world_def example_pg_def)
qed

end
